(* ===== verification/Prelude.thy ===== *)
theory Prelude
  imports Main "HOL-Library.AList" "HOL-Library.Char_ord" "HOL-Library.List_Lexorder"
    "HOL-Library.Product_Lexorder"
begin

text \<open>
  Shared vocabulary of the development.

  \<^item> Python exceptions as values (\<open>exc\<close>) and results as \<open>exc + 'a\<close>; \<open>exc_str\<close> is
    \<open>str(exc)\<close>, which for a \<open>KeyError\<close> is the \<open>repr\<close> of its argument (for the errors of the
    database layer, whose text only reaches the log, it is their name).
  \<^item> The classes of \<open>src/app/exceptions/base.py\<close>: every subclass is an \<open>AppException\<close> with a
    fixed status code.
  \<^item> Strings: a Python string is the list of the bytes of its UTF-8 form. Case mapping and
    whitespace are those of ASCII; bytes from 128 on are left as they are.
  \<^item> JSON values (\<open>json\<close>), with a Python dict as an association list in insertion order, updated
    by \<open>AList.update\<close> (an existing key keeps its place, a new one goes last, as in Python).
  \<^item> Identifiers (\<open>uuid\<close>) are the canonical 36 character text of a UUID, so \<open>str(id)\<close> is the
    identity; instants (\<open>time\<close>) are integers (microseconds since the epoch).
\<close>

named_theorems spec_defs \<open>definitions that component proofs unfold\<close>
named_theorems frame \<open>what an operation leaves unchanged\<close>

section \<open>Exceptions and results\<close>

datatype exc =
    AppException string nat   \<comment> \<open>message, HTTP status code\<close>
  | ValueError string
  | KeyError string
  | AssertionError
  | InvalidOperation          \<comment> \<open>\<open>decimal.InvalidOperation\<close>\<close>
  | DivisionByZero            \<comment> \<open>\<open>decimal.DivisionByZero\<close>\<close>
  | IntegrityError            \<comment> \<open>a unique or check constraint of the database\<close>
  | PendingRollbackError      \<comment> \<open>use of a session whose flush has failed\<close>
  | RuntimeError string
  | HTTPError string          \<comment> \<open>\<open>httpx.HTTPError\<close>\<close>
  | DataError                 \<comment> \<open>a value that does not fit its column\<close>
  | AttributeError            \<comment> \<open>\<open>.get\<close> on a value that is not a dict\<close>
  | MultipleResultsFound      \<comment> \<open>\<open>scalar_one_or_none\<close> on more than one row\<close>

type_synonym 'a res = "exc + 'a"

definition NotFoundError :: "string \<Rightarrow> exc" where
  "NotFoundError m = AppException m 404"

definition UnauthorizedError :: "string \<Rightarrow> exc" where
  "UnauthorizedError m = AppException m 401"

definition ForbiddenError :: "string \<Rightarrow> exc" where
  "ForbiddenError m = AppException m 403"

definition ConflictError :: "string \<Rightarrow> exc" where
  "ConflictError m = AppException m 409"

definition PaymentError :: "string \<Rightarrow> exc" where
  "PaymentError m = AppException m 502"

definition SettlementError :: "string \<Rightarrow> exc" where
  "SettlementError m = AppException m 502"

definition RateLimitError :: "string \<Rightarrow> exc" where
  "RateLimitError m = AppException m 429"

lemmas exc_class_defs [spec_defs] =
  NotFoundError_def UnauthorizedError_def ForbiddenError_def ConflictError_def PaymentError_def
  SettlementError_def RateLimitError_def

definition bindr :: "'a res \<Rightarrow> ('a \<Rightarrow> 'b res) \<Rightarrow> 'b res" where
  "bindr m f = (case m of Inl e \<Rightarrow> Inl e | Inr x \<Rightarrow> f x)"

lemma bindr_simps [simp]:
  "bindr (Inl e) f = Inl e"
  "bindr (Inr x) f = f x"
  by (simp_all add: bindr_def)

lemma bindr_Inr_iff: "bindr m f = Inr y \<longleftrightarrow> (\<exists>x. m = Inr x \<and> f x = Inr y)"
  by (cases m) auto

lemma bindr_Inl_iff: "bindr m f = Inl e \<longleftrightarrow> m = Inl e \<or> (\<exists>x. m = Inr x \<and> f x = Inl e)"
  by (cases m) auto

definition is_ok :: "'a res \<Rightarrow> bool" where
  "is_ok r = (case r of Inl _ \<Rightarrow> False | Inr _ \<Rightarrow> True)"

lemma is_ok_simps [simp]: "is_ok (Inr x)" "\<not> is_ok (Inl e)"
  by (simp_all add: is_ok_def)

lemma is_ok_iff: "is_ok r \<longleftrightarrow> (\<exists>x. r = Inr x)"
  by (cases r) auto

section \<open>Strings\<close>

type_synonym uuid = string
type_synonym time = int

definition em_dash :: string where
  "em_dash = [CHR 0xE2, CHR 0x80, CHR 0x94]"

definition arrow :: string where
  "arrow = [CHR 0xE2, CHR 0x86, CHR 0x92]"

definition bullet :: string where
  "bullet = [CHR 0xE2, CHR 0x80, CHR 0xA2]"

definition ord :: "char \<Rightarrow> nat" where
  "ord c = of_char c"

definition chr :: "nat \<Rightarrow> char" where
  "chr n = char_of n"

lemma ord_chr [simp]: "n < 256 \<Longrightarrow> ord (chr n) = n"
  by (simp add: ord_def chr_def)

definition lower_char :: "char \<Rightarrow> char" where
  "lower_char c = (if 65 \<le> ord c \<and> ord c \<le> 90 then chr (ord c + 32) else c)"

definition upper_char :: "char \<Rightarrow> char" where
  "upper_char c = (if 97 \<le> ord c \<and> ord c \<le> 122 then chr (ord c - 32) else c)"

definition lower :: "string \<Rightarrow> string" where
  "lower s = map lower_char s"

definition upper :: "string \<Rightarrow> string" where
  "upper s = map upper_char s"

definition is_space :: "char \<Rightarrow> bool" where
  "is_space c = (let n = ord c in (9 \<le> n \<and> n \<le> 13) \<or> (28 \<le> n \<and> n \<le> 32))"

definition is_digit :: "char \<Rightarrow> bool" where
  "is_digit c = (let n = ord c in 48 \<le> n \<and> n \<le> 57)"

definition strip :: "string \<Rightarrow> string" where
  "strip s = rev (dropWhile is_space (rev (dropWhile is_space s)))"

definition starts_with :: "string \<Rightarrow> string \<Rightarrow> bool" where
  "starts_with s p = (take (length p) s = p)"

definition ends_with :: "string \<Rightarrow> string \<Rightarrow> bool" where
  "ends_with s p = starts_with (rev s) (rev p)"

fun contains :: "string \<Rightarrow> string \<Rightarrow> bool" where
  "contains [] p = (p = [])"
| "contains (c # s) p = (starts_with (c # s) p \<or> contains s p)"

fun before_char :: "char \<Rightarrow> string \<Rightarrow> string" where
  "before_char c [] = []"
| "before_char c (x # s) = (if x = c then [] else x # before_char c s)"

text \<open>The code points of a string, over which Python's \<open>len\<close> and slices count.\<close>

definition continuation :: "char \<Rightarrow> bool" where
  "continuation c = (128 \<le> ord c \<and> ord c < 192)"

function code_points :: "string \<Rightarrow> string list" where
  "code_points [] = []"
| "code_points (c # s) = (c # takeWhile continuation s) # code_points (dropWhile continuation s)"
  by pat_completeness auto
termination
  by (relation "measure length") (auto simp: less_Suc_eq_le length_dropWhile_le)

definition py_len :: "string \<Rightarrow> nat" where
  "py_len s = length (code_points s)"

definition py_take :: "nat \<Rightarrow> string \<Rightarrow> string" where
  "py_take n s = concat (take n (code_points s))"

definition py_last :: "nat \<Rightarrow> string \<Rightarrow> string" where
  \<comment> \<open>\<open>s[-n:]\<close>\<close>
  "py_last n s = (let cs = code_points s in concat (drop (length cs - n) cs))"

lemma concat_code_points [simp]: "concat (code_points s) = s"
  by (induction s rule: code_points.induct) auto

fun split_on :: "char \<Rightarrow> string \<Rightarrow> string list" where
  "split_on d [] = [[]]"
| "split_on d (c # s) = (if c = d then [] # split_on d s
     else (case split_on d s of [] \<Rightarrow> [[c]] | w # ws \<Rightarrow> (c # w) # ws))"

text \<open>\<open>s.partition(m)\<close>: what is before the first occurrence, and what is after it if there is one.\<close>

fun partition_at :: "string \<Rightarrow> string \<Rightarrow> string \<times> string option" where
  "partition_at m [] = (if m = [] then ([], Some []) else ([], None))"
| "partition_at m (c # s) =
     (if starts_with (c # s) m then ([], Some (drop (length m) (c # s)))
      else (case partition_at m s of (h, t) \<Rightarrow> (c # h, t)))"

definition removeprefix :: "string \<Rightarrow> string \<Rightarrow> string" where
  "removeprefix s p = (if starts_with s p then drop (length p) s else s)"

definition rstrip_char :: "char \<Rightarrow> string \<Rightarrow> string" where
  "rstrip_char c s = rev (dropWhile (\<lambda>x. x = c) (rev s))"

text \<open>Truthiness: \<open>x or y\<close> for an optional string, where the empty string counts as false.\<close>

definition truthy :: "string option \<Rightarrow> bool" where
  "truthy x = (case x of None \<Rightarrow> False | Some s \<Rightarrow> s \<noteq> [])"

definition or_str :: "string option \<Rightarrow> string \<Rightarrow> string" where
  "or_str x d = (case x of None \<Rightarrow> d | Some s \<Rightarrow> if s = [] then d else s)"

lemma truthy_simps [simp]: "\<not> truthy None" "truthy (Some s) \<longleftrightarrow> s \<noteq> []"
  by (simp_all add: truthy_def)

lemma or_str_simps [simp]:
  "or_str None d = d" "or_str (Some []) d = d" "s \<noteq> [] \<Longrightarrow> or_str (Some s) d = s"
  by (simp_all add: or_str_def)

lemma truthyE: "truthy x \<Longrightarrow> (\<And>s. x = Some s \<Longrightarrow> s \<noteq> [] \<Longrightarrow> P) \<Longrightarrow> P"
  by (cases x) auto

lemma starts_with_iff: "starts_with s p \<longleftrightarrow> (\<exists>t. s = p @ t)"
proof
  assume "starts_with s p"
  then have "s = p @ drop (length p) s"
    by (metis append_take_drop_id starts_with_def)
  then show "\<exists>t. s = p @ t" ..
next
  assume "\<exists>t. s = p @ t"
  then show "starts_with s p" by (auto simp: starts_with_def)
qed

lemma ends_with_iff: "ends_with s p \<longleftrightarrow> (\<exists>t. s = t @ p)"
  by (auto simp: ends_with_def starts_with_iff)
    (metis rev_append rev_rev_ident)

lemma contains_Cons_iff:
  "(\<exists>a b. c # s = a @ p @ b) \<longleftrightarrow> (\<exists>b. c # s = p @ b) \<or> (\<exists>a b. s = a @ p @ b)"
  by (metis append_Cons append_Nil list.exhaust list.inject)

lemma contains_iff: "contains s p \<longleftrightarrow> (\<exists>a b. s = a @ p @ b)"
proof (induction s)
  case Nil
  then show ?case by auto
next
  case (Cons c s)
  have "contains (c # s) p \<longleftrightarrow> (\<exists>b. c # s = p @ b) \<or> (\<exists>a b. s = a @ p @ b)"
    by (simp add: starts_with_iff Cons.IH)
  then show ?case by (simp only: contains_Cons_iff)
qed

lemma starts_with_append [simp]: "starts_with (p @ t) p"
  by (simp add: starts_with_def)

lemma partition_at_None: "partition_at m s = (h, None) \<Longrightarrow> h = s \<and> \<not> contains s m"
  by (induction m s arbitrary: h rule: partition_at.induct) (auto split: if_splits prod.splits)

lemma partition_at_Some: "partition_at m s = (h, Some t) \<Longrightarrow> s = h @ m @ t"
  by (induction m s arbitrary: h rule: partition_at.induct)
    (auto simp: starts_with_iff split: if_splits prod.splits)

lemma lower_idem [simp]: "lower (lower s) = lower s"
proof -
  have "lower_char (lower_char c) = lower_char c" for c
    by (auto simp: lower_char_def)
  then show ?thesis by (simp add: lower_def)
qed

lemma upper_idem [simp]: "upper (upper s) = upper s"
proof -
  have "upper_char (upper_char c) = upper_char c" for c
    by (auto simp: upper_char_def)
  then show ?thesis by (simp add: upper_def)
qed

lemma length_case [simp]: "length (lower s) = length s" "length (upper s) = length s"
  by (simp_all add: lower_def upper_def)

subsection \<open>The text of an exception\<close>

definition hex_digit :: "nat \<Rightarrow> char" where
  "hex_digit n = (if n < 10 then chr (48 + n) else chr (87 + n))"

definition repr_char :: "char \<Rightarrow> char \<Rightarrow> string" where
  "repr_char q c =
     (let n = ord c in
      if c = q \<or> n = 92 then [CHR 0x5C, c]
      else if n = 9 then [CHR 0x5C, CHR ''t'']
      else if n = 10 then [CHR 0x5C, CHR ''n'']
      else if n = 13 then [CHR 0x5C, CHR ''r'']
      else if n < 32 \<or> n = 127 then [CHR 0x5C, CHR ''x'', hex_digit (n div 16), hex_digit (n mod 16)]
      else [c])"

definition py_repr :: "string \<Rightarrow> string" where
  "py_repr s =
     (let q = (if CHR 0x27 \<in> set s \<and> CHR 0x22 \<notin> set s then CHR 0x22 else CHR 0x27)
      in q # concat (map (repr_char q) s) @ [q])"

fun exc_str :: "exc \<Rightarrow> string" where
  "exc_str (AppException m _) = m"
| "exc_str (ValueError m) = m"
| "exc_str (KeyError m) = py_repr m"
| "exc_str AssertionError = []"
| "exc_str InvalidOperation = ''[<class 'decimal.InvalidOperation'>]''"
| "exc_str DivisionByZero = ''[<class 'decimal.DivisionByZero'>]''"
| "exc_str IntegrityError = ''IntegrityError''"
| "exc_str PendingRollbackError = ''PendingRollbackError''"
| "exc_str (RuntimeError m) = m"
| "exc_str (HTTPError m) = m"
| "exc_str DataError = ''DataError''"
| "exc_str AttributeError = ''AttributeError''"
| "exc_str MultipleResultsFound = ''Multiple rows were found when one or none was required''"

fun exc_status :: "exc \<Rightarrow> nat" where
  "exc_status (AppException _ n) = n"
| "exc_status _ = 500"

section \<open>JSON values and dicts\<close>

datatype json =
    JNull
  | JBool bool
  | JInt int
  | JStr string
  | JList "json list"
  | JDict "(string \<times> json) list"

type_synonym dict = "(string \<times> json) list"

definition jopt :: "string option \<Rightarrow> json" where
  "jopt x = (case x of None \<Rightarrow> JNull | Some s \<Rightarrow> JStr s)"

fun jstr :: "json \<Rightarrow> string option" where
  "jstr (JStr s) = Some s"
| "jstr _ = None"

fun jbool :: "json \<Rightarrow> bool" where
  "jbool JNull = False"
| "jbool (JBool b) = b"
| "jbool (JInt i) = (i \<noteq> 0)"
| "jbool (JStr s) = (s \<noteq> [])"
| "jbool (JList xs) = (xs \<noteq> [])"
| "jbool (JDict d) = (d \<noteq> [])"

lemma jstr_jopt [simp]: "jstr (jopt x) = x"
  by (cases x) (simp_all add: jopt_def)

definition dget :: "dict \<Rightarrow> string \<Rightarrow> json" where
  "dget d k = (case map_of d k of None \<Rightarrow> JNull | Some v \<Rightarrow> v)"

definition dset :: "string \<Rightarrow> json \<Rightarrow> dict \<Rightarrow> dict" where
  "dset k v d = AList.update k v d"

lemma dget_dset: "dget (dset k v d) k' = (if k' = k then v else dget d k')"
  by (simp add: dget_def dset_def update_conv')

lemma map_of_update: "map_of (AList.update k v al) = (map_of al)(k \<mapsto> v)"
  by (simp add: update_conv')

subsection \<open>\<open>str\<close> of a value\<close>

fun show_nat :: "nat \<Rightarrow> string" where
  "show_nat n = (if n < 10 then [chr (48 + n)] else show_nat (n div 10) @ [chr (48 + n mod 10)])"

declare show_nat.simps [simp del]

definition show_int :: "int \<Rightarrow> string" where
  "show_int i = (if i < 0 then CHR ''-'' # show_nat (nat (- i)) else show_nat (nat i))"

fun join :: "string \<Rightarrow> string list \<Rightarrow> string" where
  "join sep [] = []"
| "join sep [x] = x"
| "join sep (x # y # ys) = x @ sep @ join sep (y # ys)"

fun json_repr :: "json \<Rightarrow> string" where
  "json_repr JNull = ''None''"
| "json_repr (JBool b) = (if b then ''True'' else ''False'')"
| "json_repr (JInt i) = show_int i"
| "json_repr (JStr s) = py_repr s"
| "json_repr (JList xs) = ''['' @ join '', '' (map json_repr xs) @ '']''"
| "json_repr (JDict d) =
     ''{'' @ join '', '' (map (\<lambda>kv. py_repr (fst kv) @ '': '' @ json_repr (snd kv)) d) @ ''}''"

definition py_str :: "json \<Rightarrow> string" where
  "py_str v = (case v of JStr s \<Rightarrow> s | _ \<Rightarrow> json_repr v)"

text \<open>\<open>str(x or d)\<close>\<close>

definition str_or :: "json \<Rightarrow> string \<Rightarrow> string" where
  "str_or v d = (if jbool v then py_str v else d)"

definition json_or :: "json \<Rightarrow> json \<Rightarrow> json" where
  \<comment> \<open>\<open>x or y\<close>\<close>
  "json_or x y = (if jbool x then x else y)"

definition json_get :: "json \<Rightarrow> string \<Rightarrow> json res" where
  \<comment> \<open>\<open>x.get(k)\<close>\<close>
  "json_get x k = (case x of JDict d \<Rightarrow> Inr (dget d k) | _ \<Rightarrow> Inl AttributeError)"

lemma py_str_JStr [simp]: "py_str (JStr s) = s"
  by (simp add: py_str_def)

section \<open>Lists\<close>

definition find_one :: "('a \<Rightarrow> bool) \<Rightarrow> 'a list \<Rightarrow> 'a option res" where
  \<comment> \<open>\<open>scalar_one_or_none\<close> of a \<open>SELECT ... WHERE\<close>\<close>
  "find_one P xs = (case filter P xs of [] \<Rightarrow> Inr None | [x] \<Rightarrow> Inr (Some x)
                    | _ \<Rightarrow> Inl MultipleResultsFound)"

lemma find_one_Some: "find_one P xs = Inr (Some x) \<Longrightarrow> x \<in> set xs \<and> P x"
proof -
  assume "find_one P xs = Inr (Some x)"
  then have "filter P xs = [x]"
    by (auto simp: find_one_def split: list.splits)
  then have "x \<in> set (filter P xs)" by simp
  then show ?thesis by simp
qed

lemma find_one_None: "find_one P xs = Inr None \<Longrightarrow> y \<in> set xs \<Longrightarrow> \<not> P y"
  by (auto simp: find_one_def filter_empty_conv split: list.splits)

lemma find_one_unique: "find_one P xs = Inr (Some x) \<Longrightarrow> y \<in> set xs \<Longrightarrow> P y \<Longrightarrow> y = x"
proof -
  assume "find_one P xs = Inr (Some x)" and y: "y \<in> set xs" "P y"
  then have f: "filter P xs = [x]"
    by (auto simp: find_one_def split: list.splits)
  from y have "y \<in> set (filter P xs)" by simp
  with f show "y = x" by simp
qed

lemma find_one_the:
  assumes "distinct xs" "x \<in> set xs" "P x" "\<And>y. y \<in> set xs \<Longrightarrow> P y \<Longrightarrow> y = x"
  shows "find_one P xs = Inr (Some x)"
proof -
  have s: "set (filter P xs) = {x}"
  proof (intro equalityI subsetI)
    fix y
    assume "y \<in> set (filter P xs)"
    then have "y = x" by (intro assms(4)) simp_all
    then show "y \<in> {x}" by simp
  qed (use assms(2,3) in simp)
  have "length (filter P xs) = card {x}" using distinct_card [OF distinct_filter [OF assms(1)], of P] unfolding s by simp
  then obtain z where z: "filter P xs = [z]" by (auto simp: length_Suc_conv)
  then have "z = x" using s by simp
  then show ?thesis using z by (simp add: find_one_def)
qed

lemma find_one_congr:
  "(\<And>x. x \<in> set xs \<Longrightarrow> P x = Q x) \<Longrightarrow> find_one P xs = find_one Q xs"
  by (simp add: find_one_def cong: filter_cong)

end
