(* ===== verification/Txn_States.thy ===== *)
theory Txn_States
  imports Prelude
begin

text \<open>
  The enumerations of \<open>src/app/core/enums.py\<close> that the payment core uses, and the transaction
  state machine of \<open>src/app/payments/state_machine.py\<close>.

  \<open>ALLOWED_TRANSITIONS\<close> is the dict of the source, with a list for each frozenset;
  \<open>assert_transition\<close> raises as the source does. The relation \<open>txn_step\<close> is one accepted
  call of \<open>assert_transition\<close>, and \<open>txn_path\<close> the statuses one transaction goes through when
  every change is accepted. The lemmas say which statuses are final, which are never entered,
  and what must have happened before a settlement or a refund.
\<close>

section \<open>Enumerations\<close>

datatype user_role = SUPER_ADMIN | ADMIN | MERCHANT_OWNER | MERCHANT_STAFF | SUPPORT

datatype merchant_status = M_PENDING | M_ACTIVE | M_SUSPENDED | M_CLOSED

datatype transaction_status =
    PENDING | PROCESSING | AUTHORIZED | CAPTURED | SUCCESS | FAILED | CANCELLED | REFUNDED
  | EXPIRED | SETTLEMENT_PENDING | SETTLEMENT_PROCESSING | SETTLEMENT_COMPLETE | COMPLETED
  | MANUAL_REVIEW

datatype settlement_status =
    S_PENDING | S_PROCESSING | S_COMPLETED | S_FAILED | S_RETRYING | S_MANUAL_REVIEW

datatype wallet_status = W_ACTIVE | W_INACTIVE | W_SUSPENDED

fun user_role_value :: "user_role \<Rightarrow> string" where
  "user_role_value SUPER_ADMIN = ''super_admin''"
| "user_role_value ADMIN = ''admin''"
| "user_role_value MERCHANT_OWNER = ''merchant_owner''"
| "user_role_value MERCHANT_STAFF = ''merchant_staff''"
| "user_role_value SUPPORT = ''support''"

fun status_value :: "transaction_status \<Rightarrow> string" where
  "status_value PENDING = ''pending''"
| "status_value PROCESSING = ''processing''"
| "status_value AUTHORIZED = ''authorized''"
| "status_value CAPTURED = ''captured''"
| "status_value SUCCESS = ''success''"
| "status_value FAILED = ''failed''"
| "status_value CANCELLED = ''cancelled''"
| "status_value REFUNDED = ''refunded''"
| "status_value EXPIRED = ''expired''"
| "status_value SETTLEMENT_PENDING = ''settlement_pending''"
| "status_value SETTLEMENT_PROCESSING = ''settlement_processing''"
| "status_value SETTLEMENT_COMPLETE = ''settlement_complete''"
| "status_value COMPLETED = ''completed''"
| "status_value MANUAL_REVIEW = ''manual_review''"

fun settlement_status_value :: "settlement_status \<Rightarrow> string" where
  "settlement_status_value S_PENDING = ''pending''"
| "settlement_status_value S_PROCESSING = ''processing''"
| "settlement_status_value S_COMPLETED = ''completed''"
| "settlement_status_value S_FAILED = ''failed''"
| "settlement_status_value S_RETRYING = ''retrying''"
| "settlement_status_value S_MANUAL_REVIEW = ''manual_review''"

text \<open>The enumeration as a list, in the order of the source.\<close>

definition all_statuses :: "transaction_status list" where
  "all_statuses = [PENDING, PROCESSING, AUTHORIZED, CAPTURED, SUCCESS, FAILED, CANCELLED, REFUNDED,
     EXPIRED, SETTLEMENT_PENDING, SETTLEMENT_PROCESSING, SETTLEMENT_COMPLETE, COMPLETED,
     MANUAL_REVIEW]"

lemma all_statuses_complete: "s \<in> set all_statuses"
  by (cases s) (simp_all add: all_statuses_def)

text \<open>A status column holds the text of a member; reading it back gives the member.\<close>

definition status_of :: "string \<Rightarrow> transaction_status option" where
  "status_of v = find (\<lambda>s. status_value s = v) all_statuses"

lemma status_of_value [simp]: "status_of (status_value s) = Some s"
  by (cases s) (simp_all add: status_of_def all_statuses_def)

section \<open>The transition table\<close>

fun ALLOWED_TRANSITIONS :: "transaction_status \<Rightarrow> transaction_status list option" where
  "ALLOWED_TRANSITIONS PENDING = Some [PROCESSING, CANCELLED]"
| "ALLOWED_TRANSITIONS PROCESSING = Some [AUTHORIZED, CAPTURED, FAILED, CANCELLED]"
| "ALLOWED_TRANSITIONS AUTHORIZED = Some [CAPTURED, FAILED, CANCELLED]"
| "ALLOWED_TRANSITIONS CAPTURED =
     Some [SUCCESS, SETTLEMENT_PENDING, SETTLEMENT_PROCESSING, COMPLETED, REFUNDED, CANCELLED]"
| "ALLOWED_TRANSITIONS SUCCESS =
     Some [SETTLEMENT_PENDING, SETTLEMENT_PROCESSING, COMPLETED, REFUNDED]"
| "ALLOWED_TRANSITIONS SETTLEMENT_PENDING =
     Some [SETTLEMENT_PROCESSING, SETTLEMENT_COMPLETE, COMPLETED, MANUAL_REVIEW, REFUNDED]"
| "ALLOWED_TRANSITIONS SETTLEMENT_PROCESSING =
     Some [SETTLEMENT_COMPLETE, COMPLETED, MANUAL_REVIEW, FAILED]"
| "ALLOWED_TRANSITIONS SETTLEMENT_COMPLETE = Some [COMPLETED, REFUNDED]"
| "ALLOWED_TRANSITIONS COMPLETED = Some [REFUNDED]"
| "ALLOWED_TRANSITIONS FAILED = Some []"
| "ALLOWED_TRANSITIONS CANCELLED = Some []"
| "ALLOWED_TRANSITIONS REFUNDED = Some []"
| "ALLOWED_TRANSITIONS EXPIRED = Some []"
| "ALLOWED_TRANSITIONS MANUAL_REVIEW = Some [SETTLEMENT_PROCESSING, COMPLETED, REFUNDED]"

text \<open>\<open>ALLOWED_TRANSITIONS.get(from_status, frozenset())\<close>\<close>

definition allowed_from :: "transaction_status \<Rightarrow> transaction_status list" where
  "allowed_from s = (case ALLOWED_TRANSITIONS s of None \<Rightarrow> [] | Some ts \<Rightarrow> ts)"

definition assert_transition :: "transaction_status option \<Rightarrow> transaction_status \<Rightarrow> unit res" where
  "assert_transition from_status to_status =
     (case from_status of
        None \<Rightarrow>
          (if to_status \<notin> {PENDING, PROCESSING}
           then Inl (AppException (''Invalid initial status '' @ [CHR 0x27] @ status_value to_status
                                   @ [CHR 0x27]) 409)
           else Inr ())
      | Some f \<Rightarrow>
          (if to_status \<notin> set (allowed_from f)
           then Inl (AppException (''Invalid status transition: '' @ status_value f @ '' '' @ arrow
                                   @ '' '' @ status_value to_status) 409)
           else Inr ()))"

inductive txn_step :: "transaction_status \<Rightarrow> transaction_status \<Rightarrow> bool" where
  "assert_transition (Some s) t = Inr () \<Longrightarrow> txn_step s t"

inductive_simps txn_step_iff: "txn_step s t"

lemma assert_transition_Some_iff:
  "assert_transition (Some s) t = Inr u \<longleftrightarrow> t \<in> set (allowed_from s)"
  by (auto simp: assert_transition_def)

lemma assert_transition_cases:
  "assert_transition f t = Inr () \<or> (\<exists>m. assert_transition f t = Inl (AppException m 409))"
  by (auto simp: assert_transition_def split: option.splits)

lemma txn_step_allowed: "txn_step s t \<longleftrightarrow> t \<in> set (allowed_from s)"
  by (simp add: txn_step_iff assert_transition_Some_iff)

section \<open>Paths\<close>

text \<open>The statuses of one transaction, oldest first, when every change was accepted.\<close>

inductive txn_path :: "transaction_status list \<Rightarrow> bool" where
  start: "assert_transition None s = Inr () \<Longrightarrow> txn_path [s]"
| move: "txn_path (h @ [s]) \<Longrightarrow> assert_transition (Some s) t = Inr () \<Longrightarrow> txn_path (h @ [s, t])"

lemma initial_status_iff: "assert_transition None s = Inr u \<longleftrightarrow> s \<in> {PENDING, PROCESSING}"
  by (simp add: assert_transition_def)

lemma txn_path_nonempty: "txn_path h \<Longrightarrow> h \<noteq> []"
  by (induction rule: txn_path.induct) auto

text \<open>Statuses a transaction has only after its funds were captured.\<close>

definition post_capture :: "transaction_status set" where
  "post_capture = {CAPTURED, SUCCESS, SETTLEMENT_PENDING, SETTLEMENT_PROCESSING,
     SETTLEMENT_COMPLETE, COMPLETED, MANUAL_REVIEW, REFUNDED}"

lemma step_into_post_capture:
  "txn_step s t \<Longrightarrow> t \<in> post_capture \<Longrightarrow> t = CAPTURED \<or> s \<in> post_capture"
  by (cases s) (auto simp: post_capture_def txn_step_allowed allowed_from_def)

lemma txn_path_captured:
  "txn_path h \<Longrightarrow> s \<in> set h \<Longrightarrow> s \<in> post_capture \<Longrightarrow> CAPTURED \<in> set h"
proof (induction arbitrary: s rule: txn_path.induct)
  case (start s')
  then show ?case by (auto simp: initial_status_iff post_capture_def)
next
  case (move h s' t)
  have step: "txn_step s' t" using move.hyps(2) by (simp add: txn_step_iff)
  show ?case
  proof (cases "s \<in> set (h @ [s'])")
    case True
    then show ?thesis using move.IH move.prems(2) by fastforce
  next
    case False
    then have "s = t" using move.prems(1) by auto
    then have "t = CAPTURED \<or> s' \<in> post_capture"
      using step move.prems(2) step_into_post_capture by blast
    then show ?thesis using move.IH[of s'] by auto
  qed
qed

text \<open>C30. Nothing is settled, completed, reviewed or refunded unless it was captured: on every
  path of accepted changes, a status of the settlement or refund phase is preceded by
  \<open>CAPTURED\<close>.\<close>

theorem refund_needs_capture:
  assumes "txn_path h" and "last h \<in> post_capture"
  shows "CAPTURED \<in> set h"
proof -
  have "last h \<in> set h" using assms(1) txn_path_nonempty by simp
  then show ?thesis using assms txn_path_captured by blast
qed

theorem refund_needs_capture_witness:
  "CAPTURED \<in> set [PROCESSING, CAPTURED, REFUNDED]"
proof -
  have a: "txn_path [PROCESSING]"
    by (rule txn_path.start) (simp add: initial_status_iff)
  have b: "txn_path [PROCESSING, CAPTURED]"
    using txn_path.move [of "[]" PROCESSING CAPTURED] a by (simp add: assert_transition_def allowed_from_def)
  have c: "txn_path [PROCESSING, CAPTURED, REFUNDED]"
    using txn_path.move [of "[PROCESSING]" CAPTURED REFUNDED] b by (simp add: assert_transition_def allowed_from_def)
  show ?thesis
    by (rule refund_needs_capture [OF c]) (simp add: post_capture_def)
qed

definition final_statuses :: "transaction_status set" where
  "final_statuses = {FAILED, CANCELLED, REFUNDED, EXPIRED}"

text \<open>The statuses with no way out are exactly \<open>FAILED\<close>, \<open>CANCELLED\<close>, \<open>REFUNDED\<close> and
  \<open>EXPIRED\<close>: from each of them every change raises a 409, and every other status has one that
  is accepted.\<close>

theorem final_status_iff:
  "(\<forall>t. \<exists>m. assert_transition (Some s) t = Inl (AppException m 409)) \<longleftrightarrow> s \<in> final_statuses"
  by (cases s) (auto simp: assert_transition_def final_statuses_def allowed_from_def)

text \<open>\<open>EXPIRED\<close> is declared and has a row in the table, but no accepted change and no
  initial status ever enters it.\<close>

theorem expired_never_entered:
  "\<exists>m. assert_transition f EXPIRED = Inl (AppException m 409)"
proof (cases f)
  case None
  then show ?thesis by (simp add: assert_transition_def)
next
  case (Some s)
  then show ?thesis by (cases s) (simp_all add: assert_transition_def allowed_from_def)
qed

end
