(* ===== verification/Terminal_States.thy ===== *)
theory Terminal_States
  imports Prelude
begin

text \<open>
  The terminal state machine of \<open>src/app/payments/terminal_state_machine.py\<close>: the constants
  of the module as a datatype (\<open>state_name\<close> gives their text), the table
  \<open>ALLOWED_TERMINAL_TRANSITIONS\<close>, and its three functions. \<open>terminal_path\<close> is a sequence of
  accepted transitions; \<open>rank\<close> decreases along each, which bounds how long a session can run.
\<close>

datatype terminal_state =
    T_CREATED | T_AMOUNT_ENTERED | T_PROTOCOL_SELECTED | T_CARD_PRESENTED | T_CARD_DATA_READ
  | T_AUTHORIZING | T_APPROVED | T_DECLINED | T_CAPTURED | T_COMPLETED | T_VOIDED | T_REFUNDED
  | T_CANCELLED | T_FAILED

fun state_name :: "terminal_state \<Rightarrow> string" where
  "state_name T_CREATED = ''CREATED''"
| "state_name T_AMOUNT_ENTERED = ''AMOUNT_ENTERED''"
| "state_name T_PROTOCOL_SELECTED = ''PROTOCOL_SELECTED''"
| "state_name T_CARD_PRESENTED = ''CARD_PRESENTED''"
| "state_name T_CARD_DATA_READ = ''CARD_DATA_READ''"
| "state_name T_AUTHORIZING = ''AUTHORIZING''"
| "state_name T_APPROVED = ''APPROVED''"
| "state_name T_DECLINED = ''DECLINED''"
| "state_name T_CAPTURED = ''CAPTURED''"
| "state_name T_COMPLETED = ''COMPLETED''"
| "state_name T_VOIDED = ''VOIDED''"
| "state_name T_REFUNDED = ''REFUNDED''"
| "state_name T_CANCELLED = ''CANCELLED''"
| "state_name T_FAILED = ''FAILED''"

lemma state_name_inject [simp]: "state_name s = state_name t \<longleftrightarrow> s = t"
  by (cases s; cases t) simp_all

fun ALLOWED_TERMINAL_TRANSITIONS :: "terminal_state \<Rightarrow> terminal_state list option" where
  "ALLOWED_TERMINAL_TRANSITIONS T_CREATED = Some [T_AMOUNT_ENTERED, T_CANCELLED]"
| "ALLOWED_TERMINAL_TRANSITIONS T_AMOUNT_ENTERED = Some [T_PROTOCOL_SELECTED, T_CANCELLED]"
| "ALLOWED_TERMINAL_TRANSITIONS T_PROTOCOL_SELECTED = Some [T_CARD_PRESENTED, T_CANCELLED]"
| "ALLOWED_TERMINAL_TRANSITIONS T_CARD_PRESENTED =
     Some [T_CARD_DATA_READ, T_AUTHORIZING, T_CANCELLED, T_FAILED]"
| "ALLOWED_TERMINAL_TRANSITIONS T_CARD_DATA_READ = Some [T_AUTHORIZING, T_CANCELLED, T_FAILED]"
| "ALLOWED_TERMINAL_TRANSITIONS T_AUTHORIZING =
     Some [T_APPROVED, T_DECLINED, T_FAILED, T_CANCELLED]"
| "ALLOWED_TERMINAL_TRANSITIONS T_APPROVED =
     Some [T_CAPTURED, T_COMPLETED, T_VOIDED, T_CANCELLED]"
| "ALLOWED_TERMINAL_TRANSITIONS T_CAPTURED = Some [T_COMPLETED, T_REFUNDED, T_VOIDED]"
| "ALLOWED_TERMINAL_TRANSITIONS T_COMPLETED = Some [T_REFUNDED]"
| "ALLOWED_TERMINAL_TRANSITIONS T_DECLINED = Some []"
| "ALLOWED_TERMINAL_TRANSITIONS T_FAILED = Some []"
| "ALLOWED_TERMINAL_TRANSITIONS T_CANCELLED = Some []"
| "ALLOWED_TERMINAL_TRANSITIONS T_VOIDED = Some []"
| "ALLOWED_TERMINAL_TRANSITIONS T_REFUNDED = Some []"

definition can_terminal_transition :: "terminal_state \<Rightarrow> terminal_state \<Rightarrow> bool" where
  "can_terminal_transition from_state to_state =
     (case ALLOWED_TERMINAL_TRANSITIONS from_state of
        None \<Rightarrow> False | Some ts \<Rightarrow> to_state \<in> set ts)"

definition assert_terminal_transition :: "terminal_state \<Rightarrow> terminal_state \<Rightarrow> unit res" where
  "assert_terminal_transition from_state to_state =
     (if \<not> can_terminal_transition from_state to_state
      then Inl (AppException (''Invalid terminal transition: '' @ state_name from_state @ '' ''
                              @ arrow @ '' '' @ state_name to_state) 409)
      else Inr ())"

definition transition :: "terminal_state \<Rightarrow> terminal_state \<Rightarrow> terminal_state res" where
  "transition from_state to_state =
     bindr (assert_terminal_transition from_state to_state) (\<lambda>_. Inr to_state)"

lemma assert_terminal_transition_iff:
  "assert_terminal_transition s t = Inr u \<longleftrightarrow> can_terminal_transition s t"
  by (simp add: assert_terminal_transition_def)

lemma transition_Inr_iff: "transition s t = Inr u \<longleftrightarrow> can_terminal_transition s t \<and> u = t"
  by (auto simp: transition_def bindr_Inr_iff assert_terminal_transition_def)

lemma transition_ok [simp]: "can_terminal_transition s t \<Longrightarrow> transition s t = Inr t"
  by (simp add: transition_Inr_iff)

lemma transition_blocked:
  "\<not> can_terminal_transition s t \<Longrightarrow> \<exists>m. transition s t = Inl (AppException m 409)"
  by (simp add: transition_def assert_terminal_transition_def)

text \<open>The transitions of the table, for simplification.\<close>

lemma can_terminal_simps [simp]:
  "can_terminal_transition T_CREATED t \<longleftrightarrow> t \<in> {T_AMOUNT_ENTERED, T_CANCELLED}"
  "can_terminal_transition T_AMOUNT_ENTERED t \<longleftrightarrow> t \<in> {T_PROTOCOL_SELECTED, T_CANCELLED}"
  "can_terminal_transition T_PROTOCOL_SELECTED t \<longleftrightarrow> t \<in> {T_CARD_PRESENTED, T_CANCELLED}"
  "can_terminal_transition T_CARD_PRESENTED t \<longleftrightarrow>
     t \<in> {T_CARD_DATA_READ, T_AUTHORIZING, T_CANCELLED, T_FAILED}"
  "can_terminal_transition T_CARD_DATA_READ t \<longleftrightarrow> t \<in> {T_AUTHORIZING, T_CANCELLED, T_FAILED}"
  "can_terminal_transition T_AUTHORIZING t \<longleftrightarrow> t \<in> {T_APPROVED, T_DECLINED, T_FAILED, T_CANCELLED}"
  "can_terminal_transition T_APPROVED t \<longleftrightarrow> t \<in> {T_CAPTURED, T_COMPLETED, T_VOIDED, T_CANCELLED}"
  "can_terminal_transition T_CAPTURED t \<longleftrightarrow> t \<in> {T_COMPLETED, T_REFUNDED, T_VOIDED}"
  "can_terminal_transition T_COMPLETED t \<longleftrightarrow> t = T_REFUNDED"
  "\<not> can_terminal_transition T_DECLINED t"
  "\<not> can_terminal_transition T_FAILED t"
  "\<not> can_terminal_transition T_CANCELLED t"
  "\<not> can_terminal_transition T_VOIDED t"
  "\<not> can_terminal_transition T_REFUNDED t"
  by (simp_all add: can_terminal_transition_def)

section \<open>Paths and their length\<close>

fun terminal_path :: "terminal_state \<Rightarrow> terminal_state list \<Rightarrow> bool" where
  "terminal_path s [] = True"
| "terminal_path s (t # ts) = (transition s t = Inr t \<and> terminal_path t ts)"

lemma terminal_path_append:
  "terminal_path s (xs @ ys) \<longleftrightarrow> terminal_path s xs \<and> terminal_path (last (s # xs)) ys"
  by (induction xs arbitrary: s) auto

fun rank :: "terminal_state \<Rightarrow> nat" where
  "rank T_CREATED = 9"
| "rank T_AMOUNT_ENTERED = 8"
| "rank T_PROTOCOL_SELECTED = 7"
| "rank T_CARD_PRESENTED = 6"
| "rank T_CARD_DATA_READ = 5"
| "rank T_AUTHORIZING = 4"
| "rank T_APPROVED = 3"
| "rank T_CAPTURED = 2"
| "rank T_COMPLETED = 1"
| "rank _ = 0"

lemma rank_decreases: "can_terminal_transition s t \<Longrightarrow> rank t < rank s"
  by (cases s) auto

lemma terminal_path_length_rank: "terminal_path s ts \<Longrightarrow> length ts \<le> rank s"
proof (induction ts arbitrary: s)
  case Nil
  then show ?case by simp
next
  case (Cons t ts)
  then have "rank t < rank s" by (simp add: transition_Inr_iff rank_decreases)
  moreover have "length ts \<le> rank t" using Cons by simp
  ultimately show ?case by simp
qed

text \<open>C32. The terminal machine has no cycle: from any state at most nine transitions are ever
  accepted, and a session visits no state twice.\<close>

theorem terminal_runs_end:
  assumes "terminal_path s ts"
  shows "length ts \<le> 9 \<and> distinct (s # ts)"
proof
  have "rank s \<le> 9" by (cases s) simp_all
  then show "length ts \<le> 9" using terminal_path_length_rank [OF assms] by simp
  have below: "terminal_path s ts \<Longrightarrow> t \<in> set ts \<Longrightarrow> rank t < rank s" for s t ts
  proof (induction ts arbitrary: s)
    case Nil
    then show ?case by simp
  next
    case (Cons u us)
    then show ?case using rank_decreases [of s u] by (fastforce simp: transition_Inr_iff)
  qed
  show "distinct (s # ts)" using assms
  proof (induction ts arbitrary: s)
    case Nil
    then show ?case by simp
  next
    case (Cons u us)
    then show ?case using below [of s "u # us" s] by auto
  qed
qed

theorem terminal_runs_end_witness:
  "length [T_AMOUNT_ENTERED, T_PROTOCOL_SELECTED, T_CARD_PRESENTED, T_CARD_DATA_READ,
     T_AUTHORIZING, T_APPROVED, T_CAPTURED, T_COMPLETED, T_REFUNDED] \<le> 9"
  using terminal_runs_end [of T_CREATED "[T_AMOUNT_ENTERED, T_PROTOCOL_SELECTED, T_CARD_PRESENTED,
    T_CARD_DATA_READ, T_AUTHORIZING, T_APPROVED, T_CAPTURED, T_COMPLETED, T_REFUNDED]"]
  by simp

text \<open>Money has moved in \<open>CAPTURED\<close>, \<open>COMPLETED\<close> and \<open>REFUNDED\<close>; each lies behind an
  approval.\<close>

lemma only_authorizing_approves: "can_terminal_transition s T_APPROVED \<longleftrightarrow> s = T_AUTHORIZING"
  by (cases s) auto

lemma after_approval:
  "can_terminal_transition s t \<Longrightarrow> t \<in> {T_CAPTURED, T_COMPLETED, T_REFUNDED, T_VOIDED} \<Longrightarrow>
   s \<in> {T_APPROVED, T_CAPTURED, T_COMPLETED}"
  by (cases s) auto

lemma money_path_approved:
  "terminal_path s ts \<Longrightarrow> t \<in> set ts \<Longrightarrow> t \<in> {T_CAPTURED, T_COMPLETED, T_REFUNDED, T_VOIDED} \<Longrightarrow>
   s \<in> {T_APPROVED, T_CAPTURED, T_COMPLETED} \<or> T_APPROVED \<in> set ts"
proof (induction ts arbitrary: s)
  case Nil
  then show ?case by simp
next
  case (Cons u us)
  have step: "can_terminal_transition s u" using Cons.prems(1) by (simp add: transition_Inr_iff)
  show ?case
  proof (cases "t = u")
    case True
    then show ?thesis using after_approval [OF step] Cons.prems(3) by simp
  next
    case False
    then have "u \<in> {T_APPROVED, T_CAPTURED, T_COMPLETED} \<or> T_APPROVED \<in> set us"
      using Cons by simp
    then show ?thesis using after_approval [OF step] by auto
  qed
qed

text \<open>C31. A session that starts in \<open>CREATED\<close> is captured, completed, voided or refunded only
  after the processor approved it: \<open>AUTHORIZING\<close> and then \<open>APPROVED\<close> are on its path.\<close>

theorem money_moves_after_approval:
  assumes "terminal_path T_CREATED ts"
    and "t \<in> set ts" and "t \<in> {T_CAPTURED, T_COMPLETED, T_REFUNDED, T_VOIDED}"
  shows "T_APPROVED \<in> set ts \<and> T_AUTHORIZING \<in> set ts"
proof -
  have a: "T_APPROVED \<in> set ts" using money_path_approved [OF assms] by simp
  then obtain xs ys where s: "ts = xs @ T_APPROVED # ys" by (meson split_list)
  have "transition (last (T_CREATED # xs)) T_APPROVED = Inr T_APPROVED"
    using assms(1) by (simp add: s terminal_path_append)
  then have "last (T_CREATED # xs) = T_AUTHORIZING"
    by (simp add: transition_Inr_iff only_authorizing_approves)
  then have "T_AUTHORIZING \<in> set xs" by (cases xs rule: rev_cases) auto
  then show ?thesis using a s by simp
qed

theorem money_moves_after_approval_witness:
  "T_AUTHORIZING \<in> set [T_AMOUNT_ENTERED, T_PROTOCOL_SELECTED, T_CARD_PRESENTED,
     T_AUTHORIZING, T_APPROVED, T_COMPLETED]"
  using money_moves_after_approval [of "[T_AMOUNT_ENTERED, T_PROTOCOL_SELECTED, T_CARD_PRESENTED,
     T_AUTHORIZING, T_APPROVED, T_COMPLETED]" T_COMPLETED]
  by simp

end
