(* ===== verification/Protocols.thy ===== *)
theory Protocols
  imports Prelude "HOL-Library.Multiset"
begin

text \<open>
  The protocol registry of \<open>src/app/protocols/__init__.py\<close> and the execution gate of
  \<open>src/app/protocols/execution.py\<close>.

  \<open>protocol_definition\<close> is the dataclass, \<open>build_protocol\<close> the builder \<open>_p\<close> with all its
  keyword arguments, \<open>mk_protocol\<close> a call of it that leaves the others at their defaults, and
  \<open>PROTOCOL_CATALOG\<close> the dict literal as an association list in its order (the order decides
  which variant of a canonical code \<open>get_protocol\<close> returns). \<open>get_protocol_in\<close> and
  \<open>list_protocols_in\<close> take the catalog as an argument, so that their lemmas hold for any
  catalog; the source's functions are their instances at \<open>PROTOCOL_CATALOG\<close>.
\<close>

section \<open>Definitions of protocols\<close>

datatype connectivity = Online | Offline | Offline_Online | Online_Offline | Test

datatype sandbox_outcome = Capture | Pre_Auth | Force_Post | Offline_Auth | Completion | Signature

fun outcome_name :: "sandbox_outcome \<Rightarrow> string" where
  "outcome_name Capture = ''capture''"
| "outcome_name Pre_Auth = ''pre_auth''"
| "outcome_name Force_Post = ''force_post''"
| "outcome_name Offline_Auth = ''offline_auth''"
| "outcome_name Completion = ''completion''"
| "outcome_name Signature = ''signature''"

fun connectivity_name :: "connectivity \<Rightarrow> string" where
  "connectivity_name Online = ''online''"
| "connectivity_name Offline = ''offline''"
| "connectivity_name Offline_Online = ''offline_online''"
| "connectivity_name Online_Offline = ''online_offline''"
| "connectivity_name Test = ''test''"

record protocol_definition =
  pd_selection_id :: string
  pd_code :: string
  pd_name :: string
  pd_description :: string
  pd_mode :: string
  pd_connectivity :: connectivity
  pd_sandbox_outcome :: sandbox_outcome
  pd_version :: string
  pd_digit_group :: "nat option"
  pd_family :: string
  pd_enabled :: bool
  pd_documented :: bool
  pd_sandbox_only :: bool
  pd_requires_online_authorization :: bool
  pd_authorization_mode :: string
  pd_supported_transaction_types :: "string list"
  pd_allows_manual_entry :: bool
  pd_signature_likely :: bool
  pd_ui_environment_label :: string

definition display_label :: "protocol_definition \<Rightarrow> string" where
  "display_label p = pd_code p @ '' - '' @ pd_name p"

fun default_authorization :: "sandbox_outcome \<Rightarrow> string" where
  "default_authorization Capture = ''sale''"
| "default_authorization Pre_Auth = ''pre_auth''"
| "default_authorization Force_Post = ''force_post''"
| "default_authorization Offline_Auth = ''offline_auth''"
| "default_authorization Completion = ''completion''"
| "default_authorization Signature = ''offline_auth''"

definition default_types :: "string \<Rightarrow> string \<Rightarrow> string list" where
  "default_types auth cd =
     (if auth \<in> {''pre_auth'', ''offline_auth''} \<and> cd \<in> {''101.6'', ''201'', ''201.3''}
      then [''AUTH'', ''COMPLETION'', ''VOID'']
      else if auth = ''completion'' then [''COMPLETION'', ''VOID'']
      else [''SALE'', ''REFUND'', ''VOID'', ''AUTH'', ''COMPLETION''])"

definition build_protocol ::
  "string \<Rightarrow> string \<Rightarrow> string \<Rightarrow> string \<Rightarrow> connectivity \<Rightarrow> sandbox_outcome \<Rightarrow> nat option \<Rightarrow>
   string option \<Rightarrow> string option \<Rightarrow> bool \<Rightarrow> string option \<Rightarrow> string list option \<Rightarrow> bool option \<Rightarrow>
   bool \<Rightarrow> bool \<Rightarrow> string option \<Rightarrow> protocol_definition" where
  "build_protocol sel cd nm md con outcome dg fam desc en auth_mode types online manual sig ui =
     (let auth = or_str auth_mode (default_authorization outcome) in
      \<lparr> pd_selection_id = sel,
        pd_code = cd,
        pd_name = nm,
        pd_description = or_str desc
          (''Sandbox mapping for terminal protocol '' @ cd @ '' ('' @ nm @ ''). ''
           @ ''Not a live card-network message until official docs are supplied.''),
        pd_mode = md,
        pd_connectivity = con,
        pd_sandbox_outcome = outcome,
        pd_version = ''1.0'',
        pd_digit_group = dg,
        pd_family = or_str fam (before_char (CHR ''.'') cd),
        pd_enabled = en,
        pd_documented = False,
        pd_sandbox_only = True,
        pd_requires_online_authorization = (case online of Some b \<Rightarrow> b | None \<Rightarrow> md = ''online''),
        pd_authorization_mode = auth,
        pd_supported_transaction_types =
          (case types of None \<Rightarrow> default_types auth cd
           | Some ts \<Rightarrow> if ts = [] then default_types auth cd else ts),
        pd_allows_manual_entry = manual,
        pd_signature_likely = (sig \<or> outcome = Signature),
        pd_ui_environment_label = or_str ui
          (if md = ''offline_test'' \<and> outcome = Offline_Auth then ''Simulation'' else ''Demo'') \<rparr>)"

definition mk_protocol ::
  "string \<Rightarrow> string \<Rightarrow> string \<Rightarrow> string \<Rightarrow> connectivity \<Rightarrow> sandbox_outcome \<Rightarrow> nat option \<Rightarrow>
   string option \<Rightarrow> string option \<Rightarrow> protocol_definition" where
  "mk_protocol sel cd nm md con outcome dg fam desc =
     build_protocol sel cd nm md con outcome dg fam desc True None None None True False None"

lemma build_protocol_fixed [simp]:
  "pd_documented (build_protocol sel cd nm md con outcome dg fam desc en au ty onl ma sg ui) = False"
  "pd_sandbox_only (build_protocol sel cd nm md con outcome dg fam desc en au ty onl ma sg ui)"
  "pd_enabled (build_protocol sel cd nm md con outcome dg fam desc en au ty onl ma sg ui) = en"
  "pd_selection_id (build_protocol sel cd nm md con outcome dg fam desc en au ty onl ma sg ui) = sel"
  "pd_code (build_protocol sel cd nm md con outcome dg fam desc en au ty onl ma sg ui) = cd"
  "pd_digit_group (build_protocol sel cd nm md con outcome dg fam desc en au ty onl ma sg ui) = dg"
  "pd_sandbox_outcome (build_protocol sel cd nm md con outcome dg fam desc en au ty onl ma sg ui) = outcome"
  by (simp_all add: build_protocol_def Let_def)

lemma mk_protocol_fixed [simp]:
  "pd_documented (mk_protocol sel cd nm md con outcome dg fam desc) = False"
  "pd_sandbox_only (mk_protocol sel cd nm md con outcome dg fam desc)"
  "pd_enabled (mk_protocol sel cd nm md con outcome dg fam desc)"
  "pd_selection_id (mk_protocol sel cd nm md con outcome dg fam desc) = sel"
  "pd_code (mk_protocol sel cd nm md con outcome dg fam desc) = cd"
  "pd_digit_group (mk_protocol sel cd nm md con outcome dg fam desc) = dg"
  "pd_sandbox_outcome (mk_protocol sel cd nm md con outcome dg fam desc) = outcome"
  by (simp_all add: mk_protocol_def)

section \<open>The catalog\<close>

definition CATALOG_GENERIC :: "(string \<times> protocol_definition) list" where
  "CATALOG_GENERIC =
    [
     (''101'', mk_protocol ''101'' ''101'' ''Card present (generic)'' ''online'' Online Capture
        None None (Some (''Generic online card-present sandbox path.''))),
     (''102'', mk_protocol ''102'' ''102'' ''Keyed / manual entry (test)'' ''offline_test'' Test Capture
        None (Some ''102'') (Some (''Sandbox keyed-entry path '' @ em_dash @ '' TEST MODE only.'')))]"

definition CATALOG_101 :: "(string \<times> protocol_definition) list" where
  "CATALOG_101 =
    [
     (''101.1-6dg'', mk_protocol ''101.1-6dg'' ''101.1'' ''Online 6 DG'' ''online'' Online Capture
        (Some 6) None None),
     (''101.1-4dg'', mk_protocol ''101.1-4dg'' ''101.1'' ''Online 4 DG'' ''online'' Online Capture
        (Some 4) None None),
     (''101.2'', mk_protocol ''101.2'' ''101.2'' ''Cloud Sale 6 DG'' ''online'' Online Capture
        (Some 6) None None),
     (''101.3-6dg'', mk_protocol ''101.3-6dg'' ''101.3'' ''Cloud Purchase 6 DG'' ''online'' Online Capture
        (Some 6) None None),
     (''101.3-4dg'', mk_protocol ''101.3-4dg'' ''101.3'' ''Cloud Purchase 4 DG'' ''online'' Online Capture
        (Some 4) None None),
     (''101.4-6dg'', mk_protocol ''101.4-6dg'' ''101.4'' ''Cloud Purchase 6 DG'' ''online'' Online Capture
        (Some 6) None None),
     (''101.4-4dg'', mk_protocol ''101.4-4dg'' ''101.4'' ''Cloud Purchase 4 DG'' ''online'' Online Capture
        (Some 4) None None),
     (''101.5'', mk_protocol ''101.5'' ''101.5'' ''MO/TO Cloud'' ''online'' Online Capture
        None None (Some (''Mail Order / Telephone Order cloud path (sandbox label only).''))),
     (''101.6'', mk_protocol ''101.6'' ''101.6'' ''Pre-Auth'' ''online'' Online Pre_Auth
        None None None),
     (''101.7'', mk_protocol ''101.7'' ''101.7'' ''Force Post'' ''online'' Online Force_Post
        None None None),
     (''101.8'', mk_protocol ''101.8'' ''101.8'' ''Reserved (awaiting docs)'' ''online'' Online Capture
        None None (Some (''Placeholder 101.8 '' @ em_dash @ '' enable semantics only with official protocol docs.''))),
     (''101.9'', mk_protocol ''101.9'' ''101.9'' ''Reserved (awaiting docs)'' ''online'' Online Capture
        None None (Some (''Placeholder 101.9 '' @ em_dash @ '' enable semantics only with official protocol docs.'')))]"

definition CATALOG_201 :: "(string \<times> protocol_definition) list" where
  "CATALOG_201 =
    [
     (''201'', mk_protocol ''201'' ''201'' ''Offline Auth'' ''offline_test'' Offline Offline_Auth
        None (Some ''201'') None),
     (''201.1'', mk_protocol ''201.1'' ''201.1'' ''Cloud Completion'' ''offline_test'' Offline_Online Completion
        None (Some ''201'') None),
     (''201.2'', mk_protocol ''201.2'' ''201.2'' ''Offline Post'' ''offline_test'' Offline Offline_Auth
        None (Some ''201'') None),
     (''201.3'', mk_protocol ''201.3'' ''201.3'' ''Offline 6 DG'' ''offline_test'' Online_Offline Signature
        (Some 6) (Some ''201'') None),
     (''201.4'', mk_protocol ''201.4'' ''201.4'' ''Reserved (awaiting docs)'' ''offline_test'' Offline Offline_Auth
        None (Some ''201'') None),
     (''201.5'', mk_protocol ''201.5'' ''201.5'' ''Reserved (awaiting docs)'' ''offline_test'' Offline Offline_Auth
        None (Some ''201'') None),
     (''201.6'', mk_protocol ''201.6'' ''201.6'' ''Offline-Online'' ''offline_test'' Offline_Online Offline_Auth
        None (Some ''201'') (Some (''Listed active on Verifone protocol receipt (sandbox mapping only).''))),
     (''201.7'', mk_protocol ''201.7'' ''201.7'' ''Reserved (awaiting docs)'' ''offline_test'' Offline Offline_Auth
        None (Some ''201'') None),
     (''201.8'', mk_protocol ''201.8'' ''201.8'' ''Reserved (awaiting docs)'' ''offline_test'' Offline Offline_Auth
        None (Some ''201'') None),
     (''201.9'', mk_protocol ''201.9'' ''201.9'' ''Reserved (awaiting docs)'' ''offline_test'' Offline Offline_Auth
        None (Some ''201'') None)]"

definition CATALOG_202 :: "(string \<times> protocol_definition) list" where
  "CATALOG_202 =
    [
     (''202.2'', mk_protocol ''202.2'' ''202.2'' ''Offline-Online'' ''offline_test'' Offline_Online Offline_Auth
        None (Some ''202'') None),
     (''202.5'', mk_protocol ''202.5'' ''202.5'' ''Offline-Online'' ''offline_test'' Offline_Online Offline_Auth
        None (Some ''202'') None),
     (''202.9'', mk_protocol ''202.9'' ''202.9'' ''Offline-Online'' ''offline_test'' Offline_Online Offline_Auth
        None (Some ''202'') None)]"

definition PROTOCOL_CATALOG :: "(string \<times> protocol_definition) list" where
  "PROTOCOL_CATALOG = CATALOG_GENERIC @ CATALOG_101 @ CATALOG_201 @ CATALOG_202"

lemmas catalog_defs =
  PROTOCOL_CATALOG_def CATALOG_GENERIC_def CATALOG_101_def CATALOG_201_def CATALOG_202_def

section \<open>Lookup\<close>

definition preferred_match :: "protocol_definition list \<Rightarrow> protocol_definition option" where
  \<comment> \<open>\<open>preferred or matches[0]\<close>, none for no match\<close>
  "preferred_match matches =
     (case matches of
        [] \<Rightarrow> None
      | m # _ \<Rightarrow> (case find (\<lambda>p. pd_digit_group p = Some 6) matches of
                   Some p \<Rightarrow> Some p | None \<Rightarrow> Some m))"

definition enabled_entry ::
  "(string \<times> protocol_definition) list \<Rightarrow> string \<Rightarrow> protocol_definition option" where
  \<comment> \<open>\<open>key in PROTOCOL_CATALOG and PROTOCOL_CATALOG[key].enabled\<close>\<close>
  "enabled_entry catalog key =
     (case map_of catalog key of None \<Rightarrow> None | Some p \<Rightarrow> if pd_enabled p then Some p else None)"

definition get_protocol_in ::
  "(string \<times> protocol_definition) list \<Rightarrow> string \<Rightarrow> protocol_definition res" where
  "get_protocol_in catalog code_or_selection_id =
     (let key = strip code_or_selection_id in
      case enabled_entry catalog key of
        Some p \<Rightarrow> Inr p
      | None \<Rightarrow>
          (let matches = filter (\<lambda>p. pd_enabled p \<and> pd_code p = key) (map snd catalog)
           in case preferred_match matches of
                None \<Rightarrow> Inl (KeyError (''Unknown or disabled protocol: '' @ code_or_selection_id))
              | Some p \<Rightarrow> Inr p))"

definition get_protocol :: "string \<Rightarrow> protocol_definition res" where
  "get_protocol = get_protocol_in PROTOCOL_CATALOG"

text \<open>The sort key of \<open>list_protocols\<close>.\<close>

fun digits_value :: "nat \<Rightarrow> string \<Rightarrow> nat" where
  "digits_value acc [] = acc"
| "digits_value acc (c # s) = digits_value (10 * acc + (ord c - 48)) s"

definition all_digits :: "string \<Rightarrow> bool" where
  "all_digits s = (s \<noteq> [] \<and> list_all is_digit s)"

definition protocol_sort_key :: "protocol_definition \<Rightarrow> nat \<times> string \<times> nat \<times> string" where
  "protocol_sort_key p =
     (let fam_n = (if all_digits (pd_family p) then digits_value 0 (pd_family p) else 999);
          dg = (if pd_digit_group p = Some 6 then 0 else if pd_digit_group p = Some 4 then 1 else 2)
      in (fam_n, pd_code p, dg, pd_selection_id p))"

definition list_protocols_in ::
  "(string \<times> protocol_definition) list \<Rightarrow> string option \<Rightarrow> string option \<Rightarrow> string option \<Rightarrow>
   protocol_definition list" where
  "list_protocols_in catalog md fam transaction_type =
     (let items = filter pd_enabled (map snd catalog);
          items = (if truthy md then filter (\<lambda>i. Some (pd_mode i) = md) items else items);
          items = (if truthy fam then filter (\<lambda>i. Some (pd_family i) = fam) items else items);
          items = (case transaction_type of
                     None \<Rightarrow> items
                   | Some tt \<Rightarrow>
                       if tt = [] then items
                       else (let tt = upper (strip tt);
                                 filtered = filter (\<lambda>i. tt \<in> set (pd_supported_transaction_types i)) items
                             in if filtered = [] then items else filtered))
      in sort_key protocol_sort_key items)"

definition list_protocols ::
  "string option \<Rightarrow> string option \<Rightarrow> string option \<Rightarrow> protocol_definition list" where
  "list_protocols = list_protocols_in PROTOCOL_CATALOG"

definition validate_protocol_selection :: "string \<Rightarrow> string \<Rightarrow> protocol_definition res" where
  "validate_protocol_selection sel transaction_type =
     bindr (get_protocol sel) (\<lambda>d.
       let tt = upper (strip transaction_type) in
       if \<not> pd_enabled d then Inl (ValueError (''Protocol '' @ pd_code d @ '' is disabled''))
       else if tt \<notin> set (pd_supported_transaction_types d)
       then Inl (ValueError (''Protocol '' @ display_label d @ '' does not support '' @ tt))
       else if \<not> pd_documented d \<and> \<not> pd_sandbox_only d
       then Inl (ValueError ''Undocumented non-sandbox protocol blocked'')
       else Inr d)"

subsection \<open>What the lookup returns\<close>

lemma preferred_match_None [simp]: "preferred_match ms = None \<longleftrightarrow> ms = []"
  by (auto simp: preferred_match_def split: list.splits option.splits)

lemma preferred_match_mem: "preferred_match ms = Some d \<Longrightarrow> d \<in> set ms"
proof -
  assume p: "preferred_match ms = Some d"
  show "d \<in> set ms"
  proof (cases "find (\<lambda>p. pd_digit_group p = Some 6) ms")
    case None
    with p show ?thesis by (cases ms) (auto simp: preferred_match_def)
  next
    case (Some x)
    then have "x \<in> set ms" by (auto simp: find_Some_iff)
    moreover have "d = x" using p Some by (cases ms) (auto simp: preferred_match_def)
    ultimately show ?thesis by simp
  qed
qed

lemma preferred_match_six:
  assumes "d \<in> set ms" and "pd_digit_group d = Some 6"
  shows "\<exists>d'. preferred_match ms = Some d' \<and> pd_digit_group d' = Some 6"
proof -
  obtain x where f: "find (\<lambda>p. pd_digit_group p = Some 6) ms = Some x"
    using assms by (cases "find (\<lambda>p. pd_digit_group p = Some 6) ms") (auto simp: find_None_iff)
  then have "pd_digit_group x = Some 6" by (auto simp: find_Some_iff)
  moreover have "preferred_match ms = Some x"
    using f assms(1) by (cases ms) (auto simp: preferred_match_def)
  ultimately show ?thesis by simp
qed

lemma enabled_entry_Some:
  "enabled_entry catalog k = Some d \<Longrightarrow> (k, d) \<in> set catalog \<and> pd_enabled d"
  by (auto simp: enabled_entry_def dest: map_of_SomeD split: option.splits if_splits)

lemma get_protocol_in_sound:
  assumes "get_protocol_in catalog c = Inr d"
  shows "\<exists>k. (k, d) \<in> set catalog \<and> pd_enabled d \<and> (k = strip c \<or> pd_code d = strip c)"
proof (cases "enabled_entry catalog (strip c)")
  case None
  let ?m = "filter (\<lambda>p. pd_enabled p \<and> pd_code p = strip c) (map snd catalog)"
  from None assms have "preferred_match ?m = Some d"
    by (auto simp: get_protocol_in_def Let_def split: option.splits)
  then have "d \<in> set ?m" by (rule preferred_match_mem)
  then show ?thesis by force
next
  case (Some x)
  with assms have "x = d" by (simp add: get_protocol_in_def Let_def)
  with Some show ?thesis using enabled_entry_Some by blast
qed

lemma get_protocol_in_error:
  assumes "get_protocol_in catalog c = Inl e"
  shows "e = KeyError (''Unknown or disabled protocol: '' @ c) \<and>
    enabled_entry catalog (strip c) = None \<and>
    (\<forall>d \<in> snd ` set catalog. pd_enabled d \<longrightarrow> pd_code d \<noteq> strip c)"
  using assms
  by (auto simp: get_protocol_in_def Let_def filter_empty_conv split: option.splits)

lemma get_protocol_in_prefers_six:
  assumes "enabled_entry catalog (strip c) = None"
    and "d \<in> snd ` set catalog" "pd_enabled d" "pd_code d = strip c" "pd_digit_group d = Some 6"
  shows "\<exists>d'. get_protocol_in catalog c = Inr d' \<and> pd_code d' = strip c \<and> pd_digit_group d' = Some 6"
proof -
  let ?m = "filter (\<lambda>p. pd_enabled p \<and> pd_code p = strip c) (map snd catalog)"
  have "d \<in> set ?m" using assms by auto
  then obtain d' where p: "preferred_match ?m = Some d'" and six: "pd_digit_group d' = Some 6"
    using assms(5) preferred_match_six by blast
  from preferred_match_mem [OF p] have "pd_code d' = strip c" by simp
  moreover have "get_protocol_in catalog c = Inr d'"
    using assms(1) p by (simp add: get_protocol_in_def Let_def)
  ultimately show ?thesis using six by auto
qed

lemma catalog_entries:
  "d \<in> snd ` set PROTOCOL_CATALOG \<Longrightarrow> pd_enabled d \<and> \<not> pd_documented d \<and> pd_sandbox_only d"
  by (auto simp: catalog_defs)

lemma catalog_keys_distinct: "distinct (map fst PROTOCOL_CATALOG)"
  by (simp add: catalog_defs)

lemma catalog_keys: "(k, d) \<in> set PROTOCOL_CATALOG \<Longrightarrow> pd_selection_id d = k \<and> strip k = k"
  by (auto simp: catalog_defs strip_def is_space_def ord_def)

lemma get_protocol_entry:
  assumes "get_protocol c = Inr d"
  shows "(pd_selection_id d, d) \<in> set PROTOCOL_CATALOG" "pd_enabled d" "\<not> pd_documented d"
    "pd_selection_id d = strip c \<or> pd_code d = strip c"
proof -
  from assms have "get_protocol_in PROTOCOL_CATALOG c = Inr d" by (simp add: get_protocol_def)
  then obtain k where k: "(k, d) \<in> set PROTOCOL_CATALOG" "pd_enabled d"
    "k = strip c \<or> pd_code d = strip c"
    using get_protocol_in_sound by blast
  moreover from k(1) have "pd_selection_id d = k" using catalog_keys by blast
  ultimately show "(pd_selection_id d, d) \<in> set PROTOCOL_CATALOG" "pd_enabled d"
    "pd_selection_id d = strip c \<or> pd_code d = strip c" by auto
  show "\<not> pd_documented d" using k(1) catalog_entries by (metis image_eqI snd_conv)
qed

text \<open>Whatever \<open>get_protocol\<close> returns is an enabled entry of the catalog: the entry whose
  selection id is the (stripped) argument, or one whose canonical code is.\<close>

theorem get_protocol_sound:
  assumes "get_protocol c = Inr d"
  shows "(pd_selection_id d, d) \<in> set PROTOCOL_CATALOG \<and> pd_enabled d \<and>
    (pd_selection_id d = strip c \<or> pd_code d = strip c)"
  using get_protocol_entry [OF assms] by blast

lemma catalog_101_6: "(''101.6'', mk_protocol ''101.6'' ''101.6'' ''Pre-Auth'' ''online'' Online Pre_Auth
    None None None) \<in> set PROTOCOL_CATALOG"
  by (simp add: catalog_defs)

theorem get_protocol_sound_witness:
  "\<exists>d. get_protocol '' 101.1'' = Inr d \<and> (pd_selection_id d, d) \<in> set PROTOCOL_CATALOG
     \<and> pd_code d = ''101.1''"
proof -
  have g: "get_protocol '' 101.1'' = Inr (mk_protocol ''101.1-6dg'' ''101.1'' ''Online 6 DG''
      ''online'' Online Capture (Some 6) None None)"
    by code_simp
  from get_protocol_sound [OF g] g show ?thesis by auto
qed

text \<open>Every selection id of the catalog resolves to its own entry, also when it is the
  canonical code of other variants.\<close>

theorem get_protocol_by_selection_id:
  assumes "(k, d) \<in> set PROTOCOL_CATALOG"
  shows "get_protocol k = Inr d"
proof -
  have e: "pd_enabled d" using assms catalog_entries by (metis image_eqI snd_conv)
  have m: "map_of PROTOCOL_CATALOG k = Some d"
    using assms catalog_keys_distinct by (rule map_of_is_SomeI [rotated])
  have s: "strip k = k" using assms catalog_keys by blast
  have "enabled_entry PROTOCOL_CATALOG k = Some d"
    unfolding enabled_entry_def m by (simp add: e)
  then show ?thesis unfolding get_protocol_def get_protocol_in_def Let_def s by simp
qed

theorem get_protocol_by_selection_id_witness:
  "get_protocol ''101.6'' = Inr (mk_protocol ''101.6'' ''101.6'' ''Pre-Auth'' ''online'' Online
     Pre_Auth None None None)"
  by (rule get_protocol_by_selection_id [OF catalog_101_6])

text \<open>A canonical code that is not itself a selection id and has a six digit group variant
  resolves to a six digit group variant of that code.\<close>

theorem get_protocol_prefers_six:
  assumes "\<forall>k d. (k, d) \<in> set PROTOCOL_CATALOG \<longrightarrow> k \<noteq> strip c"
    and "(k', d') \<in> set PROTOCOL_CATALOG" "pd_code d' = strip c" "pd_digit_group d' = Some 6"
  shows "\<exists>d. get_protocol c = Inr d \<and> pd_code d = strip c \<and> pd_digit_group d = Some 6"
proof -
  have "enabled_entry PROTOCOL_CATALOG (strip c) = None"
    using assms(1) enabled_entry_Some by (metis not_None_eq)
  moreover have m: "d' \<in> snd ` set PROTOCOL_CATALOG" using assms(2) by force
  moreover have "pd_enabled d'" using m catalog_entries by blast
  ultimately show ?thesis
    using get_protocol_in_prefers_six assms(3,4) unfolding get_protocol_def by blast
qed

theorem get_protocol_prefers_six_witness:
  "\<exists>d. get_protocol ''101.3'' = Inr d \<and> pd_code d = strip ''101.3'' \<and> pd_digit_group d = Some 6"
proof (rule get_protocol_prefers_six)
  show "\<forall>k d. (k, d) \<in> set PROTOCOL_CATALOG \<longrightarrow> k \<noteq> strip ''101.3''"
    by (auto simp: catalog_defs strip_def is_space_def ord_def)
  show "(''101.3-6dg'', mk_protocol ''101.3-6dg'' ''101.3'' ''Cloud Purchase 6 DG'' ''online'' Online
    Capture (Some 6) None None) \<in> set PROTOCOL_CATALOG"
    by (simp add: catalog_defs)
qed (simp_all add: strip_def is_space_def ord_def)

subsection \<open>Listing and validation\<close>

lemma list_protocols_in_mem:
  assumes "p \<in> set (list_protocols_in catalog md fam tt)"
  shows "p \<in> snd ` set catalog \<and> pd_enabled p \<and>
    (truthy md \<longrightarrow> Some (pd_mode p) = md) \<and> (truthy fam \<longrightarrow> Some (pd_family p) = fam)"
  using assms
  by (auto simp: list_protocols_in_def Let_def split: option.splits if_splits)

text \<open>\<open>list_protocols\<close> returns enabled catalog entries that match the mode and the family
  asked for, sorted by family number, code, digit group (six first) and selection id; with no
  transaction type it returns every such entry exactly once.\<close>

theorem list_protocols_spec:
  "sorted (map protocol_sort_key (list_protocols md fam tt)) \<and>
   (\<forall>p. p \<in> set (list_protocols md fam tt) \<longrightarrow>
      p \<in> snd ` set PROTOCOL_CATALOG \<and> pd_enabled p \<and>
      (truthy md \<longrightarrow> Some (pd_mode p) = md) \<and> (truthy fam \<longrightarrow> Some (pd_family p) = fam)) \<and>
   mset (list_protocols md fam None) =
     filter_mset (\<lambda>p. pd_enabled p \<and> (truthy md \<longrightarrow> Some (pd_mode p) = md)
        \<and> (truthy fam \<longrightarrow> Some (pd_family p) = fam)) (mset (map snd PROTOCOL_CATALOG))"
proof (intro conjI allI impI)
  show "sorted (map protocol_sort_key (list_protocols md fam tt))"
    by (simp add: list_protocols_def list_protocols_in_def Let_def)
  show "mset (list_protocols md fam None) =
     filter_mset (\<lambda>p. pd_enabled p \<and> (truthy md \<longrightarrow> Some (pd_mode p) = md)
        \<and> (truthy fam \<longrightarrow> Some (pd_family p) = fam)) (mset (map snd PROTOCOL_CATALOG))"
    by (cases "truthy md"; cases "truthy fam")
      (simp_all add: list_protocols_def list_protocols_in_def Let_def filter_filter_mset conj_ac)
qed (auto simp: list_protocols_def dest: list_protocols_in_mem)

theorem list_protocols_spec_witness:
  "sorted (map protocol_sort_key (list_protocols None (Some ''202'') None))"
  using list_protocols_spec [of None "Some ''202''" None] by blast

lemma validate_protocol_selection_Inr:
  "validate_protocol_selection sel tt = Inr d \<longleftrightarrow>
     get_protocol sel = Inr d \<and> upper (strip tt) \<in> set (pd_supported_transaction_types d)"
  (is "?L \<longleftrightarrow> ?R")
proof
  assume ?L
  then show ?R by (auto simp: validate_protocol_selection_def bindr_Inr_iff Let_def split: if_splits)
next
  assume r: ?R
  then have "d \<in> snd ` set PROTOCOL_CATALOG" using get_protocol_entry(1) by force
  then show ?L using r catalog_entries by (auto simp: validate_protocol_selection_def)
qed

lemma validate_protocol_selection_Inl:
  "validate_protocol_selection sel tt = Inl e \<Longrightarrow> (\<exists>m. e = KeyError m) \<or> (\<exists>m. e = ValueError m)"
  by (auto simp: validate_protocol_selection_def bindr_Inl_iff Let_def get_protocol_def
      dest!: get_protocol_in_error split: if_splits)

end
