(* ===== verification/Protocol_Adapter.thy ===== *)
theory Protocol_Adapter
  imports Protocols
begin

text \<open>
  The two users of the registry besides the services: the execution gate of
  \<open>src/app/protocols/execution.py\<close>, and the sandbox adapter of
  \<open>src/app/protocols/sandbox.py\<close> with \<open>resolve_sandbox_charge_flags\<close>, through which the catalog
  decides the outcome of a sandbox charge. A call of \<open>uuid4().hex\<close> is an argument (\<open>hex\<close>).
  The status of a \<open>ProtocolResponse\<close> is a string, since \<open>parse_response\<close> takes it from a payload.
\<close>

section \<open>The execution gate\<close>

record protocol_execution_decision =
  ped_allowed :: bool
  ped_status :: string
  ped_reason :: string

definition config_required_reason :: string where
  "config_required_reason =
     ''Protocol is a client catalog label only. Official processor ''
     @ ''documentation is required before production authorization.''"

definition decide_protocol_execution ::
  "string option \<Rightarrow> string \<Rightarrow> protocol_execution_decision" where
  "decide_protocol_execution protocol_code environment =
     (let env = lower (or_str (Some environment) ''sandbox'');
          defn = (case protocol_code of
                    None \<Rightarrow> None
                  | Some c \<Rightarrow> if c = [] then None
                              else (case get_protocol c of Inl _ \<Rightarrow> None | Inr d \<Rightarrow> Some d))
      in if env \<in> {''production'', ''prod''} \<and>
            (case defn of None \<Rightarrow> True | Some d \<Rightarrow> \<not> pd_documented d)
         then \<lparr> ped_allowed = False, ped_status = ''PROVIDER_CONFIGURATION_REQUIRED'',
                ped_reason = config_required_reason \<rparr>
         else \<lparr> ped_allowed = True,
                ped_status = (if env \<noteq> ''production'' then ''SANDBOX_SIMULATION'' else ''DOCUMENTED''),
                ped_reason = ''Sandbox mock processor may simulate outcomes. Not card-network authorization.'' \<rparr>)"

definition require_protocol_execution :: "string option \<Rightarrow> string \<Rightarrow> unit res" where
  "require_protocol_execution protocol_code environment =
     (let decision = decide_protocol_execution protocol_code environment in
      if \<not> ped_allowed decision then Inl (AppException (ped_reason decision) 503) else Inr ())"

lemma get_protocol_undocumented: "get_protocol c = Inr d \<Longrightarrow> \<not> pd_documented d"
  by (rule get_protocol_entry(3))

lemma or_str_nonempty: "or_str (Some e) ''sandbox'' = (if e = [] then ''sandbox'' else e)"
  by simp

lemma require_protocol_execution_value:
  "require_protocol_execution pc env =
     (if lower env \<in> {''production'', ''prod''}
      then Inl (AppException config_required_reason 503) else Inr ())"
proof -
  have "decide_protocol_execution pc env =
      (if lower env \<in> {''production'', ''prod''}
       then \<lparr> ped_allowed = False, ped_status = ''PROVIDER_CONFIGURATION_REQUIRED'',
              ped_reason = config_required_reason \<rparr>
       else \<lparr> ped_allowed = True, ped_status = ''SANDBOX_SIMULATION'',
              ped_reason = ''Sandbox mock processor may simulate outcomes. Not card-network authorization.'' \<rparr>)"
    by (auto simp: decide_protocol_execution_def Let_def or_str_nonempty lower_def
        dest: get_protocol_undocumented split: option.splits sum.splits)
  then show ?thesis by (simp add: require_protocol_execution_def Let_def)
qed

text \<open>In production (\<open>production\<close> or \<open>prod\<close>, in any letter case) no protocol code at all
  is executed: the gate raises a 503 for every code, known or not. In every other environment it
  lets every code through, as a sandbox simulation.\<close>

theorem production_never_simulates:
  "require_protocol_execution pc env =
     (if lower env \<in> {''production'', ''prod''}
      then Inl (AppException config_required_reason 503) else Inr ())"
  by (rule require_protocol_execution_value)

section \<open>The sandbox adapter\<close>

record protocol_request =
  prq_transaction_id :: string
  prq_amount_minor :: int
  prq_currency :: string
  prq_payment_token :: string

record protocol_response =
  prs_status :: string
  prs_provider_reference :: string
  prs_authorization_code :: json
  prs_signature_required :: bool
  prs_raw :: dict

definition validate_request :: "protocol_definition \<Rightarrow> protocol_request \<Rightarrow> unit res" where
  "validate_request d r =
     (if prq_amount_minor r \<le> 0 then Inl (ValueError ''amount_minor must be positive'')
      else if \<not> starts_with (prq_payment_token r) ''pm_test_''
      then Inl (ValueError ''Sandbox protocol requires pm_test_* payment token'')
      else Inr ())"

definition build_request :: "protocol_definition \<Rightarrow> protocol_request \<Rightarrow> dict res" where
  "build_request d r =
     bindr (validate_request d r) (\<lambda>_. Inr
       [(''protocol_selection_id'', JStr (pd_selection_id d)),
        (''protocol_code'', JStr (pd_code d)),
        (''transaction_id'', JStr (prq_transaction_id r)),
        (''amount_minor'', JInt (prq_amount_minor r)),
        (''currency'', JStr (prq_currency r)),
        (''payment_token'', JStr (prq_payment_token r)),
        (''sandbox_outcome'', JStr (outcome_name (pd_sandbox_outcome d))),
        (''connectivity'', JStr (connectivity_name (pd_connectivity d))),
        (''digit_group'', (case pd_digit_group d of None \<Rightarrow> JNull | Some n \<Rightarrow> JInt (int n)))])"

definition RESPONSE_STATUSES :: "string list" where
  "RESPONSE_STATUSES = [''AUTHORIZED'', ''CAPTURED'', ''DECLINED'', ''FAILED'', ''CANCELLED'',
     ''TIMEOUT'', ''UNKNOWN'']"

definition validate_response :: "protocol_response \<Rightarrow> unit res" where
  "validate_response r =
     (if prs_provider_reference r = [] then Inl (ValueError ''provider_reference required'')
      else if prs_status r \<notin> set RESPONSE_STATUSES
      then Inl (ValueError (''Unexpected sandbox status: '' @ prs_status r))
      else Inr ())"

definition replace_dots :: "string \<Rightarrow> string" where
  "replace_dots s = map (\<lambda>c. if c = CHR ''.'' then CHR ''_'' else c) s"

definition execute ::
  "protocol_definition \<Rightarrow> protocol_request \<Rightarrow> string \<Rightarrow> string \<Rightarrow> protocol_response res" where
  "execute d r hex1 hex2 =
     bindr (validate_request d r) (\<lambda>_. bindr (build_request d r) (\<lambda>built.
       let reference = ''proto_'' @ replace_dots (pd_code d) @ ''_'' @ take 10 hex1;
           auth = ''AUTH'' @ upper (take 6 hex2);
           token = prq_payment_token r in
       if ends_with token ''declined'' then
         (let response = \<lparr> prs_status = ''DECLINED'', prs_provider_reference = reference,
                prs_authorization_code = JNull, prs_signature_required = False,
                prs_raw = dset ''reason'' (JStr ''sandbox_declined'') built \<rparr>
          in bindr (validate_response response) (\<lambda>_. Inr response))
       else
         (let outcome = pd_sandbox_outcome d;
              signature_required = (outcome = Signature \<or> ends_with token ''sig''
                                    \<or> ends_with token ''signature'');
              status = (if outcome \<in> {Pre_Auth, Offline_Auth} \<or> signature_required then ''AUTHORIZED''
                        else if outcome \<in> {Capture, Force_Post, Completion} then ''CAPTURED''
                        else ''AUTHORIZED'');
              status = (if signature_required then ''AUTHORIZED'' else status);
              response = \<lparr> prs_status = status, prs_provider_reference = reference,
                prs_authorization_code = JStr auth, prs_signature_required = signature_required,
                prs_raw = dset ''documented'' (JBool (pd_documented d))
                            (dset ''mode'' (JStr (pd_mode d)) built) \<rparr>
          in bindr (validate_response response) (\<lambda>_. Inr response))))"

definition parse_response :: "dict \<Rightarrow> protocol_response res" where
  "parse_response payload =
     (let response = \<lparr> prs_status = str_or (dget payload ''status'') ''AUTHORIZED'',
            prs_provider_reference = str_or (dget payload ''provider_reference'') [],
            prs_authorization_code = dget payload ''authorization_code'',
            prs_signature_required = jbool (dget payload ''signature_required''),
            prs_raw = payload \<rparr>
      in bindr (validate_response response) (\<lambda>_. Inr response))"

definition map_status :: "protocol_response \<Rightarrow> string" where
  "map_status r = prs_status r"

text \<open>The abstract outcome of a sandbox execution: what the catalog entry and the token decide.\<close>

definition needs_signature :: "protocol_definition \<Rightarrow> string \<Rightarrow> bool" where
  "needs_signature d token \<longleftrightarrow>
     pd_sandbox_outcome d = Signature \<or> ends_with token ''sig'' \<or> ends_with token ''signature''"

definition sandbox_verdict :: "protocol_definition \<Rightarrow> string \<Rightarrow> string" where
  "sandbox_verdict d token =
     (if ends_with token ''declined'' then ''DECLINED''
      else if needs_signature d token \<or> pd_sandbox_outcome d \<in> {Pre_Auth, Offline_Auth}
      then ''AUTHORIZED'' else ''CAPTURED'')"

text \<open>C37. \<open>execute\<close> fails exactly when the request is invalid, with the error of
  \<open>validate_request\<close>; otherwise its response passes \<open>validate_response\<close>, its status is the one
  the catalog entry and the token decide, and an authorization code is present unless it was
  declined.\<close>

theorem execute_spec:
  "(case validate_request d r of
      Inl e \<Rightarrow> execute d r h1 h2 = Inl e
    | Inr _ \<Rightarrow> \<exists>p. execute d r h1 h2 = Inr p \<and> validate_response p = Inr ()
        \<and> prs_status p = sandbox_verdict d (prq_payment_token r)
        \<and> (prs_authorization_code p = JNull \<longleftrightarrow> prs_status p = ''DECLINED''))"
proof (cases "validate_request d r")
  case (Inl e)
  then show ?thesis by (simp add: execute_def)
next
  case (Inr u)
  then show ?thesis
    by (cases "pd_sandbox_outcome d")
      (auto simp: execute_def build_request_def Let_def validate_response_def RESPONSE_STATUSES_def
        sandbox_verdict_def needs_signature_def)
qed

lemma execute_returns: "validate_request d r = Inr u \<Longrightarrow> \<exists>p. execute d r h1 h2 = Inr p"
  by (cases "pd_sandbox_outcome d")
    (auto simp: execute_def build_request_def Let_def validate_response_def RESPONSE_STATUSES_def)

lemma execute_result:
  assumes "execute d r h1 h2 = Inr p"
  shows "prs_status p = sandbox_verdict d (prq_payment_token r)"
    "prs_signature_required p \<longleftrightarrow> needs_signature d (prq_payment_token r) \<and> \<not> ends_with (prq_payment_token r) ''declined''"
    "prs_authorization_code p = JNull \<longleftrightarrow> prs_status p = ''DECLINED''"
    "starts_with (prq_payment_token r) ''pm_test_''"
  using assms
  by (cases "pd_sandbox_outcome d";
      auto simp: execute_def build_request_def validate_request_def Let_def validate_response_def RESPONSE_STATUSES_def
        sandbox_verdict_def needs_signature_def split: if_splits)+

text \<open>C38. A payload \<open>parse_response\<close> accepts always has a provider reference and one of the seven
  known statuses; a payload with no status at all is read as \<open>AUTHORIZED\<close>.\<close>

theorem parse_response_sound:
  assumes "parse_response payload = Inr p"
  shows "prs_provider_reference p \<noteq> [] \<and> prs_status p \<in> set RESPONSE_STATUSES
    \<and> (dget payload ''status'' = JNull \<longrightarrow> prs_status p = ''AUTHORIZED'')"
  using assms
  by (auto simp: parse_response_def Let_def bindr_Inr_iff validate_response_def str_or_def
      split: if_splits)

theorem parse_response_sound_witness:
  "\<exists>p. parse_response [(''provider_reference'', JStr ''proto_1'')] = Inr p
     \<and> prs_status p = ''AUTHORIZED''"
proof -
  have g: "parse_response [(''provider_reference'', JStr ''proto_1'')] =
    Inr \<lparr> prs_status = ''AUTHORIZED'', prs_provider_reference = ''proto_1'',
      prs_authorization_code = JNull, prs_signature_required = False,
      prs_raw = [(''provider_reference'', JStr ''proto_1'')] \<rparr>"
    by (simp add: parse_response_def dget_def str_or_def validate_response_def RESPONSE_STATUSES_def)
  from parse_response_sound [OF g] g show ?thesis by (simp add: dget_def)
qed

section \<open>Charge flags\<close>

definition resolve_sandbox_charge_flags :: "string option \<Rightarrow> string \<Rightarrow> string \<Rightarrow> bool \<times> bool" where
  "resolve_sandbox_charge_flags protocol_code token scenario =
     (let signature = (scenario = ''signature'' \<or> ends_with token ''signature'' \<or> ends_with token ''sig'');
          prefer_auth = False;
          defn = (case protocol_code of
                    None \<Rightarrow> None
                  | Some c \<Rightarrow> if c = [] then None
                              else (case get_protocol c of Inl _ \<Rightarrow> None | Inr d \<Rightarrow> Some d));
          (signature, prefer_auth) =
            (case defn of
               None \<Rightarrow> (signature, prefer_auth)
             | Some d \<Rightarrow>
                 (let signature = (if pd_sandbox_outcome d = Signature then True else signature);
                      prefer_auth = (if pd_sandbox_outcome d \<in> {Pre_Auth, Offline_Auth, Signature}
                                     then True else prefer_auth);
                      prefer_auth = (if pd_sandbox_outcome d \<in> {Capture, Force_Post, Completion}
                                        \<and> \<not> signature then False else prefer_auth)
                  in (signature, prefer_auth)));
          prefer_auth = (if signature then True else prefer_auth)
      in (signature, prefer_auth))"

lemma charge_flags_signature_prefers:
  "resolve_sandbox_charge_flags pc token scenario = (sig, pref) \<Longrightarrow> sig \<Longrightarrow> pref"
  by (auto simp: resolve_sandbox_charge_flags_def Let_def split: option.splits sum.splits if_splits prod.splits)

text \<open>The flags of a known protocol code in closed form.\<close>

lemma charge_flags_value:
  assumes "get_protocol c = Inr d" and "c \<noteq> []"
  shows "resolve_sandbox_charge_flags (Some c) token scenario =
    (needs_signature d token \<or> scenario = ''signature'',
     needs_signature d token \<or> scenario = ''signature'' \<or> pd_sandbox_outcome d \<in> {Pre_Auth, Offline_Auth})"
  using assms
  by (cases "pd_sandbox_outcome d") (auto simp: resolve_sandbox_charge_flags_def needs_signature_def Let_def)

lemma get_protocol_201_3:
  "get_protocol ''201.3'' = Inr (mk_protocol ''201.3'' ''201.3'' ''Offline 6 DG'' ''offline_test''
     Online_Offline Signature (Some 6) (Some ''201'') None)"
  by code_simp

end
