(* ===== verification/Audit_Log.thy ===== *)
theory Audit_Log
  imports Prelude
begin

text \<open>
  The audit service of \<open>src/app/services/audit_service.py\<close>: what is kept of the details of an
  event, and the appended row.

  The three regular expressions are modelled as backtracking matchers. A position (\<open>pos\<close>) is the
  character before and the rest of the text; a matcher returns the positions where the pattern
  can end, in the order in which the backtracking engine tries them, and the engine's match is
  the first. \<open>\d\<close>, \<open>\s\<close>, \<open>\w\<close> are those of ASCII (a byte from 128 on is no word character).
  \<open>regex_sub\<close> is \<open>re.sub\<close>: it replaces the leftmost match and goes on after it.
\<close>

section \<open>Matching\<close>

type_synonym pos = "char option \<times> string"
type_synonym matcher = "pos \<Rightarrow> pos list"

definition is_word :: "char \<Rightarrow> bool" where
  "is_word c = (let n = ord c in (48 \<le> n \<and> n \<le> 57) \<or> (65 \<le> n \<and> n \<le> 90) \<or> n = 95
                  \<or> (97 \<le> n \<and> n \<le> 122))"

definition word_boundary :: "pos \<Rightarrow> bool" where
  "word_boundary p =
     ((case fst p of None \<Rightarrow> False | Some c \<Rightarrow> is_word c) \<noteq>
      (case snd p of [] \<Rightarrow> False | c # _ \<Rightarrow> is_word c))"

definition one :: "(char \<Rightarrow> bool) \<Rightarrow> matcher" where
  "one P p = (case snd p of [] \<Rightarrow> [] | c # s \<Rightarrow> if P c then [(Some c, s)] else [])"

definition seq :: "matcher \<Rightarrow> matcher \<Rightarrow> matcher" where
  "seq f g p = concat (map g (f p))"

fun lazy_star :: "(char \<Rightarrow> bool) \<Rightarrow> char option \<Rightarrow> string \<Rightarrow> pos list" where
  "lazy_star P c [] = [(c, [])]"
| "lazy_star P c (x # s) = (c, x # s) # (if P x then lazy_star P (Some x) s else [])"

definition greedy_star :: "(char \<Rightarrow> bool) \<Rightarrow> matcher" where
  "greedy_star P p = rev (lazy_star P (fst p) (snd p))"

definition opt :: "(char \<Rightarrow> bool) \<Rightarrow> matcher" where
  "opt P p = one P p @ [p]"

fun greedy_rep :: "matcher \<Rightarrow> nat \<Rightarrow> nat \<Rightarrow> matcher" where
  "greedy_rep f lo 0 p = (if lo = 0 then [p] else [])"
| "greedy_rep f lo (Suc hi) p =
     concat (map (greedy_rep f (lo - 1) hi) (f p)) @ (if lo = 0 then [p] else [])"

fun literal_ci :: "string \<Rightarrow> matcher" where
  "literal_ci [] p = [p]"
| "literal_ci (x # xs) p = seq (one (\<lambda>c. lower_char c = x)) (literal_ci xs) p"

definition boundary :: matcher where
  "boundary p = (if word_boundary p then [p] else [])"

text \<open>\<open>\b(?:\d[ -]*?){13,19}\b\<close>\<close>

definition pan_unit :: matcher where
  "pan_unit = seq (one is_digit) (\<lambda>p. lazy_star (\<lambda>c. c = CHR '' '' \<or> c = CHR ''-'') (fst p) (snd p))"

definition PAN_LIKE :: matcher where
  "PAN_LIKE = seq boundary (seq (greedy_rep pan_unit 13 19) boundary)"

text \<open>\<open>(?i)\b(?:cvv|cvc)\s*[:=]?\s*\d{3,4}\b\<close>\<close>

definition CVV_LIKE :: matcher where
  "CVV_LIKE = seq boundary (seq (\<lambda>p. literal_ci ''cvv'' p @ literal_ci ''cvc'' p)
     (seq (greedy_star is_space) (seq (opt (\<lambda>c. c = CHR '':'' \<or> c = CHR ''=''))
       (seq (greedy_star is_space) (seq (greedy_rep (one is_digit) 3 4) boundary)))))"

text \<open>\<open>\*+\d{2,4}\<close>\<close>

definition MASKED :: matcher where
  "MASKED = seq (one (\<lambda>c. c = CHR ''*'')) (seq (greedy_star (\<lambda>c. c = CHR ''*''))
     (greedy_rep (one is_digit) 2 4))"

fun regex_search :: "matcher \<Rightarrow> char option \<Rightarrow> string \<Rightarrow> bool" where
  "regex_search m c [] = (m (c, []) \<noteq> [])"
| "regex_search m c (x # s) = (m (c, x # s) \<noteq> [] \<or> regex_search m (Some x) s)"

text \<open>The patterns match no empty text, so the rest after a match is shorter; the guard on the
  length makes the recursion total for any matcher.\<close>

function regex_sub :: "matcher \<Rightarrow> string \<Rightarrow> char option \<Rightarrow> string \<Rightarrow> string" where
  "regex_sub m repl c [] = []"
| "regex_sub m repl c (x # s) =
     (case m (c, x # s) of
        [] \<Rightarrow> x # regex_sub m repl (Some x) s
      | p # _ \<Rightarrow> if length (snd p) \<le> length s then repl @ regex_sub m repl (fst p) (snd p)
                  else x # regex_sub m repl (Some x) s)"
  by pat_completeness auto
termination
  by (relation "measure (\<lambda>(m, repl, c, s). length s)") auto

definition scrub_string :: "string \<Rightarrow> string" where
  "scrub_string v =
     (let cleaned = regex_sub CVV_LIKE ''[REDACTED_CVV]'' None v;
          without_masked = regex_sub MASKED [] None cleaned
      in if regex_search PAN_LIKE None without_masked
         then regex_sub PAN_LIKE ''[REDACTED_PAN]'' None cleaned
         else cleaned)"

section \<open>Details\<close>

definition SENSITIVE_KEYS :: "string list" where
  "SENSITIVE_KEYS = [''pan'', ''card_number'', ''cardnumber'', ''cvv'', ''cvc'', ''cvv2'',
     ''security_code'', ''track'', ''track2'', ''magnetic_stripe'', ''pin'', ''password'',
     ''secret'', ''access_token'', ''refresh_token'', ''authorization'']"

definition sensitive_key :: "string \<Rightarrow> bool" where
  "sensitive_key key =
     (let lowered = lower key in
      lowered \<in> set SENSITIVE_KEYS \<or> contains lowered ''cvv'' \<or> contains lowered ''pan'')"

fun sanitize_value :: "json \<Rightarrow> json" where
  "sanitize_value (JDict d) =
     JDict (filter (\<lambda>kv. \<not> sensitive_key (fst kv)) (map (\<lambda>kv. (fst kv, sanitize_value (snd kv))) d))"
| "sanitize_value (JStr s) = JStr (scrub_string s)"
| "sanitize_value v = v"

definition sanitize_metadata :: "dict option \<Rightarrow> dict" where
  "sanitize_metadata data =
     (case data of
        None \<Rightarrow> []
      | Some d \<Rightarrow> (case sanitize_value (JDict d) of JDict d' \<Rightarrow> d' | _ \<Rightarrow> []))"

record audit_log =
  al_actor_user_id :: "uuid option"
  al_action :: string
  al_resource_type :: string
  al_resource_id :: "string option"
  al_ip_address :: "string option"
  al_user_agent :: "string option"
  al_details :: dict

text \<open>\<open>AuditService.record\<close>: the row it adds.\<close>

definition audit_record ::
  "string \<Rightarrow> string \<Rightarrow> string option \<Rightarrow> uuid option \<Rightarrow> string option \<Rightarrow> string option \<Rightarrow> dict option \<Rightarrow>
     audit_log list \<Rightarrow> audit_log list" where
  "audit_record action resource_type resource_id actor ip_address user_agent details logs =
     logs @ [\<lparr> al_actor_user_id = actor, al_action = action, al_resource_type = resource_type,
               al_resource_id = resource_id, al_ip_address = ip_address, al_user_agent = user_agent,
               al_details = sanitize_metadata details \<rparr>]"

section \<open>Which keys survive\<close>

text \<open>All keys of a value, at any depth of dicts and lists; and those that stand inside a list which is
  reached through dicts under harmless keys only.\<close>

fun deep_keys :: "json \<Rightarrow> string list" where
  "deep_keys (JDict d) = concat (map (\<lambda>kv. fst kv # deep_keys (snd kv)) d)"
| "deep_keys (JList vs) = concat (map deep_keys vs)"
| "deep_keys _ = []"

fun listed_keys :: "json \<Rightarrow> string list" where
  "listed_keys (JDict d) = concat (map (\<lambda>kv. if sensitive_key (fst kv) then [] else listed_keys (snd kv)) d)"
| "listed_keys (JList vs) = deep_keys (JList vs)"
| "listed_keys _ = []"

lemma sanitize_value_keys:
  "sensitive_key k \<Longrightarrow> k \<in> set (deep_keys (sanitize_value v)) \<longleftrightarrow> k \<in> set (listed_keys v)"
proof (induction v rule: sanitize_value.induct)
  case (1 d)
  then show ?case by (auto split: if_splits)
qed simp_all

lemma sanitize_metadata_eq:
  "JDict (sanitize_metadata (Some d)) = sanitize_value (JDict d)"
  by (simp add: sanitize_metadata_def)

text \<open>C33. What the cleaning of an audit row's details does to keys that name card or credential data, in
  any letter case: at the top and in nested dicts every one of them is dropped with its value, and inside a
  list every one of them stays. So such a key is found in the details written exactly when it was given
  inside a list that stands under harmless keys; without lists none survives.\<close>

theorem sensitive_keys_survive_in_lists:
  "lower k \<in> set SENSITIVE_KEYS \<or> contains (lower k) ''cvv'' \<or> contains (lower k) ''pan'' \<Longrightarrow>
     k \<in> set (deep_keys (JDict (sanitize_metadata (Some d)))) \<longleftrightarrow> k \<in> set (listed_keys (JDict d))"
proof -
  assume "lower k \<in> set SENSITIVE_KEYS \<or> contains (lower k) ''cvv'' \<or> contains (lower k) ''pan''"
  then have "sensitive_key k" by (simp add: sensitive_key_def Let_def)
  from sanitize_value_keys [OF this, of "JDict d"] show ?thesis unfolding sanitize_metadata_eq .
qed

theorem sensitive_keys_survive_in_lists_witness:
  "let card = [(''Pan'', JStr ''4111111111111111'')] in
     ''Pan'' \<in> set (deep_keys (JDict (sanitize_metadata (Some [(''cards'', JList [JDict card])]))))
     \<and> ''Pan'' \<notin> set (deep_keys (JDict (sanitize_metadata (Some [(''card'', JDict card), (''pan_list'', JList [JDict card])]))))"
proof -
  let ?card = "[(''Pan'', JStr ''4111111111111111'')]"
  have s: "lower ''Pan'' \<in> set SENSITIVE_KEYS \<or> contains (lower ''Pan'') ''cvv'' \<or> contains (lower ''Pan'') ''pan''"
    by code_simp
  have l: "listed_keys (JDict [(''cards'', JList [JDict ?card])]) = [''Pan'']"
    "listed_keys (JDict [(''card'', JDict ?card), (''pan_list'', JList [JDict ?card])]) = []"
    by code_simp+
  show ?thesis
    unfolding Let_def
    using sensitive_keys_survive_in_lists [OF s, of "[(''cards'', JList [JDict ?card])]"]
      sensitive_keys_survive_in_lists [OF s, of "[(''card'', JDict ?card), (''pan_list'', JList [JDict ?card])]"]
    unfolding l by simp
qed

section \<open>What is redacted\<close>

lemma is_digit_props:
  assumes "is_digit c"
  shows "is_word c" "c \<noteq> CHR '' ''" "c \<noteq> CHR ''-''" "c \<noteq> CHR ''*''" "lower_char c \<noteq> CHR ''c''"
proof -
  have n: "48 \<le> ord c" "ord c \<le> 57" using assms by (auto simp: is_digit_def Let_def)
  show "is_word c" using n by (simp add: is_word_def Let_def)
  show "c \<noteq> CHR '' ''" "c \<noteq> CHR ''-''" "c \<noteq> CHR ''*''" using n by (auto simp: ord_def)
  show "lower_char c \<noteq> CHR ''c''" using n by (auto simp: lower_char_def ord_def)
qed

definition at :: "char option \<Rightarrow> string \<Rightarrow> nat \<Rightarrow> pos" where
  "at p ds n = (if n = 0 then p else Some (ds ! (n - 1)), drop n ds)"

lemma at_Suc [simp]: "at p (d # ds) (Suc n) = at (Some d) ds n"
  by (cases n) (simp_all add: at_def)

lemma at_0 [simp]: "at p ds 0 = (p, ds)"
  by (simp add: at_def)

lemma rev_upt_shift:
  "map (\<lambda>n. f (Suc n)) (rev [a..<b]) = map f (rev [Suc a..<Suc b])"
proof -
  have "map f (rev [Suc a..<Suc b]) = map f (rev (map Suc [a..<b]))"
    by (simp only: map_Suc_upt)
  then show ?thesis by (simp only: rev_map [symmetric] map_map comp_def)
qed

text \<open>On a run of digits each repetition of the unit consumes one digit, so the ends are the
  positions after \<open>hi\<close>, \<open>hi - 1\<close>, \dots, \<open>lo\<close> digits, as far as the run goes.\<close>

lemma greedy_rep_digits:
  assumes unit: "\<And>p d ds. is_digit d \<Longrightarrow> list_all is_digit ds \<Longrightarrow> f (p, d # ds) = [(Some d, ds)]"
    and nil: "\<And>p. f (p, []) = []"
  shows "list_all is_digit ds \<Longrightarrow>
    greedy_rep f lo hi (p, ds) = map (at p ds) (rev [lo..<Suc (min hi (length ds))])"
proof (induction hi arbitrary: lo p ds)
  case 0
  then show ?case by simp
next
  case (Suc hi)
  show ?case
  proof (cases ds)
    case Nil
    then show ?thesis by (simp add: nil)
  next
    case (Cons d es)
    then have d: "is_digit d" "list_all is_digit es" using Suc.prems by auto
    have "greedy_rep f lo (Suc hi) (p, ds) =
        map (at (Some d) es) (rev [lo - 1..<Suc (min hi (length es))]) @ (if lo = 0 then [(p, ds)] else [])"
      by (simp add: Cons unit [OF d] Suc.IH [OF d(2)])
    also have "\<dots> = map (at p ds) (rev [lo..<Suc (min (Suc hi) (length ds))])"
    proof (cases lo)
      case 0
      have "map (at (Some d) es) (rev [0..<Suc (min hi (length es))]) =
          map (at p ds) (rev [Suc 0..<Suc (Suc (min hi (length es)))])"
        using rev_upt_shift [of "at p ds" 0 "Suc (min hi (length es))"] by (simp add: Cons)
      moreover have "rev [0..<Suc (Suc (min hi (length es)))] =
          rev [Suc 0..<Suc (Suc (min hi (length es)))] @ [0]"
        by (subst upt_conv_Cons) simp_all
      ultimately show ?thesis by (simp add: 0 Cons del: upt_Suc)
    next
      case (Suc l)
      have "map (at (Some d) es) (rev [l..<Suc (min hi (length es))]) =
          map (at p ds) (rev [Suc l..<Suc (Suc (min hi (length es)))])"
        using rev_upt_shift [of "at p ds" l "Suc (min hi (length es))"] by (simp add: Cons)
      then show ?thesis by (simp add: Suc Cons del: upt_Suc)
    qed
    finally show ?thesis .
  qed
qed

lemma lazy_star_digits:
  "(\<And>x. is_digit x \<Longrightarrow> \<not> P x) \<Longrightarrow> list_all is_digit ds \<Longrightarrow> lazy_star P c ds = [(c, ds)]"
  by (cases ds) auto

lemma pan_unit_digits: "is_digit d \<Longrightarrow> list_all is_digit ds \<Longrightarrow> pan_unit (p, d # ds) = [(Some d, ds)]"
  by (simp add: pan_unit_def seq_def one_def) (rule lazy_star_digits, auto dest: is_digit_props)

lemma boundary_at:
  assumes "list_all is_digit ds" "n \<noteq> 0" "n \<le> length ds"
  shows "boundary (at p ds n) = (if n = length ds then [at p ds n] else [])"
proof -
  have "is_word (ds ! (n - 1))" using assms is_digit_props(1) by (auto simp: list_all_length)
  moreover have "n < length ds \<Longrightarrow> \<exists>x xs. drop n ds = x # xs \<and> is_word x"
    using assms is_digit_props(1) by (metis Cons_nth_drop_Suc list_all_length)
  ultimately show ?thesis
    using assms by (cases "n = length ds") (auto simp: boundary_def word_boundary_def at_def)
qed

lemma PAN_LIKE_digits:
  assumes ds: "list_all is_digit ds" "ds \<noteq> []"
  shows "PAN_LIKE (p, ds) =
    (if (case p of None \<Rightarrow> True | Some c \<Rightarrow> \<not> is_word c) \<and> 13 \<le> length ds \<and> length ds \<le> 19
     then [at p ds (length ds)] else [])"
proof -
  obtain d es where c: "ds = d # es" "is_word d" using ds is_digit_props(1) by (cases ds) auto
  have start: "boundary (p, ds) = (if case p of None \<Rightarrow> True | Some c \<Rightarrow> \<not> is_word c then [(p, ds)] else [])"
    by (auto simp: boundary_def word_boundary_def c split: option.splits)
  have "concat (map boundary (map (at p ds) (rev [13..<Suc (min 19 (length ds))]))) =
      (if 13 \<le> length ds \<and> length ds \<le> 19 then [at p ds (length ds)] else [])"
    (is "concat ?l = _")
  proof (cases "13 \<le> length ds \<and> length ds \<le> 19")
    case True
    have z: "concat (map boundary (map (at p ds) (rev [13..<length ds]))) = []"
      by (auto simp: boundary_at [OF ds(1)])
    have "rev [13..<Suc (min 19 (length ds))] = length ds # rev [13..<length ds]"
      using True by simp
    then show ?thesis using True z boundary_at [OF ds(1), of "length ds"] ds(2)
      by (simp del: upt_Suc)
  next
    case False
    have "\<forall>n \<in> set (rev [13..<Suc (min 19 (length ds))]). boundary (at p ds n) = []"
      using False by (auto simp: boundary_at [OF ds(1)])
    then have "concat (map boundary (map (at p ds) (rev [13..<Suc (min 19 (length ds))]))) = []"
      by (simp only: concat_eq_Nil_conv set_map) auto
    then show ?thesis by (simp only: if_not_P [OF False])
  qed
  moreover have "greedy_rep pan_unit 13 19 (p, ds) = map (at p ds) (rev [13..<Suc (min 19 (length ds))])"
    by (rule greedy_rep_digits [OF pan_unit_digits _ ds(1)]) (simp_all add: pan_unit_def seq_def one_def)
  ultimately have "concat (map boundary (greedy_rep pan_unit 13 19 (p, ds))) =
      (if 13 \<le> length ds \<and> length ds \<le> 19 then [at p ds (length ds)] else [])"
    by (simp only:)
  then show ?thesis by (simp add: PAN_LIKE_def seq_def start del: greedy_rep.simps)
qed

lemma no_pan_inside:
  "list_all is_digit ds \<Longrightarrow> is_word c \<Longrightarrow> \<not> regex_search PAN_LIKE (Some c) ds"
proof (induction ds arbitrary: c)
  case Nil
  then show ?case
    by (simp add: PAN_LIKE_def seq_def boundary_def word_boundary_def greedy_rep_digits pan_unit_def one_def numeral_eq_Suc)
next
  case (Cons d ds)
  then show ?case using PAN_LIKE_digits [of "d # ds" "Some c"] is_digit_props(1) by auto
qed

lemma regex_sub_none:
  "\<not> regex_search m c s \<Longrightarrow> regex_sub m repl c s = s"
  by (induction s arbitrary: c) auto

lemma CVV_none: "list_all is_digit s \<Longrightarrow> \<not> regex_search CVV_LIKE c s"
proof -
  have start: "CVV_LIKE (c, s) = []" if "s = [] \<or> (\<exists>d es. s = d # es \<and> lower_char d \<noteq> CHR ''c'')" for c s
    using that by (auto simp: CVV_LIKE_def seq_def boundary_def one_def)
  show "list_all is_digit s \<Longrightarrow> \<not> regex_search CVV_LIKE c s"
    by (induction s arbitrary: c) (auto simp: start is_digit_props)
qed

lemma MASKED_none: "CHR ''*'' \<notin> set s \<Longrightarrow> \<not> regex_search MASKED c s"
  by (induction s arbitrary: c) (auto simp: MASKED_def seq_def one_def)

text \<open>C34. A run of digits alone is replaced by the marker exactly when it has 13 to 19 digits,
  the lengths of card numbers; a shorter or a longer run is kept.\<close>

theorem scrub_digit_run:
  assumes "list_all is_digit ds"
  shows "scrub_string ds =
    (if 13 \<le> length ds \<and> length ds \<le> 19 then ''[REDACTED_PAN]'' else ds)"
proof -
  have "CHR ''*'' \<notin> set ds" using assms is_digit_props(4) by (auto simp: list_all_iff)
  then have s: "scrub_string ds =
      (if regex_search PAN_LIKE None ds then regex_sub PAN_LIKE ''[REDACTED_PAN]'' None ds else ds)"
    using assms by (simp add: scrub_string_def regex_sub_none CVV_none MASKED_none)
  show ?thesis
  proof (cases ds)
    case Nil
    then show ?thesis by (simp add: scrub_string_def)
  next
    case (Cons d es)
    then have "\<not> regex_search PAN_LIKE (Some d) es" using assms no_pan_inside is_digit_props(1) by simp
    then show ?thesis
      using PAN_LIKE_digits [OF assms, of None] by (auto simp: s [unfolded Cons] Cons at_def)
  qed
qed

theorem scrub_digit_run_witness: "scrub_string ''4111111111111111'' = ''[REDACTED_PAN]''"
  using scrub_digit_run [of "''4111111111111111''"] by (simp add: is_digit_def ord_def)

text \<open>C35. A card number of 13 to 16 digits right after an asterisk is kept in full: the test for
  a card number first removes \<open>*\<close> and up to four digits after it, and what is left is too short.\<close>

theorem starred_pan_kept:
  assumes "list_all is_digit ds" and "length ds \<le> 16" and "2 \<le> length ds"
  shows "scrub_string (CHR ''*'' # ds) = CHR ''*'' # ds"
proof -
  have dig: "list_all is_digit (drop n ds)" for n
    using assms(1) by (auto simp: list_all_iff dest: in_set_dropD)
  have m: "MASKED (None, CHR ''*'' # ds) = map (at (Some (CHR ''*'')) ds) (rev [2..<Suc (min 4 (length ds))])"
  proof -
    have "lazy_star (\<lambda>c. c = CHR ''*'') (Some (CHR ''*'')) ds = [(Some (CHR ''*''), ds)]"
      using assms(1) by (intro lazy_star_digits) (auto dest: is_digit_props)
    moreover have "greedy_rep (one is_digit) 2 4 (Some (CHR ''*''), ds) =
        map (at (Some (CHR ''*'')) ds) (rev [2..<Suc (min 4 (length ds))])"
      by (rule greedy_rep_digits [OF _ _ assms(1)]) (simp_all add: one_def)
    ultimately show ?thesis by (simp add: MASKED_def seq_def one_def greedy_star_def)
  qed
  let ?k = "min 4 (length ds)"
  have "rev [2..<Suc ?k] = ?k # rev [2..<?k]" using assms(3) by simp
  then have hd: "\<exists>r. MASKED (None, CHR ''*'' # ds) = at (Some (CHR ''*'')) ds ?k # r"
    by (simp add: m del: upt_Suc)
  have rest: "regex_sub MASKED [] c (drop ?k ds) = drop ?k ds" for c
    using dig [of ?k] is_digit_props(4) by (intro regex_sub_none MASKED_none) (auto simp: list_all_iff)
  have sub: "regex_sub MASKED [] None (CHR ''*'' # ds) = drop ?k ds"
    using hd rest by (auto simp: at_def)
  have "\<not> regex_search PAN_LIKE None (drop ?k ds)"
  proof (cases "drop ?k ds")
    case Nil
    then show ?thesis
      by (simp add: PAN_LIKE_def seq_def boundary_def word_boundary_def)
  next
    case (Cons e es)
    have l: "length (drop ?k ds) < 13" using assms(2,3) by auto
    have es: "is_word e" "list_all is_digit es" using dig [of ?k] is_digit_props(1) by (simp_all add: Cons)
    show ?thesis
      using PAN_LIKE_digits [OF dig [of ?k], of None] l no_pan_inside [OF es(2,1)] by (simp add: Cons)
  qed
  moreover have "\<not> regex_search CVV_LIKE None (CHR ''*'' # ds)"
    using CVV_none [OF assms(1)]
    by (simp add: CVV_LIKE_def seq_def boundary_def one_def word_boundary_def is_word_def ord_def)
  ultimately show ?thesis
    by (simp add: scrub_string_def Let_def sub regex_sub_none [of CVV_LIKE None "CHR ''*'' # ds"]
        del: regex_sub.simps regex_search.simps)
qed

theorem starred_pan_kept_witness: "scrub_string ''*4111111111111111'' = ''*4111111111111111''"
  using starred_pan_kept [of "''4111111111111111''"] by (simp add: is_digit_def ord_def)

end
