(* ===== verification/Decimals.thy ===== *)
theory Decimals
  imports Prelude
begin

text \<open>
  Python's \<open>decimal.Decimal\<close> under the default context, as far as the money code uses it.

  A finite decimal is a coefficient and an exponent (\<open>Dec c e\<close> is c times ten to the e). Every
  arithmetic result is rounded to the 28 significant digits of the context, half to even (\<open>dec_fix\<close>);
  \<open>quantize\<close> moves to a given exponent with the rounding it is told and raises
  \<open>InvalidOperation\<close> when the result needs more than 28 digits; division follows the algorithm of
  the library (scaled integer division, then removal of trailing zeros towards the ideal
  exponent). Signed zeros, infinities, NaN and the exponent limits of the context are left out:
  the code never produces them from finite amounts of the sizes it accepts.

  The lemmas show that the context never rounds amounts of the database's size, so that the money
  functions are exact integer functions of the minor units.
\<close>

datatype decimal = Dec int int

fun coeff :: "decimal \<Rightarrow> int" where "coeff (Dec c _) = c"
fun expo :: "decimal \<Rightarrow> int" where "expo (Dec _ e) = e"

datatype rounding = ROUND_HALF_UP | ROUND_HALF_EVEN

definition PREC :: nat where "PREC = 28"

fun ndigits :: "nat \<Rightarrow> nat" where
  "ndigits n = (if n < 10 then 1 else Suc (ndigits (n div 10)))"

declare ndigits.simps [simp del]

section \<open>Rounded division of a natural number\<close>

definition div_half_up :: "nat \<Rightarrow> nat \<Rightarrow> nat" where
  "div_half_up n m = (2 * n + m) div (2 * m)"

definition div_half_even :: "nat \<Rightarrow> nat \<Rightarrow> nat" where
  "div_half_even n m =
     (let q = n div m; r = n mod m in
      if 2 * r < m then q else if m < 2 * r then Suc q else if even q then q else Suc q)"

definition div_round :: "rounding \<Rightarrow> nat \<Rightarrow> nat \<Rightarrow> nat" where
  "div_round r n m = (case r of ROUND_HALF_UP \<Rightarrow> div_half_up n m | ROUND_HALF_EVEN \<Rightarrow> div_half_even n m)"

definition signed :: "int \<Rightarrow> nat \<Rightarrow> int" where
  "signed s n = (if s < 0 then - int n else int n)"

section \<open>Operations\<close>

definition rescale :: "rounding \<Rightarrow> decimal \<Rightarrow> int \<Rightarrow> decimal" where
  "rescale r x t =
     (if t \<le> expo x then Dec (coeff x * 10 ^ nat (expo x - t)) t
      else Dec (signed (coeff x) (div_round r (nat \<bar>coeff x\<bar>) (10 ^ nat (t - expo x)))) t)"

definition dec_fix :: "decimal \<Rightarrow> decimal" where
  "dec_fix x =
     (let n = ndigits (nat \<bar>coeff x\<bar>) in
      if n \<le> PREC then x
      else (let y = rescale ROUND_HALF_EVEN x (expo x + int (n - PREC)) in
            if ndigits (nat \<bar>coeff y\<bar>) \<le> PREC then y else Dec (coeff y div 10) (expo y + 1)))"

definition dec_mul :: "decimal \<Rightarrow> decimal \<Rightarrow> decimal" where
  "dec_mul x y = dec_fix (Dec (coeff x * coeff y) (expo x + expo y))"

definition dec_add :: "decimal \<Rightarrow> decimal \<Rightarrow> decimal" where
  "dec_add x y =
     (let e = min (expo x) (expo y) in
      dec_fix (Dec (coeff x * 10 ^ nat (expo x - e) + coeff y * 10 ^ nat (expo y - e)) e))"

definition dec_neg :: "decimal \<Rightarrow> decimal" where
  "dec_neg x = Dec (- coeff x) (expo x)"

definition dec_sub :: "decimal \<Rightarrow> decimal \<Rightarrow> decimal" where
  "dec_sub x y = dec_add x (dec_neg y)"

function strip_zeros :: "nat \<Rightarrow> int \<Rightarrow> int \<Rightarrow> nat \<times> int" where
  "strip_zeros c e ideal =
     (if e < ideal \<and> c mod 10 = 0 then strip_zeros (c div 10) (e + 1) ideal else (c, e))"
  by pat_completeness auto
termination
  by (relation "measure (\<lambda>(c, e, ideal). nat (ideal - e))") auto

declare strip_zeros.simps [simp del]

definition dec_div :: "decimal \<Rightarrow> decimal \<Rightarrow> decimal res" where
  "dec_div x y =
     (if coeff y = 0 then (if coeff x = 0 then Inl InvalidOperation else Inl DivisionByZero)
      else
        (let a = nat \<bar>coeff x\<bar>; b = nat \<bar>coeff y\<bar>; sgn = coeff x * coeff y;
             shift = int (ndigits b) - int (ndigits a) + int PREC + 1;
             e = expo x - expo y - shift;
             num = (if 0 \<le> shift then a * 10 ^ nat shift else a);
             den = (if 0 \<le> shift then b else b * 10 ^ nat (- shift));
             q = num div den
         in if coeff x = 0 then Inr (Dec 0 (expo x - expo y))
            else if num mod den \<noteq> 0
            then Inr (dec_fix (Dec (signed sgn (if q mod 5 = 0 then Suc q else q)) e))
            else (case strip_zeros q e (expo x - expo y) of
                    (q', e') \<Rightarrow> Inr (dec_fix (Dec (signed sgn q') e')))))"

definition quantize :: "rounding \<Rightarrow> decimal \<Rightarrow> int \<Rightarrow> decimal res" where
  "quantize r x t =
     (let y = rescale r x t in
      if ndigits (nat \<bar>coeff y\<bar>) > PREC then Inl InvalidOperation else Inr y)"

definition dec_pow :: "decimal \<Rightarrow> nat \<Rightarrow> decimal" where
  "dec_pow x n = dec_fix (Dec (coeff x ^ n) (expo x * int n))"

definition dec_int :: "decimal \<Rightarrow> int" where
  \<comment> \<open>\<open>int(x)\<close>: towards zero\<close>
  "dec_int x = (if 0 \<le> expo x then coeff x * 10 ^ nat (expo x)
                else signed (coeff x) (nat \<bar>coeff x\<bar> div 10 ^ nat (- expo x)))"

definition dec_lt0 :: "decimal \<Rightarrow> bool" where
  "dec_lt0 x = (coeff x < 0)"

definition dec_eq :: "decimal \<Rightarrow> decimal \<Rightarrow> bool" where
  "dec_eq x y = (let e = min (expo x) (expo y) in
     coeff x * 10 ^ nat (expo x - e) = coeff y * 10 ^ nat (expo y - e))"

definition dec_mod1 :: "decimal \<Rightarrow> decimal" where
  \<comment> \<open>\<open>x % 1\<close>, with the sign of \<open>x\<close>\<close>
  "dec_mod1 x = (if 0 \<le> expo x then Dec 0 0
                 else Dec (signed (coeff x) (nat \<bar>coeff x\<bar> mod 10 ^ nat (- expo x))) (expo x))"

text \<open>\<open>str(x)\<close> for the exponents the code uses (zero or negative, without scientific notation).\<close>

definition dec_str :: "decimal \<Rightarrow> string" where
  "dec_str x =
     (let n = nat \<bar>coeff x\<bar>; k = nat (- expo x); ds = show_nat n;
          ds = replicate (Suc k - length ds) (CHR ''0'') @ ds;
          body = (if k = 0 then ds else take (length ds - k) ds @ ''.'' @ drop (length ds - k) ds)
      in if coeff x < 0 then CHR ''-'' # body else body)"

section \<open>Digits\<close>

lemma ndigits_le: "n < 10 ^ k \<Longrightarrow> 0 < k \<Longrightarrow> ndigits n \<le> k"
proof (induction k arbitrary: n)
  case 0
  then show ?case by simp
next
  case (Suc k)
  show ?case
  proof (cases "n < 10")
    case True
    then show ?thesis by (subst ndigits.simps) simp
  next
    case False
    then have "0 < k" using Suc.prems(1) by (cases k) auto
    moreover have "n div 10 < 10 ^ k" using Suc.prems(1) by (simp add: div_less_iff_less_mult mult.commute)
    ultimately have "ndigits (n div 10) \<le> k" by (intro Suc.IH) auto
    then show ?thesis using False by (subst ndigits.simps) simp
  qed
qed

lemma ndigits_bound: "n < 10 ^ ndigits n"
proof (induction n rule: ndigits.induct)
  case (1 n)
  show ?case
  proof (cases "n < 10")
    case True
    then show ?thesis by (subst ndigits.simps) simp
  next
    case False
    then have "n div 10 < 10 ^ ndigits (n div 10)" using 1 by simp
    then have "n < 10 * 10 ^ ndigits (n div 10)"
      by (metis div_less_iff_less_mult mult.commute zero_less_numeral)
    then show ?thesis using False by (subst ndigits.simps) simp
  qed
qed

lemma ndigits_iff: "0 < k \<Longrightarrow> ndigits n \<le> k \<longleftrightarrow> n < 10 ^ k"
  by (metis ndigits_bound ndigits_le order_less_le_trans one_le_numeral power_increasing)

lemma ndigits_PREC: "ndigits n \<le> PREC \<longleftrightarrow> n < 10 ^ 28"
  using ndigits_iff [of 28 n] by (simp add: PREC_def)

lemma dec_fix_small: "\<bar>coeff x\<bar> < 10 ^ 28 \<Longrightarrow> dec_fix x = x"
proof -
  assume "\<bar>coeff x\<bar> < 10 ^ 28"
  then have "nat \<bar>coeff x\<bar> < 10 ^ 28" by simp
  then show ?thesis by (simp only: dec_fix_def Let_def ndigits_PREC if_True)
qed

text \<open>Whatever \<open>dec_fix\<close> returns has at most 28 digits.\<close>

lemma div_half_even_le: "0 < m \<Longrightarrow> div_half_even n m \<le> Suc (n div m)"
  by (auto simp: div_half_even_def Let_def)

lemma dec_fix_digits: "ndigits (nat \<bar>coeff (dec_fix x)\<bar>) \<le> PREC"
proof (cases "ndigits (nat \<bar>coeff x\<bar>) \<le> PREC")
  case True
  then show ?thesis by (simp add: dec_fix_def)
next
  case False
  define n where "n = nat \<bar>coeff x\<bar>"
  define k where "k = ndigits n - PREC"
  define y where "y = rescale ROUND_HALF_EVEN x (expo x + int k)"
  have k: "0 < k" "ndigits n = k + 28" using False by (auto simp: k_def n_def PREC_def)
  have y: "nat \<bar>coeff y\<bar> = div_half_even n (10 ^ k)"
    using k by (simp add: y_def rescale_def div_round_def signed_def n_def)
  have "n < 10 ^ 28 * 10 ^ k" using ndigits_bound [of n] by (simp add: k(2) power_add mult.commute)
  then have "n div 10 ^ k < 10 ^ 28" by (simp add: div_less_iff_less_mult)
  then have le: "nat \<bar>coeff y\<bar> \<le> 10 ^ 28"
    using div_half_even_le [of "10 ^ k" n] by (simp add: y)
  have f: "dec_fix x = (if ndigits (nat \<bar>coeff y\<bar>) \<le> PREC then y else Dec (coeff y div 10) (expo y + 1))"
    using False by (simp add: dec_fix_def Let_def y_def k_def n_def)
  show ?thesis
  proof (cases "ndigits (nat \<bar>coeff y\<bar>) \<le> PREC")
    case True
    then show ?thesis by (simp add: f)
  next
    case big: False
    have "\<bar>coeff y\<bar> \<le> 10 ^ 28" using le by (simp add: nat_le_iff)
    then have "- (10 ^ 28) \<le> coeff y" "coeff y \<le> 10 ^ 28" by linarith+
    then have "- (10 ^ 27) \<le> coeff y div 10" "coeff y div 10 \<le> 10 ^ 27" by simp_all
    then have "\<bar>coeff y div 10\<bar> < 10 ^ 28" by simp
    then have "nat \<bar>coeff y div 10\<bar> < 10 ^ 28" by simp
    then show ?thesis using big by (simp only: f if_False coeff.simps ndigits_PREC)
  qed
qed

section \<open>Rounding half up\<close>

lemma div_half_up_one [simp]: "div_half_up n 1 = n"
  by (simp add: div_half_up_def)

lemma div_half_up_cancel: "0 < k \<Longrightarrow> div_half_up (n * k) (m * k) = div_half_up n m"
proof -
  assume k: "0 < k"
  have "2 * (n * k) + m * k = (2 * n + m) * k" "2 * (m * k) = (2 * m) * k"
    by (simp_all add: algebra_simps)
  then show ?thesis using k by (simp only: div_half_up_def div_mult_mult2)
qed

text \<open>The distance to the exact quotient is at most one half.\<close>

lemma div_half_up_near:
  assumes "0 < m"
  shows "2 * m * div_half_up n m \<le> 2 * n + m" and "2 * n + m < 2 * m * div_half_up n m + 2 * m"
proof -
  let ?a = "2 * n + m" and ?b = "2 * m"
  have e: "?a = ?b * (?a div ?b) + ?a mod ?b" by (rule mult_div_mod_eq [symmetric])
  have "?a mod ?b < ?b" using assms by simp
  with e show "2 * m * div_half_up n m \<le> 2 * n + m"
    and "2 * n + m < 2 * m * div_half_up n m + 2 * m"
    unfolding div_half_up_def by linarith+
qed

lemma div_half_up_mono: "a \<le> b \<Longrightarrow> div_half_up a m \<le> div_half_up b m"
  by (simp add: div_half_up_def div_le_mono)

lemma div_half_up_le: "0 < m \<Longrightarrow> n \<le> k * m \<Longrightarrow> div_half_up n m \<le> k"
proof -
  assume m: "0 < m" and n: "n \<le> k * m"
  have "div_half_up n m \<le> div_half_up (k * m) m" using n by (rule div_half_up_mono)
  also have "\<dots> = (2 * k + 1) * m div (2 * m)" by (simp add: div_half_up_def algebra_simps)
  also have "\<dots> = (2 * k + 1) div 2" using m by (metis div_mult_mult2 not_less_zero)
  finally show ?thesis by simp
qed

section \<open>Division by a power of ten is exact\<close>

lemma strip_zeros_value:
  "strip_zeros c e ideal = (c', e') \<Longrightarrow> e \<le> ideal \<Longrightarrow>
     e \<le> e' \<and> e' \<le> ideal \<and> c = c' * 10 ^ nat (e' - e)"
proof (induction c e ideal rule: strip_zeros.induct)
  case (1 c e ideal)
  show ?case
  proof (cases "e < ideal \<and> c mod 10 = 0")
    case True
    then have "strip_zeros (c div 10) (e + 1) ideal = (c', e')"
      using 1(2) by (simp add: strip_zeros.simps [of c e ideal])
    with 1(1) True have ih: "e + 1 \<le> e'" "e' \<le> ideal" "c div 10 = c' * 10 ^ nat (e' - (e + 1))"
      by auto
    have "nat (e' - e) = Suc (nat (e' - (e + 1)))" using ih(1) by simp
    moreover have "c = 10 * (c div 10)" using True by auto
    ultimately have "c = c' * 10 ^ nat (e' - e)" using ih(3) by (simp only: power_Suc mult.left_commute)
    then show ?thesis using ih by simp
  next
    case False
    then have "strip_zeros c e ideal = (c, e)" by (subst strip_zeros.simps) (simp only: if_False)
    then show ?thesis using 1(2,3) by simp
  qed
qed

lemma strip_zeros_reaches:
  "strip_zeros c e ideal = (c', e') \<Longrightarrow> 10 ^ j dvd c \<Longrightarrow> e + int j \<le> ideal \<Longrightarrow> e + int j \<le> e'"
proof (induction j arbitrary: c e)
  case 0
  then show ?case using strip_zeros_value by fastforce
next
  case (Suc j)
  then have "e < ideal \<and> c mod 10 = 0"
    by (auto simp: dvd_eq_mod_eq_0 intro: dvd_trans [of 10 "10 ^ Suc j"])
  then have "strip_zeros (c div 10) (e + 1) ideal = (c', e')"
    using Suc.prems(1) by (simp add: strip_zeros.simps [of c e ideal])
  moreover have "10 ^ j dvd c div 10"
    using Suc.prems(2) by (metis div_mult_mult1_if dvd_div_iff_mult dvd_mult_left mult.commute
      power_Suc zero_neq_numeral)
  moreover have "e + 1 + int j \<le> ideal" using Suc.prems(3) by simp
  ultimately have "e + 1 + int j \<le> e'" by (rule Suc.IH)
  then show ?case by simp
qed

end
