(* ===== verification/Money.thy ===== *)
theory Money
  imports Decimals
begin

text \<open>
  The money helpers of \<open>src/app/payments/money.py\<close> and the fee engine of
  \<open>src/app/fees/engine.py\<close>.

  The first lemmas evaluate the decimal operations on amounts of the database's size (two
  fraction digits, less than 28 digits in all); the properties say that the minor-unit
  conversions are inverse to each other, and that the fee is the exact product rounded half up
  to the cent, with gross = fee + net.
\<close>

section \<open>Currencies and minor units\<close>

definition CURRENCY_EXPONENTS :: "(string \<times> nat) list" where
  "CURRENCY_EXPONENTS =
     [(''AED'', 2), (''CAD'', 2), (''EUR'', 2), (''GBP'', 2), (''SAR'', 2), (''USD'', 2)]"

definition currency_exponent :: "string \<Rightarrow> nat res" where
  "currency_exponent currency =
     (let cd = upper currency in
      case map_of CURRENCY_EXPONENTS cd of
        None \<Rightarrow> Inl (ValueError (''Unsupported currency for minor-unit conversion: '' @ cd))
      | Some n \<Rightarrow> Inr n)"

definition to_minor_units :: "decimal \<Rightarrow> string \<Rightarrow> int res" where
  "to_minor_units amount currency =
     bindr (currency_exponent currency) (\<lambda>exp.
       let quant = dec_pow (Dec 10 0) exp in
       bindr (dec_div (Dec 1 0) quant) (\<lambda>q.
       bindr (quantize ROUND_HALF_UP amount (expo q)) (\<lambda>normalized.
       Inr (dec_int (dec_mul normalized quant)))))"

definition from_minor_units :: "int \<Rightarrow> string \<Rightarrow> decimal res" where
  "from_minor_units amount_minor currency =
     (if amount_minor \<le> 0 then Inl (ValueError ''amount_minor must be > 0'')
      else bindr (currency_exponent currency) (\<lambda>exp.
        let quant = dec_pow (Dec 10 0) exp in
        bindr (dec_div (Dec amount_minor 0) quant) (\<lambda>d.
        bindr (dec_div (Dec 1 0) quant) (\<lambda>q.
        quantize ROUND_HALF_EVEN d (expo q)))))"

section \<open>Fees\<close>

record fee_result =
  fr_gross_amount :: decimal
  fr_fee_percent :: decimal
  fr_fee_amount :: decimal
  fr_net_amount :: decimal
  fr_currency :: string
  fr_policy_version :: string

definition calculate_fee ::
  "decimal \<Rightarrow> string \<Rightarrow> decimal \<Rightarrow> decimal \<Rightarrow> string \<Rightarrow> fee_result res" where
  "calculate_fee gross_amount currency fee_percent fixed_fee policy_version =
     (if dec_lt0 gross_amount then Inl (ValueError ''gross_amount must be >= 0'')
      else if dec_lt0 fee_percent then Inl (ValueError ''fee_percent must be >= 0'')
      else
        bindr (quantize ROUND_HALF_UP gross_amount (-2)) (\<lambda>gross.
        bindr (quantize ROUND_HALF_UP fee_percent (-4)) (\<lambda>percent.
        bindr (dec_div (dec_mul gross percent) (Dec 100 0)) (\<lambda>v.
        bindr (quantize ROUND_HALF_UP v (-2)) (\<lambda>variable.
        bindr (quantize ROUND_HALF_UP fixed_fee (-2)) (\<lambda>fixed.
        bindr (quantize ROUND_HALF_UP (dec_add variable fixed) (-2)) (\<lambda>fee.
        bindr (quantize ROUND_HALF_UP (dec_sub gross fee) (-2)) (\<lambda>net.
        Inr \<lparr> fr_gross_amount = gross, fr_fee_percent = percent, fr_fee_amount = fee,
              fr_net_amount = net, fr_currency = upper currency,
              fr_policy_version = policy_version \<rparr>))))))))"

section \<open>Decimal operations on amounts of the accepted size\<close>

lemma quant_100: "dec_pow (Dec 10 0) 2 = Dec 100 0"
  by (simp add: dec_pow_def dec_fix_small)

lemma currency_exponent_two: "currency_exponent c = Inr n \<Longrightarrow> n = 2"
  by (auto simp: currency_exponent_def CURRENCY_EXPONENTS_def Let_def split: option.splits if_splits)

lemma signed_nonneg [simp]: "0 \<le> s \<Longrightarrow> signed s n = int n"
  by (simp add: signed_def)

lemma quantize_same:
  assumes "\<bar>c\<bar> < 10 ^ 28"
  shows "quantize r (Dec c e) e = Inr (Dec c e)"
proof -
  have "\<not> ndigits (nat \<bar>c\<bar>) > PREC" using assms by (simp add: not_less ndigits_PREC)
  then show ?thesis by (simp add: quantize_def rescale_def)
qed

text \<open>Division by 100, up to the trailing zeros the library drops.\<close>

lemma dec_div_100:
  assumes a: "0 < a" "a < 10 ^ 28"
  shows "\<exists>c k. dec_div (Dec (int a) e) (Dec 100 0) = Inr (Dec (int c) (e - 2 + int k)) \<and> k \<le> 2
    \<and> a = c * 10 ^ k"
proof -
  define n where "n = ndigits a"
  have n: "n \<le> 28" using a ndigits_PREC by (simp add: n_def PREC_def)
  define s where "s = 32 - n"
  have nd: "ndigits 100 = 3" by (simp add: ndigits.simps)
  have shift: "int (ndigits 100) - int n + int PREC + 1 = int s"
    using n by (simp add: nd s_def PREC_def)
  have s: "4 \<le> s" using n by (simp add: s_def)
  have "s = (s - 2) + 2" using s by simp
  then have "(10::nat) ^ s = 10 ^ (s - 2) * 10 ^ 2" by (metis power_add)
  then have p: "(10::nat) ^ s = 10 ^ (s - 2) * 100" by simp
  obtain c e' where z: "strip_zeros (a * 10 ^ (s - 2)) (e - int s) e = (c, e')"
    by (metis surj_pair)
  have v: "e - int s \<le> e'" "e' \<le> e" "a * 10 ^ (s - 2) = c * 10 ^ nat (e' - (e - int s))"
    using strip_zeros_value [OF z] by auto
  have r: "e - 2 \<le> e'"
    using strip_zeros_reaches [OF z, of "s - 2"] s by (simp add: of_nat_diff)
  define k where "k = nat (e' - (e - 2))"
  have k: "k \<le> 2" "e' = e - 2 + int k" using r v by (simp_all add: k_def)
  have "nat (e' - (e - int s)) = k + (s - 2)" using k(2) s by simp
  then have ac: "a = c * 10 ^ k" using v(3) by (simp add: power_add)
  then have "c \<le> a" by simp
  then have c: "\<bar>int c\<bar> < 10 ^ 28" using a(2) by simp
  have q: "a * 10 ^ s div 100 = a * 10 ^ (s - 2)" "a * 10 ^ s mod 100 = 0"
    by (simp_all add: p mult.assoc [symmetric])
  have shift': "int (ndigits (nat \<bar>100 :: int\<bar>)) - int (ndigits (nat \<bar>int a\<bar>)) + int PREC + 1 = int s"
    using shift by (simp add: n_def)
  have "dec_div (Dec (int a) e) (Dec 100 0) =
      (case strip_zeros (a * 10 ^ s div 100) (e - int s) e of
         (q', e') \<Rightarrow> Inr (dec_fix (Dec (signed (int a * 100) q') e')))"
    unfolding dec_div_def Let_def coeff.simps expo.simps shift' using a(1) q(2) by simp
  also have "\<dots> = Inr (Dec (int c) e')"
    using dec_fix_small [of "Dec (int c) e'"] c by (simp add: q(1) z)
  finally show ?thesis using k ac by blast
qed

lemma div_1_100: "dec_div (Dec 1 0) (Dec 100 0) = Inr (Dec 1 (-2))"
proof -
  obtain c k where d: "dec_div (Dec 1 0) (Dec 100 0) = Inr (Dec (int c) (- 2 + int k))"
    and "1 = c * 10 ^ k"
    using dec_div_100 [of 1 0] by auto
  then have "c = 1 \<and> (10::nat) ^ k = 1" by (metis nat_mult_eq_1_iff)
  then have "c = 1" "k = 0" by auto
  then show ?thesis using d by simp
qed

text \<open>Quantizing does not see trailing zeros.\<close>

lemma quantize_up_value:
  assumes "div_half_up n (10 ^ m) < 10 ^ 28" and "n = c * 10 ^ k" and "k \<le> m"
  shows "quantize ROUND_HALF_UP (Dec (int c) (t - int m + int k)) t =
    Inr (Dec (int (div_half_up n (10 ^ m))) t)"
proof -
  have "rescale ROUND_HALF_UP (Dec (int c) (t - int m + int k)) t =
      Dec (int (div_half_up c (10 ^ (m - k)))) t"
  proof (cases "k = m")
    case True
    then show ?thesis using div_half_up_one by (simp add: rescale_def)
  next
    case False
    then have "nat (int m - int k) = m - k" "\<not> t \<le> t - int m + int k" using assms(3) by auto
    then show ?thesis by (simp add: rescale_def div_round_def)
  qed
  moreover have "div_half_up n (10 ^ m) = div_half_up c (10 ^ (m - k))"
    using div_half_up_cancel [of "10 ^ k" c "10 ^ (m - k)"] assms(2,3)
    by (simp add: power_add [symmetric])
  moreover have "\<not> ndigits (div_half_up n (10 ^ m)) > PREC"
    using assms(1) by (simp add: not_less ndigits_PREC)
  ultimately show ?thesis by (simp add: quantize_def)
qed

lemma dec_int_minor: "m < 10 ^ 26 \<Longrightarrow> dec_int (dec_mul (Dec (int m) (- 2)) (Dec 100 0)) = int m"
  by (simp add: dec_mul_def dec_fix_small dec_int_def)

lemma from_minor_units_value:
  assumes m: "0 < m" "m < 10 ^ 28" and c: "currency_exponent currency = Inr n"
  shows "from_minor_units (int m) currency = Inr (Dec (int m) (- 2))"
proof -
  have n: "n = 2" using c by (rule currency_exponent_two)
  obtain q k where d: "dec_div (Dec (int m) 0) (Dec 100 0) = Inr (Dec (int q) (- 2 + int k))"
    and q: "m = q * 10 ^ k"
    using dec_div_100 [of m 0] m by auto
  have "quantize ROUND_HALF_EVEN (Dec (int q) (- 2 + int k)) (- 2) = Inr (Dec (int m) (- 2))"
  proof -
    have "int q * 10 ^ k = int m" by (simp add: q)
    then have "rescale ROUND_HALF_EVEN (Dec (int q) (- 2 + int k)) (- 2) = Dec (int m) (- 2)"
      by (simp add: rescale_def)
    moreover have "\<not> ndigits m > PREC" using m(2) by (simp add: not_less ndigits_PREC)
    ultimately show ?thesis by (simp add: quantize_def)
  qed
  then show ?thesis using m(1) c by (simp add: from_minor_units_def n quant_100 d div_1_100)
qed

lemma to_minor_units_value:
  assumes m: "m < 10 ^ 26" and c: "currency_exponent currency = Inr n"
    and q: "quantize ROUND_HALF_UP amount (- 2) = Inr (Dec (int m) (- 2))"
  shows "to_minor_units amount currency = Inr (int m)"
  using currency_exponent_two [OF c] m c q
  by (simp add: to_minor_units_def quant_100 div_1_100 dec_int_minor)

section \<open>Properties\<close>

text \<open>C29. Minor units and amounts convert back and forth without loss: for a supported currency a
  positive number of minor units (below ten to the 26) becomes an amount with two decimals that
  converts back to the same number.\<close>

theorem minor_units_roundtrip:
  assumes "0 < m" "m < 10 ^ 26" "is_ok (currency_exponent currency)"
  shows "\<exists>d. from_minor_units (int m) currency = Inr d \<and> expo d = - 2
    \<and> to_minor_units d currency = Inr (int m)"
proof -
  obtain n where c: "currency_exponent currency = Inr n" using assms(3) by (auto simp: is_ok_iff)
  have "from_minor_units (int m) currency = Inr (Dec (int m) (- 2))"
    using assms(1,2) c by (intro from_minor_units_value) auto
  moreover have "to_minor_units (Dec (int m) (- 2)) currency = Inr (int m)"
    using assms(2) c by (intro to_minor_units_value) (auto intro: quantize_same)
  ultimately show ?thesis by simp
qed

theorem minor_units_roundtrip_witness:
  "\<exists>d. from_minor_units (int 1999) ''usd'' = Inr d \<and> expo d = - 2
    \<and> to_minor_units d ''usd'' = Inr (int 1999)"
proof (rule minor_units_roundtrip)
  show "is_ok (currency_exponent ''usd'')" by code_simp
qed simp_all

section \<open>Fees in minor units\<close>

lemma quantize_up_zero: "- 8 \<le> e \<Longrightarrow> quantize ROUND_HALF_UP (Dec 0 e) (- 2) = Inr (Dec 0 (- 2))"
  by (simp add: quantize_def rescale_def div_round_def div_half_up_def signed_def ndigits.simps PREC_def)

lemma variable_fee:
  assumes "g * p < 10 ^ 28"
  shows "\<exists>x. dec_div (dec_mul (Dec (int g) (- 2)) (Dec (int p) (- 4))) (Dec 100 0) = Inr x
    \<and> quantize ROUND_HALF_UP x (- 2) = Inr (Dec (int (div_half_up (g * p) (10 ^ 6))) (- 2))"
proof -
  have "int (g * p) < int (10 ^ 28)" using assms by (simp only: of_nat_less_iff)
  then have "\<bar>int g * int p\<bar> < 10 ^ 28" by simp
  then have m: "dec_mul (Dec (int g) (- 2)) (Dec (int p) (- 4)) = Dec (int (g * p)) (- 6)"
    by (simp add: dec_mul_def dec_fix_small)
  show ?thesis
  proof (cases "g * p = 0")
    case True
    then have "dec_div (Dec (int (g * p)) (- 6)) (Dec 100 0) = Inr (Dec 0 (- 6))"
      by (simp add: dec_div_def)
    moreover have "div_half_up (g * p) (10 ^ 6) = 0" by (simp add: True div_half_up_def)
    ultimately show ?thesis using quantize_up_zero [of "- 6"] m
      by (simp only: True of_nat_0) simp
  next
    case False
    then have "0 < g * p" by simp
    from dec_div_100 [OF this assms, of "- 6"] obtain c k where
      d: "dec_div (Dec (int (g * p)) (- 6)) (Dec 100 0) = Inr (Dec (int c) (- 6 - 2 + int k))"
      and k: "k \<le> 2" "g * p = c * 10 ^ k"
      by blast
    have "div_half_up (g * p) (10 ^ 6) \<le> g * p" by (rule div_half_up_le) auto
    then have "div_half_up (g * p) (10 ^ 6) < 10 ^ 28" using assms by linarith
    moreover have "- 2 - int 6 + int k = - 6 - 2 + int k" "k \<le> 6" using k(1) by simp_all
    ultimately have "quantize ROUND_HALF_UP (Dec (int c) (- 6 - 2 + int k)) (- 2) =
        Inr (Dec (int (div_half_up (g * p) (10 ^ 6))) (- 2))"
      using quantize_up_value [OF _ k(2), of 6 "- 2"] by metis
    then show ?thesis using d m by metis
  qed
qed

definition fee_cents :: "nat \<Rightarrow> nat \<Rightarrow> nat \<Rightarrow> nat" where
  \<comment> \<open>the fee on \<open>g\<close> cents at \<open>p\<close> ten-thousandths of a percent, plus \<open>f\<close> cents\<close>
  "fee_cents g p f = div_half_up (g * p) (10 ^ 6) + f"

lemma calculate_fee_value:
  assumes "\<not> dec_lt0 gross" "\<not> dec_lt0 percent" "g * p < 10 ^ 27" "g < 10 ^ 27" "f < 10 ^ 27"
    and "quantize ROUND_HALF_UP gross (- 2) = Inr (Dec (int g) (- 2))"
    and "quantize ROUND_HALF_UP percent (- 4) = Inr (Dec (int p) (- 4))"
    and "quantize ROUND_HALF_UP fixed (- 2) = Inr (Dec (int f) (- 2))"
  shows "calculate_fee gross currency percent fixed version =
    Inr \<lparr> fr_gross_amount = Dec (int g) (- 2), fr_fee_percent = Dec (int p) (- 4),
          fr_fee_amount = Dec (int (fee_cents g p f)) (- 2),
          fr_net_amount = Dec (int g - int (fee_cents g p f)) (- 2),
          fr_currency = upper currency, fr_policy_version = version \<rparr>"
proof -
  have "g * p < 10 ^ 28" using assms(3) by simp
  then obtain x where
    x: "dec_div (dec_mul (Dec (int g) (- 2)) (Dec (int p) (- 4))) (Dec 100 0) = Inr x"
      "quantize ROUND_HALF_UP x (- 2) = Inr (Dec (int (div_half_up (g * p) (10 ^ 6))) (- 2))"
    using variable_fee by blast
  have v: "div_half_up (g * p) (10 ^ 6) \<le> g * p" by (rule div_half_up_le) auto
  then have b: "int (fee_cents g p f) < 2 * 10 ^ 27" using assms(3,5) unfolding fee_cents_def by simp
  have add: "dec_add (Dec (int (div_half_up (g * p) (10 ^ 6))) (- 2)) (Dec (int f) (- 2)) =
      Dec (int (fee_cents g p f)) (- 2)"
    using b by (simp add: dec_add_def dec_fix_small fee_cents_def)
  have sub: "dec_sub (Dec (int g) (- 2)) (Dec (int (fee_cents g p f)) (- 2)) =
      Dec (int g - int (fee_cents g p f)) (- 2)"
    using b assms(4) by (simp add: dec_sub_def dec_neg_def dec_add_def dec_fix_small)
  have "quantize ROUND_HALF_UP (Dec (int (fee_cents g p f)) (- 2)) (- 2)
      = Inr (Dec (int (fee_cents g p f)) (- 2))"
    "quantize ROUND_HALF_UP (Dec (int g - int (fee_cents g p f)) (- 2)) (- 2)
      = Inr (Dec (int g - int (fee_cents g p f)) (- 2))"
    using b assms(4) by (auto intro!: quantize_same)
  then show ?thesis using assms(1,2,6-8) x add sub by (simp add: calculate_fee_def)
qed

text \<open>C28. On amounts of the database's size the fee is computed without loss: with the gross and
  fixed amounts in cents and the percentage in ten-thousandths, the fee is the product rounded
  half up to the cent plus the fixed part, it is within half a cent of the exact product, and
  the net amount is the gross amount less the fee.\<close>

theorem calculate_fee_exact:
  assumes "\<not> dec_lt0 gross" "\<not> dec_lt0 percent" "g * p < 10 ^ 27" "g < 10 ^ 27" "f < 10 ^ 27"
    and "quantize ROUND_HALF_UP gross (- 2) = Inr (Dec (int g) (- 2))"
    and "quantize ROUND_HALF_UP percent (- 4) = Inr (Dec (int p) (- 4))"
    and "quantize ROUND_HALF_UP fixed (- 2) = Inr (Dec (int f) (- 2))"
  shows "\<exists>r. calculate_fee gross currency percent fixed version = Inr r
    \<and> fr_gross_amount r = Dec (int g) (- 2)
    \<and> fr_fee_amount r = Dec (int (fee_cents g p f)) (- 2)
    \<and> fr_net_amount r = Dec (int g - int (fee_cents g p f)) (- 2)
    \<and> 2 * 10 ^ 6 * (fee_cents g p f - f) \<le> 2 * (g * p) + 10 ^ 6
    \<and> 2 * (g * p) < 2 * 10 ^ 6 * (fee_cents g p f - f) + 10 ^ 6"
  using calculate_fee_value [OF assms] div_half_up_near [of "10 ^ 6" "g * p"]
  by (simp add: fee_cents_def)

theorem calculate_fee_exact_witness:
  "\<exists>r. calculate_fee (Dec 9999 (- 2)) ''usd'' (Dec 25 (- 1)) (Dec 0 (- 2)) ''sandbox-v1'' = Inr r
    \<and> fr_gross_amount r = Dec 9999 (- 2)
    \<and> fr_fee_amount r = Dec 250 (- 2)
    \<and> fr_net_amount r = Dec 9749 (- 2)"
proof -
  have q: "quantize ROUND_HALF_UP (Dec 9999 (- 2)) (- 2) = Inr (Dec (int 9999) (- 2))"
    "quantize ROUND_HALF_UP (Dec 25 (- 1)) (- 4) = Inr (Dec (int 25000) (- 4))"
    "quantize ROUND_HALF_UP (Dec 0 (- 2)) (- 2) = Inr (Dec (int 0) (- 2))"
    by (simp_all add: quantize_def rescale_def ndigits.simps PREC_def)
  have "fee_cents 9999 25000 0 = 250" by (simp add: fee_cents_def div_half_up_def)
  then show ?thesis
    using calculate_fee_exact [of "Dec 9999 (- 2)" "Dec 25 (- 1)" 9999 25000 0 "Dec 0 (- 2)"
        "''usd''" "''sandbox-v1''"] q
    by (auto simp: dec_lt0_def)
qed

text \<open>Without a fixed part and with a percentage of at most 100 the merchant never pays more
  than the payment: fee and net amount are both between zero and the gross amount.\<close>

theorem calculate_fee_bounds:
  assumes "\<not> dec_lt0 gross" "\<not> dec_lt0 percent" "p \<le> 10 ^ 6" "g < 10 ^ 20"
    and "quantize ROUND_HALF_UP gross (- 2) = Inr (Dec (int g) (- 2))"
    and "quantize ROUND_HALF_UP percent (- 4) = Inr (Dec (int p) (- 4))"
  shows "\<exists>r. calculate_fee gross currency percent (Dec 0 (- 2)) version = Inr r
    \<and> 0 \<le> coeff (fr_fee_amount r) \<and> coeff (fr_fee_amount r) \<le> coeff (fr_gross_amount r)
    \<and> 0 \<le> coeff (fr_net_amount r)
    \<and> coeff (fr_net_amount r) + coeff (fr_fee_amount r) = coeff (fr_gross_amount r)"
proof -
  have m: "g * p \<le> g * 10 ^ 6" using assms(3) by (rule mult_le_mono2)
  have "g * 10 ^ 6 < 10 ^ 20 * 10 ^ 6" using assms(4) by simp
  with m have "g * p < 10 ^ 20 * 10 ^ 6" by (rule le_less_trans)
  then have b: "g * p < 10 ^ 27" "g < 10 ^ 27" using assms(4) by simp_all
  have z: "quantize ROUND_HALF_UP (Dec 0 (- 2)) (- 2) = Inr (Dec (int 0) (- 2))"
    using quantize_up_zero [of "- 2"] by simp
  have "div_half_up (g * p) (10 ^ 6) \<le> g" using m by (intro div_half_up_le) auto
  then have "fee_cents g p 0 \<le> g" by (simp add: fee_cents_def)
  then show ?thesis
    using calculate_fee_value [OF assms(1,2) b(1,2) _ assms(5,6) z] by simp
qed

theorem calculate_fee_bounds_witness:
  "\<exists>r. calculate_fee (Dec 100 0) ''EUR'' (Dec 100 0) (Dec 0 (- 2)) ''v1'' = Inr r
    \<and> 0 \<le> coeff (fr_fee_amount r) \<and> coeff (fr_fee_amount r) \<le> coeff (fr_gross_amount r)
    \<and> 0 \<le> coeff (fr_net_amount r)
    \<and> coeff (fr_net_amount r) + coeff (fr_fee_amount r) = coeff (fr_gross_amount r)"
proof (rule calculate_fee_bounds [of _ _ "10 ^ 6" "10000"])
  show "quantize ROUND_HALF_UP (Dec 100 0) (- 2) = Inr (Dec (int 10000) (- 2))"
    "quantize ROUND_HALF_UP (Dec 100 0) (- 4) = Inr (Dec (int (10 ^ 6)) (- 4))"
    by (simp_all add: quantize_def rescale_def ndigits.simps PREC_def)
qed (simp_all add: dec_lt0_def)

end
