(* ===== verification/Payouts.thy ===== *)
theory Payouts
  imports Decimals
begin

text \<open>
  Payout eligibility: \<open>src/app/payouts/eligibility.py\<close>. The evaluation is a chain of guards; the
  property says in which cases a payout is pending and that no other status than the three
  reachable ones, and never a confirmed one, comes out.
\<close>

datatype payout_eligibility =
  PAYOUT_NOT_ELIGIBLE | PAYOUT_PENDING | PAYOUT_ON_HOLD | PAYOUT_REQUIRES_REVIEW

record payout_result =
  po_status :: payout_eligibility
  po_reason :: string
  po_network :: string
  po_destination_masked :: "string option"
  po_amount :: "decimal option"
  po_currency :: "string option"
  po_provider_configured :: bool

definition mask_tron :: "string option \<Rightarrow> string option" where
  "mask_tron address =
     (case address of
        None \<Rightarrow> None
      | Some a \<Rightarrow> if a = [] \<or> py_len a < 10 then None
                  else Some (py_take 5 a @ bullet @ bullet @ bullet @ bullet @ py_last 4 a))"

definition evaluate_payout_eligibility ::
  "bool \<Rightarrow> bool \<Rightarrow> string option \<Rightarrow> decimal option \<Rightarrow> string option \<Rightarrow> payout_result" where
  "evaluate_payout_eligibility settlement_confirmed provider_configured destination_address amount currency =
     (let masked = mask_tron destination_address;
          result = (\<lambda>status reason provider.
            \<lparr> po_status = status, po_reason = reason, po_network = ''TRC20'',
              po_destination_masked = masked, po_amount = amount, po_currency = currency,
              po_provider_configured = provider \<rparr>)
      in if \<not> settlement_confirmed
         then result PAYOUT_NOT_ELIGIBLE
                ''Settlement is not confirmed by a licensed processor/acquirer.'' provider_configured
         else if \<not> provider_configured
         then result PAYOUT_NOT_ELIGIBLE
                ''No payout provider is configured. Do not broadcast TRC20 from the POS.'' False
         else if \<not> truthy destination_address
           \<or> \<not> starts_with (or_str destination_address []) ''T''
           \<or> \<not> (30 \<le> py_len (or_str destination_address []) \<and> py_len (or_str destination_address []) \<le> 42)
         then result PAYOUT_REQUIRES_REVIEW ''Destination TRON address is missing or invalid.'' True
         else result PAYOUT_PENDING
                (''Eligible for payout provider submission '' @ em_dash @
                 '' awaiting provider confirmation. Not confirmed on-chain.'') True)"

lemma or_str_truthy: "truthy x \<Longrightarrow> x = Some (or_str x [])"
  by (auto elim: truthyE)

section \<open>Properties\<close>

text \<open>A payout is pending exactly when the settlement is confirmed, a provider is configured and
  the destination is a string of 30 to 42 characters that starts with T; nothing puts it on hold,
  the amount and currency are passed through, and the destination is only shown masked: nine of
  its characters around four bullets.\<close>

theorem payout_pending_iff:
  "let r = evaluate_payout_eligibility sc pc dest amount currency in
    (po_status r = PAYOUT_PENDING \<longleftrightarrow> sc \<and> pc
      \<and> (\<exists>a. dest = Some a \<and> starts_with a ''T'' \<and> 30 \<le> py_len a \<and> py_len a \<le> 42))
    \<and> po_status r \<noteq> PAYOUT_ON_HOLD
    \<and> po_amount r = amount \<and> po_currency r = currency
    \<and> (po_destination_masked r = None \<or> (\<exists>a. dest = Some a \<and>
         po_destination_masked r = Some (py_take 5 a @ concat (replicate 4 bullet) @ py_last 4 a)))"
proof -
  have m: "mask_tron dest = None \<or> (\<exists>a. dest = Some a \<and>
      mask_tron dest = Some (py_take 5 a @ concat (replicate 4 bullet) @ py_last 4 a))"
    by (auto simp: mask_tron_def numeral_eq_Suc split: option.splits)
  have p: "truthy dest \<and> starts_with (or_str dest []) ''T'' \<and> 30 \<le> py_len (or_str dest [])
      \<and> py_len (or_str dest []) \<le> 42
      \<longleftrightarrow> (\<exists>a. dest = Some a \<and> starts_with a ''T'' \<and> 30 \<le> py_len a \<and> py_len a \<le> 42)"
    by (cases dest) (auto simp: or_str_def starts_with_def)
  show ?thesis
    using m by (auto simp: evaluate_payout_eligibility_def Let_def p [symmetric])
qed

end
