(* ===== verification/Config.thy ===== *)
theory Config
  imports Decimals
begin

text \<open>
  \<open>src/app/core/config.py\<close>: the settings the services read, the two model validators, and the
  rewriting of the database URL for the asynchronous and the synchronous driver.

  Settings are a value that every operation takes as an argument (\<open>get_settings\<close> caches one
  instance for the life of the process). \<open>platform_fee_percent\<close> is a float that the code only reads
  through \<open>Decimal(str(...))\<close>; the record holds that decimal. Host names, SMTP and Redis fields are
  left out: no modelled operation reads them.
\<close>

datatype app_env = Development | Testing | Production

record settings =
  app_env :: app_env
  secret_key :: string
  access_token_expire_minutes :: int
  refresh_token_expire_days :: int
  jwt_algorithm :: string
  database_url :: string
  database_url_sync :: string
  rate_limit_per_minute :: int
  auth_rate_limit_per_minute :: int
  enable_api_docs :: "bool option"
  default_payment_gateway :: string
  default_payment_processor :: string
  payment_environment :: string
  payment_provider :: string
  default_exchange_provider :: string
  default_wallet_network :: string
  allowed_currencies :: string
  nowpayments_api_key :: string
  nowpayments_ipn_secret :: string
  nowpayments_pos_verified :: bool
  moyasar_secret_key :: string
  moyasar_webhook_secret :: string
  platform_fee_percent :: decimal
  settlement_currency :: string

section \<open>Database URLs\<close>

definition strip_driver :: "string \<Rightarrow> string" where
  "strip_driver url =
     (let value = strip url;
          value = (if starts_with value ''postgres://''
                   then ''postgresql://'' @ drop (length ''postgres://'') value else value)
      in case find (starts_with value)
                [''postgresql+asyncpg://'', ''postgresql+psycopg://'', ''postgresql+psycopg2://''] of
           Some prefix \<Rightarrow> ''postgresql://'' @ drop (length prefix) value
         | None \<Rightarrow> value)"

fun sanitize_markers :: "string \<Rightarrow> string list \<Rightarrow> string" where
  "sanitize_markers value [] = value"
| "sanitize_markers value (marker # ms) =
     (let head = fst (partition_at marker value) in
      if contains value marker \<and> \<not> starts_with value marker
         \<and> (starts_with head ''postgres://'' \<or> starts_with head ''postgresql://'')
      then rstrip_char (CHR ''/'') head
      else sanitize_markers value ms)"

definition sanitize_database_source :: "string \<Rightarrow> string" where
  "sanitize_database_source url =
     sanitize_markers (strip url)
       [''postgresql+asyncpg://'', ''postgresql+psycopg://'', ''postgres://'', ''postgresql://'']"

definition is_local_db :: "string \<Rightarrow> bool" where
  "is_local_db url =
     (let lowered = lower url in contains lowered ''localhost'' \<or> contains lowered ''127.0.0.1'')"

definition strip_ssl_query_params :: "string \<Rightarrow> string" where
  "strip_ssl_query_params url =
     (if CHR ''?'' \<notin> set url then url
      else case partition_at ''?'' url of (base, query) \<Rightarrow>
        (let kept = filter (\<lambda>part. part \<noteq> [] \<and> \<not> starts_with (lower part) ''ssl=''
                              \<and> \<not> starts_with (lower part) ''sslmode='')
                      (split_on (CHR ''&'') (case query of None \<Rightarrow> [] | Some q \<Rightarrow> q))
         in if kept \<noteq> [] then base @ ''?'' @ join ''&'' kept else base))"

definition with_asyncpg_ssl :: "string \<Rightarrow> string" where
  "with_asyncpg_ssl url =
     (let value = strip_ssl_query_params (strip url) in
      if starts_with value ''sqlite'' \<or> is_local_db value then value
      else if contains (lower value) ''ssl='' then value
      else value @ (if CHR ''?'' \<in> set value then ''&'' else ''?'') @ ''ssl=require'')"

definition with_psycopg_ssl :: "string \<Rightarrow> string" where
  "with_psycopg_ssl url =
     (let value = strip_ssl_query_params (strip url) in
      if starts_with value ''sqlite'' \<or> is_local_db value then value
      else if contains (lower value) ''sslmode='' then value
      else value @ (if CHR ''?'' \<in> set value then ''&'' else ''?'') @ ''sslmode=require'')"

definition as_async_postgres :: "string \<Rightarrow> string" where
  "as_async_postgres url =
     (let value = strip url in
      if starts_with value ''sqlite''
      then (if starts_with value ''sqlite:///''
            then ''sqlite+aiosqlite:///'' @ removeprefix value ''sqlite:///'' else value)
      else ''postgresql+asyncpg://'' @ removeprefix (strip_driver value) ''postgresql://'')"

definition as_sync_postgres :: "string \<Rightarrow> string" where
  "as_sync_postgres url =
     (let value = strip url in
      if starts_with value ''sqlite''
      then (if starts_with value ''sqlite+aiosqlite:///''
            then ''sqlite:///'' @ removeprefix value ''sqlite+aiosqlite:///'' else value)
      else ''postgresql+psycopg://'' @ removeprefix (strip_driver value) ''postgresql://'')"

section \<open>Validators and derived settings\<close>

definition normalize_database_urls :: "settings \<Rightarrow> settings res" where
  "normalize_database_urls s =
     (let async_source = sanitize_database_source (database_url s);
          local = contains (lower async_source) ''localhost'' \<or> contains (lower async_source) ''127.0.0.1''
      in if app_env s = Production \<and> local
         then Inl (ValueError
           (''DATABASE_URL must use Railway Postgres in production '' @
            ''(set to ${{Postgres.DATABASE_URL}} only). Remove localhost URLs.''))
         else
           let sync_source =
                 (if app_env s = Production then async_source
                  else sanitize_database_source
                    (if database_url_sync s \<noteq> [] then database_url_sync s else async_source))
           in Inr (s\<lparr> database_url := as_async_postgres (with_asyncpg_ssl async_source),
                     database_url_sync := as_sync_postgres (with_psycopg_ssl sync_source) \<rparr>))"

definition resolve_payment_processor_alias :: "settings \<Rightarrow> settings" where
  "resolve_payment_processor_alias s =
     (if payment_provider s \<noteq> [] \<and> default_payment_processor s = ''mock_sandbox''
      then (let alias = lower (strip (payment_provider s)) in
            if alias \<in> set [''mock'', ''mock_sandbox'', ''sandbox'', ''certified'', ''certified_psp'', ''acquirer'']
            then s\<lparr> default_payment_processor :=
                      (if alias \<in> set [''mock'', ''sandbox''] then ''mock_sandbox'' else alias) \<rparr>
            else s)
      else s)"

definition load_settings :: "settings \<Rightarrow> settings res" where
  \<comment> \<open>the length of the key, then the two \<open>mode="after"\<close> validators in the order of their definition\<close>
  "load_settings s =
     (if py_len (secret_key s) < 32 then Inl (ValueError ''String should have at least 32 characters'')
      else bindr (normalize_database_urls s) (\<lambda>s'. Inr (resolve_payment_processor_alias s')))"

definition is_production :: "settings \<Rightarrow> bool" where
  "is_production s = (app_env s = Production)"

definition docs_enabled :: "settings \<Rightarrow> bool" where
  "docs_enabled s = (case enable_api_docs s of Some b \<Rightarrow> b | None \<Rightarrow> \<not> is_production s)"

definition supported_currencies :: "settings \<Rightarrow> string set" where
  "supported_currencies s =
     set (map (\<lambda>item. upper (strip item))
       (filter (\<lambda>item. strip item \<noteq> []) (split_on (CHR '','') (allowed_currencies s))))"

section \<open>Facts the services use\<close>

definition default_settings :: settings where
  \<comment> \<open>the defaults of the class, with an SQLite database; the base of every concrete instance\<close>
  "default_settings =
     \<lparr> app_env = Development, secret_key = ''0123456789abcdef0123456789abcdef'', access_token_expire_minutes = 30,
       refresh_token_expire_days = 30, jwt_algorithm = ''HS256'', database_url = ''sqlite:///app.db'', database_url_sync = [],
       rate_limit_per_minute = 120, auth_rate_limit_per_minute = 20, enable_api_docs = None,
       default_payment_gateway = ''sandbox'', default_payment_processor = ''mock_sandbox'',
       payment_environment = ''sandbox'', payment_provider = [],
       default_exchange_provider = ''sandbox'', default_wallet_network = ''trc20'',
       allowed_currencies = ''AED,CAD,EUR,GBP,SAR,USD'', nowpayments_api_key = [],
       nowpayments_ipn_secret = [], nowpayments_pos_verified = False, moyasar_secret_key = [],
       moyasar_webhook_secret = [], platform_fee_percent = Dec 15 (- 1),
       settlement_currency = ''USDT'' \<rparr>"

lemma supported_default:
  "allowed_currencies s = ''AED,CAD,EUR,GBP,SAR,USD'' \<Longrightarrow>
     supported_currencies s = {''AED'', ''CAD'', ''EUR'', ''GBP'', ''SAR'', ''USD''}"
proof -
  assume a: "allowed_currencies s = ''AED,CAD,EUR,GBP,SAR,USD''"
  have "supported_currencies default_settings = {''AED'', ''CAD'', ''EUR'', ''GBP'', ''SAR'', ''USD''}"
    by code_simp
  then show ?thesis using a by (simp add: supported_currencies_def default_settings_def)
qed

lemma as_postgres_driver:
  "starts_with (as_async_postgres u) ''sqlite'' \<or> starts_with (as_async_postgres u) ''postgresql+asyncpg://''"
  "starts_with (as_sync_postgres u) ''sqlite'' \<or> starts_with (as_sync_postgres u) ''postgresql+psycopg://''"
  by (auto simp: as_async_postgres_def as_sync_postgres_def Let_def starts_with_iff)

lemma normalize_database_urls_Inr:
  "normalize_database_urls s = Inr s' \<Longrightarrow>
     app_env s' = app_env s \<and> (\<exists>u. database_url s' = as_async_postgres u)
     \<and> (\<exists>u. database_url_sync s' = as_sync_postgres u)
     \<and> \<not> (app_env s = Production \<and> is_local_db (sanitize_database_source (database_url s)))"
  by (auto simp: normalize_database_urls_def Let_def is_local_db_def split: if_splits)

section \<open>Properties\<close>

text \<open>Loading the settings: in production a database URL that names the local host is refused, and
  a key of fewer than 32 characters everywhere; otherwise both URLs name the driver they are for (or SQLite), and the processor alias has been
  resolved: a legacy name \<open>mock\<close> or \<open>sandbox\<close> never reaches the processor factory as an alias.\<close>

theorem load_settings_spec:
  assumes "load_settings s = Inr t"
  shows "(app_env t = app_env s)
    \<and> (starts_with (database_url t) ''sqlite'' \<or> starts_with (database_url t) ''postgresql+asyncpg://'')
    \<and> (starts_with (database_url_sync t) ''sqlite''
        \<or> starts_with (database_url_sync t) ''postgresql+psycopg://'')
    \<and> \<not> (app_env s = Production \<and> is_local_db (sanitize_database_source (database_url s)))
    \<and> 32 \<le> py_len (secret_key s) \<and> resolve_payment_processor_alias t = t"
proof -
  have key: "32 \<le> py_len (secret_key s)" using assms by (simp add: load_settings_def not_less [symmetric] split: if_splits)
  from assms obtain s' where n: "normalize_database_urls s = Inr s'"
    and t: "t = resolve_payment_processor_alias s'"
    by (auto simp: load_settings_def bindr_Inr_iff split: if_splits)
  have "resolve_payment_processor_alias t = t"
    unfolding t by (auto simp: resolve_payment_processor_alias_def Let_def)
  moreover have "app_env t = app_env s'" "database_url t = database_url s'"
    "database_url_sync t = database_url_sync s'"
    unfolding t by (auto simp: resolve_payment_processor_alias_def Let_def)
  ultimately show ?thesis
    using normalize_database_urls_Inr [OF n] as_postgres_driver key by metis
qed

definition railway_settings :: settings where
  "railway_settings = default_settings\<lparr> app_env := Production,
     database_url := ''postgres://u:p@db.railway.internal:5432/railway?sslmode=disable'',
     payment_provider := '' Acquirer '' \<rparr>"

theorem load_settings_spec_witness:
  "\<exists>t. load_settings railway_settings = Inr t
    \<and> database_url t = ''postgresql+asyncpg://u:p@db.railway.internal:5432/railway?ssl=require''
    \<and> database_url_sync t = ''postgresql+psycopg://u:p@db.railway.internal:5432/railway?sslmode=require''
    \<and> default_payment_processor t = ''acquirer''
    \<and> resolve_payment_processor_alias t = t"
proof -
  define t where "t = resolve_payment_processor_alias (case normalize_database_urls railway_settings of Inr x \<Rightarrow> x)"
  have l: "load_settings railway_settings = Inr t" unfolding t_def by code_simp
  have "database_url t = ''postgresql+asyncpg://u:p@db.railway.internal:5432/railway?ssl=require''
    \<and> database_url_sync t = ''postgresql+psycopg://u:p@db.railway.internal:5432/railway?sslmode=require''
    \<and> default_payment_processor t = ''acquirer''" unfolding t_def by code_simp
  with l load_settings_spec [OF l] show ?thesis by blast
qed

end
