(* ===== verification/Processors.thy ===== *)
theory Processors
  imports Config Terminal_States Protocols
begin

text \<open>
  Card-present processors: \<open>src/app/processors/\<close> (\<open>base.py\<close>, \<open>mock_processor.py\<close>,
  \<open>adapters/unconfigured_certified.py\<close>, \<open>factory.py\<close>).

  A processor object is a value of \<open>processor\<close>: the mock with its store, or the certified stub,
  which blocks every call. A method takes the object and returns the object after the call with
  the result, or the exception (no method changes the object before it raises). The random hex
  strings of \<open>uuid4\<close> are arguments. The abstract class is the locale \<open>payment_processor\<close>: what
  a client may rely on; it is interpreted on both implementations and on the dispatch over them.
  The factory keeps a registry of classes and a cache of instances; a client holds the cache key
  of the object it got.
\<close>

section \<open>Results\<close>

record processor_result =
  rs_transaction_id :: string
  rs_amount_minor :: int
  rs_currency :: string
  rs_status :: string
  rs_authorization_code :: "string option"
  rs_processor_reference :: string
  rs_signature_required :: bool
  rs_message :: "string option"
  rs_sandbox :: bool
  rs_card_brand :: "string option"
  rs_card_last4 :: "string option"
  rs_environment :: string

definition ProcessorResult ::
  "string \<Rightarrow> int \<Rightarrow> string \<Rightarrow> string \<Rightarrow> string option \<Rightarrow> string \<Rightarrow> string \<Rightarrow> processor_result" where
  \<comment> \<open>the constructor with the message given and the other defaults\<close>
  "ProcessorResult transaction_id amount_minor currency status authorization_code reference message =
     \<lparr> rs_transaction_id = transaction_id, rs_amount_minor = amount_minor, rs_currency = currency,
       rs_status = status, rs_authorization_code = authorization_code,
       rs_processor_reference = reference, rs_signature_required = False,
       rs_message = Some message, rs_sandbox = True, rs_card_brand = Some ''VISA'',
       rs_card_last4 = Some ''1111'', rs_environment = ''SANDBOX'' \<rparr>"

section \<open>The mock processor\<close>

type_synonym mock_store = "string \<rightharpoonup> processor_result"

definition resolve_scenario :: "int \<Rightarrow> string \<Rightarrow> string \<Rightarrow> string" where
  "resolve_scenario amount_minor token outcome =
     (if contains token ''declined'' then ''declined''
      else if contains token ''timeout'' then ''timeout''
      else if contains token ''error'' then ''error''
      else if amount_minor mod 100 = 13 then ''declined''
      else if amount_minor mod 100 = 99 then ''timeout''
      else if amount_minor mod 100 = 77 then ''error''
      else if outcome = ''signature'' then ''signature''
      else ''success'')"

definition test_code :: "string \<Rightarrow> string" where
  "test_code hex = ''TEST-'' @ upper (take 6 hex)"

definition mock_authorize ::
  "mock_store \<Rightarrow> string \<Rightarrow> int \<Rightarrow> string \<Rightarrow> string \<Rightarrow> string \<Rightarrow> string option \<Rightarrow> string \<Rightarrow> string
    \<Rightarrow> (mock_store \<times> processor_result) res" where
  "mock_authorize store session_id amount_minor currency sandbox_outcome token scenario hex_ref hex_code =
     (if \<not> starts_with token ''pm_'' then Inl (ValueError (''token required '' @ em_dash @ '' never send raw PAN/CVV''))
      else
        let sc = or_str scenario (resolve_scenario amount_minor token sandbox_outcome);
            ref = ''sbx_'' @ take 16 hex_ref;
            result =
              (if sc = ''declined'' then
                 ProcessorResult session_id amount_minor currency ''DECLINED'' None ref ''Sandbox declined''
               else if sc = ''timeout'' then
                 ProcessorResult session_id amount_minor currency ''TIMEOUT'' None ref ''Sandbox timeout''
               else if sc = ''error'' then
                 ProcessorResult session_id amount_minor currency ''ERROR'' None ref ''Sandbox processor error''
               else if sc = ''cancelled'' then
                 ProcessorResult session_id amount_minor currency ''CANCELLED'' None ref ''Sandbox cancelled''
               else if sc = ''signature'' \<or> sandbox_outcome = ''signature'' then
                 (ProcessorResult session_id amount_minor currency ''APPROVED'' (Some (test_code hex_code)) ref
                    (''Approved '' @ em_dash @ '' signature required (SANDBOX)''))\<lparr> rs_signature_required := True \<rparr>
               else
                 ProcessorResult session_id amount_minor currency ''APPROVED'' (Some (test_code hex_code)) ref
                   ''Approved (SANDBOX)'')
        in Inr (store(ref \<mapsto> result), result))"

definition mock_capture ::
  "mock_store \<Rightarrow> string \<Rightarrow> string \<Rightarrow> int \<Rightarrow> string \<Rightarrow> string \<Rightarrow> (mock_store \<times> processor_result) res" where
  "mock_capture store session_id ref amount_minor currency hex_code =
     (case store ref of
        None \<Rightarrow> Inl (KeyError ''Unknown processor reference'')
      | Some prior \<Rightarrow>
          if rs_status prior \<noteq> ''APPROVED'' then Inl (ValueError (''Cannot capture from status '' @ rs_status prior))
          else
            let result =
              (ProcessorResult session_id amount_minor currency ''APPROVED''
                 (Some (or_str (rs_authorization_code prior) (test_code hex_code))) ref ''Captured (SANDBOX)'')
              \<lparr> rs_card_brand := rs_card_brand prior, rs_card_last4 := rs_card_last4 prior \<rparr>
            in Inr (store(ref \<mapsto> result), result))"

definition mock_void_transaction ::
  "mock_store \<Rightarrow> string \<Rightarrow> string \<Rightarrow> (mock_store \<times> processor_result) res" where
  "mock_void_transaction store session_id ref =
     (case store ref of
        None \<Rightarrow> Inl (KeyError ''Unknown processor reference'')
      | Some prior \<Rightarrow>
          let result =
            (ProcessorResult session_id (rs_amount_minor prior) (rs_currency prior) ''CANCELLED''
               (rs_authorization_code prior) ref ''Voided (SANDBOX)'')
            \<lparr> rs_card_brand := rs_card_brand prior, rs_card_last4 := rs_card_last4 prior \<rparr>
          in Inr (store(ref \<mapsto> result), result))"

definition mock_refund ::
  "mock_store \<Rightarrow> string \<Rightarrow> string \<Rightarrow> int \<Rightarrow> string \<Rightarrow> string \<Rightarrow> string
    \<Rightarrow> (mock_store \<times> processor_result) res" where
  "mock_refund store session_id processor_reference amount_minor currency hex_ref hex_code =
     (case store processor_reference of
        None \<Rightarrow> Inl (KeyError ''Unknown processor reference'')
      | Some prior \<Rightarrow>
          let ref = ''sbx_rf_'' @ take 12 hex_ref;
              result =
                (ProcessorResult session_id amount_minor currency ''APPROVED'' (Some (test_code hex_code)) ref
                   ''Refunded (SANDBOX)'')
                \<lparr> rs_card_brand := rs_card_brand prior, rs_card_last4 := rs_card_last4 prior \<rparr>
          in Inr (store(ref \<mapsto> result), result))"

definition mock_complete_authorization ::
  "mock_store \<Rightarrow> string \<Rightarrow> string \<Rightarrow> int \<Rightarrow> string \<Rightarrow> string \<Rightarrow> (mock_store \<times> processor_result) res" where
  "mock_complete_authorization store session_id ref amount_minor currency hex_code =
     (case store ref of
        None \<Rightarrow> Inl (KeyError ''Unknown processor reference'')
      | Some prior \<Rightarrow>
          let result =
            (ProcessorResult session_id amount_minor currency ''APPROVED''
               (Some (or_str (rs_authorization_code prior) (test_code hex_code))) ref
               ''Authorization completed (SANDBOX)'')
            \<lparr> rs_card_brand := rs_card_brand prior, rs_card_last4 := rs_card_last4 prior \<rparr>
          in Inr (store(ref \<mapsto> result), result))"

definition mock_get_transaction_status :: "mock_store \<Rightarrow> string \<Rightarrow> processor_result res" where
  "mock_get_transaction_status store ref =
     (case store ref of
        None \<Rightarrow> Inl (KeyError ''Unknown processor reference'')
      | Some prior \<Rightarrow> Inr prior)"

definition simulate_terminal_authorize_flow ::
  "int \<Rightarrow> string \<Rightarrow> string \<Rightarrow> string option \<Rightarrow> string \<Rightarrow> string
    \<Rightarrow> (terminal_state \<times> processor_result) res" where
  "simulate_terminal_authorize_flow amount_minor currency sandbox_outcome scenario hex_ref hex_code =
     bindr (transition T_CREATED T_AMOUNT_ENTERED) (\<lambda>state.
     bindr (transition state T_PROTOCOL_SELECTED) (\<lambda>state.
     bindr (transition state T_CARD_PRESENTED) (\<lambda>state.
     bindr (transition state T_AUTHORIZING) (\<lambda>state.
     bindr (mock_authorize Map.empty ''test-session'' amount_minor currency sandbox_outcome
              ''pm_test_visa_success'' scenario hex_ref hex_code) (\<lambda>(_, result).
     bindr
       (if rs_status result = ''APPROVED'' then
          bindr (transition state T_APPROVED) (\<lambda>state.
          if sandbox_outcome \<in> set [''capture'', ''force_post''] then
            bindr (transition state T_CAPTURED) (\<lambda>state. transition state T_COMPLETED)
          else if sandbox_outcome = ''completion'' then transition state T_COMPLETED
          else Inr state)
        else if rs_status result = ''DECLINED'' then transition state T_DECLINED
        else if rs_status result \<in> set [''TIMEOUT'', ''ERROR''] then transition state T_FAILED
        else if rs_status result = ''CANCELLED'' then transition state T_CANCELLED
        else Inr state)
       (\<lambda>state. Inr (state, result)))))))"

section \<open>The certified stub and the dispatch\<close>

definition blocked :: exc where
  "blocked = AppException
     (''Certified PSP/acquirer is not configured. '' @
      ''Terminal sessions use mock_sandbox only. '' @
      ''Do not claim live Visa/Mastercard acquiring until a licensed adapter '' @
      ''and credentials are provisioned.'') 503"

datatype processor_class = MockPaymentProcessor | UnconfiguredCertifiedPaymentProcessor

datatype processor = Mock mock_store | Certified

fun new_processor :: "processor_class \<Rightarrow> processor" where
  "new_processor MockPaymentProcessor = Mock Map.empty"
| "new_processor UnconfiguredCertifiedPaymentProcessor = Certified"

definition lift_mock :: "(mock_store \<times> processor_result) res \<Rightarrow> (processor \<times> processor_result) res" where
  "lift_mock r = bindr r (\<lambda>(s, x). Inr (Mock s, x))"

definition processor_authorize ::
  "processor \<Rightarrow> string \<Rightarrow> int \<Rightarrow> string \<Rightarrow> string \<Rightarrow> string \<Rightarrow> string option \<Rightarrow> string \<Rightarrow> string
    \<Rightarrow> (processor \<times> processor_result) res" where
  "processor_authorize p sid amt cur outcome token scenario h1 h2 =
     (case p of Mock s \<Rightarrow> lift_mock (mock_authorize s sid amt cur outcome token scenario h1 h2)
      | Certified \<Rightarrow> Inl blocked)"

definition processor_capture ::
  "processor \<Rightarrow> string \<Rightarrow> string \<Rightarrow> int \<Rightarrow> string \<Rightarrow> string \<Rightarrow> (processor \<times> processor_result) res" where
  "processor_capture p sid ref amt cur h =
     (case p of Mock s \<Rightarrow> lift_mock (mock_capture s sid ref amt cur h) | Certified \<Rightarrow> Inl blocked)"

definition processor_void ::
  "processor \<Rightarrow> string \<Rightarrow> string \<Rightarrow> (processor \<times> processor_result) res" where
  "processor_void p sid ref =
     (case p of Mock s \<Rightarrow> lift_mock (mock_void_transaction s sid ref) | Certified \<Rightarrow> Inl blocked)"

definition processor_refund ::
  "processor \<Rightarrow> string \<Rightarrow> string \<Rightarrow> int \<Rightarrow> string \<Rightarrow> string \<Rightarrow> string \<Rightarrow> (processor \<times> processor_result) res" where
  "processor_refund p sid ref amt cur h1 h2 =
     (case p of Mock s \<Rightarrow> lift_mock (mock_refund s sid ref amt cur h1 h2) | Certified \<Rightarrow> Inl blocked)"

definition processor_complete_authorization ::
  "processor \<Rightarrow> string \<Rightarrow> string \<Rightarrow> int \<Rightarrow> string \<Rightarrow> string \<Rightarrow> (processor \<times> processor_result) res" where
  "processor_complete_authorization p sid ref amt cur h =
     (case p of Mock s \<Rightarrow> lift_mock (mock_complete_authorization s sid ref amt cur h)
      | Certified \<Rightarrow> Inl blocked)"

definition processor_status :: "processor \<Rightarrow> string \<Rightarrow> processor_result res" where
  "processor_status p ref =
     (case p of Mock s \<Rightarrow> mock_get_transaction_status s ref | Certified \<Rightarrow> Inl blocked)"

fun processor_name :: "processor \<Rightarrow> string" where
  "processor_name (Mock _) = ''mock_sandbox''"
| "processor_name Certified = ''certified_unconfigured''"

fun processor_is_sandbox :: "processor \<Rightarrow> bool" where
  "processor_is_sandbox (Mock _) = True"
| "processor_is_sandbox Certified = True"

fun processor_environment :: "processor \<Rightarrow> string" where
  "processor_environment (Mock _) = ''SANDBOX''"
| "processor_environment Certified = ''SANDBOX''"

definition describe :: "processor \<Rightarrow> dict" where
  "describe p =
     [(''name'', JStr (processor_name p)),
      (''is_sandbox'', JBool (processor_is_sandbox p)),
      (''environment'', JStr (processor_environment p)),
      (''live_acquiring'',
        JBool (if processor_is_sandbox p then False else processor_environment p = ''PRODUCTION''))]"

section \<open>The factory\<close>

record processor_factory =
  pf_registry :: "(string \<times> processor_class) list"
  pf_instances :: "string \<rightharpoonup> processor"

definition REGISTRY :: "(string \<times> processor_class) list" where
  "REGISTRY =
     [(''mock'', MockPaymentProcessor), (''mock_sandbox'', MockPaymentProcessor),
      (''sandbox'', MockPaymentProcessor), (''certified'', UnconfiguredCertifiedPaymentProcessor),
      (''certified_psp'', UnconfiguredCertifiedPaymentProcessor),
      (''certified_unconfigured'', UnconfiguredCertifiedPaymentProcessor),
      (''acquirer'', UnconfiguredCertifiedPaymentProcessor)]"

definition initial_factory :: processor_factory where
  "initial_factory = \<lparr> pf_registry = REGISTRY, pf_instances = Map.empty \<rparr>"

definition register_payment_processor ::
  "string \<Rightarrow> processor_class \<Rightarrow> processor_factory \<Rightarrow> processor_factory" where
  "register_payment_processor provider cls f =
     f\<lparr> pf_registry := AList.update (lower provider) cls (pf_registry f),
        pf_instances := (pf_instances f)(lower provider := None) \<rparr>"

definition reset_processor_instances :: "processor_factory \<Rightarrow> processor_factory" where
  "reset_processor_instances f = f\<lparr> pf_instances := Map.empty \<rparr>"

definition get_payment_processor ::
  "settings \<Rightarrow> string option \<Rightarrow> processor_factory \<Rightarrow> (processor_factory \<times> string) res" where
  \<comment> \<open>the factory after the call and the cache key of the object returned\<close>
  "get_payment_processor st provider f =
     (let key = strip (lower (or_str provider (default_payment_processor st))) in
      if lower (payment_environment st) = ''production''
         \<and> key \<in> set [''mock'', ''mock_sandbox'', ''sandbox'', ''certified'', ''certified_psp'',
                      ''certified_unconfigured'', ''acquirer'']
      then Inl (AppException
        (''PAYMENT_ENVIRONMENT=production requires a licensed certified adapter '' @
         ''(not mock_sandbox / unconfigured stubs).'') 500)
      else case map_of (pf_registry f) key of
        None \<Rightarrow> Inl (AppException
          (''Payment processor '' @ [CHR 0x27] @ key @ [CHR 0x27] @ '' is not registered. '' @
           ''Use mock_sandbox until a certified PSP adapter is provisioned.'') 500)
      | Some cls \<Rightarrow>
          Inr (case pf_instances f key of
                 Some _ \<Rightarrow> f
               | None \<Rightarrow> f\<lparr> pf_instances := (pf_instances f)(key \<mapsto> new_processor cls) \<rparr>, key))"

definition get_mock_processor :: "settings \<Rightarrow> processor_factory \<Rightarrow> (processor_factory \<times> string) res" where
  "get_mock_processor st f = get_payment_processor st (Some ''mock_sandbox'') f"

section \<open>What a client may rely on\<close>

locale payment_processor =
  fixes authorize :: "'p \<Rightarrow> string \<Rightarrow> int \<Rightarrow> string \<Rightarrow> string \<Rightarrow> string \<Rightarrow> string option \<Rightarrow> string \<Rightarrow> string
      \<Rightarrow> ('p \<times> processor_result) res"
    and capture :: "'p \<Rightarrow> string \<Rightarrow> string \<Rightarrow> int \<Rightarrow> string \<Rightarrow> string \<Rightarrow> ('p \<times> processor_result) res"
    and void_transaction :: "'p \<Rightarrow> string \<Rightarrow> string \<Rightarrow> ('p \<times> processor_result) res"
    and refund :: "'p \<Rightarrow> string \<Rightarrow> string \<Rightarrow> int \<Rightarrow> string \<Rightarrow> string \<Rightarrow> string \<Rightarrow> ('p \<times> processor_result) res"
    and status :: "'p \<Rightarrow> string \<Rightarrow> processor_result res"
  assumes authorize_recorded:
      "authorize p sid amt cur oc tok sc h1 h2 = Inr (p', r) \<Longrightarrow> status p' (rs_processor_reference r) = Inr r"
    and authorize_echo:
      "authorize p sid amt cur oc tok sc h1 h2 = Inr (p', r) \<Longrightarrow>
         rs_transaction_id r = sid \<and> rs_amount_minor r = amt \<and> rs_currency r = cur"
    and authorize_token:
      "authorize p sid amt cur oc tok sc h1 h2 = Inr (p', r) \<Longrightarrow> starts_with tok ''pm_''"
    and authorize_code:
      "authorize p sid amt cur oc tok sc h1 h2 = Inr (p', r) \<Longrightarrow>
         (rs_status r = ''APPROVED'' \<longleftrightarrow> truthy (rs_authorization_code r))"
    and authorize_frame:
      "authorize p sid amt cur oc tok sc h1 h2 = Inr (p', r) \<Longrightarrow> ref \<noteq> rs_processor_reference r \<Longrightarrow>
         status p' ref = status p ref"
    and capture_iff:
      "is_ok (capture p sid ref amt cur h) \<longleftrightarrow>
         (\<exists>q. status p ref = Inr q \<and> rs_status q = ''APPROVED'')"
    and capture_recorded:
      "capture p sid ref amt cur h = Inr (p', r) \<Longrightarrow>
         status p' ref = Inr r \<and> rs_processor_reference r = ref \<and> rs_status r = ''APPROVED''
         \<and> rs_amount_minor r = amt \<and> rs_currency r = cur"
    and capture_code:
      "capture p sid ref amt cur h = Inr (p', r) \<Longrightarrow> status p ref = Inr q \<Longrightarrow>
         truthy (rs_authorization_code q) \<Longrightarrow> rs_authorization_code r = rs_authorization_code q"
    and capture_frame:
      "capture p sid ref amt cur h = Inr (p', r) \<Longrightarrow> ref' \<noteq> ref \<Longrightarrow> status p' ref' = status p ref'"
    and void_known:
      "void_transaction p sid ref = Inr (p', r) \<Longrightarrow> is_ok (status p ref)"
    and void_recorded:
      "void_transaction p sid ref = Inr (p', r) \<Longrightarrow>
         status p' ref = Inr r \<and> rs_status r = ''CANCELLED'' \<and> rs_processor_reference r = ref"
    and void_frame:
      "void_transaction p sid ref = Inr (p', r) \<Longrightarrow> ref' \<noteq> ref \<Longrightarrow> status p' ref' = status p ref'"
    and refund_known:
      "refund p sid ref amt cur h1 h2 = Inr (p', r) \<Longrightarrow> is_ok (status p ref)"
    and refund_frame:
      "refund p sid ref amt cur h1 h2 = Inr (p', r) \<Longrightarrow> ref' \<noteq> rs_processor_reference r \<Longrightarrow>
         status p' ref' = status p ref'"
begin

text \<open>An approved authorization can be captured, and the capture keeps its code.\<close>

lemma authorize_then_capture:
  assumes "authorize p sid amt cur oc tok sc h1 h2 = Inr (p', r)" "rs_status r = ''APPROVED''"
  shows "\<exists>p'' r'. capture p' sid (rs_processor_reference r) amt' cur' h = Inr (p'', r')
    \<and> rs_authorization_code r' = rs_authorization_code r
    \<and> rs_amount_minor r' = amt' \<and> status p'' (rs_processor_reference r) = Inr r'"
proof -
  have st: "status p' (rs_processor_reference r) = Inr r" using assms(1) by (rule authorize_recorded)
  then have "is_ok (capture p' sid (rs_processor_reference r) amt' cur' h)"
    using assms(2) capture_iff by blast
  then obtain p'' r' where c: "capture p' sid (rs_processor_reference r) amt' cur' h = Inr (p'', r')"
    by (auto simp: is_ok_iff)
  have "truthy (rs_authorization_code r)" using authorize_code [OF assms(1)] assms(2) by simp
  then show ?thesis using c capture_recorded [OF c] capture_code [OF c st] by blast
qed

text \<open>What was not approved, and what was voided, cannot be captured.\<close>

lemma no_capture_unapproved:
  assumes "authorize p sid amt cur oc tok sc h1 h2 = Inr (p', r)" "rs_status r \<noteq> ''APPROVED''"
  shows "\<not> is_ok (capture p' sid' (rs_processor_reference r) amt' cur' h)"
  using authorize_recorded [OF assms(1)] assms(2) by (auto simp: capture_iff)

lemma void_not_capturable:
  assumes "void_transaction p sid ref = Inr (p', r)"
  shows "\<not> is_ok (capture p' sid' ref amt cur h)"
  using void_recorded [OF assms] by (auto simp: capture_iff)

text \<open>A cancelled reference stays cancelled under every call that does not draw it anew.\<close>

lemma cancelled_kept:
  assumes "status p ref = Inr q" "rs_status q = ''CANCELLED''"
  shows "authorize p sid amt cur oc tok sc h1 h2 = Inr (p', r) \<Longrightarrow> rs_processor_reference r \<noteq> ref \<Longrightarrow>
      status p' ref = Inr q"
    and "capture p sid ref' amt cur h = Inr (p', r) \<Longrightarrow> status p' ref = Inr q"
    and "void_transaction p sid ref' = Inr (p', r) \<Longrightarrow>
      \<exists>q. status p' ref = Inr q \<and> rs_status q = ''CANCELLED''"
    and "refund p sid ref' amt cur h1 h2 = Inr (p', r) \<Longrightarrow> rs_processor_reference r \<noteq> ref \<Longrightarrow>
      status p' ref = Inr q"
proof -
  show "status p' ref = Inr q"
    if "authorize p sid amt cur oc tok sc h1 h2 = Inr (p', r)" "rs_processor_reference r \<noteq> ref"
    using authorize_frame [OF that(1)] that(2) assms(1) by metis
  show "status p' ref = Inr q" if c: "capture p sid ref' amt cur h = Inr (p', r)"
  proof -
    have "is_ok (capture p sid ref' amt cur h)" by (simp add: c)
    then have "ref' \<noteq> ref" using assms by (auto simp: capture_iff)
    then show ?thesis using capture_frame [OF c] assms(1) by metis
  qed
  show "\<exists>q. status p' ref = Inr q \<and> rs_status q = ''CANCELLED''"
    if "void_transaction p sid ref' = Inr (p', r)"
    using void_recorded [OF that] void_frame [OF that] assms by metis
  show "status p' ref = Inr q"
    if "refund p sid ref' amt cur h1 h2 = Inr (p', r)" "rs_processor_reference r \<noteq> ref"
    using refund_frame [OF that(1)] that(2) assms(1) by metis
qed

end

section \<open>The implementations keep the contract\<close>

lemma mock_authorize_Inr:
  "mock_authorize s sid amt cur oc tok sc h1 h2 = Inr (s', r) \<Longrightarrow>
     starts_with tok ''pm_'' \<and> s' = s(rs_processor_reference r \<mapsto> r)
     \<and> rs_processor_reference r = ''sbx_'' @ take 16 h1
     \<and> rs_transaction_id r = sid \<and> rs_amount_minor r = amt \<and> rs_currency r = cur
     \<and> (rs_status r = ''APPROVED'' \<longleftrightarrow> truthy (rs_authorization_code r))"
  by (auto simp: mock_authorize_def Let_def ProcessorResult_def test_code_def split: if_splits)

lemma mock_capture_Inr:
  "mock_capture s sid ref amt cur h = Inr (s', r) \<longleftrightarrow>
     (\<exists>q. s ref = Some q \<and> rs_status q = ''APPROVED'' \<and> s' = s(ref \<mapsto> r)
      \<and> r = (ProcessorResult sid amt cur ''APPROVED''
               (Some (or_str (rs_authorization_code q) (test_code h))) ref ''Captured (SANDBOX)'')
              \<lparr> rs_card_brand := rs_card_brand q, rs_card_last4 := rs_card_last4 q \<rparr>)"
  by (auto simp: mock_capture_def Let_def split: option.splits)

lemma mock_void_Inr:
  "mock_void_transaction s sid ref = Inr (s', r) \<Longrightarrow>
     s ref \<noteq> None \<and> s' = s(ref \<mapsto> r) \<and> rs_status r = ''CANCELLED'' \<and> rs_processor_reference r = ref"
  by (auto simp: mock_void_transaction_def Let_def ProcessorResult_def split: option.splits)

lemma mock_refund_Inr:
  "mock_refund s sid ref amt cur h1 h2 = Inr (s', r) \<Longrightarrow>
     s ref \<noteq> None \<and> s' = s(rs_processor_reference r \<mapsto> r) \<and> rs_status r = ''APPROVED''"
  by (auto simp: mock_refund_def Let_def ProcessorResult_def split: option.splits)

lemma mock_status_Inr [simp]: "mock_get_transaction_status s ref = Inr q \<longleftrightarrow> s ref = Some q"
  by (auto simp: mock_get_transaction_status_def split: option.splits)

lemma mock_status_cong: "s ref = s' ref \<Longrightarrow> mock_get_transaction_status s ref = mock_get_transaction_status s' ref"
  by (simp add: mock_get_transaction_status_def)

lemma mock_capture_ok:
  "is_ok (mock_capture s sid ref amt cur h) \<longleftrightarrow> (\<exists>q. s ref = Some q \<and> rs_status q = ''APPROVED'')"
  by (auto simp: mock_capture_def Let_def split: option.splits)

interpretation mock: payment_processor mock_authorize mock_capture mock_void_transaction mock_refund
  mock_get_transaction_status
proof
  fix s sid amt cur oc tok sc h1 h2 s' r
  assume "mock_authorize s sid amt cur oc tok sc h1 h2 = Inr (s', r)"
  note a = mock_authorize_Inr [OF this]
  show "mock_get_transaction_status s' (rs_processor_reference r) = Inr r" using a by simp
  show "rs_transaction_id r = sid \<and> rs_amount_minor r = amt \<and> rs_currency r = cur" using a by simp
  show "starts_with tok ''pm_''" using a by simp
  show "rs_status r = ''APPROVED'' \<longleftrightarrow> truthy (rs_authorization_code r)" using a by simp
  show "mock_get_transaction_status s' ref = mock_get_transaction_status s ref"
    if "ref \<noteq> rs_processor_reference r" for ref using a that by (simp add: mock_get_transaction_status_def)
next
  fix s sid ref amt cur h
  show "is_ok (mock_capture s sid ref amt cur h) \<longleftrightarrow>
      (\<exists>q. mock_get_transaction_status s ref = Inr q \<and> rs_status q = ''APPROVED'')"
    by (simp add: mock_capture_ok)
next
  fix s sid ref amt cur h s' r
  assume c: "mock_capture s sid ref amt cur h = Inr (s', r)"
  then show "mock_get_transaction_status s' ref = Inr r \<and> rs_processor_reference r = ref
      \<and> rs_status r = ''APPROVED'' \<and> rs_amount_minor r = amt \<and> rs_currency r = cur"
    by (auto simp: mock_capture_Inr ProcessorResult_def)
  show "mock_get_transaction_status s' ref' = mock_get_transaction_status s ref'"
    if "ref' \<noteq> ref" for ref'
    using c that by (auto simp: mock_capture_Inr mock_get_transaction_status_def)
  show "rs_authorization_code r = rs_authorization_code q"
    if "mock_get_transaction_status s ref = Inr q" "truthy (rs_authorization_code q)" for q
    using c that by (auto simp: mock_capture_Inr ProcessorResult_def elim: truthyE)
next
  fix s sid ref s' r
  assume "mock_void_transaction s sid ref = Inr (s', r)"
  note v = mock_void_Inr [OF this]
  show "is_ok (mock_get_transaction_status s ref)" using v by (auto simp: is_ok_iff)
  show "mock_get_transaction_status s' ref = Inr r \<and> rs_status r = ''CANCELLED''
      \<and> rs_processor_reference r = ref" using v by simp
  show "mock_get_transaction_status s' ref' = mock_get_transaction_status s ref'"
    if "ref' \<noteq> ref" for ref' using v that by (simp add: mock_get_transaction_status_def)
next
  fix s sid ref amt cur h1 h2 s' r
  assume "mock_refund s sid ref amt cur h1 h2 = Inr (s', r)"
  note v = mock_refund_Inr [OF this]
  show "is_ok (mock_get_transaction_status s ref)" using v by (auto simp: is_ok_iff)
  show "mock_get_transaction_status s' ref' = mock_get_transaction_status s ref'"
    if "ref' \<noteq> rs_processor_reference r" for ref' using v that by (simp add: mock_get_transaction_status_def)
qed

text \<open>The stub never succeeds, so it keeps every law.\<close>

interpretation certified: payment_processor
  "\<lambda>_ _ _ _ _ _ _ _ _. Inl blocked :: (unit \<times> processor_result) res" "\<lambda>_ _ _ _ _ _. Inl blocked"
  "\<lambda>_ _ _. Inl blocked" "\<lambda>_ _ _ _ _ _ _. Inl blocked" "\<lambda>_ _. Inl blocked"
  by unfold_locales simp_all

lemmas processor_defs =
  processor_authorize_def processor_capture_def processor_void_def processor_refund_def
  processor_status_def processor_complete_authorization_def

lemma lift_mock_Inr: "lift_mock r = Inr (p, x) \<longleftrightarrow> (\<exists>s. r = Inr (s, x) \<and> p = Mock s)"
  by (auto simp: lift_mock_def bindr_Inr_iff)

lemma is_ok_lift_mock [simp]: "is_ok (lift_mock r) \<longleftrightarrow> is_ok r"
  by (cases r) (auto simp: lift_mock_def)

interpretation prc: payment_processor processor_authorize processor_capture processor_void
  processor_refund processor_status
proof (unfold_locales, goal_cases)
  case (5 p sid amt cur oc tok sc h1 h2 p' r ref)
  then show ?case using mock.authorize_frame
    by (auto simp: processor_defs lift_mock_Inr split: processor.splits)
next
  case (6 p sid ref amt cur h)
  then show ?case using mock.capture_iff by (auto simp: processor_defs split: processor.splits)
next
  case (8 p sid ref amt cur h p' r q)
  then show ?case using mock.capture_code
    by (auto simp: processor_defs lift_mock_Inr split: processor.splits)
next
  case (9 p sid ref amt cur h p' r ref')
  then show ?case using mock.capture_frame
    by (auto simp: processor_defs lift_mock_Inr split: processor.splits)
next
  case (12 p sid ref p' r ref')
  then show ?case using mock.void_frame
    by (auto simp: processor_defs lift_mock_Inr split: processor.splits)
next
  case (14 p sid ref amt cur h1 h2 p' r ref')
  then show ?case using mock.refund_frame
    by (auto simp: processor_defs lift_mock_Inr split: processor.splits)
qed (use mock.authorize_recorded mock.authorize_echo mock.authorize_token mock.authorize_code
      mock.capture_recorded mock.void_known mock.void_recorded mock.refund_known in
    \<open>auto simp: processor_defs lift_mock_Inr split: processor.splits\<close>)

section \<open>Runs of calls\<close>

datatype processor_call =
    C_Authorize string int string string string "string option" string string
  | C_Capture string string int string string
  | C_Void string string
  | C_Refund string string int string string string
  | C_Complete string string int string string

definition after :: "processor \<Rightarrow> (processor \<times> processor_result) res \<Rightarrow> processor" where
  "after p r = (case r of Inl _ \<Rightarrow> p | Inr (p', _) \<Rightarrow> p')"

fun call_processor :: "processor_call \<Rightarrow> processor \<Rightarrow> processor" where
  "call_processor (C_Authorize sid amt cur oc tok sc h1 h2) p =
     after p (processor_authorize p sid amt cur oc tok sc h1 h2)"
| "call_processor (C_Capture sid ref amt cur h) p = after p (processor_capture p sid ref amt cur h)"
| "call_processor (C_Void sid ref) p = after p (processor_void p sid ref)"
| "call_processor (C_Refund sid ref amt cur h1 h2) p =
     after p (processor_refund p sid ref amt cur h1 h2)"
| "call_processor (C_Complete sid ref amt cur h) p =
     after p (processor_complete_authorization p sid ref amt cur h)"

text \<open>A call that does not draw the reference anew and does not complete its authorization.\<close>

fun leaves :: "string \<Rightarrow> processor_call \<Rightarrow> bool" where
  "leaves ref (C_Authorize sid amt cur oc tok sc h1 h2) = (''sbx_'' @ take 16 h1 \<noteq> ref)"
| "leaves ref (C_Refund sid r amt cur h1 h2) = (''sbx_rf_'' @ take 12 h1 \<noteq> ref)"
| "leaves ref (C_Complete sid r amt cur h) = (r \<noteq> ref)"
| "leaves ref _ = True"

definition cancelled :: "string \<Rightarrow> processor \<Rightarrow> bool" where
  "cancelled ref p = (case processor_status p ref of Inl _ \<Rightarrow> False | Inr q \<Rightarrow> rs_status q = ''CANCELLED'')"

lemma cancelled_iff: "cancelled ref p \<longleftrightarrow> (\<exists>q. processor_status p ref = Inr q \<and> rs_status q = ''CANCELLED'')"
  by (auto simp: cancelled_def split: sum.splits)

lemma processor_refs:
  "processor_authorize p sid amt cur oc tok sc h1 h2 = Inr (p', r) \<Longrightarrow>
     rs_processor_reference r = ''sbx_'' @ take 16 h1"
  "processor_refund p sid ref amt cur h1 h2 = Inr (p', r) \<Longrightarrow>
     rs_processor_reference r = ''sbx_rf_'' @ take 12 h1"
  by (auto simp: processor_defs lift_mock_Inr mock_refund_def ProcessorResult_def Let_def
      dest: mock_authorize_Inr split: processor.splits option.splits)

lemma complete_frame:
  "processor_complete_authorization p sid ref' amt cur h = Inr (p', r) \<Longrightarrow> ref' \<noteq> ref \<Longrightarrow>
     processor_status p' ref = processor_status p ref"
  by (auto simp: processor_defs lift_mock_Inr mock_complete_authorization_def Let_def
      mock_get_transaction_status_def split: processor.splits option.splits)

lemma cancelled_call:
  assumes "cancelled ref p" "leaves ref c"
  shows "cancelled ref (call_processor c p)"
proof -
  obtain q where q: "processor_status p ref = Inr q" "rs_status q = ''CANCELLED''"
    using assms(1) by (auto simp: cancelled_iff)
  have auth: "processor_status p' ref = Inr q"
    if "processor_authorize p sid amt cur oc tok sc h1 h2 = Inr (p', r)" "''sbx_'' @ take 16 h1 \<noteq> ref"
    for sid amt cur oc tok sc h1 h2 p' r
    using prc.cancelled_kept(1) [OF q that(1)] processor_refs(1) [OF that(1)] that(2) by simp
  have refund: "processor_status p' ref = Inr q"
    if "processor_refund p sid r0 amt cur h1 h2 = Inr (p', r)" "''sbx_rf_'' @ take 12 h1 \<noteq> ref"
    for sid r0 amt cur h1 h2 p' r
    using prc.cancelled_kept(4) [OF q that(1)] processor_refs(2) [OF that(1)] that(2) by simp
  show ?thesis
  proof (cases c)
    case (C_Complete sid r amt cur h)
    then show ?thesis using assms q complete_frame
      by (auto simp: after_def cancelled_iff split: sum.splits)
  qed (use assms q auth refund prc.cancelled_kept(2,3) [OF q] in
      \<open>auto simp: after_def cancelled_iff split: sum.splits\<close>)
qed

lemma cancelled_run: "cancelled ref p \<Longrightarrow> list_all (leaves ref) cs \<Longrightarrow> cancelled ref (fold call_processor cs p)"
  by (induction cs arbitrary: p) (auto simp: cancelled_call)

section \<open>Properties\<close>

text \<open>C26. A voided transaction is never captured: whatever calls follow the void, as long as none
  completes that authorization explicitly and no fresh reference collides with it, a capture of
  the reference raises and the processor still reports it cancelled.\<close>

theorem voided_never_captured:
  assumes "processor_void p sid ref = Inr (p', r)" "list_all (leaves ref) cs"
  shows "cancelled ref (fold call_processor cs p')
    \<and> \<not> is_ok (processor_capture (fold call_processor cs p') sid' ref amt cur h)"
proof -
  have "cancelled ref p'" using prc.void_recorded [OF assms(1)] by (simp add: cancelled_iff)
  then have c: "cancelled ref (fold call_processor cs p')" using assms(2) by (rule cancelled_run)
  then show ?thesis by (auto simp: cancelled_iff prc.capture_iff)
qed

definition mock_after_authorize :: processor where
  "mock_after_authorize = call_processor
     (C_Authorize ''s1'' 1050 ''SAR'' ''capture'' ''pm_card'' None (replicate 32 (CHR ''a'')) ''c0ffee'') (Mock Map.empty)"

definition mock_ref :: string where
  "mock_ref = ''sbx_'' @ replicate 16 (CHR ''a'')"

theorem voided_never_captured_witness:
  "let p = after mock_after_authorize (processor_void mock_after_authorize ''s1'' mock_ref);
       cs = [C_Capture ''s1'' mock_ref 1050 ''SAR'' ''beef00'', C_Refund ''s1'' mock_ref 1050 ''SAR'' ''0123456789ab'' ''beef00'']
   in cancelled mock_ref (fold call_processor cs p)
     \<and> \<not> is_ok (processor_capture (fold call_processor cs p) ''s1'' mock_ref 1050 ''SAR'' ''beef00'')"
proof -
  obtain p' r where v: "processor_void mock_after_authorize ''s1'' mock_ref = Inr (p', r)"
  proof -
    have "is_ok (processor_void mock_after_authorize ''s1'' mock_ref)" by code_simp
    then show thesis using that by (auto simp: is_ok_iff)
  qed
  show ?thesis
    unfolding Let_def v after_def sum.case prod.case
    by (rule voided_never_captured [OF v]) (simp add: mock_ref_def numeral_eq_Suc)
qed

text \<open>An approved authorization has a code, was made with a token and never with a card number,
  echoes the session and the amount, and its reference can be captured at once; the capture
  keeps the authorization code. An authorization that was not approved cannot be captured.\<close>

theorem authorization_decides_capture:
  assumes "processor_authorize p sid amt cur oc tok sc h1 h2 = Inr (p', r)"
  shows "starts_with tok ''pm_'' \<and> rs_transaction_id r = sid \<and> rs_amount_minor r = amt
    \<and> (rs_status r = ''APPROVED'' \<longleftrightarrow> truthy (rs_authorization_code r))
    \<and> (case processor_capture p' sid (rs_processor_reference r) amt' cur' h of
         Inr (p'', r') \<Rightarrow> rs_status r = ''APPROVED''
           \<and> rs_authorization_code r' = rs_authorization_code r \<and> rs_amount_minor r' = amt'
       | Inl e \<Rightarrow> rs_status r \<noteq> ''APPROVED'')"
proof (cases "rs_status r = ''APPROVED''")
  case True
  with prc.authorize_then_capture [OF assms this, of amt' cur' h] show ?thesis
    using prc.authorize_echo [OF assms] prc.authorize_token [OF assms] prc.authorize_code [OF assms]
    by auto
next
  case False
  then have "\<not> is_ok (processor_capture p' sid (rs_processor_reference r) amt' cur' h)"
    by (rule prc.no_capture_unapproved [OF assms])
  then show ?thesis
    using False prc.authorize_echo [OF assms] prc.authorize_token [OF assms] prc.authorize_code [OF assms]
    by (auto split: sum.splits)
qed

theorem authorization_decides_capture_witness:
  "\<exists>p' r p'' r'. processor_authorize (Mock Map.empty) ''s1'' 1050 ''SAR'' ''capture'' ''pm_card'' None
      (replicate 32 (CHR ''a'')) ''c0ffee'' = Inr (p', r)
    \<and> processor_capture p' ''s1'' (rs_processor_reference r) 1050 ''SAR'' ''beef00'' = Inr (p'', r')
    \<and> rs_authorization_code r' = rs_authorization_code r"
proof -
  let ?a = "processor_authorize (Mock Map.empty) ''s1'' 1050 ''SAR'' ''capture'' ''pm_card'' None
      (replicate 32 (CHR ''a'')) ''c0ffee''"
  have "case ?a of Inl _ \<Rightarrow> False | Inr (p', r) \<Rightarrow> rs_status r = ''APPROVED''" by code_simp
  then obtain p' r where a: "?a = Inr (p', r)" and s: "rs_status r = ''APPROVED''"
    by (auto split: sum.splits)
  then show ?thesis
    using authorization_decides_capture [OF a, where amt' = 1050 and cur' = "''SAR''" and h = "''beef00''"]
    by (auto split: sum.splits)
qed

text \<open>In a production environment the factory hands out no processor at all, whatever the
  settings name and whatever was called before; outside it a registered key always gives its
  object, and asking again for the key gives the same object and changes nothing.\<close>

theorem factory_spec:
  "(lower (payment_environment st) = ''production'' \<and> pf_registry f = REGISTRY
      \<and> is_ok (get_payment_processor st provider f)) = False
   \<and> (case get_payment_processor st provider f of
        Inl e \<Rightarrow> exc_status e = 500
      | Inr (f', key) \<Rightarrow> pf_registry f' = pf_registry f
          \<and> (\<exists>cls. map_of (pf_registry f) key = Some cls
               \<and> pf_instances f' key = Some (case pf_instances f key of Some p \<Rightarrow> p | None \<Rightarrow> new_processor cls))
          \<and> get_payment_processor st provider f' = Inr (f', key))"
proof (rule conjI)
  show "(lower (payment_environment st) = ''production'' \<and> pf_registry f = REGISTRY
      \<and> is_ok (get_payment_processor st provider f)) = False"
    by (auto simp: get_payment_processor_def Let_def REGISTRY_def split: option.splits if_splits)
next
  show "case get_payment_processor st provider f of
        Inl e \<Rightarrow> exc_status e = 500
      | Inr (f', key) \<Rightarrow> pf_registry f' = pf_registry f
          \<and> (\<exists>cls. map_of (pf_registry f) key = Some cls
               \<and> pf_instances f' key = Some (case pf_instances f key of Some p \<Rightarrow> p | None \<Rightarrow> new_processor cls))
          \<and> get_payment_processor st provider f' = Inr (f', key)"
    by (auto simp: get_payment_processor_def Let_def split: option.splits sum.splits if_splits)
qed

text \<open>The simulated flow ends, from the amount and the requested outcome alone: the sandbox
  declines amounts that end in 13, fails those that end in 99 or 77, and otherwise approves and
  completes, stopping at the approval for the outcomes that capture later.\<close>

theorem simulate_flow_state:
  "map_sum id fst (simulate_terminal_authorize_flow amount currency (outcome_name oc) None h1 h2) =
     Inr (if amount mod 100 = 13 then T_DECLINED
          else if amount mod 100 = 99 \<or> amount mod 100 = 77 then T_FAILED
          else if oc \<in> {Capture, Force_Post, Completion} then T_COMPLETED else T_APPROVED)"
  by (cases oc)
    (auto simp: simulate_terminal_authorize_flow_def mock_authorize_def resolve_scenario_def
      ProcessorResult_def Let_def starts_with_def)

end
