(* ===== verification/Actions.thy ===== *)
theory Actions
  imports Prelude
begin

text \<open>
  Effects. A handler is a function from the world to the world after it and its result or
  exception (\<open>act\<close>): what it changed before an exception stays changed, as in Python.

  \<open>runs R view p m q e\<close> is a triple for an action: from a world whose view satisfies \<open>p\<close>, every run
  relates the view before to the view after by \<open>R\<close>, also a run that raises, and ends in \<open>q\<close> when it
  returns and in \<open>e\<close> when it raises. The rules, for a reflexive and transitive \<open>R\<close>, build the triple
  of a handler from those of its steps; \<open>silent\<close> steps do not change the view.
\<close>

type_synonym ('w, 'a) act = "'w \<Rightarrow> 'w \<times> 'a res"

definition ret :: "'a \<Rightarrow> ('w, 'a) act" where
  "ret x = (\<lambda>w. (w, Inr x))"

definition raise :: "exc \<Rightarrow> ('w, 'a) act" where
  "raise e = (\<lambda>w. (w, Inl e))"

definition liftr :: "'a res \<Rightarrow> ('w, 'a) act" where
  "liftr r = (\<lambda>w. (w, r))"

definition bnd :: "('w, 'a) act \<Rightarrow> ('a \<Rightarrow> ('w, 'b) act) \<Rightarrow> ('w, 'b) act" where
  "bnd m f = (\<lambda>w. case m w of (w', Inl e) \<Rightarrow> (w', Inl e) | (w', Inr x) \<Rightarrow> f x w')"

definition check :: "bool \<Rightarrow> exc \<Rightarrow> ('w, unit) act" where
  \<comment> \<open>\<open>if not b: raise e\<close>\<close>
  "check b e = (if b then ret () else raise e)"

definition gets :: "('w \<Rightarrow> 'a) \<Rightarrow> ('w, 'a) act" where
  "gets f = (\<lambda>w. (w, Inr (f w)))"

definition getr :: "('w \<Rightarrow> 'a res) \<Rightarrow> ('w, 'a) act" where
  "getr f = (\<lambda>w. (w, f w))"

definition modify :: "('w \<Rightarrow> 'w) \<Rightarrow> ('w, unit) act" where
  "modify f = (\<lambda>w. (f w, Inr ()))"

definition catch :: "('w, 'a) act \<Rightarrow> (exc \<Rightarrow> ('w, 'a) act) \<Rightarrow> ('w, 'a) act" where
  "catch m h = (\<lambda>w. case m w of (w', Inl e) \<Rightarrow> h e w' | (w', Inr x) \<Rightarrow> (w', Inr x))"

definition expect :: "exc \<Rightarrow> 'a option \<Rightarrow> ('w, 'a) act" where
  \<comment> \<open>\<open>if x is None: raise e\<close>\<close>
  "expect e x = (case x of None \<Rightarrow> raise e | Some y \<Rightarrow> ret y)"

lemma act_simps [simp]:
  "ret x w = (w, Inr x)" "raise e w = (w, Inl e)" "liftr r w = (w, r)"
  "gets f w = (w, Inr (f w))" "getr k w = (w, k w)" "modify g w = (g w, Inr ())"
  "check b e w = (if b then (w, Inr ()) else (w, Inl e))"
  by (simp_all add: ret_def raise_def liftr_def gets_def getr_def modify_def check_def)

lemma bnd_run [simp]:
  "bnd (ret x) f w = f x w" "bnd (raise e) f w = (w, Inl e)"
  "bnd (liftr (Inr x)) f w = f x w" "bnd (liftr (Inl e)) f w = (w, Inl e)"
  "bnd (gets g) f w = f (g w) w" "bnd (modify h) j w = j () (h w)"
  "bnd (check b e) k w = (if b then k () w else (w, Inl e))"
  by (simp_all add: bnd_def)

lemma bnd_fun [simp]:
  "bnd (ret x) f = f x" "bnd (raise e) f = raise e" "bnd (liftr (Inr x)) f = f x"
  "bnd (liftr (Inl e)) f = raise e"
  by (rule ext, simp)+

lemma expect_simps [simp]: "expect e (Some y) = ret y" "expect e None = raise e"
  by (simp_all add: expect_def)

lemma bnd_Inr: "bnd m f w = (w'', Inr y) \<longleftrightarrow> (\<exists>w' x. m w = (w', Inr x) \<and> f x w' = (w'', Inr y))"
  by (auto simp: bnd_def split: prod.splits sum.splits)

lemma bnd_Inl: "bnd m f w = (w'', Inl e) \<longleftrightarrow>
    m w = (w'', Inl e) \<or> (\<exists>w' x. m w = (w', Inr x) \<and> f x w' = (w'', Inl e))"
  by (auto simp: bnd_def split: prod.splits sum.splits)

lemma bnd_cong_run: "m w = (w', Inr x) \<Longrightarrow> bnd m f w = f x w'"
  by (simp add: bnd_def)

lemma bnd_cong_err: "m w = (w', Inl e) \<Longrightarrow> bnd m f w = (w', Inl e)"
  by (simp add: bnd_def)

lemma getr_run [simp]: "bnd (getr g) f w = (case g w of Inl e \<Rightarrow> (w, Inl e) | Inr x \<Rightarrow> f x w)"
  by (simp add: bnd_def split: sum.splits)

lemma bnd_assoc: "bnd (bnd m f) g = bnd m (\<lambda>x. bnd (f x) g)"
  by (rule ext) (simp add: bnd_def split: prod.splits sum.splits)

lemma catch_result: "catch m h w = (w'', r) \<longleftrightarrow>
    (\<exists>x. m w = (w'', Inr x) \<and> r = Inr x) \<or> (\<exists>w' e. m w = (w', Inl e) \<and> h e w' = (w'', r))"
  by (auto simp: catch_def split: prod.splits sum.splits)

section \<open>What every run of an action respects\<close>

definition runs ::
  "('v \<Rightarrow> 'v \<Rightarrow> bool) \<Rightarrow> ('w \<Rightarrow> 'v) \<Rightarrow> ('v \<Rightarrow> bool) \<Rightarrow> ('w, 'a) act \<Rightarrow> ('a \<Rightarrow> 'v \<Rightarrow> bool) \<Rightarrow> ('v \<Rightarrow> bool) \<Rightarrow> bool" where
  "runs R view p m q e \<longleftrightarrow>
     (\<forall>w. p (view w) \<longrightarrow> R (view w) (view (fst (m w)))
        \<and> (case snd (m w) of Inr x \<Rightarrow> q x (view (fst (m w))) | Inl _ \<Rightarrow> e (view (fst (m w)))))"

definition silent :: "('w \<Rightarrow> 'v) \<Rightarrow> ('w, 'a) act \<Rightarrow> bool" where
  "silent view m \<longleftrightarrow> (\<forall>w. view (fst (m w)) = view w)"

lemma silentI: "(\<And>w. view (fst (m w)) = view w) \<Longrightarrow> silent view m"
  by (simp add: silent_def)

lemma silent_pure [simp]:
  "silent view (ret x)" "silent view (raise e)" "silent view (liftr r)" "silent view (gets f)"
  "silent view (getr g)" "silent view (check b e)" "silent view (expect err y)"
  by (simp_all add: silent_def expect_def split: option.split)

lemma silent_bnd: "silent view m \<Longrightarrow> (\<And>x. silent view (f x)) \<Longrightarrow> silent view (bnd m f)"
  by (auto simp: silent_def bnd_def split: prod.splits sum.splits) (metis fst_conv)+

lemma silent_catch: "silent view m \<Longrightarrow> (\<And>e. silent view (h e)) \<Longrightarrow> silent view (catch m h)"
  by (auto simp: silent_def catch_def split: prod.splits sum.splits) (metis fst_conv)+

lemma silent_if: "(b \<Longrightarrow> silent view m) \<Longrightarrow> (\<not> b \<Longrightarrow> silent view n) \<Longrightarrow> silent view (if b then m else n)"
  by simp

lemma runsI:
  assumes "\<And>w w' x. p (view w) \<Longrightarrow> m w = (w', Inr x) \<Longrightarrow> R (view w) (view w') \<and> q x (view w')"
    and "\<And>w w' err. p (view w) \<Longrightarrow> m w = (w', Inl err) \<Longrightarrow> R (view w) (view w') \<and> e (view w')"
  shows "runs R view p m q e"
  unfolding runs_def
proof (intro allI impI)
  fix w
  assume "p (view w)"
  then show "R (view w) (view (fst (m w)))
      \<and> (case snd (m w) of Inr x \<Rightarrow> q x (view (fst (m w))) | Inl _ \<Rightarrow> e (view (fst (m w))))"
    using assms [of w "fst (m w)"] by (cases "m w"; cases "snd (m w)") auto
qed

lemma runsD:
  assumes "runs R view p m q e" "p (view w)"
  shows "m w = (w', r) \<Longrightarrow> R (view w) (view w')"
    and "m w = (w', Inr x) \<Longrightarrow> q x (view w')"
    and "m w = (w', Inl err) \<Longrightarrow> e (view w')"
proof -
  have u: "R (view w) (view (fst (m w)))
      \<and> (case snd (m w) of Inr x \<Rightarrow> q x (view (fst (m w))) | Inl _ \<Rightarrow> e (view (fst (m w))))"
    using assms by (simp add: runs_def)
  show "m w = (w', r) \<Longrightarrow> R (view w) (view w')" using u by simp
  show "m w = (w', Inr x) \<Longrightarrow> q x (view w')" using u by simp
  show "m w = (w', Inl err) \<Longrightarrow> e (view w')" using u by simp
qed

locale respects =
  fixes R :: "'v \<Rightarrow> 'v \<Rightarrow> bool"
    and view :: "'w \<Rightarrow> 'v"
  assumes refl: "R v v" and trans: "R v v' \<Longrightarrow> R v' v'' \<Longrightarrow> R v v''"
begin

lemma runs_silent: "silent view m \<Longrightarrow> (\<And>v. p v \<Longrightarrow> e v) \<Longrightarrow> runs R view p m (\<lambda>_. p) e"
  by (auto simp: runs_def silent_def refl split: sum.splits)

lemma runs_ret: "(\<And>v. p v \<Longrightarrow> q x v) \<Longrightarrow> runs R view p (ret x) q e"
  by (simp add: runs_def refl)

lemma runs_raise: "(\<And>v. p v \<Longrightarrow> e v) \<Longrightarrow> runs R view p (raise err) q e"
  by (simp add: runs_def refl)

lemma runs_liftr: "(\<And>x v. r = Inr x \<Longrightarrow> p v \<Longrightarrow> q x v) \<Longrightarrow> (\<And>v. p v \<Longrightarrow> e v) \<Longrightarrow> runs R view p (liftr r) q e"
  by (cases r) (auto simp: runs_def refl)

lemma runs_bnd:
  assumes "runs R view p m q e" "\<And>x. runs R view (q x) (f x) q' e"
  shows "runs R view p (bnd m f) q' e"
proof (rule runsI)
  fix w w'' y
  assume p: "p (view w)" and "bnd m f w = (w'', Inr y)"
  then obtain w' x where m: "m w = (w', Inr x)" and f: "f x w' = (w'', Inr y)" by (auto simp: bnd_Inr)
  have "R (view w) (view w')" "q x (view w')" using runsD [OF assms(1), of w] p m by blast+
  moreover from this(2) have "R (view w') (view w'')" "q' y (view w'')"
    using runsD [OF assms(2), of x w'] f by blast+
  ultimately show "R (view w) (view w'') \<and> q' y (view w'')" using trans by blast
next
  fix w w'' err
  assume p: "p (view w)" and "bnd m f w = (w'', Inl err)"
  then consider "m w = (w'', Inl err)" | w' x where "m w = (w', Inr x)" "f x w' = (w'', Inl err)"
    by (auto simp: bnd_Inl)
  then show "R (view w) (view w'') \<and> e (view w'')"
  proof cases
    case 1
    then show ?thesis using runsD [OF assms(1), of w] p by blast
  next
    case (2 w' x)
    have "R (view w) (view w')" "q x (view w')" using runsD [OF assms(1), of w] p 2 by blast+
    moreover from this(2) have "R (view w') (view w'')" "e (view w'')"
      using runsD [OF assms(2), of x w'] 2 by blast+
    ultimately show ?thesis using trans by blast
  qed
qed

lemma runs_bnd_liftr:
  "(\<And>x. r = Inr x \<Longrightarrow> runs R view p (f x) q e) \<Longrightarrow> (\<And>v. p v \<Longrightarrow> e v) \<Longrightarrow>
     runs R view p (bnd (liftr r) f) q e"
  by (cases r) (simp_all add: runs_def refl)

lemma runs_catch:
  assumes "runs R view p m q e'" "\<And>err. runs R view e' (h err) q e"
  shows "runs R view p (catch m h) q e"
proof -
  have c: "R (view w) (view w'') \<and> (case r of Inr y \<Rightarrow> q y (view w'') | Inl _ \<Rightarrow> e (view w''))"
    if p: "p (view w)" and "catch m h w = (w'', r)" for w w'' r
  proof -
    from that(2) consider x where "m w = (w'', Inr x)" "r = Inr x"
      | w' err where "m w = (w', Inl err)" "h err w' = (w'', r)"
      by (auto simp: catch_result)
    then show ?thesis
    proof cases
      case (1 x)
      then show ?thesis using runsD [OF assms(1), of w, OF p] by simp
    next
      case (2 w' err)
      have "R (view w) (view w')" "e' (view w')" using runsD [OF assms(1), of w, OF p] 2(1) by blast+
      moreover from this(2) have "R (view w') (view w'')" using runsD(1) [OF assms(2) _ 2(2)] by blast
      moreover have "case r of Inr y \<Rightarrow> q y (view w'') | Inl _ \<Rightarrow> e (view w'')"
        using runsD(2,3) [OF assms(2) \<open>e' (view w')\<close>] 2(2) by (auto split: sum.splits)
      ultimately show ?thesis using trans by blast
    qed
  qed
  show ?thesis by (rule runsI) (use c in fastforce)+
qed

lemma runs_conseq:
  assumes "runs R view p m q e" "\<And>v. p' v \<Longrightarrow> p v" "\<And>x v. q x v \<Longrightarrow> q' x v" "\<And>v. e v \<Longrightarrow> e' v"
  shows "runs R view p' m q' e'"
  by (rule runsI) (use runsD [OF assms(1)] assms(2-4) in blast)+

lemma runs_if:
  "(b \<Longrightarrow> runs R view p m q e) \<Longrightarrow> (\<not> b \<Longrightarrow> runs R view p n q e) \<Longrightarrow> runs R view p (if b then m else n) q e"
  by simp

end

text \<open>A predicate that each step keeps is such a relation.\<close>

definition keeps :: "('v \<Rightarrow> bool) \<Rightarrow> 'v \<Rightarrow> 'v \<Rightarrow> bool" where
  "keeps P v v' \<longleftrightarrow> (P v \<longrightarrow> P v')"

interpretation keeps: respects "keeps P" view for P and view
  by unfold_locales (auto simp: keeps_def)

end
