(* ===== verification/Tables.thy ===== *)
theory Tables
  imports Prelude
begin

text \<open>
  The rows of \<open>src/app/models/user.py\<close>, \<open>website.py\<close> and the device and reference tables of
  \<open>merchant.py\<close> and \<open>payment.py\<close>, with the unique constraints of each table. \<open>deleted_at\<close> is kept where a
  query reads it, \<open>created_at\<close> where one sorts by it. The columns of merchants, payments and settlements
  are in \<open>Database\<close>.
\<close>

section \<open>Users\<close>

record role_row =
  ro_id :: uuid
  ro_name :: string
  ro_description :: "string option"
  ro_deleted_at :: "time option"

record user_row =
  us_id :: uuid
  us_first_name :: string
  us_last_name :: string
  us_email :: string
  us_phone :: "string option"
  us_password_hash :: string
  us_is_active :: bool
  us_is_verified :: bool
  us_role_id :: uuid
  us_role_code :: string
  us_last_login_at :: "time option"
  us_created_at :: time
  us_deleted_at :: "time option"

record refresh_token_row =
  rt_id :: uuid
  rt_user_id :: uuid
  rt_jti :: string
  rt_token_hash :: string
  rt_expires_at :: time
  rt_revoked_at :: "time option"
  rt_user_agent :: "string option"
  rt_ip_address :: "string option"
  rt_deleted_at :: "time option"

definition role_constraints :: "role_row \<Rightarrow> role_row list \<Rightarrow> bool" where
  "role_constraints x rows \<longleftrightarrow> \<not> list_ex (\<lambda>r. ro_name r = ro_name x) rows"

definition user_constraints :: "user_row \<Rightarrow> user_row list \<Rightarrow> bool" where
  "user_constraints x rows \<longleftrightarrow>
     \<not> list_ex (\<lambda>r. us_email r = us_email x) rows
     \<and> (us_phone x = None \<or> \<not> list_ex (\<lambda>r. us_phone r = us_phone x) rows)"

definition refresh_token_constraints :: "refresh_token_row \<Rightarrow> refresh_token_row list \<Rightarrow> bool" where
  "refresh_token_constraints x rows \<longleftrightarrow> \<not> list_ex (\<lambda>r. rt_jti r = rt_jti x) rows"

section \<open>Devices\<close>

record sunmi_device =
  sd_id :: uuid
  sd_merchant_id :: uuid
  sd_serial_number :: string
  sd_model :: string
  sd_android_version :: "string option"
  sd_status :: string
  sd_last_seen_at :: "time option"
  sd_created_at :: time

record device_information =
  di_id :: uuid
  di_merchant_id :: uuid
  di_sunmi_device_id :: "uuid option"
  di_external_id :: string
  di_manufacturer :: string
  di_model_name :: string
  di_os_name :: string
  di_os_version :: "string option"
  di_app_version :: "string option"
  di_push_token :: "string option"
  di_last_ip :: "string option"
  di_last_seen_at :: "time option"
  di_status :: string
  di_extra_data :: "dict option"

definition device_constraints :: "sunmi_device \<Rightarrow> sunmi_device list \<Rightarrow> bool" where
  "device_constraints x rows \<longleftrightarrow> \<not> list_ex (\<lambda>r. sd_serial_number r = sd_serial_number x) rows"

definition device_info_constraints :: "device_information \<Rightarrow> device_information list \<Rightarrow> bool" where
  "device_info_constraints x rows \<longleftrightarrow> \<not> list_ex (\<lambda>r. di_external_id r = di_external_id x) rows"

section \<open>The website\<close>

record website_service =
  ws_id :: uuid
  ws_slug :: string
  ws_title :: string
  ws_summary :: string
  ws_description :: string
  ws_icon :: string
  ws_features :: "json list"
  ws_image_url :: string
  ws_sort_order :: int
  ws_is_published :: bool
  ws_deleted_at :: "time option"

record website_project =
  wp_id :: uuid
  wp_slug :: string
  wp_title :: string
  wp_category :: string
  wp_summary :: string
  wp_description :: string
  wp_location :: string
  wp_year :: string
  wp_image_url :: string
  wp_tags :: "json list"
  wp_is_published :: bool
  wp_created_at :: time
  wp_deleted_at :: "time option"

record testimonial =
  tm_id :: uuid
  tm_name :: string
  tm_role :: string
  tm_company :: string
  tm_quote :: string
  tm_rating :: int
  tm_avatar_url :: "string option"
  tm_is_published :: bool
  tm_deleted_at :: "time option"

record faq =
  fq_id :: uuid
  fq_question :: string
  fq_answer :: string
  fq_category :: string
  fq_sort_order :: int
  fq_is_published :: bool
  fq_deleted_at :: "time option"

record contact_message =
  cm_id :: uuid
  cm_full_name :: string
  cm_email :: string
  cm_phone :: string
  cm_company :: string
  cm_subject :: string
  cm_message :: string
  cm_status :: string

record newsletter_subscriber =
  nl_id :: uuid
  nl_email :: string
  nl_is_active :: bool
  nl_subscribed_at :: time
  nl_deleted_at :: "time option"

definition newsletter_constraints :: "newsletter_subscriber \<Rightarrow> newsletter_subscriber list \<Rightarrow> bool" where
  "newsletter_constraints x rows \<longleftrightarrow> \<not> list_ex (\<lambda>r. nl_email r = nl_email x) rows"

section \<open>Reference data\<close>

record payment_method =
  pm_code :: string
  pm_display_name :: string
  pm_is_active :: bool

record country =
  co_code :: string
  co_name :: string
  co_is_active :: bool

record currency_row =
  cu_code :: string
  cu_name :: string
  cu_symbol :: string
  cu_is_active :: bool

record language =
  la_code :: string
  la_name :: string
  la_is_active :: bool

record crypto_exchange =
  ce_name :: string
  ce_provider :: string
  ce_status :: string

record crypto_wallet =
  cw_label :: string
  cw_wallet_address :: string
  cw_network :: string
  cw_currency :: string
  cw_provider :: string
  cw_status :: string
  cw_is_hot_wallet :: bool

text \<open>The content and reference tables, which no payment touches.\<close>

record site =
  site_services :: "website_service list"
  site_projects :: "website_project list"
  site_testimonials :: "testimonial list"
  site_faqs :: "faq list"
  site_contacts :: "contact_message list"
  site_newsletter :: "newsletter_subscriber list"
  site_methods :: "payment_method list"
  site_countries :: "country list"
  site_currencies :: "currency_row list"
  site_languages :: "language list"
  site_exchanges :: "crypto_exchange list"
  site_crypto_wallets :: "crypto_wallet list"

definition empty_site :: site where
  "empty_site = \<lparr> site_services = [], site_projects = [], site_testimonials = [], site_faqs = [],
     site_contacts = [], site_newsletter = [], site_methods = [], site_countries = [],
     site_currencies = [], site_languages = [], site_exchanges = [], site_crypto_wallets = [] \<rparr>"

end
