(* ===== verification/Database.thy ===== *)
theory Database
  imports Actions Tables Txn_States Decimals Audit_Log Session_Store Processors
begin

text \<open>
  The database as the services see it: the rows of \<open>src/app/models/\<close>, the repositories of
  \<open>src/app/repositories/\<close>, the session of \<open>src/app/database/session.py\<close>, and the world of a
  request.

  A table is the list of its rows in insertion order. A query is a filter on the rows with
  \<open>deleted_at\<close> empty; \<open>scalar_one_or_none\<close> raises on two rows; \<open>add\<close> raises \<open>IntegrityError\<close> when a
  unique or check constraint of the model fails, and \<open>DataError\<close> when an amount does not fit its
  column. Rows that \<open>ORDER BY created_at\<close> leaves tied keep
  the order of insertion. A request works on one session: what it wrote is \<open>w_db\<close>, what it has
  committed is \<open>w_committed\<close>; \<open>run_request\<close> is \<open>get_db_session\<close> around a handler. Requests run one
  after the other, and the session's identity map makes an object and its row one thing.
  The in-memory session store and the processor objects are outside the transaction.
\<close>

section \<open>Rows\<close>

record merchant_profile =
  me_id :: uuid
  me_owner_user_id :: uuid
  me_company_name :: string
  me_commercial_registration :: "string option"
  me_tax_number :: "string option"
  me_country :: string
  me_city :: string
  me_address :: string
  me_website :: "string option"
  me_email :: string
  me_phone :: string
  me_logo_url :: "string option"
  me_industry :: "string option"
  me_status :: merchant_status
  me_created_at :: time
  me_deleted_at :: "time option"

record merchant_wallet =
  wa_id :: uuid
  wa_merchant_id :: uuid
  wa_wallet_address :: string
  wa_wallet_provider :: string
  wa_wallet_network :: string
  wa_wallet_status :: wallet_status
  wa_is_primary :: bool
  wa_created_at :: time
  wa_deleted_at :: "time option"

record payment_gateway_row =
  gw_id :: uuid
  gw_gateway_name :: string
  gw_provider :: string
  gw_country :: string
  gw_api_endpoint :: "string option"
  gw_sandbox_endpoint :: "string option"
  gw_status :: string
  gw_supports_refund :: bool
  gw_supports_recurring :: bool
  gw_deleted_at :: "time option"

record txn =
  tx_id :: uuid
  tx_merchant_id :: uuid
  tx_gateway_id :: "uuid option"
  tx_amount :: decimal
  tx_currency :: string
  tx_gateway_reference :: "string option"
  tx_merchant_reference :: string
  tx_payment_method :: "string option"
  tx_status :: transaction_status
  tx_payment_date :: "time option"
  tx_fees :: decimal
  tx_tax :: decimal
  tx_net_amount :: decimal
  tx_receipt_number :: "string option"
  tx_failure_reason :: "string option"
  tx_extra_data :: dict
  tx_created_at :: time
  tx_deleted_at :: "time option"

record status_log =
  sl_transaction_id :: uuid
  sl_from_status :: "transaction_status option"
  sl_to_status :: transaction_status
  sl_note :: "string option"
  sl_actor :: "string option"

record payment_attempt =
  pa_transaction_id :: uuid
  pa_gateway_provider :: string
  pa_attempt_number :: nat
  pa_status :: transaction_status
  pa_gateway_response :: dict
  pa_error_message :: "string option"

record receipt =
  rc_id :: uuid
  rc_transaction_id :: uuid
  rc_receipt_number :: string
  rc_merchant_name :: string
  rc_amount :: decimal
  rc_currency :: string
  rc_gateway :: "string option"
  rc_status :: transaction_status
  rc_printable_payload :: dict
  rc_created_at :: time
  rc_deleted_at :: "time option"

record settlement =
  se_id :: uuid
  se_transaction_id :: uuid
  se_merchant_wallet_id :: uuid
  se_fiat_amount :: decimal
  se_fiat_currency :: string
  se_usdt_amount :: decimal
  se_exchange_rate :: decimal
  se_exchange_provider :: string
  se_wallet_network :: string
  se_wallet_address :: string
  se_blockchain_tx_hash :: "string option"
  se_confirmation_count :: int
  se_retry_count :: int
  se_status :: settlement_status
  se_failure_reason :: "string option"
  se_created_at :: time
  se_deleted_at :: "time option"

record transfer_log =
  tl_settlement_id :: uuid
  tl_action :: string
  tl_status :: string
  tl_payload :: dict
  tl_message :: "string option"

record db =
  db_merchants :: "merchant_profile list"
  db_wallets :: "merchant_wallet list"
  db_gateways :: "payment_gateway_row list"
  db_txns :: "txn list"
  db_status_logs :: "status_log list"
  db_attempts :: "payment_attempt list"
  db_receipts :: "receipt list"
  db_settlements :: "settlement list"
  db_transfer_logs :: "transfer_log list"
  db_audit_logs :: "audit_log list"
  db_users :: "user_row list"
  db_roles :: "role_row list"
  db_refresh_tokens :: "refresh_token_row list"
  db_devices :: "sunmi_device list"
  db_device_info :: "device_information list"
  db_site :: site

definition empty_db :: db where
  "empty_db = \<lparr> db_merchants = [], db_wallets = [], db_gateways = [], db_txns = [],
     db_status_logs = [], db_attempts = [], db_receipts = [], db_settlements = [],
     db_transfer_logs = [], db_audit_logs = [], db_users = [], db_roles = [], db_refresh_tokens = [],
     db_devices = [], db_device_info = [], db_site = empty_site \<rparr>"

definition numeric :: "nat \<Rightarrow> nat \<Rightarrow> decimal \<Rightarrow> decimal res" where
  \<comment> \<open>a value written to a column \<open>Numeric(precision, scale)\<close>\<close>
  "numeric precision scale x =
     (let y = rescale ROUND_HALF_UP x (- int scale) in
      if nat \<bar>coeff y\<bar> < 10 ^ precision then Inr y else Inl DataError)"

section \<open>The generic repository\<close>

definition base_query :: "('e \<Rightarrow> time option) \<Rightarrow> 'e list \<Rightarrow> 'e list" where
  "base_query deleted_at rows = filter (\<lambda>e. deleted_at e = None) rows"

definition repo_get_by_id ::
  "('e \<Rightarrow> uuid) \<Rightarrow> ('e \<Rightarrow> time option) \<Rightarrow> 'e list \<Rightarrow> uuid \<Rightarrow> 'e option res" where
  "repo_get_by_id ident deleted_at rows entity_id = find_one (\<lambda>e. ident e = entity_id) (base_query deleted_at rows)"

definition page_of :: "('e \<Rightarrow> time) \<Rightarrow> nat \<Rightarrow> nat \<Rightarrow> 'e list \<Rightarrow> 'e list" where
  \<comment> \<open>\<open>ORDER BY created_at DESC OFFSET offset LIMIT limit\<close>\<close>
  "page_of created_at offset limit rows = take limit (drop offset (sort_key (\<lambda>e. - created_at e) rows))"

definition repo_list ::
  "('e \<Rightarrow> time) \<Rightarrow> ('e \<Rightarrow> time option) \<Rightarrow> 'e list \<Rightarrow> nat \<Rightarrow> nat \<Rightarrow> 'e list" where
  "repo_list created_at deleted_at rows offset limit = page_of created_at offset limit (base_query deleted_at rows)"

definition repo_count :: "('e \<Rightarrow> time option) \<Rightarrow> 'e list \<Rightarrow> nat" where
  "repo_count deleted_at rows = length (base_query deleted_at rows)"

definition repo_add :: "('e \<Rightarrow> uuid) \<Rightarrow> ('e \<Rightarrow> 'e list \<Rightarrow> bool) \<Rightarrow> 'e \<Rightarrow> 'e list \<Rightarrow> 'e list res" where
  "repo_add ident constraints entity rows =
     (if list_ex (\<lambda>e. ident e = ident entity) rows \<or> \<not> constraints entity rows then Inl IntegrityError
      else Inr (rows @ [entity]))"

definition repo_update :: "('e \<Rightarrow> uuid) \<Rightarrow> 'e \<Rightarrow> 'e list \<Rightarrow> 'e list" where
  \<comment> \<open>assignment to the attributes of a persistent object\<close>
  "repo_update ident entity rows = map (\<lambda>e. if ident e = ident entity then entity else e) rows"

definition repo_soft_delete ::
  "('e \<Rightarrow> uuid) \<Rightarrow> (time option \<Rightarrow> 'e \<Rightarrow> 'e) \<Rightarrow> time \<Rightarrow> 'e \<Rightarrow> 'e list \<Rightarrow> 'e list" where
  "repo_soft_delete ident set_deleted_at now entity rows =
     repo_update ident (set_deleted_at (Some now) entity) rows"

locale entity =
  fixes ident :: "'e \<Rightarrow> uuid"
    and deleted_at :: "'e \<Rightarrow> time option"
    and set_deleted_at :: "time option \<Rightarrow> 'e \<Rightarrow> 'e"
    and constraints :: "'e \<Rightarrow> 'e list \<Rightarrow> bool"
  assumes deleted_set: "deleted_at (set_deleted_at d e) = d"
    and ident_set: "ident (set_deleted_at d e) = ident e"
begin

definition table :: "'e list \<Rightarrow> bool" where
  "table rows \<longleftrightarrow> distinct (map ident rows)"

lemma get_by_id_iff:
  assumes "table rows"
  shows "repo_get_by_id ident deleted_at rows i = Inr (Some e) \<longleftrightarrow>
    e \<in> set rows \<and> ident e = i \<and> deleted_at e = None"
proof
  assume "repo_get_by_id ident deleted_at rows i = Inr (Some e)"
  then show "e \<in> set rows \<and> ident e = i \<and> deleted_at e = None"
    by (auto simp: repo_get_by_id_def base_query_def dest: find_one_Some)
next
  assume e: "e \<in> set rows \<and> ident e = i \<and> deleted_at e = None"
  then obtain a b where r: "rows = a @ e # b" by (meson split_list)
  have "ident e \<notin> ident ` (set a \<union> set b)"
    using assms unfolding table_def r by auto
  then have "ident x \<noteq> i" if "x \<in> set a \<union> set b" for x
    using that e by (metis image_eqI)
  then have "filter (\<lambda>e. ident e = i) (base_query deleted_at rows) = [e]"
    using e by (auto simp: r base_query_def filter_empty_conv)
  then show "repo_get_by_id ident deleted_at rows i = Inr (Some e)"
    by (simp add: repo_get_by_id_def find_one_def)
qed

lemma get_by_id_ok: "table rows \<Longrightarrow> is_ok (repo_get_by_id ident deleted_at rows i)"
proof -
  assume t: "table rows"
  show ?thesis
  proof (cases "\<exists>e \<in> set rows. ident e = i \<and> deleted_at e = None")
    case True
    then show ?thesis using get_by_id_iff [OF t] by (auto simp: is_ok_iff)
  next
    case False
    then have "filter (\<lambda>e. ident e = i) (base_query deleted_at rows) = []"
      by (auto simp: base_query_def filter_empty_conv)
    then show ?thesis by (simp add: repo_get_by_id_def find_one_def)
  qed
qed

lemma add_get:
  assumes "table rows" "repo_add ident constraints e rows = Inr rows'"
  shows "table rows'" and "deleted_at e = None \<Longrightarrow>
      repo_get_by_id ident deleted_at rows' (ident e) = Inr (Some e)"
    and "i \<noteq> ident e \<Longrightarrow> repo_get_by_id ident deleted_at rows' i = repo_get_by_id ident deleted_at rows i"
    and "repo_count deleted_at rows' = repo_count deleted_at rows + (if deleted_at e = None then 1 else 0)"
proof -
  have r: "rows' = rows @ [e]" "\<forall>x \<in> set rows. ident x \<noteq> ident e"
    using assms(2) by (auto simp: repo_add_def list_ex_iff split: if_splits)
  show t: "table rows'" using assms(1) r by (auto simp: table_def)
  show "deleted_at e = None \<Longrightarrow> repo_get_by_id ident deleted_at rows' (ident e) = Inr (Some e)"
    using get_by_id_iff [OF t, of "ident e" e] r by simp
  show "i \<noteq> ident e \<Longrightarrow> repo_get_by_id ident deleted_at rows' i = repo_get_by_id ident deleted_at rows i"
    by (simp add: repo_get_by_id_def find_one_def base_query_def r)
  show "repo_count deleted_at rows' = repo_count deleted_at rows + (if deleted_at e = None then 1 else 0)"
    by (simp add: repo_count_def base_query_def r)
qed

lemma idents_update [simp]: "map ident (repo_update ident e rows) = map ident rows"
  by (auto simp: repo_update_def)

lemma table_update [simp]: "table (repo_update ident e rows) = table rows"
  by (simp add: table_def)

lemma update_get:
  assumes "table rows" "x \<in> set rows" "ident x = ident e" "deleted_at e = None"
  shows "repo_get_by_id ident deleted_at (repo_update ident e rows) (ident e) = Inr (Some e)"
proof -
  have "e \<in> set (repo_update ident e rows)" using assms(2,3) by (auto simp: repo_update_def)
  then show ?thesis using assms(1,4) by (subst get_by_id_iff) auto
qed

lemma update_get_other:
  "i \<noteq> ident e \<Longrightarrow> repo_get_by_id ident deleted_at (repo_update ident e rows) i = repo_get_by_id ident deleted_at rows i"
proof -
  assume i: "i \<noteq> ident e"
  have "filter (\<lambda>x. ident x = i) (base_query deleted_at (repo_update ident e rows)) =
      filter (\<lambda>x. ident x = i) (base_query deleted_at rows)"
    using i by (induction rows) (auto simp: base_query_def repo_update_def)
  then show ?thesis by (simp add: repo_get_by_id_def find_one_def)
qed

text \<open>A soft-deleted row is gone for every query of the repository and stays in the table.\<close>

lemma soft_delete_hides:
  assumes "table rows" "e \<in> set rows"
  shows "repo_get_by_id ident deleted_at (repo_soft_delete ident set_deleted_at now e rows) (ident e) = Inr None"
    and "length (repo_soft_delete ident set_deleted_at now e rows) = length rows"
proof -
  have "filter (\<lambda>x. ident x = ident e)
      (base_query deleted_at (repo_soft_delete ident set_deleted_at now e rows)) = []"
    by (auto simp: base_query_def repo_soft_delete_def repo_update_def filter_empty_conv ident_set deleted_set)
  then show "repo_get_by_id ident deleted_at (repo_soft_delete ident set_deleted_at now e rows) (ident e) = Inr None"
    by (simp add: repo_get_by_id_def find_one_def)
qed (simp add: repo_soft_delete_def repo_update_def)

end

section \<open>Constraints of the tables\<close>

definition merchant_constraints :: "merchant_profile \<Rightarrow> merchant_profile list \<Rightarrow> bool" where
  "merchant_constraints m rows \<longleftrightarrow>
     \<not> list_ex (\<lambda>r. me_owner_user_id r = me_owner_user_id m) rows
     \<and> (me_commercial_registration m = None
        \<or> \<not> list_ex (\<lambda>r. me_commercial_registration r = me_commercial_registration m) rows)"

definition wallet_constraints :: "merchant_wallet \<Rightarrow> merchant_wallet list \<Rightarrow> bool" where
  "wallet_constraints w rows \<longleftrightarrow>
     \<not> list_ex (\<lambda>r. wa_merchant_id r = wa_merchant_id w \<and> wa_wallet_address r = wa_wallet_address w
                 \<and> wa_wallet_network r = wa_wallet_network w) rows"

definition txn_unique_receipt :: "txn \<Rightarrow> txn list \<Rightarrow> bool" where
  "txn_unique_receipt t rows \<longleftrightarrow>
     tx_receipt_number t = None \<or> \<not> list_ex (\<lambda>r. tx_receipt_number r = tx_receipt_number t) rows"

definition txn_constraints :: "txn \<Rightarrow> txn list \<Rightarrow> bool" where
  "txn_constraints t rows \<longleftrightarrow>
     \<not> list_ex (\<lambda>r. tx_merchant_id r = tx_merchant_id t \<and> tx_merchant_reference r = tx_merchant_reference t) rows
     \<and> 0 < coeff (tx_amount t) \<and> 0 \<le> coeff (tx_fees t) \<and> 0 \<le> coeff (tx_tax t)
     \<and> txn_unique_receipt t rows"

definition receipt_constraints :: "receipt \<Rightarrow> receipt list \<Rightarrow> bool" where
  "receipt_constraints x rows \<longleftrightarrow>
     \<not> list_ex (\<lambda>r. rc_transaction_id r = rc_transaction_id x \<or> rc_receipt_number r = rc_receipt_number x) rows"

definition settlement_constraints :: "settlement \<Rightarrow> settlement list \<Rightarrow> bool" where
  "settlement_constraints x rows \<longleftrightarrow>
     \<not> list_ex (\<lambda>r. se_transaction_id r = se_transaction_id x) rows \<and> 0 < coeff (se_usdt_amount x)"

interpretation merchants: entity me_id me_deleted_at "\<lambda>d r. r\<lparr> me_deleted_at := d \<rparr>" merchant_constraints
  by unfold_locales simp_all

interpretation wallets: entity wa_id wa_deleted_at "\<lambda>d r. r\<lparr> wa_deleted_at := d \<rparr>" wallet_constraints
  by unfold_locales simp_all

interpretation txns: entity tx_id tx_deleted_at "\<lambda>d r. r\<lparr> tx_deleted_at := d \<rparr>" txn_constraints
  by unfold_locales simp_all

interpretation receipts: entity rc_id rc_deleted_at "\<lambda>d r. r\<lparr> rc_deleted_at := d \<rparr>" receipt_constraints
  by unfold_locales simp_all

interpretation settlements: entity se_id se_deleted_at "\<lambda>d r. r\<lparr> se_deleted_at := d \<rparr>" settlement_constraints
  by unfold_locales simp_all

section \<open>Queries of the repositories\<close>

definition merchant_get_by_owner :: "db \<Rightarrow> uuid \<Rightarrow> merchant_profile option res" where
  "merchant_get_by_owner d user_id =
     find_one (\<lambda>m. me_owner_user_id m = user_id) (base_query me_deleted_at (db_merchants d))"

definition merchant_get_with_wallets ::
  "db \<Rightarrow> uuid \<Rightarrow> (merchant_profile \<times> merchant_wallet list) option res" where
  \<comment> \<open>the relationship loads every wallet row of the merchant, deleted or not\<close>
  "merchant_get_with_wallets d merchant_id =
     bindr (find_one (\<lambda>m. me_id m = merchant_id) (base_query me_deleted_at (db_merchants d))) (\<lambda>m.
     Inr (map_option (\<lambda>m. (m, filter (\<lambda>w. wa_merchant_id w = me_id m) (db_wallets d))) m))"

definition wallet_get_primary :: "db \<Rightarrow> uuid \<Rightarrow> merchant_wallet option" where
  "wallet_get_primary d merchant_id =
     find (\<lambda>w. wa_merchant_id w = merchant_id \<and> wa_is_primary w) (base_query wa_deleted_at (db_wallets d))"

definition wallet_list_for_merchant :: "db \<Rightarrow> uuid \<Rightarrow> merchant_wallet list" where
  "wallet_list_for_merchant d merchant_id =
     filter (\<lambda>w. wa_merchant_id w = merchant_id) (base_query wa_deleted_at (db_wallets d))"

definition txn_get_detailed :: "db \<Rightarrow> uuid \<Rightarrow> txn option res" where
  "txn_get_detailed d transaction_id = repo_get_by_id tx_id tx_deleted_at (db_txns d) transaction_id"

definition txn_get_by_merchant_reference :: "db \<Rightarrow> uuid \<Rightarrow> string \<Rightarrow> txn option res" where
  "txn_get_by_merchant_reference d merchant_id reference =
     find_one (\<lambda>t. tx_merchant_id t = merchant_id \<and> tx_merchant_reference t = reference)
       (base_query tx_deleted_at (db_txns d))"

definition txn_get_by_merchant_reference_for_any_merchant :: "db \<Rightarrow> string \<Rightarrow> txn option res" where
  "txn_get_by_merchant_reference_for_any_merchant d reference =
     find_one (\<lambda>t. tx_merchant_reference t = reference) (base_query tx_deleted_at (db_txns d))"

definition txn_get_by_gateway_reference :: "db \<Rightarrow> string \<Rightarrow> txn option res" where
  "txn_get_by_gateway_reference d reference =
     find_one (\<lambda>t. tx_gateway_reference t = Some reference) (base_query tx_deleted_at (db_txns d))"

definition txn_list_for_merchant ::
  "db \<Rightarrow> uuid \<Rightarrow> string option \<Rightarrow> nat \<Rightarrow> nat \<Rightarrow> txn list \<times> nat" where
  "txn_list_for_merchant d merchant_id status offset limit =
     (let rows = filter (\<lambda>t. tx_merchant_id t = merchant_id \<and> tx_deleted_at t = None
                   \<and> (truthy status \<longrightarrow> Some (status_value (tx_status t)) = status)) (db_txns d)
      in (page_of tx_created_at offset limit rows, length rows))"

definition gateway_get_by_provider :: "db \<Rightarrow> string \<Rightarrow> payment_gateway_row option res" where
  "gateway_get_by_provider d provider =
     find_one (\<lambda>g. gw_provider g = provider) (base_query gw_deleted_at (db_gateways d))"

definition receipt_get_by_transaction :: "db \<Rightarrow> uuid \<Rightarrow> receipt option res" where
  "receipt_get_by_transaction d transaction_id =
     find_one (\<lambda>r. rc_transaction_id r = transaction_id) (base_query rc_deleted_at (db_receipts d))"

definition settlement_get_by_transaction :: "db \<Rightarrow> uuid \<Rightarrow> settlement option res" where
  "settlement_get_by_transaction d transaction_id =
     find_one (\<lambda>s. se_transaction_id s = transaction_id) (base_query se_deleted_at (db_settlements d))"

definition settlement_list_retryable :: "db \<Rightarrow> nat \<Rightarrow> settlement list" where
  "settlement_list_retryable d limit =
     take limit (sort_key se_created_at
       (filter (\<lambda>s. se_status s \<in> set [S_FAILED, S_RETRYING, S_PENDING])
         (base_query se_deleted_at (db_settlements d))))"

section \<open>The world and the request\<close>

record world =
  w_db :: db
  w_committed :: db
  w_sessions :: session_store
  w_processors :: processor_factory

text \<open>What a handler draws: the clock and the results of \<open>uuid4\<close>, numbered by the place of the
  call in the handler, as the text of the identifier and as its 32 hex digits.\<close>

record draws =
  dr_now :: time
  dr_uuid :: "nat \<Rightarrow> uuid"
  dr_hex :: "nat \<Rightarrow> string"

type_synonym 'a handler = "(world, 'a) act"

definition run_request :: "'a handler \<Rightarrow> 'a handler" where
  "run_request h = (\<lambda>w. case h w of
      (w', Inr x) \<Rightarrow> (w'\<lparr> w_committed := w_db w' \<rparr>, Inr x)
    | (w', Inl e) \<Rightarrow> (w'\<lparr> w_db := w_committed w' \<rparr>, Inl e))"

definition commit :: "unit handler" where
  "commit = modify (\<lambda>w. w\<lparr> w_committed := w_db w \<rparr>)"

definition on_db :: "(db \<Rightarrow> db) \<Rightarrow> unit handler" where
  "on_db f = modify (\<lambda>w. w\<lparr> w_db := f (w_db w) \<rparr>)"

definition ask_db :: "(db \<Rightarrow> 'a res) \<Rightarrow> 'a handler" where
  "ask_db f = getr (\<lambda>w. f (w_db w))"

definition txn_stored :: "txn \<Rightarrow> txn res" where
  \<comment> \<open>the row in the scales of its columns, as \<open>refresh\<close> reads it back\<close>
  "txn_stored t =
     bindr (numeric 18 2 (tx_amount t)) (\<lambda>amount.
     bindr (numeric 18 2 (tx_fees t)) (\<lambda>fees.
     bindr (numeric 18 2 (tx_tax t)) (\<lambda>tax.
     bindr (numeric 18 2 (tx_net_amount t)) (\<lambda>net.
     Inr (t\<lparr> tx_amount := amount, tx_fees := fees, tx_tax := tax, tx_net_amount := net \<rparr>)))))"

definition txn_add :: "txn \<Rightarrow> txn handler" where
  "txn_add t = bnd (liftr (txn_stored t)) (\<lambda>t.
     bnd (ask_db (\<lambda>d. repo_add tx_id txn_constraints t (db_txns d))) (\<lambda>rows.
     bnd (on_db (\<lambda>d. d\<lparr> db_txns := rows \<rparr>)) (\<lambda>_. ret t)))"

definition txn_put :: "txn \<Rightarrow> unit handler" where
  \<comment> \<open>assignments to the attributes of a loaded transaction, and the flush after them\<close>
  "txn_put t =
     bnd (ask_db (\<lambda>d. if txn_unique_receipt t (filter (\<lambda>r. tx_id r \<noteq> tx_id t) (db_txns d)) then Inr ()
                      else Inl IntegrityError)) (\<lambda>_.
     on_db (\<lambda>d. d\<lparr> db_txns := repo_update tx_id t (db_txns d) \<rparr>))"

definition add_status_log ::
  "uuid \<Rightarrow> transaction_status option \<Rightarrow> transaction_status \<Rightarrow> string option \<Rightarrow> string \<Rightarrow> unit handler" where
  "add_status_log transaction_id from_status to_status note actor =
     on_db (\<lambda>d. d\<lparr> db_status_logs := db_status_logs d @
       [\<lparr> sl_transaction_id = transaction_id, sl_from_status = from_status, sl_to_status = to_status,
          sl_note = note, sl_actor = Some actor \<rparr>] \<rparr>)"

definition attempt_add :: "payment_attempt \<Rightarrow> unit handler" where
  "attempt_add a = on_db (\<lambda>d. d\<lparr> db_attempts := db_attempts d @ [a] \<rparr>)"

definition receipt_add :: "receipt \<Rightarrow> unit handler" where
  "receipt_add r = bnd (ask_db (\<lambda>d. repo_add rc_id receipt_constraints r (db_receipts d))) (\<lambda>rows.
     on_db (\<lambda>d. d\<lparr> db_receipts := rows \<rparr>))"

definition settlement_stored :: "settlement \<Rightarrow> settlement res" where
  "settlement_stored s =
     bindr (numeric 18 2 (se_fiat_amount s)) (\<lambda>fiat.
     bindr (numeric 24 8 (se_usdt_amount s)) (\<lambda>usdt.
     bindr (numeric 24 8 (se_exchange_rate s)) (\<lambda>rate.
     Inr (s\<lparr> se_fiat_amount := fiat, se_usdt_amount := usdt, se_exchange_rate := rate \<rparr>))))"

definition settlement_add :: "settlement \<Rightarrow> settlement handler" where
  "settlement_add s = bnd (liftr (settlement_stored s)) (\<lambda>s.
     bnd (ask_db (\<lambda>d. repo_add se_id settlement_constraints s (db_settlements d))) (\<lambda>rows.
     bnd (on_db (\<lambda>d. d\<lparr> db_settlements := rows \<rparr>)) (\<lambda>_. ret s)))"

definition settlement_put :: "settlement \<Rightarrow> settlement handler" where
  "settlement_put s = bnd (liftr (settlement_stored s)) (\<lambda>s.
     bnd (check (0 < coeff (se_usdt_amount s)) IntegrityError) (\<lambda>_.
     bnd (on_db (\<lambda>d. d\<lparr> db_settlements := repo_update se_id s (db_settlements d) \<rparr>)) (\<lambda>_. ret s)))"

definition transfer_log_add :: "transfer_log \<Rightarrow> unit handler" where
  "transfer_log_add l = on_db (\<lambda>d. d\<lparr> db_transfer_logs := db_transfer_logs d @ [l] \<rparr>)"

definition audit :: "string \<Rightarrow> string \<Rightarrow> string \<Rightarrow> uuid \<Rightarrow> dict option \<Rightarrow> unit handler" where
  "audit action resource_type resource_id actor details =
     on_db (\<lambda>d. d\<lparr> db_audit_logs :=
       audit_record action resource_type (Some resource_id) (Some actor) None None details (db_audit_logs d) \<rparr>)"

lemma on_db_run [simp]:
  "on_db f w = (w\<lparr> w_db := f (w_db w) \<rparr>, Inr ())"
  "bnd (on_db f) k w = k () (w\<lparr> w_db := f (w_db w) \<rparr>)"
  by (simp_all add: on_db_def)

lemma ask_db_run [simp]:
  "ask_db f w = (w, f (w_db w))"
  "bnd (ask_db f) k w = (case f (w_db w) of Inl e \<Rightarrow> (w, Inl e) | Inr x \<Rightarrow> k x w)"
  by (simp_all add: ask_db_def)

lemma commit_run [simp]:
  "commit w = (w\<lparr> w_committed := w_db w \<rparr>, Inr ())"
  "bnd commit k w = k () (w\<lparr> w_committed := w_db w \<rparr>)"
  by (simp_all add: commit_def)

section \<open>Properties\<close>

text \<open>A request is all or nothing: when its handler raises, the database is back at what was
  committed before (what the handler itself committed included) and the session sees just that;
  when it returns, everything it wrote is committed.\<close>

theorem run_request_atomic:
  "let (w1, r1) = h w; (w2, r2) = run_request h w in
    r2 = r1 \<and> w_db w2 = w_committed w2
    \<and> w_committed w2 = (if is_ok r1 then w_db w1 else w_committed w1)
    \<and> w_sessions w2 = w_sessions w1 \<and> w_processors w2 = w_processors w1"
  by (auto simp: run_request_def split: prod.splits sum.splits)

text \<open>The repository of transactions: a transaction that was added is found by its id and by
  nothing else, updating it is seen by the next query, and a soft-deleted one is gone for every
  query while its row stays.\<close>

theorem txn_repository_spec:
  assumes "distinct (map tx_id rows)" "repo_add tx_id txn_constraints t rows = Inr rows'"
    and "tx_deleted_at t = None" "tx_id t' = tx_id t" "tx_deleted_at t' = None"
  shows "repo_get_by_id tx_id tx_deleted_at rows' (tx_id t) = Inr (Some t)
    \<and> (i \<noteq> tx_id t \<longrightarrow> repo_get_by_id tx_id tx_deleted_at rows' i = repo_get_by_id tx_id tx_deleted_at rows i)
    \<and> repo_get_by_id tx_id tx_deleted_at (repo_update tx_id t' rows') (tx_id t) = Inr (Some t')
    \<and> repo_get_by_id tx_id tx_deleted_at
        (repo_soft_delete tx_id (\<lambda>d r. r\<lparr> tx_deleted_at := d \<rparr>) now t rows') (tx_id t) = Inr None
    \<and> repo_count tx_deleted_at rows' = Suc (repo_count tx_deleted_at rows)"
proof -
  have t: "txns.table rows" using assms(1) by (simp add: txns.table_def)
  note a = txns.add_get [OF t assms(2)]
  have mem: "t \<in> set rows'" using assms(2) by (auto simp: repo_add_def split: if_splits)
  show ?thesis
    using a(2,3,4) assms(3) txns.update_get [OF a(1) mem, of t'] assms(4,5)
      txns.soft_delete_hides(1) [OF a(1) mem] by auto
qed

definition sample_txn :: "uuid \<Rightarrow> transaction_status \<Rightarrow> txn" where
  "sample_txn i st =
     \<lparr> tx_id = i, tx_merchant_id = ''m1'', tx_gateway_id = None, tx_amount = Dec 10050 (- 2),
       tx_currency = ''SAR'', tx_gateway_reference = Some ''sbx_1'', tx_merchant_reference = ''order-1'',
       tx_payment_method = Some ''visa'', tx_status = st, tx_payment_date = Some 1,
       tx_fees = Dec 0 (- 2), tx_tax = Dec 0 (- 2), tx_net_amount = Dec 0 (- 2),
       tx_receipt_number = None, tx_failure_reason = None, tx_extra_data = [], tx_created_at = 1,
       tx_deleted_at = None \<rparr>"

theorem txn_repository_spec_witness:
  "repo_get_by_id tx_id tx_deleted_at [sample_txn ''t1'' PROCESSING] ''t1'' = Inr (Some (sample_txn ''t1'' PROCESSING))
    \<and> repo_get_by_id tx_id tx_deleted_at
        (repo_soft_delete tx_id (\<lambda>d r. r\<lparr> tx_deleted_at := d \<rparr>) 2 (sample_txn ''t1'' PROCESSING)
          [sample_txn ''t1'' PROCESSING]) ''t1'' = Inr None"
proof -
  have a: "repo_add tx_id txn_constraints (sample_txn ''t1'' PROCESSING) [] = Inr [sample_txn ''t1'' PROCESSING]"
    by code_simp
  show ?thesis
    using txn_repository_spec [OF _ a, of "sample_txn ''t1'' CAPTURED" i 2 for i]
    by (auto simp: sample_txn_def)
qed

end
