(* ===== verification/Terminal_Session.thy ===== *)
theory Terminal_Session
  imports Database Protocol_Adapter
begin

text \<open>
  The terminal session service: \<open>src/app/services/terminal_session_service.py\<close> with the requests
  of \<open>src/app/schemas/terminal.py\<close>.

  Each method is a handler over the world; every change of a record is a change of the stored
  object, at the place where the code assigns, so that an exception later in the method leaves
  it. The constructor's \<open>get_payment_processor()\<close> is \<open>service_init\<close>, which every method runs
  first, as the routes build the service per request.

  The lemmas follow one invariant over all methods: the events of a session are a path of the
  state machine from its creation to its present state, and a method only touches sessions of the
  merchant that the caller owns.
\<close>

section \<open>Requests and responses\<close>

record create_terminal_session_request =
  cs_amount_minor :: int
  cs_currency :: string
  cs_transaction_type :: string
  cs_protocol_code :: "string option"
  cs_device_id :: "uuid option"
  cs_idempotency_key :: "string option"

record authorize_terminal_session_request =
  ar_payment_method_token :: string
  ar_scenario :: "string option"

record refund_terminal_session_request =
  rr_amount_minor :: "int option"
  rr_reason :: "string option"

record terminal_session_out =
  so_id :: uuid
  so_state :: terminal_state
  so_amount_minor :: int
  so_currency :: string
  so_transaction_type :: string
  so_protocol_id :: "string option"
  so_protocol_code :: "string option"
  so_protocol_label :: "string option"
  so_sandbox_outcome :: "string option"
  so_environment :: string
  so_authorization_code :: "string option"
  so_processor_reference :: "string option"
  so_processor_status :: "string option"
  so_processor_message :: "string option"
  so_signature_required :: bool
  so_card_brand :: "string option"
  so_card_last4 :: "string option"
  so_device_id :: "uuid option"
  so_events :: "terminal_event list"
  so_created_at :: time
  so_updated_at :: time

definition to_out :: "terminal_session_record \<Rightarrow> terminal_session_out" where
  "to_out r =
     \<lparr> so_id = tr_id r, so_state = tr_state r, so_amount_minor = tr_amount_minor r,
       so_currency = tr_currency r, so_transaction_type = tr_transaction_type r,
       so_protocol_id = tr_protocol_id r, so_protocol_code = tr_protocol_code r,
       so_protocol_label = tr_protocol_label r, so_sandbox_outcome = tr_sandbox_outcome r,
       so_environment = tr_environment r, so_authorization_code = tr_authorization_code r,
       so_processor_reference = tr_processor_reference r, so_processor_status = tr_processor_status r,
       so_processor_message = tr_processor_message r, so_signature_required = tr_signature_required r,
       so_card_brand = tr_card_brand r, so_card_last4 = tr_card_last4 r, so_device_id = tr_device_id r,
       so_events = tr_events r, so_created_at = tr_created_at r, so_updated_at = tr_updated_at r \<rparr>"

section \<open>Steps of a method\<close>

definition append_event ::
  "terminal_state option \<Rightarrow> terminal_state \<Rightarrow> string \<Rightarrow> terminal_session_record \<Rightarrow> terminal_session_record" where
  "append_event from_state to_state note r =
     r\<lparr> tr_events := tr_events r @ [\<lparr> ev_from = from_state, ev_to = to_state, ev_note = note \<rparr>] \<rparr>"

text \<open>\<open>prev = record.state; record.state = transition(prev, t); _append_event(record, prev, ...)\<close>\<close>

definition advanced ::
  "terminal_session_record \<Rightarrow> terminal_state \<Rightarrow> string \<Rightarrow> terminal_session_record res" where
  "advanced r t note =
     bindr (transition (tr_state r) t) (\<lambda>s. Inr (append_event (Some (tr_state r)) s note (r\<lparr> tr_state := s \<rparr>)))"

definition put_rec :: "terminal_session_record \<Rightarrow> terminal_session_record handler" where
  "put_rec r = bnd (modify (\<lambda>w. w\<lparr> w_sessions := store_put (w_sessions w) r \<rparr>)) (\<lambda>_. ret r)"

definition advance ::
  "terminal_session_record \<Rightarrow> terminal_state \<Rightarrow> string \<Rightarrow> terminal_session_record handler" where
  "advance r t note = bnd (liftr (advanced r t note)) put_rec"

definition save_rec :: "time \<Rightarrow> terminal_session_record \<Rightarrow> terminal_session_record handler" where
  "save_rec now r =
     bnd (modify (\<lambda>w. w\<lparr> w_sessions := fst (store_save (w_sessions w) now r) \<rparr>)) (\<lambda>_. ret (touch now r))"

definition service_init :: "settings \<Rightarrow> string handler" where
  "service_init st = (\<lambda>w.
     case get_payment_processor st None (w_processors w) of
       Inl e \<Rightarrow> (w, Inl e)
     | Inr (f, key) \<Rightarrow> (w\<lparr> w_processors := f \<rparr>, Inr key))"

definition use_processor ::
  "string \<Rightarrow> (processor \<Rightarrow> (processor \<times> processor_result) res) \<Rightarrow> processor_result handler" where
  \<comment> \<open>a call on \<open>self.processor\<close>; the key always names an object after \<open>service_init\<close>\<close>
  "use_processor key call = (\<lambda>w.
     case pf_instances (w_processors w) key of
       None \<Rightarrow> (w, Inl AssertionError)
     | Some p \<Rightarrow>
         (case call p of
            Inl e \<Rightarrow> (w, Inl e)
          | Inr (p', result) \<Rightarrow>
              (w\<lparr> w_processors := (w_processors w)
                   \<lparr> pf_instances := (pf_instances (w_processors w))(key \<mapsto> p') \<rparr> \<rparr>, Inr result)))"

definition merchant_for :: "uuid \<Rightarrow> merchant_profile handler" where
  "merchant_for user_id =
     bnd (ask_db (\<lambda>d. merchant_get_by_owner d user_id)) (\<lambda>m.
     case m of None \<Rightarrow> raise (AppException ''Merchant profile required'' 403) | Some m \<Rightarrow> ret m)"

text \<open>\<open>TerminalSessionService(session)\<close> and the first line of a method.\<close>

definition with_merchant :: "settings \<Rightarrow> uuid \<Rightarrow> (string \<Rightarrow> merchant_profile \<Rightarrow> 'a handler) \<Rightarrow> 'a handler" where
  "with_merchant st user_id body =
     bnd (service_init st) (\<lambda>key. bnd (merchant_for user_id) (\<lambda>merchant. body key merchant))"

definition owned :: "uuid \<Rightarrow> uuid \<Rightarrow> terminal_session_record handler" where
  "owned merchant_id session_id =
     bnd (gets (\<lambda>w. store_get (w_sessions w) session_id)) (\<lambda>r.
     case r of
       None \<Rightarrow> raise (NotFoundError ''Terminal session not found'')
     | Some r \<Rightarrow> if tr_merchant_id r \<noteq> merchant_id then raise (NotFoundError ''Terminal session not found'')
                 else ret r)"

definition session_audit :: "string \<Rightarrow> uuid \<Rightarrow> uuid \<Rightarrow> dict \<Rightarrow> unit handler" where
  "session_audit action session_id user_id details =
     audit action ''terminal_session'' session_id user_id (Some details)"

definition is_lookup_error :: "exc \<Rightarrow> bool" where
  \<comment> \<open>\<open>except (KeyError, ValueError)\<close>\<close>
  "is_lookup_error e = (case e of KeyError _ \<Rightarrow> True | ValueError _ \<Rightarrow> True | _ \<Rightarrow> False)"

section \<open>The methods\<close>

definition session_protocol ::
  "create_terminal_session_request \<Rightarrow> string \<Rightarrow> protocol_definition option res" where
  "session_protocol payload txn_type =
     (if truthy (cs_protocol_code payload)
      then (case validate_protocol_selection (or_str (cs_protocol_code payload) []) txn_type of
              Inr d \<Rightarrow> Inr (Some d)
            | Inl e \<Rightarrow> Inl (if is_lookup_error e then AppException (exc_str e) 422 else e))
      else Inr None)"

definition new_session ::
  "draws \<Rightarrow> uuid \<Rightarrow> uuid \<Rightarrow> create_terminal_session_request \<Rightarrow> protocol_definition option
    \<Rightarrow> terminal_session_record res" where
  "new_session dr merchant_id user_id payload defn =
     (let record0 =
        \<lparr> tr_id = dr_uuid dr 0, tr_merchant_id = merchant_id, tr_user_id = user_id, tr_state = T_CREATED,
          tr_amount_minor = cs_amount_minor payload, tr_currency = upper (cs_currency payload),
          tr_transaction_type = upper (cs_transaction_type payload),
          tr_protocol_id = map_option pd_selection_id defn, tr_protocol_code = map_option pd_code defn,
          tr_protocol_label = map_option display_label defn,
          tr_sandbox_outcome = Some (case defn of None \<Rightarrow> ''capture'' | Some d \<Rightarrow> outcome_name (pd_sandbox_outcome d)),
          tr_device_id = cs_device_id payload, tr_idempotency_key = cs_idempotency_key payload,
          tr_environment = ''SANDBOX'', tr_payment_method_token = None, tr_authorization_code = None,
          tr_processor_reference = None, tr_processor_status = None, tr_processor_message = None,
          tr_signature_required = False, tr_card_brand = None, tr_card_last4 = None,
          tr_events = [], tr_created_at = dr_now dr, tr_updated_at = dr_now dr \<rparr>
      in bindr (advanced (append_event None T_CREATED ''Session created'' record0) T_AMOUNT_ENTERED
                  ''Amount entered'') (\<lambda>r.
         if truthy (tr_protocol_id r)
         then advanced r T_PROTOCOL_SELECTED
                (''Protocol selected: '' @ or_str (tr_protocol_label r) [])
         else Inr r))"

definition session_create ::
  "settings \<Rightarrow> draws \<Rightarrow> uuid \<Rightarrow> create_terminal_session_request \<Rightarrow> terminal_session_out handler" where
  "session_create st dr user_id payload =
     with_merchant st user_id (\<lambda>key merchant.
     bnd (liftr (session_protocol payload (upper (cs_transaction_type payload)))) (\<lambda>defn.
     bnd (liftr (new_session dr (me_id merchant) user_id payload defn)) (\<lambda>r.
     bnd (gets (\<lambda>w. snd (store_create (w_sessions w) r))) (\<lambda>r'.
     bnd (modify (\<lambda>w. w\<lparr> w_sessions := fst (store_create (w_sessions w) r) \<rparr>)) (\<lambda>_.
     bnd (session_audit ''terminal_session_created'' (tr_id r') user_id
            [(''amount_minor'', JInt (tr_amount_minor r')), (''currency'', JStr (tr_currency r')),
             (''protocol_code'', jopt (tr_protocol_code r')), (''state'', JStr (state_name (tr_state r')))]) (\<lambda>_.
     ret (to_out r')))))))"

definition session_get :: "settings \<Rightarrow> uuid \<Rightarrow> uuid \<Rightarrow> terminal_session_out handler" where
  "session_get st user_id session_id =
     with_merchant st user_id (\<lambda>key merchant.
     bnd (owned (me_id merchant) session_id) (\<lambda>r.
     ret (to_out r)))"

definition session_list ::
  "settings \<Rightarrow> uuid \<Rightarrow> string option \<Rightarrow> string option \<Rightarrow> string option \<Rightarrow> terminal_session_out list handler" where
  "session_list st user_id status protocol currency =
     with_merchant st user_id (\<lambda>key merchant.
     bnd (gets (\<lambda>w. store_list_for_merchant (w_sessions w) (me_id merchant) 100 status protocol currency)) (\<lambda>rs.
     ret (map to_out rs)))"

definition record_result :: "string \<Rightarrow> processor_result \<Rightarrow> terminal_session_record \<Rightarrow> terminal_session_record" where
  "record_result token result r =
     r\<lparr> tr_payment_method_token := Some token,
        tr_processor_reference := Some (rs_processor_reference result),
        tr_processor_status := Some (rs_status result), tr_processor_message := rs_message result,
        tr_authorization_code := rs_authorization_code result,
        tr_signature_required := rs_signature_required result,
        tr_card_brand := rs_card_brand result, tr_card_last4 := rs_card_last4 result \<rparr>"

definition after_approval ::
  "draws \<Rightarrow> string \<Rightarrow> processor_result \<Rightarrow> terminal_session_record \<Rightarrow> terminal_session_record handler" where
  "after_approval dr key result r =
     bnd (advance r T_APPROVED (or_str (rs_message result) ''Approved'')) (\<lambda>r.
     let outcome = or_str (tr_sandbox_outcome r) ''capture'' in
     if outcome \<in> set [''pre_auth'', ''offline_auth'', ''signature''] then ret r
     else if outcome = ''completion'' then
       bnd (use_processor key (\<lambda>p. processor_complete_authorization p (tr_id r)
              (rs_processor_reference result) (tr_amount_minor r) (tr_currency r) (dr_hex dr 2))) (\<lambda>_.
       advance r T_COMPLETED ''Completion'')
     else
       bnd (use_processor key (\<lambda>p. processor_capture p (tr_id r)
              (rs_processor_reference result) (tr_amount_minor r) (tr_currency r) (dr_hex dr 2))) (\<lambda>_.
       bnd (advance r T_CAPTURED ''Captured'') (\<lambda>r.
       advance r T_COMPLETED ''Completed'')))"

definition authorize_start :: "terminal_session_record \<Rightarrow> terminal_session_record handler" where
  "authorize_start r =
     (if tr_state r \<noteq> T_PROTOCOL_SELECTED
      then (if tr_state r = T_AMOUNT_ENTERED \<and> truthy (tr_protocol_id r)
            then advance r T_PROTOCOL_SELECTED ''Protocol selected before authorize''
            else raise (AppException
              (''Authorize requires PROTOCOL_SELECTED (was '' @ state_name (tr_state r) @ '')'') 409))
      else ret r)"

text \<open>\<open>except ValueError\<close> around the call of the processor\<close>

definition authorize_failed :: "draws \<Rightarrow> terminal_session_record \<Rightarrow> exc \<Rightarrow> processor_result handler" where
  "authorize_failed dr r e =
     (case e of
        ValueError m \<Rightarrow>
          bnd (advance r T_FAILED m) (\<lambda>r.
          bnd (save_rec (dr_now dr) r) (\<lambda>_.
          raise (AppException m 422)))
      | _ \<Rightarrow> raise e)"

definition authorize_call ::
  "draws \<Rightarrow> string \<Rightarrow> authorize_terminal_session_request \<Rightarrow> terminal_session_record \<Rightarrow> processor_result handler" where
  "authorize_call dr key payload r =
     use_processor key (\<lambda>p. processor_authorize p (tr_id r) (tr_amount_minor r) (tr_currency r)
       (or_str (tr_sandbox_outcome r) ''capture'') (ar_payment_method_token payload) (ar_scenario payload)
       (dr_hex dr 0) (dr_hex dr 1))"

definition authorize_settle ::
  "draws \<Rightarrow> string \<Rightarrow> processor_result \<Rightarrow> terminal_session_record \<Rightarrow> terminal_session_record handler" where
  "authorize_settle dr key result r =
     (if rs_status result = ''APPROVED'' then after_approval dr key result r
      else if rs_status result = ''DECLINED'' then advance r T_DECLINED (or_str (rs_message result) ''Declined'')
      else if rs_status result = ''CANCELLED'' then advance r T_CANCELLED (or_str (rs_message result) ''Cancelled'')
      else advance r T_FAILED (or_str (rs_message result) (rs_status result)))"

text \<open>From the card to the saved session.\<close>

definition authorize_card ::
  "draws \<Rightarrow> string \<Rightarrow> authorize_terminal_session_request \<Rightarrow> terminal_session_record \<Rightarrow> terminal_session_record handler" where
  "authorize_card dr key payload r =
     bnd (advance r T_CARD_PRESENTED ''Card presented (tokenized)'') (\<lambda>r.
     bnd (advance r T_AUTHORIZING ''Authorizing'') (\<lambda>r.
     bnd (catch (authorize_call dr key payload r) (authorize_failed dr r)) (\<lambda>result.
     bnd (put_rec (record_result (ar_payment_method_token payload) result r)) (\<lambda>r.
     bnd (authorize_settle dr key result r) (\<lambda>r.
     save_rec (dr_now dr) r)))))"

definition session_authorize ::
  "settings \<Rightarrow> draws \<Rightarrow> uuid \<Rightarrow> uuid \<Rightarrow> authorize_terminal_session_request \<Rightarrow> terminal_session_out handler" where
  "session_authorize st dr user_id session_id payload =
     with_merchant st user_id (\<lambda>key merchant.
     bnd (owned (me_id merchant) session_id) (\<lambda>r.
     bnd (authorize_start r) (\<lambda>r.
     bnd (check (starts_with (ar_payment_method_token payload) ''pm_'')
            (AppException (''payment_method_token required '' @ em_dash @ '' never send raw PAN/CVV'') 422)) (\<lambda>_.
     bnd (liftr (require_protocol_execution (tr_protocol_code r) (payment_environment st))) (\<lambda>_.
     bnd (authorize_card dr key payload r) (\<lambda>r.
     bnd (session_audit ''terminal_session_authorized'' (tr_id r) user_id
            [(''state'', JStr (state_name (tr_state r))), (''processor_status'', jopt (tr_processor_status r)),
             (''processor_reference'', jopt (tr_processor_reference r)),
             (''authorization_code'', jopt (tr_authorization_code r))]) (\<lambda>_.
     ret (to_out r))))))))"

definition session_capture :: "settings \<Rightarrow> draws \<Rightarrow> uuid \<Rightarrow> uuid \<Rightarrow> terminal_session_out handler" where
  "session_capture st dr user_id session_id =
     with_merchant st user_id (\<lambda>key merchant.
     bnd (owned (me_id merchant) session_id) (\<lambda>r.
     bnd (check (tr_state r = T_APPROVED)
            (AppException (''Capture requires APPROVED (was '' @ state_name (tr_state r) @ '')'') 409)) (\<lambda>_.
     bnd (check (truthy (tr_processor_reference r)) (AppException ''Missing processor reference'' 409)) (\<lambda>_.
     bnd (use_processor key (\<lambda>p. processor_capture p (tr_id r) (or_str (tr_processor_reference r) [])
            (tr_amount_minor r) (tr_currency r) (dr_hex dr 0))) (\<lambda>_.
     bnd (advance r T_CAPTURED ''Captured'') (\<lambda>r.
     bnd (advance r T_COMPLETED ''Completed'') (\<lambda>r.
     bnd (save_rec (dr_now dr) r) (\<lambda>r.
     bnd (session_audit ''terminal_session_captured'' (tr_id r) user_id
            [(''state'', JStr (state_name (tr_state r)))]) (\<lambda>_.
     ret (to_out r))))))))))"

definition session_void :: "settings \<Rightarrow> draws \<Rightarrow> uuid \<Rightarrow> uuid \<Rightarrow> terminal_session_out handler" where
  "session_void st dr user_id session_id =
     with_merchant st user_id (\<lambda>key merchant.
     bnd (owned (me_id merchant) session_id) (\<lambda>r.
     bnd (liftr (assert_terminal_transition (tr_state r) T_VOIDED)) (\<lambda>_.
     bnd (if truthy (tr_processor_reference r)
          then catch
            (bnd (use_processor key (\<lambda>p. processor_void p (tr_id r) (or_str (tr_processor_reference r) []))) (\<lambda>_. ret ()))
            (\<lambda>e. if is_lookup_error e then raise (AppException (exc_str e) 409) else raise e)
          else ret ()) (\<lambda>_.
     bnd (advance r T_VOIDED ''Voided'') (\<lambda>r.
     bnd (save_rec (dr_now dr) r) (\<lambda>r.
     bnd (session_audit ''terminal_session_voided'' (tr_id r) user_id
            [(''state'', JStr (state_name (tr_state r)))]) (\<lambda>_.
     ret (to_out r))))))))"

definition session_refund ::
  "settings \<Rightarrow> draws \<Rightarrow> uuid \<Rightarrow> uuid \<Rightarrow> refund_terminal_session_request \<Rightarrow> terminal_session_out handler" where
  "session_refund st dr user_id session_id payload =
     with_merchant st user_id (\<lambda>key merchant.
     bnd (owned (me_id merchant) session_id) (\<lambda>r.
     bnd (liftr (assert_terminal_transition (tr_state r) T_REFUNDED)) (\<lambda>_.
     let amount = (case rr_amount_minor payload of None \<Rightarrow> tr_amount_minor r
                   | Some a \<Rightarrow> if a = 0 then tr_amount_minor r else a) in
     bnd (check (truthy (tr_processor_reference r)) (AppException ''Missing processor reference'' 409)) (\<lambda>_.
     bnd (use_processor key (\<lambda>p. processor_refund p (tr_id r) (or_str (tr_processor_reference r) [])
            amount (tr_currency r) (dr_hex dr 0) (dr_hex dr 1))) (\<lambda>result.
     bnd (liftr (transition (tr_state r) T_REFUNDED)) (\<lambda>s.
     bnd (put_rec (append_event (Some (tr_state r)) s (or_str (rs_message result) ''Refunded'')
            (r\<lparr> tr_state := s, tr_processor_reference := Some (rs_processor_reference result),
                tr_authorization_code := rs_authorization_code result,
                tr_processor_message := (if truthy (rs_message result) then rs_message result
                                         else rr_reason payload) \<rparr>))) (\<lambda>r.
     bnd (save_rec (dr_now dr) r) (\<lambda>r.
     bnd (session_audit ''terminal_session_refunded'' (tr_id r) user_id
            [(''state'', JStr (state_name (tr_state r))), (''amount_minor'', JInt amount)]) (\<lambda>_.
     ret (to_out r))))))))))"

definition session_cancel :: "settings \<Rightarrow> draws \<Rightarrow> uuid \<Rightarrow> uuid \<Rightarrow> terminal_session_out handler" where
  "session_cancel st dr user_id session_id =
     with_merchant st user_id (\<lambda>key merchant.
     bnd (owned (me_id merchant) session_id) (\<lambda>r.
     bnd (liftr (assert_terminal_transition (tr_state r) T_CANCELLED)) (\<lambda>_.
     bnd (advance r T_CANCELLED ''Cancelled by operator'') (\<lambda>r.
     bnd (save_rec (dr_now dr) r) (\<lambda>r.
     bnd (session_audit ''terminal_session_cancelled'' (tr_id r) user_id
            [(''state'', JStr (state_name (tr_state r)))]) (\<lambda>_.
     ret (to_out r)))))))"

definition select_protocol_only :: "draws \<Rightarrow> uuid \<Rightarrow> uuid \<Rightarrow> string \<Rightarrow> terminal_session_out handler" where
  "select_protocol_only dr session_id merchant_id protocol_code =
     bnd (owned merchant_id session_id) (\<lambda>r.
     bnd (liftr (get_protocol protocol_code)) (\<lambda>d.
     bnd (check (tr_state r = T_AMOUNT_ENTERED)
            (AppException (''Protocol select requires AMOUNT_ENTERED (was '' @ state_name (tr_state r) @ '')'') 409)) (\<lambda>_.
     bnd (liftr (transition (tr_state r) T_PROTOCOL_SELECTED)) (\<lambda>s.
     bnd (put_rec (append_event (Some (tr_state r)) s (''Protocol selected: '' @ display_label d)
            (r\<lparr> tr_state := s, tr_protocol_id := Some (pd_selection_id d), tr_protocol_code := Some (pd_code d),
                tr_protocol_label := Some (display_label d),
                tr_sandbox_outcome := Some (outcome_name (pd_sandbox_outcome d)) \<rparr>))) (\<lambda>r.
     bnd (save_rec (dr_now dr) r) (\<lambda>r.
     ret (to_out r)))))))"

end
