(* ===== verification/Session_Invariant.thy ===== *)
theory Session_Invariant
  imports Terminal_Session
begin

text \<open>
  What the methods of the terminal session service keep: the history of every session, and the
  sessions of other merchants. Each method is one triple (\<open>runs\<close>) over the relation \<open>evolves\<close>,
  built from the triples of its steps.
\<close>

section \<open>Histories\<close>

fun chained :: "terminal_state \<Rightarrow> terminal_event list \<Rightarrow> bool" where
  "chained s [] = True"
| "chained s (e # es) = (ev_from e = Some s \<and> can_terminal_transition s (ev_to e) \<and> chained (ev_to e) es)"

fun last_state :: "terminal_state \<Rightarrow> terminal_event list \<Rightarrow> terminal_state" where
  "last_state s [] = s"
| "last_state s (e # es) = last_state (ev_to e) es"

text \<open>The events run from the creation to the present state, each by an allowed transition.\<close>

fun history :: "terminal_event list \<Rightarrow> terminal_state \<Rightarrow> bool" where
  "history [] s = False"
| "history (e # es) s = (ev_from e = None \<and> ev_to e = T_CREATED \<and> chained T_CREATED es
     \<and> last_state T_CREATED es = s)"

definition history_ok :: "terminal_session_record \<Rightarrow> bool" where
  "history_ok r = history (tr_events r) (tr_state r)"

lemma chained_append: "chained s (es @ fs) \<longleftrightarrow> chained s es \<and> chained (last_state s es) fs"
  by (induction es arbitrary: s) auto

lemma last_state_append: "last_state s (es @ fs) = last_state (last_state s es) fs"
  by (induction es arbitrary: s) auto

lemma history_append:
  assumes "history_ok r" "can_terminal_transition (tr_state r) t" "tr_events r' = tr_events r @ [e]"
    and "ev_from e = Some (tr_state r)" "ev_to e = t" "tr_state r' = t"
  shows "history_ok r'"
  using assms by (cases "tr_events r") (auto simp: history_ok_def chained_append last_state_append)

lemma history_ok_same: "tr_events r' = tr_events r \<Longrightarrow> tr_state r' = tr_state r \<Longrightarrow> history_ok r' = history_ok r"
  by (simp add: history_ok_def)

section \<open>How a session may change\<close>

definition grows :: "terminal_session_record \<Rightarrow> terminal_session_record \<Rightarrow> bool" where
  "grows r r' \<longleftrightarrow> same_slot r r' \<and> (history_ok r \<longrightarrow> history_ok r') \<and> (\<exists>es. tr_events r' = tr_events r @ es)"

definition evolves :: "uuid \<Rightarrow> session_store \<Rightarrow> session_store \<Rightarrow> bool" where
  "evolves mid s s' \<longleftrightarrow> (store_wf s \<longrightarrow> store_wf s')
     \<and> (\<forall>i r. store_get s i = Some r \<longrightarrow>
          (\<exists>r'. store_get s' i = Some r' \<and> grows r r' \<and> (tr_merchant_id r \<noteq> mid \<longrightarrow> r' = r)))
     \<and> (\<forall>i r'. store_get s i = None \<longrightarrow> store_get s' i = Some r' \<longrightarrow>
          tr_merchant_id r' = mid \<and> history_ok r')"

definition tracked :: "uuid \<Rightarrow> terminal_session_record \<Rightarrow> session_store \<Rightarrow> bool" where
  "tracked mid r s \<longleftrightarrow> store_wf s \<and> store_get s (tr_id r) = Some r \<and> tr_merchant_id r = mid"

lemma same_slot_trans: "same_slot a b \<Longrightarrow> same_slot b c \<Longrightarrow> same_slot a c"
  by (simp add: same_slot_def)

lemma grows_refl: "grows r r"
  by (auto simp: grows_def same_slot_def)

lemma grows_trans: "grows a b \<Longrightarrow> grows b c \<Longrightarrow> grows a c"
  by (auto simp: grows_def intro: same_slot_trans)

lemma evolves_trans:
  assumes "evolves mid s s'" "evolves mid s' s''"
  shows "evolves mid s s''"
  unfolding evolves_def
proof (intro conjI allI impI)
  show "store_wf s \<Longrightarrow> store_wf s''" using assms by (simp add: evolves_def)
next
  fix i r
  assume "store_get s i = Some r"
  then obtain r' where 1: "store_get s' i = Some r'" "grows r r'" "tr_merchant_id r \<noteq> mid \<longrightarrow> r' = r"
    using assms(1) unfolding evolves_def by blast
  from 1(1) obtain r'' where 2: "store_get s'' i = Some r''" "grows r' r''" "tr_merchant_id r' \<noteq> mid \<longrightarrow> r'' = r'"
    using assms(2) unfolding evolves_def by blast
  show "\<exists>r'. store_get s'' i = Some r' \<and> grows r r' \<and> (tr_merchant_id r \<noteq> mid \<longrightarrow> r' = r)"
    using 1 2 grows_trans by blast
next
  fix i r'
  assume n: "store_get s i = None" and s: "store_get s'' i = Some r'"
  have "tr_merchant_id r' = mid \<and> history_ok r'"
  proof (cases "store_get s' i")
    case None
    then show ?thesis using assms(2) s unfolding evolves_def by blast
  next
    case (Some x)
    then have "tr_merchant_id x = mid" "history_ok x" using assms(1) n unfolding evolves_def by blast+
    moreover obtain y where "store_get s'' i = Some y" "grows x y"
      using assms(2) Some unfolding evolves_def by blast
    ultimately show ?thesis using s by (simp add: grows_def same_slot_def)
  qed
  then show "tr_merchant_id r' = mid" "history_ok r'" by blast+
qed

interpretation sess: respects "evolves mid" w_sessions for mid
proof
  show "evolves mid v v" for mid v by (auto simp: evolves_def grows_refl)
qed (rule evolves_trans)

lemma put_evolves:
  assumes "tracked mid r s" "grows r r'"
  shows "evolves mid s (store_put s r')" and "tracked mid r' (store_put s r')"
proof -
  have id: "tr_id r' = tr_id r" "tr_merchant_id r' = tr_merchant_id r" and ss: "same_slot r r'"
    using assms(2) by (auto simp: grows_def same_slot_def)
  have wf: "store_wf (store_put s r')"
    using repo.put_wf [of s r' r] assms(1) ss id by (simp add: tracked_def)
  show "tracked mid r' (store_put s r')" using wf assms(1) id by (simp add: tracked_def)
  show "evolves mid s (store_put s r')"
    using wf assms id by (auto simp: evolves_def tracked_def grows_refl)
qed

section \<open>The steps\<close>

lemma runs_put_rec: "grows r r' \<Longrightarrow> runs (evolves mid) w_sessions (tracked mid r) (put_rec r') (tracked mid) e"
  by (auto simp: runs_def put_rec_def put_evolves)

lemma advanced_grows: "advanced r t note = Inr r' \<Longrightarrow> grows r r' \<and> tr_state r' = t"
  by (auto simp: advanced_def bindr_Inr_iff transition_Inr_iff append_event_def grows_def same_slot_def
      intro: history_append)

lemma runs_advance: "runs (evolves mid) w_sessions (tracked mid r) (advance r t note) (tracked mid) (\<lambda>_. True)"
  unfolding advance_def by (rule sess.runs_bnd_liftr) (auto intro: runs_put_rec dest: advanced_grows)

lemma touch_grows: "grows r (touch now r)"
  by (simp add: grows_def same_slot_def history_ok_def touch_def)

lemma runs_save: "runs (evolves mid) w_sessions (tracked mid r) (save_rec now r) (tracked mid) e"
  using put_evolves [OF _ touch_grows] by (auto simp: runs_def save_rec_def store_save_eq)

lemma silent_use_processor: "silent w_sessions (use_processor key call)"
  by (auto simp: silent_def use_processor_def split: option.splits sum.splits prod.splits)

lemma silent_audit: "silent w_sessions (session_audit a i u d)"
  by (simp add: silent_def session_audit_def audit_def)

lemma runs_owned: "runs (evolves mid) w_sessions store_wf (owned mid sid) (tracked mid) (\<lambda>_. True)"
  by (auto simp: runs_def owned_def sess.refl tracked_def dest: store_wfD(1) split: option.splits)

lemma record_result_grows: "grows r (record_result token result r)"
  by (auto simp: grows_def same_slot_def record_result_def history_ok_def)

text \<open>The prefix of every method: the processor, then the merchant of the caller.\<close>

definition caller :: "world \<Rightarrow> uuid \<Rightarrow> uuid \<Rightarrow> bool" where
  "caller w user_id mid \<longleftrightarrow> (\<forall>m. merchant_get_by_owner (w_db w) user_id = Inr (Some m) \<longrightarrow> me_id m = mid)"

lemma as_merchant:
  assumes "\<And>key m. me_id m = mid \<Longrightarrow> runs (evolves mid) w_sessions p (F key m) q (\<lambda>_. True)"
    and "caller w user_id mid" "p (w_sessions w)"
    and "with_merchant st user_id F w = (w', r)"
  shows "evolves mid (w_sessions w) (w_sessions w')"
proof (cases "get_payment_processor st None (w_processors w)")
  case (Inl e)
  then show ?thesis using assms(4) by (simp add: with_merchant_def bnd_def service_init_def sess.refl split: prod.splits)
next
  case (Inr fk)
  obtain f key where fk: "fk = (f, key)" by fastforce
  define w1 where "w1 = w\<lparr> w_processors := f \<rparr>"
  have "service_init st w = (w1, Inr key)" using Inr fk by (simp add: service_init_def w1_def)
  then have run: "bnd (merchant_for user_id) (F key) w1 = (w', r)"
    using assms(4) by (simp add: with_merchant_def bnd_def)
  have w1: "w_sessions w1 = w_sessions w" "w_db w1 = w_db w" by (simp_all add: w1_def)
  show ?thesis
  proof (cases "merchant_for user_id w1")
    case (Pair w2 mr)
    have w2: "w_sessions w2 = w_sessions w"
      using Pair w1 by (auto simp: merchant_for_def split: sum.splits option.splits)
    show ?thesis
    proof (cases mr)
      case (Inl e)
      then show ?thesis using run Pair w2 by (simp add: bnd_def sess.refl)
    next
      case (Inr m)
      have "me_id m = mid"
        using Pair Inr assms(2) w1 by (auto simp: merchant_for_def caller_def split: sum.splits option.splits)
      from assms(1) [OF this, of key] have "runs (evolves mid) w_sessions p (F key m) q (\<lambda>_. True)" .
      moreover have "F key m w2 = (w', r)" using run Pair Inr by (simp add: bnd_def)
      ultimately show ?thesis using runsD(1) assms(3) w2 by metis
    qed
  qed
qed

lemmas session_steps =
  runs_owned runs_advance runs_save
  sess.runs_silent [OF silent_use_processor] sess.runs_silent [OF silent_audit]
  sess.runs_silent [OF silent_pure(6)]
  runs_put_rec [OF record_result_grows]
  sess.runs_raise sess.runs_silent [OF silent_pure(1)] sess.runs_ret sess.runs_bnd_liftr sess.runs_bnd

section \<open>The methods\<close>

lemma after_approval_runs:
  "runs (evolves mid) w_sessions (tracked mid r) (after_approval dr key result r) (tracked mid) (\<lambda>_. True)"
  unfolding after_approval_def Let_def
  by (assumption | rule TrueI session_steps sess.runs_if)+

lemma authorize_start_runs:
  "runs (evolves mid) w_sessions (tracked mid r) (authorize_start r) (tracked mid) (\<lambda>_. True)"
  unfolding authorize_start_def by (assumption | rule TrueI session_steps sess.runs_if)+

lemma authorize_settle_runs:
  "runs (evolves mid) w_sessions (tracked mid r) (authorize_settle dr key result r) (tracked mid) (\<lambda>_. True)"
  unfolding authorize_settle_def by (assumption | rule TrueI after_approval_runs session_steps sess.runs_if)+

lemma refund_grows:
  assumes "transition (tr_state r) t = Inr s"
  shows "grows r (append_event (Some (tr_state r)) s note
    (r\<lparr> tr_state := s, tr_processor_reference := a, tr_authorization_code := b, tr_processor_message := c \<rparr>))"
  using assms
  by (auto simp: transition_Inr_iff append_event_def grows_def same_slot_def intro: history_append)

lemma select_grows:
  assumes "transition (tr_state r) t = Inr s"
  shows "grows r (append_event (Some (tr_state r)) s note
    (r\<lparr> tr_state := s, tr_protocol_id := a, tr_protocol_code := b, tr_protocol_label := c,
        tr_sandbox_outcome := d \<rparr>))"
  using assms
  by (auto simp: transition_Inr_iff append_event_def grows_def same_slot_def intro: history_append)

lemma runs_catch_processor:
  assumes "\<And>err. runs (evolves mid) w_sessions (tracked mid r) (h err) (\<lambda>_. tracked mid r) (\<lambda>_. True)"
  shows "runs (evolves mid) w_sessions (tracked mid r) (catch (use_processor key call) h)
    (\<lambda>_. tracked mid r) (\<lambda>_. True)"
  by (rule sess.runs_catch [OF sess.runs_silent [OF silent_use_processor] assms]) simp

lemma authorize_failed_runs:
  "runs (evolves mid) w_sessions (tracked mid r) (authorize_failed dr r err) (\<lambda>_. tracked mid r) (\<lambda>_. True)"
  unfolding authorize_failed_def by (cases err; simp) (assumption | rule TrueI session_steps)+

lemma authorize_card_runs:
  "runs (evolves mid) w_sessions (tracked mid r) (authorize_card dr key payload r) (tracked mid) (\<lambda>_. True)"
  unfolding authorize_card_def authorize_call_def
  by (assumption | rule TrueI runs_catch_processor authorize_failed_runs authorize_settle_runs session_steps)+

lemmas as_owner = as_merchant [where p = store_wf and q = "\<lambda>_ _. True"]

lemmas method_steps =
  TrueI authorize_start_runs authorize_card_runs session_steps sess.runs_if

lemma session_authorize_evolves:
  assumes "session_authorize st dr user_id sid payload w = (w', r)"
    and "caller w user_id mid" "store_wf (w_sessions w)"
  shows "evolves mid (w_sessions w) (w_sessions w')"
  by (rule as_owner [OF _ assms(2,3) assms(1) [unfolded session_authorize_def Let_def]])
    (simp only:, (assumption | rule method_steps)+)

lemma session_capture_evolves:
  assumes "session_capture st dr user_id sid w = (w', r)"
    and "caller w user_id mid" "store_wf (w_sessions w)"
  shows "evolves mid (w_sessions w) (w_sessions w')"
  by (rule as_owner [OF _ assms(2,3) assms(1) [unfolded session_capture_def]])
    (simp only:, (assumption | rule method_steps)+)

lemma session_cancel_evolves:
  assumes "session_cancel st dr user_id sid w = (w', r)"
    and "caller w user_id mid" "store_wf (w_sessions w)"
  shows "evolves mid (w_sessions w) (w_sessions w')"
  by (rule as_owner [OF _ assms(2,3) assms(1) [unfolded session_cancel_def]])
    (simp only:, (assumption | rule method_steps)+)

lemma session_void_evolves:
  assumes "session_void st dr user_id sid w = (w', r)"
    and "caller w user_id mid" "store_wf (w_sessions w)"
  shows "evolves mid (w_sessions w) (w_sessions w')"
  by (rule as_owner [OF _ assms(2,3) assms(1) [unfolded session_void_def]])
    (simp only:, (assumption | rule sess.runs_catch method_steps)+)

lemma session_refund_evolves:
  assumes "session_refund st dr user_id sid payload w = (w', r)"
    and "caller w user_id mid" "store_wf (w_sessions w)"
  shows "evolves mid (w_sessions w) (w_sessions w')"
  by (rule as_owner [OF _ assms(2,3) assms(1) [unfolded session_refund_def Let_def]])
    (simp only:, (assumption | rule runs_put_rec [OF refund_grows] method_steps)+)

lemma session_get_evolves:
  assumes "session_get st user_id sid w = (w', r)"
    and "caller w user_id mid" "store_wf (w_sessions w)"
  shows "evolves mid (w_sessions w) (w_sessions w')"
  by (rule as_owner [OF _ assms(2,3) assms(1) [unfolded session_get_def]])
    (simp only:, (assumption | rule method_steps)+)

lemma session_list_evolves:
  assumes "session_list st user_id status protocol currency w = (w', r)"
    and "caller w user_id mid" "store_wf (w_sessions w)"
  shows "evolves mid (w_sessions w) (w_sessions w')"
  by (rule as_owner [OF _ assms(2,3) assms(1) [unfolded session_list_def]])
    (simp only:, (assumption | rule sess.runs_silent [OF silent_pure(4)] method_steps)+)

lemma select_protocol_only_evolves:
  assumes "select_protocol_only dr sid mid pc w = (w', r)" and "store_wf (w_sessions w)"
  shows "evolves mid (w_sessions w) (w_sessions w')"
proof -
  have "runs (evolves mid) w_sessions store_wf (select_protocol_only dr sid mid pc) (\<lambda>_ _. True) (\<lambda>_. True)"
    unfolding select_protocol_only_def
    by (assumption | rule runs_put_rec [OF select_grows] method_steps)+
  then show ?thesis using runsD(1) assms by metis
qed

lemma new_session_ok:
  assumes "new_session dr mid user_id payload defn = Inr r"
  shows "tr_id r = dr_uuid dr 0 \<and> tr_merchant_id r = mid \<and> history_ok r"
proof -
  define r0 where "r0 = \<lparr> tr_id = dr_uuid dr 0, tr_merchant_id = mid, tr_user_id = user_id, tr_state = T_CREATED,
          tr_amount_minor = cs_amount_minor payload, tr_currency = upper (cs_currency payload),
          tr_transaction_type = upper (cs_transaction_type payload),
          tr_protocol_id = map_option pd_selection_id defn, tr_protocol_code = map_option pd_code defn,
          tr_protocol_label = map_option display_label defn,
          tr_sandbox_outcome = Some (case defn of None \<Rightarrow> ''capture'' | Some d \<Rightarrow> outcome_name (pd_sandbox_outcome d)),
          tr_device_id = cs_device_id payload, tr_idempotency_key = cs_idempotency_key payload,
          tr_environment = ''SANDBOX'', tr_payment_method_token = None, tr_authorization_code = None,
          tr_processor_reference = None, tr_processor_status = None, tr_processor_message = None,
          tr_signature_required = False, tr_card_brand = None, tr_card_last4 = None,
          tr_events = [], tr_created_at = dr_now dr, tr_updated_at = dr_now dr \<rparr>"
  define r1 where "r1 = append_event None T_CREATED ''Session created'' r0"
  have h: "history_ok r1" "tr_id r1 = dr_uuid dr 0" "tr_merchant_id r1 = mid"
    by (simp_all add: r1_def r0_def append_event_def history_ok_def)
  obtain r2 where a: "advanced r1 T_AMOUNT_ENTERED ''Amount entered'' = Inr r2"
    and b: "r = r2 \<or> (\<exists>n. advanced r2 T_PROTOCOL_SELECTED n = Inr r)"
    using assms unfolding new_session_def Let_def r0_def [symmetric] r1_def [symmetric]
    by (auto simp: bindr_Inr_iff split: if_splits)
  have "grows r1 r2" using advanced_grows [OF a] by simp
  moreover have "grows r2 r" using b advanced_grows grows_refl by blast
  ultimately show ?thesis using h by (auto simp: grows_def same_slot_def)
qed

lemma create_evolves:
  assumes "store_wf s" "store_get s (tr_id r) = None" "tr_merchant_id r = mid" "length mid = 36" "history_ok r"
  shows "evolves mid s (fst (store_create s r))"
proof -
  obtain s' r' where c: "store_create s r = (s', r')" by fastforce
  have "store_wf s'" using repo.create_wf [of s r] assms c by simp
  moreover from repo.create_cases [OF c] consider
      "\<And>i. store_get s' i = (if i = tr_id r then Some r else store_get s i)" | "s' = s" by blast
  then have "(\<forall>i x. store_get s i = Some x \<longrightarrow> store_get s' i = Some x)
      \<and> (\<forall>i x. store_get s i = None \<longrightarrow> store_get s' i = Some x \<longrightarrow> x = r)"
    using assms(2) by cases (auto split: if_splits)
  ultimately show ?thesis using assms(3,5) c by (auto simp: evolves_def intro: grows_refl)
qed

lemma session_create_evolves:
  assumes "session_create st dr user_id payload w = (w', r)"
    and "caller w user_id mid" "store_wf (w_sessions w)" "length mid = 36"
    and "store_get (w_sessions w) (dr_uuid dr 0) = None"
  shows "evolves mid (w_sessions w) (w_sessions w')"
proof -
  let ?p = "\<lambda>s. store_wf s \<and> store_get s (dr_uuid dr 0) = None"
  have step: "runs (evolves mid) w_sessions ?p
      (modify (\<lambda>w. w\<lparr> w_sessions := fst (store_create (w_sessions w) x) \<rparr>)) (\<lambda>_ _. True) (\<lambda>_. True)"
    if "new_session dr mid user_id payload defn = Inr x" for defn x
    using new_session_ok [OF that] assms(4) by (auto simp: runs_def intro!: create_evolves)
  show ?thesis
    by (rule as_merchant [where p = ?p and q = "\<lambda>_ _. True", OF _ assms(2) _ assms(1) [unfolded session_create_def]])
      (use assms(3,5) in \<open>simp_all only:\<close>,
       (assumption | rule step conjI TrueI sess.runs_silent [OF silent_pure(4)] method_steps)+)
qed

section \<open>Requests to the service\<close>

datatype session_request =
    R_Create create_terminal_session_request
  | R_Get uuid
  | R_List "string option" "string option" "string option"
  | R_Authorize uuid authorize_terminal_session_request
  | R_Capture uuid
  | R_Void uuid
  | R_Refund uuid refund_terminal_session_request
  | R_Cancel uuid

text \<open>The routes of \<open>api/v1/routes/terminal.py\<close>: the service call in a database session.\<close>

fun serve :: "settings \<Rightarrow> draws \<Rightarrow> uuid \<Rightarrow> session_request \<Rightarrow> world \<Rightarrow> world" where
  "serve st dr u (R_Create payload) w = fst (run_request (session_create st dr u payload) w)"
| "serve st dr u (R_Get sid) w = fst (run_request (session_get st u sid) w)"
| "serve st dr u (R_List a b c) w = fst (run_request (session_list st u a b c) w)"
| "serve st dr u (R_Authorize sid payload) w = fst (run_request (session_authorize st dr u sid payload) w)"
| "serve st dr u (R_Capture sid) w = fst (run_request (session_capture st dr u sid) w)"
| "serve st dr u (R_Void sid) w = fst (run_request (session_void st dr u sid) w)"
| "serve st dr u (R_Refund sid payload) w = fst (run_request (session_refund st dr u sid payload) w)"
| "serve st dr u (R_Cancel sid) w = fst (run_request (session_cancel st dr u sid) w)"

lemma run_request_sessions: "w_sessions (fst (run_request h w)) = w_sessions (fst (h w))"
  by (auto simp: run_request_def split: prod.splits sum.splits)

lemma serve_evolves:
  assumes "caller w u mid" "store_wf (w_sessions w)" "length mid = 36"
    and "store_get (w_sessions w) (dr_uuid dr 0) = None"
  shows "evolves mid (w_sessions w) (w_sessions (serve st dr u req w))"
  using assms
  by (cases req)
    (simp_all add: run_request_sessions session_create_evolves [OF prod.collapse [symmetric]]
      session_get_evolves [OF prod.collapse [symmetric]] session_list_evolves [OF prod.collapse [symmetric]]
      session_authorize_evolves [OF prod.collapse [symmetric]] session_capture_evolves [OF prod.collapse [symmetric]]
      session_void_evolves [OF prod.collapse [symmetric]] session_refund_evolves [OF prod.collapse [symmetric]]
      session_cancel_evolves [OF prod.collapse [symmetric]])

text \<open>Runs of the server, as far as the sessions go: terminal requests of any users, the attachment of
  a protocol, and anything else that leaves the session store alone. Identifiers are fresh and
  have the length of a UUID.\<close>

inductive server_run :: "world \<Rightarrow> world \<Rightarrow> bool" where
  start: "server_run w w"
| request: "server_run w w' \<Longrightarrow> store_get (w_sessions w') (dr_uuid dr 0) = None \<Longrightarrow>
    caller w' u mid \<Longrightarrow> length mid = 36 \<Longrightarrow> server_run w (serve st dr u req w')"
| select: "server_run w w' \<Longrightarrow> server_run w (fst (select_protocol_only dr sid mid pc w'))"
| other: "server_run w w' \<Longrightarrow> w_sessions w'' = w_sessions w' \<Longrightarrow> server_run w w''"

inductive_cases server_runE: "server_run w w'"

lemma evolves_histories:
  assumes "evolves mid s s'" "store_wf s" "\<And>i r. store_get s i = Some r \<Longrightarrow> history_ok r"
    and "\<And>i r. store_get s0 i = Some r \<Longrightarrow> \<exists>r'. store_get s i = Some r' \<and> grows r r'"
  shows "store_wf s' \<and> (\<forall>i r. store_get s' i = Some r \<longrightarrow> history_ok r)
    \<and> (\<forall>i r. store_get s0 i = Some r \<longrightarrow> (\<exists>r'. store_get s' i = Some r' \<and> grows r r'))"
proof (intro conjI allI impI)
  show "store_wf s'" using assms(1,2) by (simp add: evolves_def)
next
  fix i r
  assume s': "store_get s' i = Some r"
  show "history_ok r"
  proof (cases "store_get s i")
    case None
    then show ?thesis using assms(1) s' unfolding evolves_def by blast
  next
    case (Some x)
    then obtain y where "store_get s' i = Some y" "grows x y" using assms(1) unfolding evolves_def by blast
    then show ?thesis using s' assms(3) [OF Some] by (simp add: grows_def)
  qed
next
  fix i r
  assume "store_get s0 i = Some r"
  then obtain x where x: "store_get s i = Some x" "grows r x" using assms(4) by blast
  then obtain y where "store_get s' i = Some y" "grows x y" using assms(1) unfolding evolves_def by blast
  then show "\<exists>r'. store_get s' i = Some r' \<and> grows r r'" using x grows_trans by blast
qed

lemma server_run_histories:
  "server_run w w' \<Longrightarrow> store_wf (w_sessions w) \<Longrightarrow>
    (\<And>i r. store_get (w_sessions w) i = Some r \<Longrightarrow> history_ok r) \<Longrightarrow>
    store_wf (w_sessions w') \<and> (\<forall>i r. store_get (w_sessions w') i = Some r \<longrightarrow> history_ok r)
    \<and> (\<forall>i r. store_get (w_sessions w) i = Some r \<longrightarrow>
         (\<exists>r'. store_get (w_sessions w') i = Some r' \<and> grows r r'))"
proof (induction rule: server_run.induct)
  case (start w)
  then show ?case using grows_refl by blast
next
  case (request w w' dr u mid st req)
  then have ih: "store_wf (w_sessions w')" "\<And>i r. store_get (w_sessions w') i = Some r \<Longrightarrow> history_ok r"
    "\<And>i r. store_get (w_sessions w) i = Some r \<Longrightarrow> \<exists>r'. store_get (w_sessions w') i = Some r' \<and> grows r r'"
    by blast+
  have "evolves mid (w_sessions w') (w_sessions (serve st dr u req w'))"
    using request.hyps ih(1) by (intro serve_evolves)
  then show ?case using ih by (rule evolves_histories)
next
  case (select w w' dr sid mid pc)
  then have ih: "store_wf (w_sessions w')" "\<And>i r. store_get (w_sessions w') i = Some r \<Longrightarrow> history_ok r"
    "\<And>i r. store_get (w_sessions w) i = Some r \<Longrightarrow> \<exists>r'. store_get (w_sessions w') i = Some r' \<and> grows r r'"
    by blast+
  have "evolves mid (w_sessions w') (w_sessions (fst (select_protocol_only dr sid mid pc w')))"
    using select_protocol_only_evolves [OF prod.collapse [symmetric] ih(1)] .
  then show ?case using ih by (rule evolves_histories)
next
  case (other w w' w'')
  then show ?case by simp
qed

end
