(* ===== verification/Session_Properties.thy ===== *)
theory Session_Properties
  imports Session_Invariant
begin

text \<open>
  The properties of the terminal session service: histories over whole runs, isolation of
  merchants, closed sessions, the gates before a charge, and what an authorization returns.
\<close>

section \<open>A concrete world\<close>

definition sample_merchant :: "uuid \<Rightarrow> uuid \<Rightarrow> merchant_profile" where
  "sample_merchant i owner =
     \<lparr> me_id = i, me_owner_user_id = owner, me_company_name = ''Cafe'', me_commercial_registration = None,
       me_tax_number = None, me_country = ''SA'', me_city = ''Riyadh'', me_address = ''King Rd 1'',
       me_website = None, me_email = ''a@b.sa'', me_phone = ''+96650000000'', me_logo_url = None, me_industry = None,
       me_status = M_ACTIVE, me_created_at = 0, me_deleted_at = None \<rparr>"

definition sample_mid :: uuid where
  "sample_mid = replicate 36 (CHR ''m'')"

definition sample_world :: world where
  "sample_world =
     (let d = empty_db\<lparr> db_merchants := [sample_merchant sample_mid ''u1''] \<rparr> in
      \<lparr> w_db = d, w_committed = d, w_sessions = empty_store, w_processors = initial_factory \<rparr>)"

definition sample_draws :: draws where
  "sample_draws = \<lparr> dr_now = 100, dr_uuid = (\<lambda>n. ''id'' @ show_nat n),
     dr_hex = (\<lambda>n. replicate 32 (CHR ''a'')) \<rparr>"

definition sample_create :: create_terminal_session_request where
  "sample_create = \<lparr> cs_amount_minor = 1050, cs_currency = ''sar'', cs_transaction_type = ''sale'',
     cs_protocol_code = None, cs_device_id = None, cs_idempotency_key = Some ''k1'' \<rparr>"

definition created_world :: world where
  "created_world = serve default_settings sample_draws ''u1'' (R_Create sample_create) sample_world"

lemma sample_caller: "caller sample_world ''u1'' sample_mid"
  by (simp add: caller_def sample_world_def Let_def merchant_get_by_owner_def base_query_def
      find_one_def sample_merchant_def empty_db_def)

lemma sample_mid_length: "length sample_mid = 36"
  by (simp add: sample_mid_def)

section \<open>Histories\<close>

lemma chained_path: "chained s es \<Longrightarrow> terminal_path s (map ev_to es)"
  by (induction es arbitrary: s) auto

lemma history_length: "history_ok r \<Longrightarrow> length (tr_events r) \<le> Suc (rank T_CREATED)"
  by (cases "tr_events r") (auto simp: history_ok_def dest!: chained_path terminal_path_length_rank)

text \<open>C21. Whatever requests the server has handled, from any users and in any order, including
  those that raised half way, the events of every session are a path of the terminal state
  machine from CREATED to its present state, so that no session has more than ten events; and
  the events a session had are never rewritten, only extended.\<close>

theorem session_histories:
  assumes "server_run w w'" "w_sessions w = empty_store" "server_run w' w''"
    and "store_get (w_sessions w') i = Some r"
  shows "history_ok r \<and> terminal_path T_CREATED (map ev_to (tl (tr_events r)))
    \<and> last_state T_CREATED (tl (tr_events r)) = tr_state r \<and> length (tr_events r) \<le> 10
    \<and> (\<exists>r' es. store_get (w_sessions w'') i = Some r' \<and> tr_events r' = tr_events r @ es
        \<and> tr_merchant_id r' = tr_merchant_id r \<and> history_ok r')"
proof -
  have e: "store_wf (w_sessions w)" "\<And>i r. store_get (w_sessions w) i = Some r \<Longrightarrow> history_ok r"
    using assms(2) by (auto simp: store_wf_empty) (simp add: empty_store_def store_get_def)
  have 1: "store_wf (w_sessions w')" "\<And>i r. store_get (w_sessions w') i = Some r \<Longrightarrow> history_ok r"
    using server_run_histories [OF assms(1) e(1)] e(2) by blast+
  have h: "history_ok r" using 1(2) assms(4) .
  obtain r' where r': "store_get (w_sessions w'') i = Some r'" "grows r r'"
    using server_run_histories [OF assms(3) 1(1)] 1(2) assms(4) by blast
  have "length (tr_events r) \<le> 10" using history_length [OF h] by simp
  moreover have "terminal_path T_CREATED (map ev_to (tl (tr_events r)))
      \<and> last_state T_CREATED (tl (tr_events r)) = tr_state r"
    using h by (cases "tr_events r") (auto simp: history_ok_def chained_path)
  ultimately show ?thesis using h r' by (auto simp: grows_def same_slot_def)
qed

lemma with_merchant_run:
  assumes "get_payment_processor st None (w_processors w) = Inr (f, key)"
    and "merchant_get_by_owner (w_db w) u = Inr (Some m)"
  shows "with_merchant st u F w = F key m (w\<lparr> w_processors := f \<rparr>)"
  using assms by (simp add: with_merchant_def bnd_def service_init_def merchant_for_def)

lemma session_create_run:
  assumes "get_payment_processor st None (w_processors w) = Inr (f, key)"
    and "merchant_get_by_owner (w_db w) u = Inr (Some m)"
    and "session_protocol payload (upper (cs_transaction_type payload)) = Inr defn"
    and "new_session dr (me_id m) u payload defn = Inr r"
    and "store_create (w_sessions w) r = (s', r')"
  shows "\<exists>logs. session_create st dr u payload w =
    (w\<lparr> w_processors := f, w_sessions := s', w_db := (w_db w)\<lparr> db_audit_logs := logs \<rparr> \<rparr>, Inr (to_out r'))"
  unfolding session_create_def with_merchant_run [OF assms(1,2)]
  using assms(3-5) by (auto simp: session_audit_def audit_def)

text \<open>The session that \<open>sample_create\<close> makes.\<close>

definition sample_record :: terminal_session_record where
  "sample_record = (case new_session sample_draws sample_mid ''u1'' sample_create None of Inr r \<Rightarrow> r)"

lemma sample_record_facts:
  "new_session sample_draws sample_mid ''u1'' sample_create None = Inr sample_record"
  "tr_id sample_record = ''id0'' \<and> tr_state sample_record = T_AMOUNT_ENTERED
    \<and> map ev_to (tr_events sample_record) = [T_CREATED, T_AMOUNT_ENTERED]
    \<and> tr_merchant_id sample_record = sample_mid \<and> tr_idempotency_key sample_record = Some ''k1''"
proof -
  have "is_ok (new_session sample_draws sample_mid ''u1'' sample_create None)" by code_simp
  then show "new_session sample_draws sample_mid ''u1'' sample_create None = Inr sample_record"
    by (auto simp: sample_record_def is_ok_iff)
  show "tr_id sample_record = ''id0'' \<and> tr_state sample_record = T_AMOUNT_ENTERED
    \<and> map ev_to (tr_events sample_record) = [T_CREATED, T_AMOUNT_ENTERED]
    \<and> tr_merchant_id sample_record = sample_mid \<and> tr_idempotency_key sample_record = Some ''k1''"
    by code_simp
qed

lemma sample_factory:
  "get_payment_processor default_settings None initial_factory =
     Inr (initial_factory\<lparr> pf_instances := [''mock_sandbox'' \<mapsto> Mock Map.empty] \<rparr>, ''mock_sandbox'')"
proof -
  have k: "strip (lower (or_str None (default_payment_processor default_settings))) = ''mock_sandbox''"
    "lower (payment_environment default_settings) \<noteq> ''production''"
    "map_of (pf_registry initial_factory) ''mock_sandbox'' = Some MockPaymentProcessor"
    by code_simp+
  show ?thesis
    using k(2,3) unfolding get_payment_processor_def Let_def k(1) by (simp add: initial_factory_def)
qed

lemma sample_merchant_row: "merchant_get_by_owner (w_db sample_world) ''u1'' = Inr (Some (sample_merchant sample_mid ''u1''))"
  by (simp add: sample_world_def Let_def merchant_get_by_owner_def base_query_def find_one_def
      sample_merchant_def empty_db_def)

lemma created_sessions: "w_sessions created_world = fst (store_create empty_store sample_record)"
  and created_db: "db_merchants (w_db created_world) = [sample_merchant sample_mid ''u1'']"
  and created_processors: "pf_instances (w_processors created_world) = [''mock_sandbox'' \<mapsto> Mock Map.empty]"
proof -
  have w: "w_processors sample_world = initial_factory" "w_sessions sample_world = empty_store"
    "db_merchants (w_db sample_world) = [sample_merchant sample_mid ''u1'']"
    by (simp_all add: sample_world_def Let_def empty_db_def)
  have p: "session_protocol sample_create (upper (cs_transaction_type sample_create)) = Inr None"
    by (simp add: session_protocol_def sample_create_def)
  have m: "me_id (sample_merchant sample_mid ''u1'') = sample_mid" by (simp add: sample_merchant_def)
  obtain s' r' where c: "store_create empty_store sample_record = (s', r')" by fastforce
  obtain logs where "session_create default_settings sample_draws ''u1'' sample_create sample_world =
      (sample_world\<lparr> w_processors := initial_factory\<lparr> pf_instances := [''mock_sandbox'' \<mapsto> Mock Map.empty] \<rparr>,
         w_sessions := s', w_db := (w_db sample_world)\<lparr> db_audit_logs := logs \<rparr> \<rparr>,
       Inr (to_out r'))"
    using session_create_run [OF _ sample_merchant_row p, unfolded m w, OF sample_factory sample_record_facts(1) c]
    by blast
  then show "w_sessions created_world = fst (store_create empty_store sample_record)"
    "db_merchants (w_db created_world) = [sample_merchant sample_mid ''u1'']"
    "pf_instances (w_processors created_world) = [''mock_sandbox'' \<mapsto> Mock Map.empty]"
    using c w by (simp_all add: created_world_def run_request_def)
qed

lemma created_session: "store_get (w_sessions created_world) ''id0'' = Some sample_record"
proof -
  have "store_create empty_store sample_record = (fst (store_create empty_store sample_record), sample_record)"
    using sample_record_facts(2) by (simp add: store_create_def Let_def empty_store_def)
  from repo.create_get [OF store_wf_empty _ this] show ?thesis
    using sample_record_facts(2) by (simp add: created_sessions) (simp add: empty_store_def store_get_def)
qed

lemma created_run: "server_run sample_world created_world"
  unfolding created_world_def
  by (rule server_run.request [OF server_run.start _ sample_caller sample_mid_length])
    (simp add: sample_world_def Let_def empty_store_def store_get_def)

lemma created_wf: "store_wf (w_sessions created_world)"
proof -
  have w: "w_sessions sample_world = empty_store" by (simp add: sample_world_def Let_def)
  show ?thesis
    using server_run_histories [OF created_run] store_wf_empty unfolding w
    by (auto simp: empty_store_def store_get_def)
qed

theorem session_histories_witness:
  "history_ok sample_record
    \<and> terminal_path T_CREATED (map ev_to (tl (tr_events sample_record)))
    \<and> store_get (w_sessions created_world) ''id0'' = Some sample_record"
proof -
  have "w_sessions sample_world = empty_store" by (simp add: sample_world_def Let_def)
  from session_histories [OF created_run this server_run.start created_session]
  show ?thesis using created_session by blast
qed

section \<open>Isolation\<close>

text \<open>C22. A request only touches sessions of the merchant that the calling user owns: every session
  of another merchant is the same afterwards, in every field, whatever the request names; and a
  user without a merchant profile changes no session at all.\<close>

theorem sessions_isolated:
  assumes "store_wf (w_sessions w)" "store_get (w_sessions w) (dr_uuid dr 0) = None"
    and "store_get (w_sessions w) i = Some r"
    and "case merchant_get_by_owner (w_db w) u of
           Inr (Some m) \<Rightarrow> length (me_id m) = 36 \<and> tr_merchant_id r \<noteq> me_id m | _ \<Rightarrow> True"
  shows "store_get (w_sessions (serve st dr u req w)) i = Some r"
proof -
  obtain mid where mid: "caller w u mid" "length mid = 36" "tr_merchant_id r \<noteq> mid"
  proof (cases "\<exists>m. merchant_get_by_owner (w_db w) u = Inr (Some m)")
    case True
    then show ?thesis using that assms(4) by (auto simp: caller_def)
  next
    case False
    have "replicate 36 (CHR ''a'') \<noteq> replicate 36 (CHR ''b'')" by (simp add: numeral_eq_Suc)
    then obtain c :: char where "tr_merchant_id r \<noteq> replicate 36 c" by metis
    then show ?thesis using that [of "replicate 36 c"] False by (auto simp: caller_def)
  qed
  have "evolves mid (w_sessions w) (w_sessions (serve st dr u req w))"
    using mid assms(1,2) by (intro serve_evolves)
  then show ?thesis using assms(3) mid(3) unfolding evolves_def by blast
qed

theorem sessions_isolated_witness:
  "store_get (w_sessions (serve default_settings (sample_draws\<lparr> dr_uuid := (\<lambda>n. ''x'') \<rparr>) ''u2''
     (R_Cancel ''id0'') created_world)) ''id0'' = Some sample_record"
proof -
  have m: "merchant_get_by_owner (w_db created_world) ''u2'' = Inr None"
    by (simp add: merchant_get_by_owner_def created_db base_query_def find_one_def sample_merchant_def)
  have f: "store_get (w_sessions created_world) (dr_uuid (sample_draws\<lparr> dr_uuid := (\<lambda>n. ''x'') \<rparr>) 0) = None"
    using sample_record_facts(2)
    by (simp add: created_sessions store_create_def store_get_def store_put_def Let_def empty_store_def)
  show ?thesis by (rule sessions_isolated [OF created_wf f created_session]) (simp add: m)
qed

section \<open>Closed sessions\<close>

text \<open>Nothing but the cache of processor objects changed, and no object in it.\<close>

definition quiet :: "world \<Rightarrow> world \<Rightarrow> bool" where
  "quiet w w' \<longleftrightarrow> w_sessions w' = w_sessions w \<and> w_db w' = w_db w
     \<and> (\<forall>key p. pf_instances (w_processors w) key = Some p \<longrightarrow> pf_instances (w_processors w') key = Some p)"

lemma factory_extends:
  "get_payment_processor st provider f = Inr (f', key) \<Longrightarrow>
     pf_registry f' = pf_registry f \<and> pf_instances f' key \<noteq> None
     \<and> (\<forall>k p. pf_instances f k = Some p \<longrightarrow> pf_instances f' k = Some p)"
  by (auto simp: get_payment_processor_def Let_def split: if_splits option.splits)

lemma with_merchant_cases:
  obtains (failed) e w' where "with_merchant st u F w = (w', Inl e)" "quiet w w'"
  | (body) f key m where "with_merchant st u F w = F key m (w\<lparr> w_processors := f \<rparr>)"
      "quiet w (w\<lparr> w_processors := f \<rparr>)" "merchant_get_by_owner (w_db w) u = Inr (Some m)"
      "pf_instances f key \<noteq> None"
proof (cases "get_payment_processor st None (w_processors w)")
  case (Inl e)
  then show ?thesis
    by (intro failed [of w e]) (auto simp: with_merchant_def bnd_def service_init_def quiet_def)
next
  case (Inr fk)
  obtain f key where fk: "fk = (f, key)" by fastforce
  have q: "quiet w (w\<lparr> w_processors := f \<rparr>)" "pf_instances f key \<noteq> None"
    using factory_extends Inr fk by (auto simp: quiet_def)
  have run: "with_merchant st u F w = bnd (merchant_for u) (F key) (w\<lparr> w_processors := f \<rparr>)"
    using Inr fk by (simp add: with_merchant_def bnd_def service_init_def)
  show ?thesis
  proof (cases "\<exists>m. merchant_get_by_owner (w_db w) u = Inr (Some m)")
    case True
    then obtain m where m: "merchant_get_by_owner (w_db w) u = Inr (Some m)" by blast
    then show ?thesis using body [of key m f] q run by (simp add: merchant_for_def bnd_def)
  next
    case False
    then have "(\<exists>e. merchant_get_by_owner (w_db w) u = Inl e) \<or> merchant_get_by_owner (w_db w) u = Inr None"
      by (metis Inl_Inr_False not_Some_eq sum.exhaust)
    then obtain e where "merchant_for u (w\<lparr> w_processors := f \<rparr>) = (w\<lparr> w_processors := f \<rparr>, Inl e)"
      by (auto simp: merchant_for_def)
    then show ?thesis using failed q run by (metis bnd_cong_err)
  qed
qed

lemma owned_run:
  "store_get (w_sessions w) sid = Some r \<Longrightarrow>
     bnd (owned mid sid) k w =
       (if tr_merchant_id r = mid then k r w else (w, Inl (NotFoundError ''Terminal session not found'')))"
  by (simp add: owned_def bnd_def)

definition closed_states :: "terminal_state set" where
  "closed_states = {T_DECLINED, T_FAILED, T_CANCELLED, T_VOIDED, T_REFUNDED}"

lemma closed_no_transition: "s \<in> closed_states \<Longrightarrow> \<not> can_terminal_transition s t"
  by (auto simp: closed_states_def)

lemma rejected:
  assumes "\<And>key m w'. store_get (w_sessions w') sid = Some r \<Longrightarrow> \<exists>e. F key m w' = (w', Inl e)"
    and "store_get (w_sessions w) sid = Some r"
  shows "\<not> is_ok (snd (with_merchant st u F w)) \<and> quiet w (fst (with_merchant st u F w))"
proof (cases rule: with_merchant_cases [of st u F w])
  case (body f key m)
  then show ?thesis using assms(1) [of "w\<lparr> w_processors := f \<rparr>" key m] assms(2) by auto
qed simp

text \<open>C25. A session that was declined, failed, cancelled, voided or refunded is closed for good:
  authorizing, capturing, voiding, refunding or cancelling it raises for every user, and neither
  the sessions, nor the database, nor any processor object changes.\<close>

theorem closed_sessions_rejected:
  assumes "store_get (w_sessions w) sid = Some r" "tr_state r \<in> closed_states"
  shows "\<forall>h \<in> set [session_authorize st dr u sid a, session_capture st dr u sid, session_void st dr u sid,
      session_refund st dr u sid b, session_cancel st dr u sid].
    \<not> is_ok (snd (h w)) \<and> quiet w (fst (h w))"
proof -
  have t: "\<exists>m. assert_terminal_transition (tr_state r) t = Inl (AppException m 409)" for t
    using closed_no_transition [OF assms(2)] by (simp add: assert_terminal_transition_def)
  have ne: "tr_state r \<noteq> T_PROTOCOL_SELECTED" "tr_state r \<noteq> T_AMOUNT_ENTERED" "tr_state r \<noteq> T_APPROVED"
    using assms(2) by (auto simp: closed_states_def)
  have "\<not> is_ok (snd (session_authorize st dr u sid a w)) \<and> quiet w (fst (session_authorize st dr u sid a w))"
    unfolding session_authorize_def using ne
    by (intro rejected [OF _ assms(1)]) (simp add: owned_run authorize_start_def)
  moreover have "\<not> is_ok (snd (session_capture st dr u sid w)) \<and> quiet w (fst (session_capture st dr u sid w))"
    unfolding session_capture_def using ne by (intro rejected [OF _ assms(1)]) (simp add: owned_run)
  moreover have "\<not> is_ok (snd (session_void st dr u sid w)) \<and> quiet w (fst (session_void st dr u sid w))"
    unfolding session_void_def using t [of T_VOIDED] by (intro rejected [OF _ assms(1)]) (auto simp: owned_run)
  moreover have "\<not> is_ok (snd (session_refund st dr u sid b w)) \<and> quiet w (fst (session_refund st dr u sid b w))"
    unfolding session_refund_def using t [of T_REFUNDED] by (intro rejected [OF _ assms(1)]) (auto simp: owned_run)
  moreover have "\<not> is_ok (snd (session_cancel st dr u sid w)) \<and> quiet w (fst (session_cancel st dr u sid w))"
    unfolding session_cancel_def using t [of T_CANCELLED] by (intro rejected [OF _ assms(1)]) (auto simp: owned_run)
  ultimately show ?thesis by simp
qed

definition voided_world :: world where
  "voided_world = sample_world\<lparr> w_sessions :=
     store_put empty_store (sample_record\<lparr> tr_state := T_VOIDED, tr_processor_reference := Some ''sbx_1'' \<rparr>) \<rparr>"

theorem closed_sessions_rejected_witness:
  "\<not> is_ok (snd (session_capture default_settings sample_draws ''u1'' ''id0'' voided_world))
    \<and> quiet voided_world (fst (session_refund default_settings sample_draws ''u1'' ''id0''
        \<lparr> rr_amount_minor = Some 1, rr_reason = None \<rparr> voided_world))"
proof -
  have "store_get (w_sessions voided_world) ''id0'' =
      Some (sample_record\<lparr> tr_state := T_VOIDED, tr_processor_reference := Some ''sbx_1'' \<rparr>)"
    using sample_record_facts(2) by (simp add: voided_world_def)
  from closed_sessions_rejected [OF this] show ?thesis by (simp add: closed_states_def)
qed

section \<open>The gates before a charge\<close>

lemma advance_run:
  "advance r t note w = (w', Inr r') \<longleftrightarrow> can_terminal_transition (tr_state r) t
     \<and> r' = append_event (Some (tr_state r)) t note (r\<lparr> tr_state := t \<rparr>)
     \<and> w' = w\<lparr> w_sessions := store_put (w_sessions w) r' \<rparr>"
  by (auto simp: advance_def advanced_def bnd_Inr bindr_Inr_iff transition_Inr_iff put_rec_def)

lemma advance_err: "advance r t note w = (w', Inl e) \<Longrightarrow> w' = w"
  by (auto simp: advance_def bnd_Inl put_rec_def)

text \<open>No processor object and nothing in the database changed.\<close>

definition uncharged :: "world \<Rightarrow> world \<Rightarrow> bool" where
  "uncharged w w' \<longleftrightarrow> w_db w' = w_db w
     \<and> (\<forall>key p. pf_instances (w_processors w) key = Some p \<longrightarrow> pf_instances (w_processors w') key = Some p)"

interpretation unch: respects uncharged "\<lambda>w. w"
  by unfold_locales (auto simp: uncharged_def)

lemma init_uncharged: "runs uncharged (\<lambda>w. w) (\<lambda>_. True) (service_init st) (\<lambda>_ _. True) (\<lambda>_. True)"
proof (rule runsI)
  show "uncharged w w' \<and> True" if "service_init st w = (w', Inr key)" for w w' key
    using that factory_extends
    by (auto simp: service_init_def uncharged_def split: sum.splits prod.splits)
  show "uncharged w w' \<and> True" if "service_init st w = (w', Inl e)" for w w' e
    using that by (auto simp: service_init_def unch.refl split: sum.splits prod.splits)
qed

lemma advance_uncharged:
  "runs uncharged (\<lambda>w. w) (\<lambda>_. True) (advance r t note) (\<lambda>_ _. True) (\<lambda>_. True)"
  by (rule runsI) (auto simp: advance_run uncharged_def dest: advance_err)

lemma start_uncharged:
  "runs uncharged (\<lambda>w. w) (\<lambda>_. True) (authorize_start r) (\<lambda>_ _. True) (\<lambda>_. True)"
  unfolding authorize_start_def by (rule unch.runs_if advance_uncharged unch.runs_raise unch.runs_ret TrueI)+

lemma lookup_uncharged:
  "runs uncharged (\<lambda>w. w) (\<lambda>_. True) (merchant_for u) (\<lambda>_ _. True) (\<lambda>_. True)"
  "runs uncharged (\<lambda>w. w) (\<lambda>_. True) (owned mid sid) (\<lambda>_ _. True) (\<lambda>_. True)"
  by (rule unch.runs_conseq [OF unch.runs_silent [of _ "\<lambda>_. True"]];
      auto simp: silent_def merchant_for_def owned_def bnd_def split: sum.splits option.splits)+

text \<open>C24. A payment token that is not a token (it does not start with \<open>pm_\<close>), or a production
  environment, stops an authorization before any processor is called: it raises, no processor
  object changes and nothing is written to the database.\<close>

theorem authorize_gated:
  assumes "\<not> starts_with (ar_payment_method_token payload) ''pm_''
      \<or> lower (payment_environment st) \<in> {''production'', ''prod''}"
  shows "\<not> is_ok (snd (session_authorize st dr u sid payload w))
    \<and> uncharged w (fst (session_authorize st dr u sid payload w))"
proof -
  have gate: "runs uncharged (\<lambda>w. w) (\<lambda>_. True) (bnd (check (starts_with (ar_payment_method_token payload) ''pm_'') e1) (\<lambda>_.
      bnd (liftr (require_protocol_execution pc (payment_environment st))) k)) (\<lambda>_ _. False) (\<lambda>_. True)" for e1 pc k
    using assms by (auto simp: runs_def require_protocol_execution_value unch.refl)
  have r: "runs uncharged (\<lambda>w. w) (\<lambda>_. True) (session_authorize st dr u sid payload) (\<lambda>_ _. False) (\<lambda>_. True)"
    unfolding session_authorize_def with_merchant_def Let_def
    by (rule unch.runs_bnd [OF init_uncharged] unch.runs_bnd [OF lookup_uncharged(1)]
        unch.runs_bnd [OF lookup_uncharged(2)] unch.runs_bnd [OF start_uncharged] gate)+
  show ?thesis
    using runsD [OF r, of w] by (cases "session_authorize st dr u sid payload w"; cases "snd (session_authorize st dr u sid payload w)") auto
qed

theorem authorize_gated_witness:
  "\<not> is_ok (snd (session_authorize default_settings sample_draws ''u1'' ''id0''
      \<lparr> ar_payment_method_token = ''4111111111111111'', ar_scenario = None \<rparr> created_world))
   \<and> uncharged created_world (fst (session_authorize (default_settings\<lparr> payment_environment := ''PROD'' \<rparr>)
      sample_draws ''u1'' ''id0'' \<lparr> ar_payment_method_token = ''pm_x'', ar_scenario = None \<rparr> created_world))"
proof -
  have "\<not> starts_with ''4111111111111111'' ''pm_''" "lower ''PROD'' = ''prod''" by code_simp+
  then show ?thesis
    using authorize_gated [of "\<lparr> ar_payment_method_token = ''4111111111111111'', ar_scenario = None \<rparr>"]
      authorize_gated [of "\<lparr> ar_payment_method_token = ''pm_x'', ar_scenario = None \<rparr>"
        "default_settings\<lparr> payment_environment := ''PROD'' \<rparr>"] by simp
qed

section \<open>What an authorization returns\<close>

definition deferred_outcomes :: "string list" where
  "deferred_outcomes = [''pre_auth'', ''offline_auth'', ''signature'']"

text \<open>The state an authorization ends in, from the outcome of the protocol and the processor's answer.\<close>

definition authorized_state :: "string \<Rightarrow> string \<Rightarrow> terminal_state" where
  "authorized_state outcome status =
     (if status = ''APPROVED''
      then (if outcome \<in> set deferred_outcomes then T_APPROVED else T_COMPLETED)
      else if status = ''DECLINED'' then T_DECLINED
      else if status = ''CANCELLED'' then T_CANCELLED else T_FAILED)"

text \<open>What a run of steps keeps of a record besides its state, its events and its time stamp.\<close>

definition same_payment :: "terminal_session_record \<Rightarrow> terminal_session_record \<Rightarrow> bool" where
  "same_payment a b \<longleftrightarrow> tr_id b = tr_id a \<and> tr_merchant_id b = tr_merchant_id a
     \<and> tr_amount_minor b = tr_amount_minor a \<and> tr_currency b = tr_currency a
     \<and> tr_sandbox_outcome b = tr_sandbox_outcome a \<and> tr_authorization_code b = tr_authorization_code a
     \<and> tr_processor_status b = tr_processor_status a \<and> tr_processor_reference b = tr_processor_reference a"

lemma same_payment_refl: "same_payment r r"
  by (simp add: same_payment_def)

lemma same_payment_trans: "same_payment a b \<Longrightarrow> same_payment b c \<Longrightarrow> same_payment a c"
  by (simp add: same_payment_def)

lemma advance_payment: "advance r t note w = (w', Inr r') \<Longrightarrow> same_payment r r' \<and> tr_state r' = t"
  by (auto simp: advance_run same_payment_def append_event_def)

lemma use_processor_run: "use_processor key call w = (w', Inr x) \<longleftrightarrow>
    (\<exists>p p'. pf_instances (w_processors w) key = Some p \<and> call p = Inr (p', x)
      \<and> w' = w\<lparr> w_processors := (w_processors w)\<lparr> pf_instances := (pf_instances (w_processors w))(key \<mapsto> p') \<rparr> \<rparr>)"
  by (auto simp: use_processor_def split: option.splits sum.splits)

lemma after_approval_run:
  assumes "after_approval dr key result r w = (w', Inr r')"
  shows "same_payment r r' \<and> tr_state r' = authorized_state (or_str (tr_sandbox_outcome r) ''capture'') ''APPROVED''"
proof -
  from assms obtain w1 r1 where a: "advance r T_APPROVED (or_str (rs_message result) ''Approved'') w = (w1, Inr r1)"
    and rest: "(let outcome = or_str (tr_sandbox_outcome r1) ''capture'' in
       if outcome \<in> set [''pre_auth'', ''offline_auth'', ''signature''] then ret r1
       else if outcome = ''completion'' then
         bnd (use_processor key (\<lambda>p. processor_complete_authorization p (tr_id r1)
                (rs_processor_reference result) (tr_amount_minor r1) (tr_currency r1) (dr_hex dr 2))) (\<lambda>_.
         advance r1 T_COMPLETED ''Completion'')
       else
         bnd (use_processor key (\<lambda>p. processor_capture p (tr_id r1)
                (rs_processor_reference result) (tr_amount_minor r1) (tr_currency r1) (dr_hex dr 2))) (\<lambda>_.
         bnd (advance r1 T_CAPTURED ''Captured'') (\<lambda>r. advance r T_COMPLETED ''Completed''))) w1 = (w', Inr r')"
    unfolding after_approval_def by (auto simp: bnd_Inr)
  have r1: "same_payment r r1" "tr_state r1 = T_APPROVED" using advance_payment [OF a] by auto
  then have o: "tr_sandbox_outcome r1 = tr_sandbox_outcome r" by (simp add: same_payment_def)
  show ?thesis
  proof (cases "or_str (tr_sandbox_outcome r) ''capture'' \<in> set deferred_outcomes")
    case True
    then show ?thesis using rest r1 o by (simp add: authorized_state_def deferred_outcomes_def Let_def)
  next
    case False
    then have "\<exists>v v' r2. (advance r1 T_COMPLETED v w1 = (w', Inr r') \<or> True) \<and> same_payment r1 r' \<and> tr_state r' = T_COMPLETED"
      using rest o unfolding deferred_outcomes_def
      by (auto simp: Let_def bnd_Inr dest!: advance_payment intro: same_payment_trans split: if_splits)
    then show ?thesis using r1(1) False same_payment_trans by (auto simp: authorized_state_def)
  qed
qed

lemma with_merchant_Inr:
  assumes "with_merchant st u F w = (w', Inr x)"
  obtains f key m where "F key m (w\<lparr> w_processors := f \<rparr>) = (w', Inr x)"
  using assms by (cases rule: with_merchant_cases [of st u F w]) auto

lemma authorize_settle_run:
  assumes "authorize_settle dr key result r w = (w', Inr r')"
  shows "same_payment r r' \<and> tr_state r' = authorized_state (or_str (tr_sandbox_outcome r) ''capture'') (rs_status result)"
  using assms after_approval_run [of dr key result r w w' r']
  by (auto simp: authorize_settle_def authorized_state_def dest!: advance_payment split: if_splits)

lemma authorize_failed_raises: "authorize_failed dr r e w \<noteq> (w', Inr x)"
  by (auto simp: authorize_failed_def bnd_Inr split: exc.splits)

lemma authorize_card_run:
  assumes "authorize_card dr key payload r w = (w', Inr r')"
  obtains result :: processor_result where
    "tr_id r' = tr_id r" "tr_amount_minor r' = tr_amount_minor r"
    "tr_state r' = authorized_state (or_str (tr_sandbox_outcome r) ''capture'') (rs_status result)"
    "tr_processor_status r' = Some (rs_status result)"
    "tr_authorization_code r' = rs_authorization_code result"
    "rs_status result = ''APPROVED'' \<longleftrightarrow> truthy (rs_authorization_code result)"
    "store_get (w_sessions w') (tr_id r) = Some r'"
proof -
  from assms obtain v1 r1 v2 r2 v3 result v5 r5 where
    1: "advance r T_CARD_PRESENTED ''Card presented (tokenized)'' w = (v1, Inr r1)" and
    2: "advance r1 T_AUTHORIZING ''Authorizing'' v1 = (v2, Inr r2)" and
    3: "authorize_call dr key payload r2 v2 = (v3, Inr result)" and
    4: "authorize_settle dr key result (record_result (ar_payment_method_token payload) result r2)
          (v3\<lparr> w_sessions := store_put (w_sessions v3) (record_result (ar_payment_method_token payload) result r2) \<rparr>)
          = (v5, Inr r5)" and
    5: "save_rec (dr_now dr) r5 v5 = (w', Inr r')"
    by (auto simp: authorize_card_def bnd_Inr catch_result authorize_failed_raises put_rec_def)
  have r2: "tr_id r2 = tr_id r" "tr_amount_minor r2 = tr_amount_minor r"
    "tr_sandbox_outcome r2 = tr_sandbox_outcome r"
    using advance_payment [OF 1] advance_payment [OF 2] by (auto simp: same_payment_def)
  obtain p p' where "processor_authorize p (tr_id r2) (tr_amount_minor r2) (tr_currency r2)
      (or_str (tr_sandbox_outcome r2) ''capture'') (ar_payment_method_token payload) (ar_scenario payload)
      (dr_hex dr 0) (dr_hex dr 1) = Inr (p', result)"
    using 3 by (auto simp: authorize_call_def use_processor_run)
  from prc.authorize_code [OF this]
  have code: "rs_status result = ''APPROVED'' \<longleftrightarrow> truthy (rs_authorization_code result)" .
  have r5: "same_payment (record_result (ar_payment_method_token payload) result r2) r5"
    "tr_state r5 = authorized_state (or_str (tr_sandbox_outcome r) ''capture'') (rs_status result)"
    using authorize_settle_run [OF 4] r2 by (auto simp: record_result_def)
  have r': "r' = touch (dr_now dr) r5" "w_sessions w' = store_put (w_sessions v5) r'"
    using 5 by (auto simp: save_rec_def store_save_eq)
  show thesis
    using that [of result] r5 r2 r' code by (auto simp: same_payment_def record_result_def touch_def)
qed

text \<open>C23. When an authorization returns, the session is in the state that the processor's answer
  and the protocol's outcome determine, it carries the processor's status, and it is approved or
  completed exactly when it has an authorization code. The store holds the session as it was
  returned, with the amount it was created with.\<close>

theorem authorize_outcome:
  assumes "session_authorize st dr u sid payload w = (w', Inr out)" "store_wf (w_sessions w)"
  shows "\<exists>status r r'. store_get (w_sessions w) sid = Some r
    \<and> so_processor_status out = Some status
    \<and> so_state out = authorized_state (or_str (tr_sandbox_outcome r) ''capture'') status
    \<and> (so_state out \<in> {T_APPROVED, T_COMPLETED} \<longleftrightarrow> truthy (so_authorization_code out))
    \<and> so_amount_minor out = tr_amount_minor r \<and> so_id out = sid
    \<and> store_get (w_sessions w') sid = Some r' \<and> to_out r' = out"
proof -
  obtain f key and m :: merchant_profile where b: "bnd (owned (me_id m) sid) (\<lambda>r.
     bnd (authorize_start r) (\<lambda>r.
     bnd (check (starts_with (ar_payment_method_token payload) ''pm_'')
            (AppException (''payment_method_token required '' @ em_dash @ '' never send raw PAN/CVV'') 422)) (\<lambda>_.
     bnd (liftr (require_protocol_execution (tr_protocol_code r) (payment_environment st))) (\<lambda>_.
     bnd (authorize_card dr key payload r) (\<lambda>r.
     bnd (session_audit ''terminal_session_authorized'' (tr_id r) u
            [(''state'', JStr (state_name (tr_state r))), (''processor_status'', jopt (tr_processor_status r)),
             (''processor_reference'', jopt (tr_processor_reference r)),
             (''authorization_code'', jopt (tr_authorization_code r))]) (\<lambda>_.
     ret (to_out r))))))) (w\<lparr> w_processors := f \<rparr>) = (w', Inr out)"
    using assms(1) unfolding session_authorize_def by (rule with_merchant_Inr)
  obtain r0 v0 r1 v1 r2 v2 where
    0: "store_get (w_sessions w) sid = Some r0" and
    1: "authorize_start r0 v0 = (v1, Inr r1)" and
    2: "authorize_card dr key payload r1 v1 = (v2, Inr r2)" and
    3: "w_sessions w' = w_sessions v2" "out = to_out r2"
    using b by (auto simp: bnd_Inr owned_def session_audit_def audit_def split: option.splits if_splits)
  have r1: "tr_id r1 = sid" "tr_amount_minor r1 = tr_amount_minor r0" "tr_sandbox_outcome r1 = tr_sandbox_outcome r0"
    using 1 store_wfD(1) [OF assms(2) 0]
    by (auto simp: authorize_start_def same_payment_def dest!: advance_payment split: if_splits)
  show ?thesis
    by (rule authorize_card_run [OF 2])
      (use 0 3 r1 in \<open>auto simp: to_out_def authorized_state_def split: if_splits\<close>)
qed

definition ready_world :: world where
  "ready_world = sample_world\<lparr> w_sessions :=
     fst (store_create empty_store (sample_record\<lparr> tr_protocol_id := Some ''101.1'' \<rparr>)) \<rparr>"

lemma ready_session: "store_get (w_sessions ready_world) ''id0'' = Some (sample_record\<lparr> tr_protocol_id := Some ''101.1'' \<rparr>)"
  and ready_wf: "store_wf (w_sessions ready_world)"
proof -
  let ?r = "sample_record\<lparr> tr_protocol_id := Some ''101.1'' \<rparr>"
  have c: "store_create empty_store ?r = (fst (store_create empty_store ?r), ?r)"
    using sample_record_facts(2) by (simp add: store_create_def Let_def empty_store_def)
  have n: "store_get empty_store (tr_id ?r) = None" by (simp add: empty_store_def store_get_def)
  show "store_get (w_sessions ready_world) ''id0'' = Some ?r"
    using repo.create_get [OF store_wf_empty n c] sample_record_facts(2) by (simp add: ready_world_def)
  show "store_wf (w_sessions ready_world)"
    using repo.create_wf [OF store_wf_empty _ n] sample_record_facts(2) sample_mid_length
    by (simp add: ready_world_def)
qed

theorem authorize_outcome_witness:
  "\<exists>w' out status. session_authorize default_settings sample_draws ''u1'' ''id0''
      \<lparr> ar_payment_method_token = ''pm_card'', ar_scenario = None \<rparr> ready_world = (w', Inr out)
    \<and> so_processor_status out = Some status \<and> so_state out = authorized_state ''capture'' status
    \<and> (so_state out \<in> {T_APPROVED, T_COMPLETED} \<longleftrightarrow> truthy (so_authorization_code out))"
proof -
  let ?h = "session_authorize default_settings sample_draws ''u1'' ''id0''
      \<lparr> ar_payment_method_token = ''pm_card'', ar_scenario = None \<rparr> ready_world"
  have "is_ok (snd ?h)" by code_simp
  then obtain w' out where h: "?h = (w', Inr out)"
    by (metis is_ok_iff prod.collapse)
  have o: "or_str (tr_sandbox_outcome (sample_record\<lparr> tr_protocol_id := Some ''101.1'' \<rparr>)) ''capture'' = ''capture''"
    by code_simp
  show ?thesis using authorize_outcome [OF h ready_wf] h ready_session o by auto
qed

end
