(* ===== verification/Gateways.thy ===== *)
theory Gateways
  imports Txn_States Decimals Protocol_Adapter Config
begin

text \<open>
  The payment gateways of \<open>src/app/payments/\<close>: the requests and results of \<open>base.py\<close>, the adapters
  \<open>sandbox\<close>, \<open>unconfigured\<close>, \<open>moyasar\<close> and \<open>nowpayments\<close> of \<open>adapters/\<close>, and the registry of
  \<open>factory.py\<close>.

  The HTTP services are a parameter: \<open>http\<close> maps the method, the path and the JSON body of a call to
  its outcome, a network error, an undecodable body, or a reply with its success flag and body.
  The adapters read their keys when they are made; the model passes the settings with each call.
  The results of \<open>uuid4\<close> are arguments. Amounts and other floats inside webhook payloads are left
  out of the JSON values, no adapter reads them.
\<close>

section \<open>Requests and results\<close>

record payment_request =
  gq_amount :: decimal
  gq_currency :: string
  gq_merchant_reference :: string
  gq_description :: string
  gq_customer_email :: "string option"
  gq_metadata :: dict

record payment_result =
  gp_success :: bool
  gp_status :: transaction_status
  gp_gateway_reference :: string
  gp_payment_method :: "string option"
  gp_raw_response :: dict
  gp_error_message :: "string option"
  gp_authorization_code :: "string option"
  gp_signature_required :: bool
  gp_payment_method_token :: "string option"
  gp_card_last4 :: "string option"

record refund_request =
  gf_gateway_reference :: string
  gf_amount :: decimal
  gf_currency :: string
  gf_reason :: "string option"

record refund_result =
  gr_success :: bool
  gr_status :: transaction_status
  gr_refund_reference :: string
  gr_raw_response :: dict
  gr_error_message :: "string option"

text \<open>The constructors with the defaults of the dataclasses.\<close>

definition PaymentResult :: "bool \<Rightarrow> transaction_status \<Rightarrow> string \<Rightarrow> payment_result" where
  "PaymentResult success status reference =
     \<lparr> gp_success = success, gp_status = status, gp_gateway_reference = reference,
       gp_payment_method = None, gp_raw_response = [], gp_error_message = None,
       gp_authorization_code = None, gp_signature_required = False,
       gp_payment_method_token = None, gp_card_last4 = None \<rparr>"

definition RefundResult :: "bool \<Rightarrow> transaction_status \<Rightarrow> string \<Rightarrow> refund_result" where
  "RefundResult success status reference =
     \<lparr> gr_success = success, gr_status = status, gr_refund_reference = reference,
       gr_raw_response = [], gr_error_message = None \<rparr>"

lemma result_constructors [simp]:
  "gp_success (PaymentResult b s r) = b" "gp_status (PaymentResult b s r) = s"
  "gp_gateway_reference (PaymentResult b s r) = r" "gp_signature_required (PaymentResult b s r) = False"
  "gp_error_message (PaymentResult b s r) = None" "gp_authorization_code (PaymentResult b s r) = None"
  "gr_success (RefundResult b s r) = b" "gr_status (RefundResult b s r) = s"
  "gr_refund_reference (RefundResult b s r) = r"
  by (simp_all add: PaymentResult_def RefundResult_def)

definition captured_if :: "bool \<Rightarrow> transaction_status" where
  "captured_if success = (if success then CAPTURED else FAILED)"

section \<open>Calls over HTTP\<close>

datatype http_outcome =
    Http_Failed string       \<comment> \<open>\<open>httpx.HTTPError\<close>\<close>
  | Http_Undecodable string  \<comment> \<open>\<open>response.json()\<close> raises\<close>
  | Http_Reply bool json     \<comment> \<open>\<open>response.is_success\<close>, \<open>response.json()\<close>\<close>

type_synonym http = "string \<Rightarrow> string \<Rightarrow> dict \<Rightarrow> http_outcome"

definition fetch :: "http_outcome \<Rightarrow> (string \<Rightarrow> 'a res) \<Rightarrow> (bool \<Rightarrow> json \<Rightarrow> 'a res) \<Rightarrow> 'a res" where
  "fetch reply failed decoded =
     (case reply of
        Http_Failed m \<Rightarrow> failed m
      | Http_Undecodable m \<Rightarrow> Inl (ValueError m)
      | Http_Reply ok body \<Rightarrow> decoded ok body)"

definition raw_or_wrapped :: "json \<Rightarrow> dict" where
  "raw_or_wrapped body = (case body of JDict d \<Rightarrow> d | _ \<Rightarrow> [(''body'', body)])"

definition raw_or_empty :: "json \<Rightarrow> dict" where
  "raw_or_empty body = (case body of JDict d \<Rightarrow> d | _ \<Rightarrow> [])"

definition str_dict :: "(string \<times> string) list \<Rightarrow> json" where
  "str_dict headers = JDict (map (\<lambda>(k, v). (k, JStr v)) headers)"

section \<open>The sandbox\<close>

definition raw_card_fields :: "string list" where
  "raw_card_fields = [''pan'', ''card_number'', ''cvv'', ''cvc'']"

definition sandbox_charge :: "payment_request \<Rightarrow> string \<Rightarrow> string \<Rightarrow> string \<Rightarrow> payment_result" where
  "sandbox_charge request hex_ref hex_auth hex_token =
     (let reference = ''sbx_'' @ take 16 hex_ref;
          auth = ''AUTH'' @ upper (take 6 hex_auth);
          metadata = gq_metadata request;
          token = str_or (json_or (dget metadata ''payment_method_token'') (dget metadata ''payment_token'')) [];
          scenario = lower (str_or (dget metadata ''sandbox_scenario'') [])
      in if list_ex (\<lambda>forbidden. forbidden \<in> set (map fst metadata)) raw_card_fields then
           (PaymentResult False FAILED reference)
             \<lparr> gp_error_message := Some (''Sandbox rejects raw card fields '' @ em_dash @ '' send payment_method_token only''),
               gp_raw_response := [(''provider'', JStr ''sandbox''), (''reason'', JStr ''pci_reject'')] \<rparr>
         else if dec_eq (dec_mod1 (gq_amount request)) (Dec 13 (- 2)) \<or> scenario = ''declined''
                 \<or> ends_with token ''declined'' then
           (PaymentResult False FAILED reference)
             \<lparr> gp_payment_method := Some ''visa'',
               gp_payment_method_token := (if token = [] then None else Some token),
               gp_card_last4 := (if contains token ''declined'' then Some ''0002'' else None),
               gp_raw_response := [(''provider'', JStr ''sandbox''), (''reason'', JStr ''sandbox_forced_failure'')],
               gp_error_message := Some ''Sandbox declined (test scenario)'' \<rparr>
         else
           (let protocol_code = str_or (dget metadata ''protocol_code'') [];
                protocol_code = (if protocol_code = [] then None else Some protocol_code);
                (signature_required, prefer_authorized) =
                  resolve_sandbox_charge_flags protocol_code token scenario;
                status = (if signature_required \<or> prefer_authorized then AUTHORIZED else CAPTURED)
            in (PaymentResult True status reference)
                 \<lparr> gp_payment_method := Some ''visa'',
                   gp_authorization_code := Some auth,
                   gp_signature_required := signature_required,
                   gp_payment_method_token :=
                     Some (if token = [] then ''pm_test_'' @ take 10 hex_token else token),
                   gp_card_last4 := Some ''1111'',
                   gp_raw_response :=
                     [(''provider'', JStr ''sandbox''),
                      (''amount'', JStr (dec_str (gq_amount request))),
                      (''currency'', JStr (gq_currency request)),
                      (''merchant_reference'', JStr (gq_merchant_reference request)),
                      (''protocol_code'', jopt protocol_code),
                      (''signature_required'', JBool signature_required)] \<rparr>))"

definition sandbox_refund :: "refund_request \<Rightarrow> string \<Rightarrow> refund_result" where
  "sandbox_refund request hex =
     (RefundResult True REFUNDED (''sbx_rf_'' @ take 12 hex))
       \<lparr> gr_raw_response := [(''provider'', JStr ''sandbox''), (''original'', JStr (gf_gateway_reference request))] \<rparr>"

definition sandbox_verify_callback ::
  "(string \<times> string) list \<Rightarrow> dict \<Rightarrow> string \<Rightarrow> payment_result" where
  "sandbox_verify_callback headers payload hex =
     (let reference = str_or (dget payload ''gateway_reference'') (''sbx_cb_'' @ take 12 hex);
          success = (case map_of payload ''success'' of None \<Rightarrow> True | Some v \<Rightarrow> jbool v)
      in (PaymentResult success (captured_if success) reference)
           \<lparr> gp_payment_method := Some (str_or (dget payload ''payment_method'') ''visa''),
             gp_raw_response :=
               [(''headers'', str_dict (filter (\<lambda>(k, v). \<not> contains (lower k) ''secret'') headers)),
                (''payload'', JDict payload)],
             gp_error_message :=
               (if success then None else Some (str_or (dget payload ''error'') ''Callback failure'')) \<rparr>)"

definition sandbox_get_status :: "string \<Rightarrow> payment_result" where
  "sandbox_get_status reference =
     (PaymentResult True CAPTURED reference)
       \<lparr> gp_payment_method := Some ''visa'',
         gp_raw_response := [(''provider'', JStr ''sandbox''), (''gateway_reference'', JStr reference)] \<rparr>"

section \<open>Providers without credentials\<close>

definition unconfigured_blocked :: "string \<Rightarrow> string" where
  "unconfigured_blocked display_name =
     display_name @ '' credentials are not configured. '' @
     ''Launch uses NOWPayments after verification, or sandbox for Sunmi testing. '' @
     ''Use gateway_provider=sandbox for device testing.''"

definition unconfigured_charge :: "string \<Rightarrow> string \<Rightarrow> payment_request \<Rightarrow> payment_result" where
  "unconfigured_charge provider display_name request =
     (PaymentResult False FAILED [])
       \<lparr> gp_error_message := Some (unconfigured_blocked display_name),
         gp_raw_response := [(''provider'', JStr provider), (''configured'', JBool False)] \<rparr>"

definition unconfigured_refund :: "string \<Rightarrow> refund_request \<Rightarrow> refund_result" where
  "unconfigured_refund display_name request =
     (RefundResult False FAILED []) \<lparr> gr_error_message := Some (unconfigured_blocked display_name) \<rparr>"

definition unconfigured_verify_callback ::
  "string \<Rightarrow> (string \<times> string) list \<Rightarrow> dict \<Rightarrow> payment_result" where
  "unconfigured_verify_callback display_name headers payload =
     (PaymentResult False FAILED (str_or (dget payload ''id'') []))
       \<lparr> gp_error_message := Some (unconfigured_blocked display_name),
         gp_raw_response := [(''headers'', str_dict headers), (''payload'', JDict payload)] \<rparr>"

definition unconfigured_get_status :: "string \<Rightarrow> string \<Rightarrow> payment_result" where
  "unconfigured_get_status display_name reference =
     (PaymentResult False FAILED reference) \<lparr> gp_error_message := Some (unconfigured_blocked display_name) \<rparr>"

section \<open>Moyasar\<close>

definition moyasar_to_minor_units :: "decimal \<Rightarrow> int res" where
  "moyasar_to_minor_units amount =
     bindr (quantize ROUND_HALF_EVEN (dec_mul amount (Dec 100 0)) 0) (\<lambda>d. Inr (dec_int d))"

definition moyasar_secret :: "settings \<Rightarrow> string" where
  "moyasar_secret st = strip (moyasar_secret_key st)"

definition moyasar_paid :: "string \<Rightarrow> bool" where
  "moyasar_paid status \<longleftrightarrow> status \<in> set [''paid'', ''captured'', ''authorized'']"

definition moyasar_company :: "json \<Rightarrow> string res" where
  \<comment> \<open>\<open>str((body.get("source") or {}).get("company") or "card")\<close>\<close>
  "moyasar_company body =
     bindr (json_get body ''source'') (\<lambda>source.
     bindr (json_get (json_or source (JDict [])) ''company'') (\<lambda>company.
     Inr (str_or company ''card'')))"

definition moyasar_payload :: "payment_request \<Rightarrow> int \<Rightarrow> json \<Rightarrow> dict" where
  "moyasar_payload request minor source =
     [(''amount'', JInt minor),
      (''currency'', JStr (upper (gq_currency request))),
      (''description'', JStr (gq_description request)),
      (''metadata'', JDict (fold (\<lambda>(k, v) d. if k = ''moyasar_source'' then d else dset k (JStr (py_str v)) d)
          (gq_metadata request) [(''merchant_reference'', JStr (gq_merchant_reference request))])),
      (''source'', source)]"

definition moyasar_charge :: "settings \<Rightarrow> http \<Rightarrow> payment_request \<Rightarrow> payment_result res" where
  "moyasar_charge st http request =
     (if moyasar_secret st = [] then
        Inr ((PaymentResult False FAILED [])
          \<lparr> gp_error_message := Some
              (''Moyasar is not configured. Add MOYASAR_SECRET_KEY on Railway '' @
               ''or use gateway_provider=sandbox until the merchant account is approved.''),
            gp_raw_response := [(''provider'', JStr ''moyasar''), (''configured'', JBool False)] \<rparr>)
      else
        (case dget (gq_metadata request) ''moyasar_source'' of
           JDict source \<Rightarrow>
             bindr (moyasar_to_minor_units (gq_amount request)) (\<lambda>minor.
             fetch (http ''POST'' ''/payments'' (moyasar_payload request minor (JDict source)))
               (\<lambda>exc. Inr ((PaymentResult False FAILED [])
                  \<lparr> gp_error_message := Some (''Moyasar network error: '' @ exc),
                    gp_raw_response := [(''provider'', JStr ''moyasar'')] \<rparr>))
               (\<lambda>is_success body.
                  bindr (json_get body ''id'') (\<lambda>ident.
                  bindr (json_get body ''status'') (\<lambda>status.
                  bindr (moyasar_company body) (\<lambda>company.
                  bindr (json_get body ''message'') (\<lambda>message.
                  bindr (json_get body ''type'') (\<lambda>kind.
                  let success = (is_success \<and> moyasar_paid (str_or status ''failed'')) in
                  Inr ((PaymentResult success (captured_if success) (str_or ident []))
                    \<lparr> gp_payment_method := Some company,
                      gp_raw_response := raw_or_wrapped body,
                      gp_error_message :=
                        (if success then None
                         else Some (str_or (json_or message kind) ''Moyasar declined'')) \<rparr>))))))))
         | _ \<Rightarrow>
             Inr ((PaymentResult False FAILED [])
               \<lparr> gp_error_message := Some
                   (''Moyasar requires a tokenized card source. NFC tap on the POS does not '' @
                    ''expose PAN. Use sandbox for device testing, or supply a Moyasar token '' @
                    ''after the hosted payment / Sunmi acquiring path is enabled.''),
                 gp_raw_response := [(''provider'', JStr ''moyasar''), (''reason'', JStr ''missing_source'')] \<rparr>)))"

definition moyasar_refund :: "settings \<Rightarrow> http \<Rightarrow> refund_request \<Rightarrow> refund_result res" where
  "moyasar_refund st http request =
     (if moyasar_secret st = [] then
        Inr ((RefundResult False FAILED []) \<lparr> gr_error_message := Some ''Moyasar is not configured'' \<rparr>)
      else
        bindr (moyasar_to_minor_units (gf_amount request)) (\<lambda>minor.
        fetch (http ''POST'' (''/payments/'' @ gf_gateway_reference request @ ''/refund'') [(''amount'', JInt minor)])
          (\<lambda>exc. Inr ((RefundResult False FAILED []) \<lparr> gr_error_message := Some exc \<rparr>))
          (\<lambda>success body.
             bindr (json_get body ''id'') (\<lambda>ident.
             bindr (json_get body ''message'') (\<lambda>message.
             Inr ((RefundResult success (if success then REFUNDED else FAILED)
                     (str_or ident (gf_gateway_reference request)))
               \<lparr> gr_raw_response := raw_or_empty body,
                 gr_error_message := (if success then None else Some (str_or message ''Refund failed'')) \<rparr>))))))"

definition moyasar_verify_callback ::
  "(string \<times> string) list \<Rightarrow> dict \<Rightarrow> payment_result res" where
  "moyasar_verify_callback headers payload =
     bindr (if jbool (dget payload ''id'') then Inr (dget payload ''id'')
            else (case map_of payload ''data'' of
                    None \<Rightarrow> Inr JNull
                  | Some data \<Rightarrow> json_get data ''id'')) (\<lambda>ident.
     let success = moyasar_paid (str_or (dget payload ''status'') []) in
     Inr ((PaymentResult success (captured_if success) (str_or ident []))
       \<lparr> gp_payment_method := Some ''card'',
         gp_raw_response := [(''headers'', str_dict headers), (''payload'', JDict payload)] \<rparr>))"

definition moyasar_get_status :: "settings \<Rightarrow> http \<Rightarrow> string \<Rightarrow> payment_result res" where
  "moyasar_get_status st http reference =
     (if moyasar_secret st = [] then
        Inr ((PaymentResult False FAILED reference) \<lparr> gp_error_message := Some ''Moyasar is not configured'' \<rparr>)
      else
        fetch (http ''GET'' (''/payments/'' @ reference) [])
          (\<lambda>exc. Inl (HTTPError exc))
          (\<lambda>is_success body.
             bindr (json_get body ''status'') (\<lambda>status.
             bindr (json_get body ''id'') (\<lambda>ident.
             bindr (moyasar_company body) (\<lambda>company.
             let success = (is_success \<and> moyasar_paid (str_or status [])) in
             Inr ((PaymentResult success (captured_if success) (str_or ident reference))
               \<lparr> gp_payment_method := Some company, gp_raw_response := raw_or_empty body \<rparr>))))))"

section \<open>NOWPayments\<close>

definition nowpayments_key :: "settings \<Rightarrow> string" where
  "nowpayments_key st = strip (nowpayments_api_key st)"

definition POS_VERIFICATION_BLOCK :: string where
  "POS_VERIFICATION_BLOCK =
     ''NOWPayments is registered but not enabled for live Sunmi POS charges yet. '' @
     ''Provider verification is in progress (Saudi company KYB, fiat-to-crypto eligibility, '' @
     ''and physical card capture on Sunmi V3). Use gateway_provider=sandbox until approved.''"

definition nowpayments_done :: "string \<Rightarrow> bool" where
  "nowpayments_done status \<longleftrightarrow> status \<in> set [''finished'', ''confirmed'', ''paid'', ''completed'']"

definition nowpayments_payload :: "payment_request \<Rightarrow> dict" where
  "nowpayments_payload request =
     [(''price_amount'', JStr (dec_str (gq_amount request))),
      (''price_currency'', JStr (lower (strip (gq_currency request)))),
      (''pay_currency'', JStr ''usdttrc20''),
      (''order_id'', JStr (gq_merchant_reference request)),
      (''order_description'', JStr (gq_description request)),
      (''is_fixed_rate'', JBool True)]
     @ (case dget (gq_metadata request) ''ipn_callback_url'' of
          JStr url \<Rightarrow> if strip url = [] then [] else [(''ipn_callback_url'', JStr (strip url))]
        | _ \<Rightarrow> [])"

definition nowpayments_charge :: "settings \<Rightarrow> http \<Rightarrow> payment_request \<Rightarrow> payment_result res" where
  "nowpayments_charge st http request =
     (if nowpayments_key st = [] then
        Inr ((PaymentResult False FAILED [])
          \<lparr> gp_error_message := Some
              (''NOWPayments is not configured. Add NOWPAYMENTS_API_KEY on Railway '' @
               ''after merchant approval, or use gateway_provider=sandbox.''),
            gp_raw_response := [(''provider'', JStr ''nowpayments''), (''configured'', JBool False)] \<rparr>)
      else if \<not> nowpayments_pos_verified st then
        Inr ((PaymentResult False FAILED [])
          \<lparr> gp_error_message := Some POS_VERIFICATION_BLOCK,
            gp_raw_response := [(''provider'', JStr ''nowpayments''), (''pos_verified'', JBool False)] \<rparr>)
      else
        fetch (http ''POST'' ''/invoice'' (nowpayments_payload request))
          (\<lambda>exc. Inr ((PaymentResult False FAILED [])
             \<lparr> gp_error_message := Some (''NOWPayments network error: '' @ exc),
               gp_raw_response := [(''provider'', JStr ''nowpayments'')] \<rparr>))
          (\<lambda>is_success body.
             if \<not> is_success then
               bindr (json_get body ''message'') (\<lambda>message.
               bindr (json_get body ''error'') (\<lambda>err.
               Inr ((PaymentResult False FAILED [])
                 \<lparr> gp_error_message := Some (str_or (json_or message err) ''Invoice creation failed''),
                   gp_raw_response := raw_or_wrapped body \<rparr>)))
             else
               bindr (json_get body ''id'') (\<lambda>ident.
               bindr (json_get body ''invoice_id'') (\<lambda>invoice.
               Inr ((PaymentResult False PENDING (str_or (json_or ident invoice) []))
                 \<lparr> gp_payment_method := Some ''nowpayments_invoice'',
                   gp_raw_response := raw_or_empty body,
                   gp_error_message := Some
                     (''NOWPayments invoice created. Customer must complete hosted fiat payment; '' @
                      ''final USDT settlement is confirmed via IPN webhook.'') \<rparr>)))))"

definition nowpayments_refund :: "refund_request \<Rightarrow> refund_result" where
  "nowpayments_refund request =
     (RefundResult False FAILED [])
       \<lparr> gr_error_message := Some
           (''NOWPayments refunds are not automated in CryptoPOS yet. '' @
            ''Handle refund policy with NOWPayments support after go-live.''),
         gr_raw_response :=
           [(''provider'', JStr ''nowpayments''), (''gateway_reference'', JStr (gf_gateway_reference request))] \<rparr>"

definition nowpayments_verify_callback :: "(string \<times> string) list \<Rightarrow> dict \<Rightarrow> payment_result" where
  "nowpayments_verify_callback headers payload =
     (let payment_status = lower (str_or (json_or (dget payload ''payment_status'') (dget payload ''status'')) []);
          payment_id = str_or (json_or (dget payload ''payment_id'')
                         (json_or (dget payload ''invoice_id'') (dget payload ''id''))) [];
          success = nowpayments_done payment_status
      in (PaymentResult success (captured_if success) payment_id)
           \<lparr> gp_payment_method := Some ''nowpayments'',
             gp_raw_response := [(''headers'', str_dict headers), (''payload'', JDict payload)],
             gp_error_message :=
               (if success then None
                else Some (''NOWPayments status: '' @ (if payment_status = [] then ''unknown'' else payment_status))) \<rparr>)"

definition nowpayments_get_status :: "settings \<Rightarrow> http \<Rightarrow> string \<Rightarrow> payment_result res" where
  "nowpayments_get_status st http reference =
     (if nowpayments_key st = [] then
        Inr ((PaymentResult False FAILED reference) \<lparr> gp_error_message := Some ''NOWPayments is not configured'' \<rparr>)
      else
        fetch (http ''GET'' (''/payment/'' @ reference) [])
          (\<lambda>exc. Inr ((PaymentResult False FAILED reference) \<lparr> gp_error_message := Some exc \<rparr>))
          (\<lambda>is_success body.
             bindr (json_get body ''payment_status'') (\<lambda>payment_status.
             bindr (json_get body ''status'') (\<lambda>status.
             bindr (json_get body ''payment_id'') (\<lambda>ident.
             let success = (is_success \<and> nowpayments_done (lower (str_or (json_or payment_status status) []))) in
             Inr ((PaymentResult success (captured_if success) (str_or ident reference))
               \<lparr> gp_payment_method := Some ''nowpayments'', gp_raw_response := raw_or_empty body \<rparr>))))))"

section \<open>The registry\<close>

datatype gateway =
    SandboxPaymentGateway
  | NowPaymentsGateway
  | MoyasarPaymentGateway
  | UnconfiguredPaymentGateway string string  \<comment> \<open>provider, display name\<close>

definition HyperPayGateway :: gateway where
  "HyperPayGateway = UnconfiguredPaymentGateway ''hyperpay'' ''HyperPay''"

definition CheckoutGateway :: gateway where
  "CheckoutGateway = UnconfiguredPaymentGateway ''checkout'' ''Checkout.com''"

definition StripeGateway :: gateway where
  "StripeGateway = UnconfiguredPaymentGateway ''stripe'' ''Stripe''"

fun gateway_provider_name :: "gateway \<Rightarrow> string" where
  "gateway_provider_name SandboxPaymentGateway = ''sandbox''"
| "gateway_provider_name NowPaymentsGateway = ''nowpayments''"
| "gateway_provider_name MoyasarPaymentGateway = ''moyasar''"
| "gateway_provider_name (UnconfiguredPaymentGateway provider _) = provider"

type_synonym gateway_registry = "(string \<times> gateway) list"

definition GATEWAY_REGISTRY :: gateway_registry where
  "GATEWAY_REGISTRY =
     [(''sandbox'', SandboxPaymentGateway), (''nowpayments'', NowPaymentsGateway),
      (''moyasar'', MoyasarPaymentGateway), (''hyperpay'', HyperPayGateway),
      (''checkout'', CheckoutGateway), (''stripe'', StripeGateway)]"

definition register_payment_gateway :: "string \<Rightarrow> gateway \<Rightarrow> gateway_registry \<Rightarrow> gateway_registry" where
  "register_payment_gateway provider cls registry = AList.update provider cls registry"

definition get_payment_gateway_in :: "gateway_registry \<Rightarrow> settings \<Rightarrow> string option \<Rightarrow> gateway res" where
  "get_payment_gateway_in registry st provider =
     (let key = lower (or_str provider (default_payment_gateway st)) in
      case map_of registry key of
        None \<Rightarrow> Inl (AppException (''Payment gateway '' @ [CHR 0x27] @ key @ [CHR 0x27] @ '' is not registered'') 500)
      | Some gateway \<Rightarrow> Inr gateway)"

definition get_payment_gateway :: "settings \<Rightarrow> string option \<Rightarrow> gateway res" where
  "get_payment_gateway = get_payment_gateway_in GATEWAY_REGISTRY"

section \<open>The interface\<close>

definition gateway_charge ::
  "gateway \<Rightarrow> settings \<Rightarrow> http \<Rightarrow> string \<Rightarrow> string \<Rightarrow> string \<Rightarrow> payment_request \<Rightarrow> payment_result res" where
  "gateway_charge gateway st http h1 h2 h3 request =
     (case gateway of
        SandboxPaymentGateway \<Rightarrow> Inr (sandbox_charge request h1 h2 h3)
      | NowPaymentsGateway \<Rightarrow> nowpayments_charge st http request
      | MoyasarPaymentGateway \<Rightarrow> moyasar_charge st http request
      | UnconfiguredPaymentGateway provider display_name \<Rightarrow> Inr (unconfigured_charge provider display_name request))"

definition gateway_refund ::
  "gateway \<Rightarrow> settings \<Rightarrow> http \<Rightarrow> string \<Rightarrow> refund_request \<Rightarrow> refund_result res" where
  "gateway_refund gateway st http h request =
     (case gateway of
        SandboxPaymentGateway \<Rightarrow> Inr (sandbox_refund request h)
      | NowPaymentsGateway \<Rightarrow> Inr (nowpayments_refund request)
      | MoyasarPaymentGateway \<Rightarrow> moyasar_refund st http request
      | UnconfiguredPaymentGateway _ display_name \<Rightarrow> Inr (unconfigured_refund display_name request))"

definition gateway_verify_callback ::
  "gateway \<Rightarrow> (string \<times> string) list \<Rightarrow> dict \<Rightarrow> string \<Rightarrow> payment_result res" where
  "gateway_verify_callback gateway headers payload h =
     (case gateway of
        SandboxPaymentGateway \<Rightarrow> Inr (sandbox_verify_callback headers payload h)
      | NowPaymentsGateway \<Rightarrow> Inr (nowpayments_verify_callback headers payload)
      | MoyasarPaymentGateway \<Rightarrow> moyasar_verify_callback headers payload
      | UnconfiguredPaymentGateway _ display_name \<Rightarrow>
          Inr (unconfigured_verify_callback display_name headers payload))"

definition gateway_get_status :: "gateway \<Rightarrow> settings \<Rightarrow> http \<Rightarrow> string \<Rightarrow> payment_result res" where
  "gateway_get_status gateway st http reference =
     (case gateway of
        SandboxPaymentGateway \<Rightarrow> Inr (sandbox_get_status reference)
      | NowPaymentsGateway \<Rightarrow> nowpayments_get_status st http reference
      | MoyasarPaymentGateway \<Rightarrow> moyasar_get_status st http reference
      | UnconfiguredPaymentGateway _ display_name \<Rightarrow> Inr (unconfigured_get_status display_name reference))"

text \<open>What the payment service relies on: the success flag and the status of an answer agree, and
  only an authorized payment waits for a signature.\<close>

locale payment_gateway =
  fixes charge :: "payment_request \<Rightarrow> payment_result res"
    and refund :: "refund_request \<Rightarrow> refund_result res"
    and verify_callback :: "(string \<times> string) list \<Rightarrow> dict \<Rightarrow> payment_result res"
  assumes charge_law: "charge q = Inr r \<Longrightarrow> gp_success r \<Longrightarrow>
        gp_status r \<in> {AUTHORIZED, CAPTURED} \<and> gp_error_message r = None"
    and charge_fails: "charge q = Inr r \<Longrightarrow> \<not> gp_success r \<Longrightarrow>
        gp_status r \<in> {FAILED, PENDING} \<and> gp_error_message r \<noteq> None \<and> gp_authorization_code r = None"
    and signature_law: "charge q = Inr r \<Longrightarrow> gp_signature_required r \<Longrightarrow> gp_status r = AUTHORIZED"
    and refund_law: "refund q' = Inr r' \<Longrightarrow> gr_success r' \<longleftrightarrow> gr_status r' = REFUNDED"
    and callback_law: "verify_callback hs payload = Inr r \<Longrightarrow> gp_status r = captured_if (gp_success r)"
begin

lemma charged_is_no_failure: "charge q = Inr r \<Longrightarrow> gp_success r \<longleftrightarrow> gp_status r \<notin> {FAILED, PENDING}"
  using charge_law charge_fails by (cases "gp_success r") fastforce+

lemma signature_success: "charge q = Inr r \<Longrightarrow> gp_signature_required r \<Longrightarrow> gp_success r"
  using signature_law charge_fails by fastforce

end

named_theorems adapter_defs \<open>definitions of the adapters\<close>

lemmas [adapter_defs] =
  sandbox_charge_def sandbox_refund_def sandbox_verify_callback_def unconfigured_charge_def
  unconfigured_refund_def unconfigured_verify_callback_def moyasar_charge_def moyasar_refund_def
  moyasar_verify_callback_def nowpayments_charge_def nowpayments_refund_def
  nowpayments_verify_callback_def

lemma fetch_Inr: "fetch reply failed decoded = Inr r \<longleftrightarrow>
    (\<exists>m. reply = Http_Failed m \<and> failed m = Inr r) \<or> (\<exists>ok body. reply = Http_Reply ok body \<and> decoded ok body = Inr r)"
  by (cases reply) (auto simp: fetch_def)

interpretation sandbox_gateway: payment_gateway
  "\<lambda>q. Inr (sandbox_charge q h1 h2 h3)" "\<lambda>q. Inr (sandbox_refund q h)"
  "\<lambda>hs payload. Inr (sandbox_verify_callback hs payload h')" for h1 h2 h3 h h'
  by unfold_locales
    (auto simp: adapter_defs Let_def dest!: charge_flags_signature_prefers split: if_splits prod.splits)

interpretation unconfigured_gateway: payment_gateway
  "\<lambda>q. Inr (unconfigured_charge provider name q)" "\<lambda>q. Inr (unconfigured_refund name q)"
  "\<lambda>hs payload. Inr (unconfigured_verify_callback name hs payload)" for provider name
  by unfold_locales (auto simp: adapter_defs captured_if_def)

text \<open>The shape of an answer that comes from a success flag.\<close>

definition decided :: "payment_result \<Rightarrow> bool" where
  "decided r \<longleftrightarrow> \<not> gp_signature_required r \<and>
     (if gp_success r then gp_status r = CAPTURED \<and> gp_error_message r = None
      else gp_status r = FAILED \<and> gp_error_message r \<noteq> None \<and> gp_authorization_code r = None)"

lemma moyasar_charge_decided:
  assumes "moyasar_charge st http q = Inr r"
  shows "decided r"
proof (cases "moyasar_secret st = [] \<or> (\<forall>d. dget (gq_metadata q) ''moyasar_source'' \<noteq> JDict d)")
  case True
  then show ?thesis
    using assms by (cases "dget (gq_metadata q) ''moyasar_source''")
      (auto simp: moyasar_charge_def decided_def split: if_splits)
next
  case False
  then obtain d where d: "dget (gq_metadata q) ''moyasar_source'' = JDict d" and "moyasar_secret st \<noteq> []"
    by auto
  then obtain minor where "fetch (http ''POST'' ''/payments'' (moyasar_payload q minor (JDict d)))
      (\<lambda>exc. Inr ((PaymentResult False FAILED [])
         \<lparr> gp_error_message := Some (''Moyasar network error: '' @ exc),
           gp_raw_response := [(''provider'', JStr ''moyasar'')] \<rparr>))
      (\<lambda>is_success body.
         bindr (json_get body ''id'') (\<lambda>ident.
         bindr (json_get body ''status'') (\<lambda>status.
         bindr (moyasar_company body) (\<lambda>company.
         bindr (json_get body ''message'') (\<lambda>message.
         bindr (json_get body ''type'') (\<lambda>kind.
         let success = (is_success \<and> moyasar_paid (str_or status ''failed'')) in
         Inr ((PaymentResult success (captured_if success) (str_or ident []))
           \<lparr> gp_payment_method := Some company,
             gp_raw_response := raw_or_wrapped body,
             gp_error_message :=
               (if success then None
                else Some (str_or (json_or message kind) ''Moyasar declined'')) \<rparr>))))))) = Inr r"
    using assms by (simp add: moyasar_charge_def bindr_Inr_iff) blast
  then show ?thesis
    unfolding fetch_Inr bindr_Inr_iff Let_def by (elim disjE exE conjE) (auto simp: decided_def captured_if_def)
qed

lemma moyasar_refund_status:
  "moyasar_refund st http q = Inr r \<Longrightarrow> gr_success r \<longleftrightarrow> gr_status r = REFUNDED"
  unfolding moyasar_refund_def by (auto simp: fetch_Inr bindr_Inr_iff RefundResult_def split: if_splits)

lemma moyasar_callback_status:
  "moyasar_verify_callback hs payload = Inr r \<Longrightarrow> gp_status r = captured_if (gp_success r)"
  unfolding moyasar_verify_callback_def bindr_Inr_iff Let_def by (elim exE conjE) auto

interpretation moyasar_gateway: payment_gateway
  "moyasar_charge st http" "moyasar_refund st http" moyasar_verify_callback for st http
  using moyasar_charge_decided moyasar_refund_status moyasar_callback_status
  by unfold_locales (fastforce simp: decided_def split: if_splits)+

interpretation nowpayments_gateway: payment_gateway
  "nowpayments_charge st http" "\<lambda>q. Inr (nowpayments_refund q)"
  "\<lambda>hs payload. Inr (nowpayments_verify_callback hs payload)" for st http
  by unfold_locales (auto simp: adapter_defs Let_def fetch_Inr bindr_Inr_iff split: if_splits)

interpretation gw: payment_gateway
  "gateway_charge g st http h1 h2 h3" "gateway_refund g st http h"
  "\<lambda>hs payload. gateway_verify_callback g hs payload h'" for g st http h1 h2 h3 h h'
proof (cases g)
  case SandboxPaymentGateway
  then show "payment_gateway (gateway_charge g st http h1 h2 h3) (gateway_refund g st http h)
      (\<lambda>hs payload. gateway_verify_callback g hs payload h')"
    using sandbox_gateway.payment_gateway_axioms [of h1 h2 h3 h h']
    by (simp add: gateway_charge_def [abs_def] gateway_refund_def [abs_def] gateway_verify_callback_def)
next
  case NowPaymentsGateway
  then show "payment_gateway (gateway_charge g st http h1 h2 h3) (gateway_refund g st http h)
      (\<lambda>hs payload. gateway_verify_callback g hs payload h')"
    using nowpayments_gateway.payment_gateway_axioms [of st http]
    by (simp add: gateway_charge_def [abs_def] gateway_refund_def [abs_def] gateway_verify_callback_def)
next
  case MoyasarPaymentGateway
  then show "payment_gateway (gateway_charge g st http h1 h2 h3) (gateway_refund g st http h)
      (\<lambda>hs payload. gateway_verify_callback g hs payload h')"
    using moyasar_gateway.payment_gateway_axioms [of st http]
    by (simp add: gateway_charge_def [abs_def] gateway_refund_def [abs_def] gateway_verify_callback_def)
next
  case (UnconfiguredPaymentGateway p n)
  then show "payment_gateway (gateway_charge g st http h1 h2 h3) (gateway_refund g st http h)
      (\<lambda>hs payload. gateway_verify_callback g hs payload h')"
    using unconfigured_gateway.payment_gateway_axioms [of p n]
    by (simp add: gateway_charge_def [abs_def] gateway_refund_def [abs_def] gateway_verify_callback_def)
qed

section \<open>Properties\<close>

lemma nowpayments_never_charges: "nowpayments_charge st http q = Inr r \<Longrightarrow> \<not> gp_success r"
  unfolding nowpayments_charge_def by (auto simp: fetch_Inr bindr_Inr_iff split: if_splits)

lemma moyasar_charge_needs_source:
  "moyasar_charge st http q = Inr r \<Longrightarrow> gp_success r \<Longrightarrow>
     moyasar_secret st \<noteq> [] \<and> (\<exists>source. dget (gq_metadata q) ''moyasar_source'' = JDict source)"
  by (auto simp: moyasar_charge_def split: if_splits json.splits)

text \<open>C20. The contract of every gateway's \<open>charge\<close>: the success flag, the status and the error
  message agree; only an authorized charge waits for a signature; and nothing but the sandbox, or
  Moyasar with a key and a tokenized card source, ever reports success. NOWPayments never does: its
  charge only opens an invoice.\<close>

theorem charge_contract:
  assumes "gateway_charge g st http h1 h2 h3 q = Inr r"
  shows "(gp_success r \<longleftrightarrow> gp_status r \<in> {AUTHORIZED, CAPTURED}) \<and> (gp_success r \<longleftrightarrow> gp_error_message r = None)
    \<and> (gp_signature_required r \<longrightarrow> gp_success r \<and> gp_status r = AUTHORIZED)
    \<and> (gp_success r \<longrightarrow> g = SandboxPaymentGateway \<or>
         g = MoyasarPaymentGateway \<and> moyasar_secret st \<noteq> []
         \<and> (\<exists>source. dget (gq_metadata q) ''moyasar_source'' = JDict source))"
proof -
  have s: "gp_success r \<longleftrightarrow> gp_status r \<in> {AUTHORIZED, CAPTURED}"
    using gw.charge_law [OF assms] gw.charge_fails [OF assms] by (cases "gp_success r") fastforce+
  have e: "gp_success r \<longleftrightarrow> gp_error_message r = None"
    using gw.charge_law [OF assms] gw.charge_fails [OF assms] by (cases "gp_success r") simp_all
  have "gp_success r \<longrightarrow> g = SandboxPaymentGateway \<or>
         g = MoyasarPaymentGateway \<and> moyasar_secret st \<noteq> []
         \<and> (\<exists>source. dget (gq_metadata q) ''moyasar_source'' = JDict source)"
    using assms nowpayments_never_charges moyasar_charge_needs_source
    by (cases g) (auto simp: gateway_charge_def unconfigured_charge_def)
  then show ?thesis
    using s e gw.signature_success [OF assms] gw.signature_law [OF assms] by simp
qed

definition sample_charge :: payment_request where
  "sample_charge = \<lparr> gq_amount = Dec 1000 (- 2), gq_currency = ''SAR'', gq_merchant_reference = ''order-1'',
     gq_description = ''Payment order-1'', gq_customer_email = None,
     gq_metadata = [(''payment_method_token'', JStr ''pm_test_visa_signature'')] \<rparr>"

theorem charge_contract_witness:
  "gp_status (sandbox_charge sample_charge ''a'' ''b'' ''c'') = AUTHORIZED
    \<and> gp_error_message (sandbox_charge sample_charge ''a'' ''b'' ''c'') = None"
proof -
  have r: "gp_signature_required (sandbox_charge sample_charge ''a'' ''b'' ''c'')" by code_simp
  have g: "gateway_charge SandboxPaymentGateway default_settings (\<lambda>_ _ _. Http_Failed []) ''a'' ''b'' ''c''
      sample_charge = Inr (sandbox_charge sample_charge ''a'' ''b'' ''c'')"
    by (simp add: gateway_charge_def)
  show ?thesis using charge_contract [OF g] r by blast
qed

section \<open>The sandbox gateway and the protocol adapter\<close>

text \<open>C39. The two implementations of the sandbox agree. For a request the adapter of
  \<open>protocols/sandbox.py\<close> executes under a catalog code, the gateway of \<open>payments/adapters/sandbox.py\<close>,
  which decides by the charge flags, charges the same token under the same code with the adapter's result:
  it fails exactly when the adapter declines, otherwise the charge is authorized or captured as the adapter
  says, and a signature is asked for and an authorization code given exactly when the adapter does. The
  gateway's own overrides are set aside: raw card fields, the amounts that end in .13, and the scenarios
  \<open>declined\<close> and \<open>signature\<close>.\<close>

theorem sandbox_charge_agrees_with_adapter:
  assumes d: "get_protocol c = Inr d" "c \<noteq> []" and p: "execute d r h1 h2 = Inr p"
    and same: "dget (gq_metadata q) ''payment_method_token'' = JStr (prq_payment_token r)"
      "dget (gq_metadata q) ''protocol_code'' = JStr c"
    and plain: "\<not> list_ex (\<lambda>f. f \<in> set (map fst (gq_metadata q))) raw_card_fields"
      "\<not> dec_eq (dec_mod1 (gq_amount q)) (Dec 13 (- 2))"
      "lower (str_or (dget (gq_metadata q) ''sandbox_scenario'') []) \<notin> {''declined'', ''signature''}"
  shows "let z = sandbox_charge q h3 h4 h5 in
    (gp_success z \<longleftrightarrow> prs_status p \<noteq> ''DECLINED'')
    \<and> (gp_success z \<longrightarrow> prs_status p = upper (status_value (gp_status z)))
    \<and> (gp_signature_required z \<longleftrightarrow> prs_signature_required p)
    \<and> (gp_authorization_code z = None \<longleftrightarrow> prs_authorization_code p = JNull)"
proof -
  let ?t = "prq_payment_token r" and ?s = "lower (str_or (dget (gq_metadata q) ''sandbox_scenario'') [])"
  note x = execute_result [OF p]
  have "?t \<noteq> []" using x(4) by (auto simp: starts_with_def)
  then have t: "str_or (json_or (JStr ?t) v) [] = ?t" for v by (simp add: str_or_def json_or_def py_str_def)
  have c: "str_or (JStr c) [] = c" using d(2) by (simp add: str_or_def py_str_def)
  have f: "resolve_sandbox_charge_flags (Some c) ?t ?s =
      (needs_signature d ?t, needs_signature d ?t \<or> pd_sandbox_outcome d \<in> {Pre_Auth, Offline_Auth})"
    using charge_flags_value [OF d, of ?t ?s] plain(3) by simp
  have u: "upper ''authorized'' = ''AUTHORIZED''" "upper ''captured'' = ''CAPTURED''" by code_simp+
  show ?thesis
  proof (cases "ends_with ?t ''declined''")
    case True
    then show ?thesis
      using plain(1,2) x by (simp add: sandbox_charge_def Let_def same t sandbox_verdict_def)
  next
    case False
    then show ?thesis
      using plain x d(2) by (simp add: sandbox_charge_def Let_def same t c f u sandbox_verdict_def)
  qed
qed

definition sample_execution :: protocol_request where
  "sample_execution = \<lparr> prq_transaction_id = ''t1'', prq_amount_minor = 1000, prq_currency = ''SAR'',
     prq_payment_token = ''pm_test_visa_success'' \<rparr>"

theorem sandbox_charge_agrees_with_adapter_witness:
  "\<exists>d p. get_protocol ''201.3'' = Inr d \<and> execute d sample_execution ''a'' ''b'' = Inr p \<and> prs_signature_required p
    \<and> gp_signature_required (sandbox_charge (sample_charge\<lparr> gq_metadata :=
         [(''payment_method_token'', JStr ''pm_test_visa_success''), (''protocol_code'', JStr ''201.3'')] \<rparr>) ''a'' ''b'' ''c'')"
proof -
  obtain d where d: "get_protocol ''201.3'' = Inr d" "pd_sandbox_outcome d = Signature"
    using get_protocol_201_3 by (simp add: mk_protocol_fixed)
  have "validate_request d sample_execution = Inr ()"
    by (simp add: validate_request_def sample_execution_def starts_with_def)
  then obtain p where p: "execute d sample_execution ''a'' ''b'' = Inr p"
    using execute_returns by blast
  have s: "prs_signature_required p"
    using execute_result(2) [OF p] d(2) by (simp add: needs_signature_def sample_execution_def) code_simp
  let ?q = "sample_charge\<lparr> gq_metadata := [(''payment_method_token'', JStr ''pm_test_visa_success''), (''protocol_code'', JStr ''201.3'')] \<rparr>"
  have "gp_signature_required (sandbox_charge ?q ''a'' ''b'' ''c'') \<longleftrightarrow> prs_signature_required p"
    using sandbox_charge_agrees_with_adapter [OF d(1) _ p, of ?q "''a''" "''b''" "''c''"]
    by (simp add: Let_def sample_execution_def dget_def raw_card_fields_def sample_charge_def str_or_def dec_eq_def dec_mod1_def signed_def lower_def)
  then show ?thesis using d p s by blast
qed

end
