(* ===== verification/Exchange_Wallet.thy ===== *)
theory Exchange_Wallet
  imports Decimals Config Payouts
begin

text \<open>
  The exchange and the wallet of a settlement: \<open>src/app/crypto/\<close> (the quote, the sandbox provider and
  the registry) and \<open>src/app/wallet/\<close> (the transfer, the TRC20 adapter and the registry).

  The lemmas show that the conversion is exact up to the rounding to eight places, that it is
  positive on a positive amount, and that the wallet accepts the same addresses as the payout
  rules.
\<close>

section \<open>Exchange\<close>

record exchange_quote =
  eq_base_currency :: string
  eq_quote_currency :: string
  eq_buy_rate :: decimal
  eq_sell_rate :: decimal
  eq_provider :: string

definition SANDBOX_RATES :: "(string \<times> decimal) list" where
  "SANDBOX_RATES =
     [(''SAR'', Dec 2667 (- 4)), (''USD'', Dec 10000 (- 4)), (''AED'', Dec 2723 (- 4)), (''EUR'', Dec 10800 (- 4))]"

definition sandbox_get_rate :: "string \<Rightarrow> string \<Rightarrow> exchange_quote res" where
  "sandbox_get_rate base_currency quote_currency =
     (let base = upper base_currency; quote = upper quote_currency in
      if quote \<noteq> ''USDT'' then Inl (ValueError (''Sandbox exchange only supports USDT quotes, got '' @ quote))
      else (case map_of SANDBOX_RATES base of
              None \<Rightarrow> Inl (ValueError (''Unsupported sandbox currency: '' @ base))
            | Some rate \<Rightarrow> Inr \<lparr> eq_base_currency = base, eq_quote_currency = quote, eq_buy_rate = rate,
                                eq_sell_rate = rate, eq_provider = ''sandbox'' \<rparr>))"

definition sandbox_convert :: "decimal \<Rightarrow> string \<Rightarrow> string \<Rightarrow> (decimal \<times> exchange_quote) res" where
  "sandbox_convert amount base_currency quote_currency =
     bindr (sandbox_get_rate base_currency quote_currency) (\<lambda>quote.
     bindr (quantize ROUND_HALF_UP (dec_mul amount (eq_sell_rate quote)) (- 8)) (\<lambda>converted.
     Inr (converted, quote)))"

datatype exchange_provider = SandboxExchangeProvider

definition EXCHANGE_REGISTRY :: "(string \<times> exchange_provider) list" where
  "EXCHANGE_REGISTRY = [(''sandbox'', SandboxExchangeProvider)]"

definition get_exchange_provider :: "settings \<Rightarrow> string option \<Rightarrow> exchange_provider res" where
  "get_exchange_provider st provider =
     (let key = lower (or_str provider (default_exchange_provider st)) in
      case map_of EXCHANGE_REGISTRY key of
        None \<Rightarrow> Inl (AppException (''Exchange provider '' @ [CHR 0x27] @ key @ [CHR 0x27] @ '' is not registered'') 500)
      | Some cls \<Rightarrow> Inr cls)"

fun exchange_convert :: "exchange_provider \<Rightarrow> decimal \<Rightarrow> string \<Rightarrow> string \<Rightarrow> (decimal \<times> exchange_quote) res" where
  "exchange_convert SandboxExchangeProvider amount base quote = sandbox_convert amount base quote"

section \<open>Wallet\<close>

record transfer_request =
  wt_to_address :: string
  wt_amount :: decimal
  wt_network :: string
  wt_currency :: string
  wt_memo :: "string option"
  wt_metadata :: dict

record transfer_result =
  wr_success :: bool
  wr_tx_hash :: "string option"
  wr_confirmation_count :: int
  wr_raw_response :: dict
  wr_error_message :: "string option"

definition trc20_validate_address :: "string \<Rightarrow> bool" where
  "trc20_validate_address address \<longleftrightarrow>
     starts_with address ''T'' \<and> 30 \<le> py_len address \<and> py_len address \<le> 42"

definition trc20_transfer :: "transfer_request \<Rightarrow> string \<Rightarrow> transfer_result" where
  "trc20_transfer request hex =
     (if \<not> trc20_validate_address (wt_to_address request) then
        \<lparr> wr_success = False, wr_tx_hash = None, wr_confirmation_count = 0, wr_raw_response = [],
          wr_error_message = Some ''Invalid TRC20 wallet address'' \<rparr>
      else
        \<lparr> wr_success = True, wr_tx_hash = Some (''trc20_'' @ hex), wr_confirmation_count = 1,
          wr_raw_response =
            [(''network'', JStr ''trc20''), (''to'', JStr (wt_to_address request)),
             (''amount'', JStr (dec_str (wt_amount request))), (''currency'', JStr (wt_currency request))],
          wr_error_message = None \<rparr>)"

definition trc20_get_transfer_status :: "string \<Rightarrow> transfer_result" where
  "trc20_get_transfer_status tx_hash =
     \<lparr> wr_success = True, wr_tx_hash = Some tx_hash, wr_confirmation_count = 19,
       wr_raw_response = [(''network'', JStr ''trc20''), (''tx_hash'', JStr tx_hash)],
       wr_error_message = None \<rparr>"

datatype wallet_provider = Trc20WalletProvider

definition WALLET_REGISTRY :: "(string \<times> wallet_provider) list" where
  "WALLET_REGISTRY = [(''trc20'', Trc20WalletProvider)]"

definition get_wallet_provider :: "settings \<Rightarrow> string option \<Rightarrow> wallet_provider res" where
  "get_wallet_provider st network =
     (let key = lower (or_str network (default_wallet_network st)) in
      case map_of WALLET_REGISTRY key of
        None \<Rightarrow> Inl (AppException (''Wallet network '' @ [CHR 0x27] @ key @ [CHR 0x27] @ '' is not registered'') 500)
      | Some cls \<Rightarrow> Inr cls)"

fun wallet_transfer :: "wallet_provider \<Rightarrow> transfer_request \<Rightarrow> string \<Rightarrow> transfer_result" where
  "wallet_transfer Trc20WalletProvider request hex = trc20_transfer request hex"

section \<open>Exact conversion\<close>

lemma sandbox_rate_form:
  "map_of SANDBOX_RATES c = Some rate \<Longrightarrow> \<exists>r. rate = Dec r (- 4) \<and> 0 < r \<and> r \<le> 10800"
  by (auto simp: SANDBOX_RATES_def split: if_splits)

lemma sandbox_convert_exact:
  assumes "sandbox_get_rate c q = Inr quote" "\<bar>n\<bar> < 10 ^ 20"
  shows "\<exists>r. eq_sell_rate quote = Dec r (- 4) \<and> 0 < r \<and> r \<le> 10800 \<and> eq_provider quote = ''sandbox''
    \<and> sandbox_convert (Dec n (- 2)) c q = Inr (Dec (n * r * 100) (- 8), quote)"
proof -
  from assms(1) obtain rate where m: "map_of SANDBOX_RATES (upper c) = Some rate"
    and q: "eq_sell_rate quote = rate" "eq_provider quote = ''sandbox''"
    by (auto simp: sandbox_get_rate_def Let_def split: if_splits option.splits)
  from sandbox_rate_form [OF m] obtain r where r: "rate = Dec r (- 4)" "0 < r" "r \<le> 10800" by blast
  have "\<bar>n * r\<bar> = \<bar>n\<bar> * r" using r(2) by (simp add: abs_mult)
  also have "\<dots> \<le> 10 ^ 20 * 10800" using assms(2) r by (intro mult_mono) auto
  finally have b: "\<bar>n * r\<bar> \<le> 10 ^ 20 * 10800" .
  then have mul: "dec_mul (Dec n (- 2)) (Dec r (- 4)) = Dec (n * r) (- 6)"
    by (simp add: dec_mul_def dec_fix_small)
  have b2: "nat \<bar>n * r * 100\<bar> < 10 ^ 28" using b by (simp add: abs_mult)
  have "quantize ROUND_HALF_UP (Dec (n * r) (- 6)) (- 8) = Inr (Dec (n * r * 100) (- 8))"
    using b2 [folded ndigits_PREC] unfolding quantize_def rescale_def by (simp add: Let_def)
  then show ?thesis using assms(1) q r mul by (auto simp: sandbox_convert_def)
qed

lemma trc20_accepts_payout_addresses:
  "trc20_validate_address a \<longleftrightarrow>
     po_status (evaluate_payout_eligibility True True (Some a) amount currency) = PAYOUT_PENDING"
  by (cases a) (auto simp: trc20_validate_address_def evaluate_payout_eligibility_def Let_def starts_with_def)

lemma trc20_transfer_success: "wr_success (trc20_transfer q hex) \<longleftrightarrow> trc20_validate_address (wt_to_address q)"
  by (simp add: trc20_transfer_def)

lemma trc20_transfer_result:
  "wr_success (trc20_transfer q hex) \<Longrightarrow>
     wr_tx_hash (trc20_transfer q hex) = Some (''trc20_'' @ hex) \<and> wr_error_message (trc20_transfer q hex) = None"
  "\<not> wr_success (trc20_transfer q hex) \<Longrightarrow>
     wr_error_message (trc20_transfer q hex) = Some ''Invalid TRC20 wallet address''"
  by (auto simp: trc20_transfer_def split: if_splits)

end
