(* ===== verification/Settlement.thy ===== *)
theory Settlement
  imports Database Exchange_Wallet Money
begin

text \<open>
  The settlement engine, \<open>src/app/settlement/engine.py\<close>, and the Celery task that retries it,
  \<open>src/app/tasks/settlement_tasks.py\<close>.

  \<open>prepare_and_settle\<close> is split at its comments: the guards (\<open>settle_guard\<close>), the start with its fees
  (\<open>settle_start\<close>), the quote and the settlement row (\<open>settle_quote\<close>), the transfer with its two ends
  (\<open>settle_transfer\<close>). The settlement's id is draw 2 of \<open>uuid4\<close>, the transfer's hash draw 4 of its
  hex. The transfer is the adapter of \<open>Exchange_Wallet\<close>, which leaves the process alone; what it has
  sent is what the transfer logs say.
\<close>

definition calculate_fees :: "settings \<Rightarrow> decimal \<Rightarrow> (decimal \<times> decimal) res" where
  "calculate_fees st amount =
     bindr (calculate_fee amount (settlement_currency st) (platform_fee_percent st) (Dec 0 (- 2)) ''platform-v1'')
       (\<lambda>r. Inr (fr_fee_amount r, fr_net_amount r))"

definition settleable :: "transaction_status list" where
  "settleable = [CAPTURED, SUCCESS, SETTLEMENT_PENDING, SETTLEMENT_PROCESSING]"

definition settle_guard :: "uuid \<Rightarrow> (txn \<times> settlement option) handler" where
  "settle_guard transaction_id =
     bnd (ask_db (\<lambda>d. txn_get_detailed d transaction_id)) (\<lambda>t.
     bnd (expect (NotFoundError ''Transaction not found'') t) (\<lambda>t.
     bnd (check (tx_status t \<in> set settleable)
            (SettlementError (''Transaction status '' @ [CHR 0x27] @ status_value (tx_status t) @ [CHR 0x27] @
               '' is not eligible for settlement''))) (\<lambda>_.
     bnd (ask_db (\<lambda>d. settlement_get_by_transaction d transaction_id)) (\<lambda>existing.
     ret (t, existing)))))"

definition settle_start :: "settings \<Rightarrow> txn \<Rightarrow> (txn \<times> decimal) handler" where
  "settle_start st t =
     bnd (liftr (calculate_fees st (tx_amount t))) (\<lambda>(fee, net).
     bnd (liftr (numeric 18 2 fee)) (\<lambda>fee.
     bnd (liftr (numeric 18 2 net)) (\<lambda>net.
     let t' = t\<lparr> tx_fees := fee, tx_tax := Dec 0 (- 2), tx_net_amount := net,
                 tx_status := SETTLEMENT_PROCESSING \<rparr> in
     bnd (txn_put t') (\<lambda>_.
     bnd (add_status_log (tx_id t) (Some (tx_status t)) SETTLEMENT_PROCESSING
            (Some ''Settlement engine started'') ''settlement_engine'') (\<lambda>_.
     ret (t', net))))))"

definition new_settlement ::
  "draws \<Rightarrow> txn \<Rightarrow> merchant_wallet \<Rightarrow> decimal \<Rightarrow> decimal \<Rightarrow> exchange_quote \<Rightarrow> settlement" where
  "new_settlement dr t wallet net usdt_amount quote =
     \<lparr> se_id = dr_uuid dr 2, se_transaction_id = tx_id t, se_merchant_wallet_id = wa_id wallet,
       se_fiat_amount = net, se_fiat_currency = tx_currency t, se_usdt_amount = usdt_amount,
       se_exchange_rate = eq_sell_rate quote, se_exchange_provider = eq_provider quote,
       se_wallet_network = wa_wallet_network wallet, se_wallet_address = wa_wallet_address wallet,
       se_blockchain_tx_hash = None, se_confirmation_count = 0, se_retry_count = 0,
       se_status = S_PROCESSING, se_failure_reason = None, se_created_at = dr_now dr, se_deleted_at = None \<rparr>"

definition settle_quote ::
  "settings \<Rightarrow> draws \<Rightarrow> txn \<Rightarrow> settlement option \<Rightarrow> merchant_wallet \<Rightarrow> decimal \<Rightarrow> settlement handler" where
  "settle_quote st dr t existing wallet net =
     bnd (liftr (get_exchange_provider st None)) (\<lambda>exchange.
     bnd (liftr (exchange_convert exchange net (tx_currency t) ''USDT'')) (\<lambda>(usdt_amount, quote).
     bnd (case existing of
            Some s \<Rightarrow> settlement_put (s\<lparr> se_fiat_amount := net, se_usdt_amount := usdt_amount,
                          se_exchange_rate := eq_sell_rate quote, se_exchange_provider := eq_provider quote,
                          se_status := S_PROCESSING, se_failure_reason := None \<rparr>)
          | None \<Rightarrow> settlement_add (new_settlement dr t wallet net usdt_amount quote)) (\<lambda>s.
     bnd (transfer_log_add
            \<lparr> tl_settlement_id = se_id s, tl_action = ''exchange_quote'', tl_status = ''success'',
              tl_payload = [(''rate'', JStr (dec_str (eq_sell_rate quote))), (''provider'', JStr (eq_provider quote)),
                            (''usdt_amount'', JStr (dec_str usdt_amount))],
              tl_message = None \<rparr>) (\<lambda>_.
     ret s))))"

definition settle_failed :: "txn \<Rightarrow> settlement \<Rightarrow> transfer_result \<Rightarrow> settlement handler" where
  "settle_failed t s transfer =
     (let reason = or_str (wr_error_message transfer) ''Wallet transfer failed'' in
      bnd (settlement_put (s\<lparr> se_status := S_FAILED, se_failure_reason := wr_error_message transfer,
                              se_retry_count := se_retry_count s + 1 \<rparr>)) (\<lambda>_.
      bnd (txn_put (t\<lparr> tx_status := MANUAL_REVIEW \<rparr>)) (\<lambda>_.
      bnd (add_status_log (tx_id t) (Some SETTLEMENT_PROCESSING) MANUAL_REVIEW (Some reason) ''settlement_engine'') (\<lambda>_.
      raise (SettlementError reason)))))"

definition settle_done :: "txn \<Rightarrow> settlement \<Rightarrow> transfer_result \<Rightarrow> settlement handler" where
  "settle_done t s transfer =
     bnd (settlement_put (s\<lparr> se_blockchain_tx_hash := wr_tx_hash transfer,
                             se_confirmation_count := wr_confirmation_count transfer,
                             se_status := S_COMPLETED \<rparr>)) (\<lambda>s.
     bnd (txn_put (t\<lparr> tx_status := COMPLETED \<rparr>)) (\<lambda>_.
     bnd (add_status_log (tx_id t) (Some SETTLEMENT_PROCESSING) COMPLETED
            (Some (''USDT transfer '' @ or_str (wr_tx_hash transfer) ''None'')) ''settlement_engine'') (\<lambda>_.
     ret s)))"

definition transfer_status :: "transfer_result \<Rightarrow> string" where
  "transfer_status transfer = (if wr_success transfer then ''success'' else ''failed'')"

definition settle_transfer ::
  "settings \<Rightarrow> draws \<Rightarrow> txn \<Rightarrow> settlement \<Rightarrow> merchant_wallet \<Rightarrow> settlement handler" where
  "settle_transfer st dr t s wallet =
     bnd (liftr (get_wallet_provider st (Some (wa_wallet_network wallet)))) (\<lambda>provider.
     let transfer = wallet_transfer provider
           \<lparr> wt_to_address = wa_wallet_address wallet, wt_amount = se_usdt_amount s,
             wt_network = wa_wallet_network wallet, wt_currency = ''USDT'',
             wt_memo = Some (''settlement:'' @ tx_id t),
             wt_metadata = [(''transaction_id'', JStr (tx_id t))] \<rparr> (dr_hex dr 4) in
     bnd (transfer_log_add
            \<lparr> tl_settlement_id = se_id s, tl_action = ''wallet_transfer'', tl_status = transfer_status transfer,
              tl_payload = wr_raw_response transfer, tl_message = wr_error_message transfer \<rparr>) (\<lambda>_.
     if \<not> wr_success transfer then settle_failed t s transfer else settle_done t s transfer))"

definition settle_now ::
  "settings \<Rightarrow> draws \<Rightarrow> txn \<Rightarrow> settlement option \<Rightarrow> settlement handler" where
  "settle_now st dr t existing =
     bnd (gets (\<lambda>w. wallet_get_primary (w_db w) (tx_merchant_id t))) (\<lambda>wallet.
     bnd (expect (SettlementError ''Merchant has no primary USDT wallet configured'') wallet) (\<lambda>wallet.
     bnd (settle_start st t) (\<lambda>(t, net).
     bnd (settle_quote st dr t existing wallet net) (\<lambda>s.
     settle_transfer st dr t s wallet))))"

definition completed_settlement :: "settlement option \<Rightarrow> settlement option" where
  "completed_settlement existing =
     (case existing of Some s \<Rightarrow> if se_status s = S_COMPLETED then Some s else None | None \<Rightarrow> None)"

definition prepare_and_settle :: "settings \<Rightarrow> draws \<Rightarrow> uuid \<Rightarrow> settlement handler" where
  "prepare_and_settle st dr transaction_id =
     bnd (settle_guard transaction_id) (\<lambda>(t, existing).
     case completed_settlement existing of Some s \<Rightarrow> ret s | None \<Rightarrow> settle_now st dr t existing)"

text \<open>One run of the Celery task: the engine in a session of its own.\<close>

definition settle_task :: "settings \<Rightarrow> draws \<Rightarrow> uuid \<Rightarrow> settlement handler" where
  "settle_task st dr transaction_id = run_request (prepare_and_settle st dr transaction_id)"

end
