(* ===== verification/Upkeep.thy ===== *)
theory Upkeep
  imports Database
begin

text \<open>
  Reasoning about handlers over the database. An upkeep contract is an invariant \<open>ok\<close> of the tables and
  an order \<open>grow\<close> that says what is never lost (logs only grow, rows keep their identity). A triple
  \<open>triple ok grow p m q e\<close> says that \<open>m\<close>, started in a session whose tables are \<open>ok\<close> and satisfy \<open>p\<close>,
  keeps the contract at every step, for what is committed on the way as for what is only written, and
  ends in \<open>q\<close> when it returns and in \<open>e\<close> when it raises.

  The locale \<open>upkeep\<close> holds the rules and what they give for whole requests; each component interprets
  it with the invariant of its own tables.
\<close>

section \<open>Rows of a table\<close>

lemma same_key: "distinct (map f xs) \<Longrightarrow> x \<in> set xs \<Longrightarrow> y \<in> set xs \<Longrightarrow> f x = f y \<Longrightarrow> x = y"
  by (auto simp: distinct_map dest: inj_onD)

lemma find_row: "find P xs = Some x \<Longrightarrow> x \<in> set xs \<and> P x"
  by (auto simp: find_Some_iff)

lemma repo_add_rows:
  "repo_add ident constraints e rows = Inr rows' \<longleftrightarrow>
     rows' = rows @ [e] \<and> (\<forall>x \<in> set rows. ident x \<noteq> ident e) \<and> constraints e rows"
  by (auto simp: repo_add_def list_ex_iff)

lemma update_maps:
  assumes "distinct (map ident xs)" "x0 \<in> set xs" "ident x0 = ident x" "f x = f x0"
  shows "map f (repo_update ident x xs) = map f xs"
proof -
  have "y = x0" if "y \<in> set xs" "ident y = ident x" for y
    using same_key [OF assms(1) that(1) assms(2)] that(2) assms(3) by simp
  then show ?thesis using assms(4) by (auto simp: repo_update_def)
qed

lemma update_filter:
  assumes "distinct (map ident xs)" "x0 \<in> set xs" "ident x0 = ident x" "\<not> P x0" "\<not> P x"
  shows "filter P (repo_update ident x xs) = filter P xs"
proof -
  have "\<not> P y" if "y \<in> set xs" "ident y = ident x" for y
    using same_key [OF assms(1) that(1) assms(2)] that(2) assms(3,4) by simp
  then have "filter P (map (\<lambda>e. if ident e = ident x then x else e) ys) = filter P ys" if "set ys \<subseteq> set xs" for ys
    using that assms(5) by (induction ys) auto
  then show ?thesis by (simp add: repo_update_def)
qed

section \<open>Triples over the tables\<close>

definition books :: "world \<Rightarrow> db \<times> db" where
  \<comment> \<open>what is committed and what is written\<close>
  "books w = (w_committed w, w_db w)"

definition upkeep_step :: "(db \<Rightarrow> bool) \<Rightarrow> (db \<Rightarrow> db \<Rightarrow> bool) \<Rightarrow> db \<Rightarrow> db \<Rightarrow> bool" where
  "upkeep_step ok grow d d' \<longleftrightarrow> (ok d \<longrightarrow> ok d' \<and> grow d d')"

definition upkeep_progress :: "(db \<Rightarrow> bool) \<Rightarrow> (db \<Rightarrow> db \<Rightarrow> bool) \<Rightarrow> db \<times> db \<Rightarrow> db \<times> db \<Rightarrow> bool" where
  "upkeep_progress ok grow v v' \<longleftrightarrow> upkeep_step ok grow (fst v) (fst v') \<and> upkeep_step ok grow (snd v) (snd v')"

definition upkeep_linked :: "(db \<Rightarrow> bool) \<Rightarrow> (db \<Rightarrow> db \<Rightarrow> bool) \<Rightarrow> db \<times> db \<Rightarrow> bool" where
  "upkeep_linked ok grow v \<longleftrightarrow> upkeep_step ok grow (fst v) (snd v) \<and> ok (snd v)"

definition triple :: "(db \<Rightarrow> bool) \<Rightarrow> (db \<Rightarrow> db \<Rightarrow> bool) \<Rightarrow>
    (db \<Rightarrow> bool) \<Rightarrow> (world, 'a) act \<Rightarrow> ('a \<Rightarrow> db \<Rightarrow> bool) \<Rightarrow> (db \<Rightarrow> bool) \<Rightarrow> bool" where
  "triple ok grow p m q e \<longleftrightarrow>
     runs (upkeep_progress ok grow) books (\<lambda>v. upkeep_linked ok grow v \<and> p (snd v)) m
       (\<lambda>x v. upkeep_linked ok grow v \<and> q x (snd v)) (\<lambda>v. upkeep_linked ok grow v \<and> e (snd v))"

definition kept :: "(db \<Rightarrow> db \<Rightarrow> bool) \<Rightarrow> (db \<Rightarrow> bool) \<Rightarrow> bool" where
  \<comment> \<open>an assertion that every step keeps\<close>
  "kept grow p \<longleftrightarrow> (\<forall>d d'. p d \<longrightarrow> grow d d' \<longrightarrow> p d')"

definition settled :: "(db \<Rightarrow> bool) \<Rightarrow> world \<Rightarrow> bool" where
  \<comment> \<open>between two requests\<close>
  "settled ok w \<longleftrightarrow> w_db w = w_committed w \<and> ok (w_db w)"

lemma kept_const [simp]: "kept grow (\<lambda>_. b)"
  by (simp add: kept_def)

lemma kept_conj [simp]: "kept grow p \<Longrightarrow> kept grow q \<Longrightarrow> kept grow (\<lambda>d. p d \<and> q d)"
  unfolding kept_def by blast

lemma settled_ok: "settled ok w \<Longrightarrow> ok (w_db w)"
  unfolding settled_def by (rule conjunct2)

lemma settled_unchanged: "settled ok w \<Longrightarrow> w\<lparr> w_committed := w_db w \<rparr> = w"
  by (simp add: settled_def)

locale upkeep =
  fixes ok :: "db \<Rightarrow> bool"
    and grow :: "db \<Rightarrow> db \<Rightarrow> bool"
  assumes grow_refl: "grow d d"
    and grow_trans: "grow d d' \<Longrightarrow> grow d' d'' \<Longrightarrow> grow d d''"
begin

lemma step_refl: "upkeep_step ok grow d d"
  by (simp add: upkeep_step_def grow_refl)

lemma step_trans: "upkeep_step ok grow a b \<Longrightarrow> upkeep_step ok grow b c \<Longrightarrow> upkeep_step ok grow a c"
  by (auto simp: upkeep_step_def intro: grow_trans)

end

sublocale upkeep \<subseteq> flow: respects "upkeep_progress ok grow" books
  by unfold_locales (auto simp: upkeep_progress_def step_refl intro: step_trans)

context upkeep
begin

lemma triple_ret: "(\<And>d. ok d \<Longrightarrow> p d \<Longrightarrow> q x d) \<Longrightarrow> triple ok grow p (ret x) q e"
  unfolding triple_def by (rule flow.runs_ret) (simp add: upkeep_linked_def)

lemma triple_raise: "(\<And>d. ok d \<Longrightarrow> p d \<Longrightarrow> e d) \<Longrightarrow> triple ok grow p (raise err) q e"
  unfolding triple_def by (rule flow.runs_raise) (simp add: upkeep_linked_def)

lemma triple_bnd:
  "triple ok grow p m r e \<Longrightarrow> (\<And>x. triple ok grow (r x) (f x) q e) \<Longrightarrow> triple ok grow p (bnd m f) q e"
  unfolding triple_def by (rule flow.runs_bnd)

lemma triple_silent: "silent books m \<Longrightarrow> (\<And>d. p d \<Longrightarrow> e d) \<Longrightarrow> triple ok grow p m (\<lambda>_. p) e"
  unfolding triple_def by (rule flow.runs_silent) simp_all

lemma triple_catch:
  "triple ok grow p m q e' \<Longrightarrow> (\<And>err. triple ok grow e' (h err) q e) \<Longrightarrow> triple ok grow p (catch m h) q e"
  unfolding triple_def by (rule flow.runs_catch)

lemma triple_conseq:
  "triple ok grow p m q e \<Longrightarrow> (\<And>d. ok d \<Longrightarrow> p' d \<Longrightarrow> p d) \<Longrightarrow> (\<And>x d. ok d \<Longrightarrow> q x d \<Longrightarrow> q' x d) \<Longrightarrow>
     (\<And>d. e d \<Longrightarrow> e' d) \<Longrightarrow> triple ok grow p' m q' e'"
  unfolding triple_def by (erule flow.runs_conseq) (simp_all add: upkeep_linked_def)

lemma triple_if: "(b \<Longrightarrow> triple ok grow p m q e) \<Longrightarrow> (\<not> b \<Longrightarrow> triple ok grow p n q e) \<Longrightarrow>
    triple ok grow p (if b then m else n) q e"
  by simp

lemma triple_check: "(\<And>d. p d \<Longrightarrow> e d) \<Longrightarrow> triple ok grow p (check b err) (\<lambda>_ d. p d \<and> b) e"
  by (cases b) (auto simp: check_def intro: triple_ret triple_raise)

lemma triple_expect: "(\<And>d. p d \<Longrightarrow> e d) \<Longrightarrow> triple ok grow p (expect err y) (\<lambda>x d. p d \<and> y = Some x) e"
  by (cases y) (auto intro: triple_ret triple_raise)

lemma triple_liftr: "(\<And>d. p d \<Longrightarrow> e d) \<Longrightarrow> triple ok grow p (liftr r) (\<lambda>x d. p d \<and> r = Inr x) e"
  unfolding triple_def by (rule flow.runs_liftr) simp_all

lemma triple_gets: "triple ok grow p (gets (\<lambda>w. f (w_db w))) (\<lambda>x d. p d \<and> x = f d) e"
  unfolding triple_def runs_def by (simp add: upkeep_progress_def step_refl books_def)

lemma triple_ask: "(\<And>d. p d \<Longrightarrow> e d) \<Longrightarrow> triple ok grow p (ask_db f) (\<lambda>x d. p d \<and> f d = Inr x) e"
  unfolding triple_def runs_def by (auto simp: upkeep_progress_def step_refl books_def split: sum.splits)

lemma triple_on_db:
  assumes "\<And>d. ok d \<Longrightarrow> p d \<Longrightarrow> ok (f d) \<and> grow d (f d) \<and> q () (f d)"
  shows "triple ok grow p (on_db f) q e"
  unfolding triple_def runs_def
  using assms
  by (auto simp: upkeep_progress_def books_def upkeep_step_def upkeep_linked_def intro: grow_refl grow_trans)

lemma triple_commit: "triple ok grow p commit (\<lambda>_. p) e"
  unfolding triple_def runs_def by (auto simp: upkeep_progress_def upkeep_step_def books_def upkeep_linked_def intro: grow_refl)

text \<open>The same, at the end of a handler.\<close>

lemma triple_expects:
  "(\<And>x d. ok d \<Longrightarrow> p d \<Longrightarrow> y = Some x \<Longrightarrow> q x d) \<Longrightarrow> (\<And>d. p d \<Longrightarrow> e d) \<Longrightarrow> triple ok grow p (expect err y) q e"
  by (cases y) (auto intro: triple_ret triple_raise)

lemma triple_reads: "(\<And>d. ok d \<Longrightarrow> p d \<Longrightarrow> q (f d) d) \<Longrightarrow> triple ok grow p (gets (\<lambda>w. f (w_db w))) q e"
  by (rule triple_conseq [OF triple_gets [where p = p and e = e]]) auto

lemma triple_never: "(\<And>d. \<not> p d) \<Longrightarrow> triple ok grow p m q e"
  by (simp add: triple_def runs_def)

lemma triple_split:
  "(\<And>a b. x = (a, b) \<Longrightarrow> triple ok grow p (f a b) q e) \<Longrightarrow> triple ok grow p (case x of (a, b) \<Rightarrow> f a b) q e"
  by (cases x) simp

lemmas triple_steps =
  triple_ask [THEN triple_bnd] triple_expect [THEN triple_bnd] triple_check [THEN triple_bnd]
  triple_liftr [THEN triple_bnd] triple_gets [THEN triple_bnd]

lemma keptD:
  "kept grow p \<Longrightarrow> upkeep_progress ok grow v v' \<Longrightarrow> upkeep_linked ok grow v \<Longrightarrow> p (snd v) \<Longrightarrow> p (snd v')"
  by (auto simp: kept_def upkeep_progress_def upkeep_linked_def upkeep_step_def)

text \<open>An assertion that growing tables keep survives every step.\<close>

lemma triple_frame:
  assumes s: "kept grow p" and m: "triple ok grow r m q e"
  shows "triple ok grow (\<lambda>d. r d \<and> p d) m (\<lambda>x d. q x d \<and> p d) (\<lambda>d. e d \<and> p d)"
  unfolding triple_def
  by (rule runsI) (use runsD [OF m [unfolded triple_def]] keptD [OF s] in blast)+

lemma triple_keep:
  "kept grow p \<Longrightarrow> triple ok grow (\<lambda>_. True) m (\<lambda>_ _. True) (\<lambda>_. True) \<Longrightarrow> triple ok grow p m (\<lambda>_. p) p"
  by (drule (1) triple_frame) (simp add: triple_def)

lemma triple_exact:
  assumes "\<And>w. ok (w_db w) \<Longrightarrow> p (w_db w) \<Longrightarrow>
    \<exists>d' r. m w = (w\<lparr> w_db := d' \<rparr>, r) \<and> ok d' \<and> grow (w_db w) d'
      \<and> (case r of Inr x \<Rightarrow> q x d' | Inl _ \<Rightarrow> e d')"
  shows "triple ok grow p m q e"
  unfolding triple_def
proof (rule runsI)
  fix w w' x
  assume a: "upkeep_linked ok grow (books w) \<and> p (snd (books w))" and m: "m w = (w', Inr x)"
  show "upkeep_progress ok grow (books w) (books w') \<and> upkeep_linked ok grow (books w') \<and> q x (snd (books w'))"
    using assms [of w] a m
    by (auto simp: upkeep_linked_def books_def upkeep_progress_def upkeep_step_def intro: grow_refl grow_trans)
next
  fix w w' err
  assume a: "upkeep_linked ok grow (books w) \<and> p (snd (books w))" and m: "m w = (w', Inl err)"
  show "upkeep_progress ok grow (books w) (books w') \<and> upkeep_linked ok grow (books w') \<and> e (snd (books w'))"
    using assms [of w] a m
    by (auto simp: upkeep_linked_def books_def upkeep_progress_def upkeep_step_def intro: grow_refl grow_trans)
qed

text \<open>Whole requests.\<close>

lemma request_keeps:
  assumes "triple ok grow (\<lambda>_. True) h (\<lambda>_ _. True) (\<lambda>_. True)" "settled ok w"
  shows "settled ok (fst (run_request h w)) \<and> grow (w_db w) (w_db (fst (run_request h w)))"
proof -
  have p: "upkeep_linked ok grow (books w) \<and> True"
    using assms(2) by (auto simp: settled_def upkeep_linked_def upkeep_step_def books_def grow_refl)
  obtain w' r where h: "h w = (w', r)" by (cases "h w")
  have s: "upkeep_progress ok grow (books w) (books w')"
    by (rule runsD(1) [OF assms(1) [unfolded triple_def] p h])
  show ?thesis
    using s assms(2) by (cases r) (auto simp: run_request_def h upkeep_progress_def books_def upkeep_step_def settled_def)
qed

lemma request_result:
  assumes "triple ok grow (\<lambda>_. True) h q (\<lambda>_. True)" "settled ok w" "run_request h w = (w', Inr x)"
  shows "settled ok w'" "grow (w_db w) (w_db w')" "q x (w_db w')"
proof -
  show "settled ok w'" "grow (w_db w) (w_db w')"
    using request_keeps [OF triple_conseq [OF assms(1)] assms(2)] assms(3) by simp_all
  obtain w1 where h: "h w = (w1, Inr x)" and w': "w_db w' = w_db w1"
    using assms(3) by (auto simp: run_request_def split: prod.splits sum.splits)
  have "upkeep_linked ok grow (books w) \<and> True"
    using assms(2) by (auto simp: settled_def upkeep_linked_def upkeep_step_def books_def grow_refl)
  from runsD(2) [OF assms(1) [unfolded triple_def] this h] show "q x (w_db w')"
    by (simp add: books_def w')
qed

end

end
