(* ===== verification/Ledger.thy ===== *)
theory Ledger
  imports Settlement Upkeep "HOL-Library.Sublist"
begin

text \<open>
  The books: what the payment code promises about the tables as a whole, whatever requests it
  handles.

  \<open>books_ok\<close> is the invariant of the tables: identifiers are unique, a merchant has at most one
  transaction per reference, a transaction at most one receipt and one settlement, and a settlement
  has exactly one successful transfer when it is completed and none before. \<open>books_grow\<close> is what no
  request undoes: transactions are never removed and keep their merchant, amount, currency and
  reference; logs, attempts and receipts are only appended; a completed settlement stays as it is.

  \<open>led p m q e\<close> is the triple of an action on the pair of the committed and the working tables: both
  invariants are kept by every run, also one that raises, and \<open>q\<close> or \<open>e\<close> holds after it. The rules
  follow the steps of a handler; \<open>stable\<close> assertions survive any of them.
\<close>

section \<open>The invariant\<close>

type_synonym txn_core = "uuid \<times> uuid \<times> decimal \<times> string \<times> string \<times> time"

definition core :: "txn \<Rightarrow> txn_core" where
  "core t = (tx_id t, tx_merchant_id t, tx_amount t, tx_currency t, tx_merchant_reference t, tx_created_at t)"

definition txns_ok :: "txn list \<Rightarrow> bool" where
  "txns_ok ts \<longleftrightarrow>
     distinct (map tx_id ts) \<and> distinct (map (\<lambda>t. (tx_merchant_id t, tx_merchant_reference t)) ts)
     \<and> (\<forall>t \<in> set ts. tx_deleted_at t = None \<and> 0 < coeff (tx_amount t) \<and> expo (tx_amount t) = - 2
          \<and> txn_unique_receipt t (filter (\<lambda>r. tx_id r \<noteq> tx_id t) ts))"

definition receipts_ok :: "receipt list \<Rightarrow> bool" where
  "receipts_ok rs \<longleftrightarrow> distinct (map rc_id rs) \<and> distinct (map rc_transaction_id rs)
     \<and> distinct (map rc_receipt_number rs)"

definition transfers :: "uuid \<Rightarrow> transfer_log list \<Rightarrow> nat" where
  \<comment> \<open>the successful wallet transfers of a settlement\<close>
  "transfers sid ls =
     length (filter (\<lambda>l. tl_settlement_id l = sid \<and> tl_action l = ''wallet_transfer'' \<and> tl_status l = ''success'') ls)"

definition payouts_ok :: "settlement list \<Rightarrow> transfer_log list \<Rightarrow> bool" where
  "payouts_ok ss ls \<longleftrightarrow>
     distinct (map se_id ss) \<and> distinct (map se_transaction_id ss)
     \<and> (\<forall>l \<in> set ls. tl_settlement_id l \<in> se_id ` set ss)
     \<and> (\<forall>s \<in> set ss. se_deleted_at s = None \<and> 0 < coeff (se_usdt_amount s) \<and> settlement_stored s = Inr s
          \<and> transfers (se_id s) ls = (if se_status s = S_COMPLETED then 1 else 0))"

definition books_ok :: "db \<Rightarrow> bool" where
  "books_ok d \<longleftrightarrow> txns_ok (db_txns d) \<and> receipts_ok (db_receipts d)
     \<and> payouts_ok (db_settlements d) (db_transfer_logs d)"

definition completed_kept :: "settlement list \<Rightarrow> settlement list \<Rightarrow> bool" where
  "completed_kept ss ss' \<longleftrightarrow>
     prefix (map (\<lambda>s. (se_id s, se_transaction_id s)) ss) (map (\<lambda>s. (se_id s, se_transaction_id s)) ss')
     \<and> (\<forall>s \<in> set ss. se_status s = S_COMPLETED \<longrightarrow> s \<in> set ss')"

definition books_grow :: "db \<Rightarrow> db \<Rightarrow> bool" where
  "books_grow d d' \<longleftrightarrow>
     prefix (map core (db_txns d)) (map core (db_txns d'))
     \<and> prefix (db_status_logs d) (db_status_logs d') \<and> prefix (db_attempts d) (db_attempts d')
     \<and> prefix (db_receipts d) (db_receipts d') \<and> prefix (db_transfer_logs d) (db_transfer_logs d')
     \<and> prefix (db_audit_logs d) (db_audit_logs d')
     \<and> db_merchants d' = db_merchants d \<and> db_wallets d' = db_wallets d
     \<and> completed_kept (db_settlements d) (db_settlements d')"

lemma completed_kept_refl: "completed_kept ss ss"
  by (simp add: completed_kept_def)

lemma completed_kept_trans: "completed_kept a b \<Longrightarrow> completed_kept b c \<Longrightarrow> completed_kept a c"
  by (auto simp: completed_kept_def intro: prefix_order.trans)

lemma books_grow_refl [simp]: "books_grow d d"
  by (simp add: books_grow_def completed_kept_refl)

lemma books_grow_trans: "books_grow a b \<Longrightarrow> books_grow b c \<Longrightarrow> books_grow a c"
  by (auto simp: books_grow_def intro: prefix_order.trans completed_kept_trans)

section \<open>Tables\<close>

lemma set_repo_update:
  "x \<in> set (repo_update ident e rows) \<longleftrightarrow>
     (x = e \<and> (\<exists>r \<in> set rows. ident r = ident e)) \<or> (x \<in> set rows \<and> ident x \<noteq> ident e)"
  by (auto simp: repo_update_def)

lemma map_repo_update_same:
  "(\<And>r. r \<in> set rows \<Longrightarrow> ident r = ident e \<Longrightarrow> g r = g e) \<Longrightarrow> map g (repo_update ident e rows) = map g rows"
  by (auto simp: repo_update_def)

lemma map_repo_update_ident [simp]: "map ident (repo_update ident e rows) = map ident rows"
  by (rule map_repo_update_same) auto

lemma filter_other_repo_update:
  "filter (\<lambda>r. ident r \<noteq> ident e) (repo_update ident e rows) = filter (\<lambda>r. ident r \<noteq> ident e) rows"
  by (induction rows) (auto simp: repo_update_def)

definition loaded :: "txn \<Rightarrow> db \<Rightarrow> bool" where
  "loaded t d \<longleftrightarrow> core t \<in> core ` set (db_txns d) \<and> tx_deleted_at t = None"

lemma core_id: "core t = core u \<Longrightarrow> tx_id t = tx_id u"
  by (simp add: core_def)

lemma core_update [simp]:
  "core (t\<lparr> tx_status := s \<rparr>) = core t" "core (t\<lparr> tx_fees := f \<rparr>) = core t" "core (t\<lparr> tx_tax := x \<rparr>) = core t"
  "core (t\<lparr> tx_net_amount := n \<rparr>) = core t" "core (t\<lparr> tx_receipt_number := r \<rparr>) = core t"
  "core (t\<lparr> tx_failure_reason := g \<rparr>) = core t" "core (t\<lparr> tx_extra_data := e \<rparr>) = core t"
  "core (t\<lparr> tx_gateway_reference := h \<rparr>) = core t" "core (t\<lparr> tx_payment_method := m \<rparr>) = core t"
  "core (t\<lparr> tx_payment_date := p \<rparr>) = core t"
  by (simp_all add: core_def)

lemma loaded_core: "core t = core u \<Longrightarrow> tx_deleted_at t = tx_deleted_at u \<Longrightarrow> loaded t d = loaded u d"
  by (simp add: loaded_def)

lemma txns_ok_put:
  assumes ok: "txns_ok ts" and mem: "core t \<in> core ` set ts" and del: "tx_deleted_at t = None"
    and uniq: "txn_unique_receipt t (filter (\<lambda>r. tx_id r \<noteq> tx_id t) ts)"
  shows "txns_ok (repo_update tx_id t ts)" "map core (repo_update tx_id t ts) = map core ts"
    "t \<in> set (repo_update tx_id t ts)"
proof -
  from mem obtain u where u: "u \<in> set ts" "core u = core t" by force
  have same: "r = u" if "r \<in> set ts" "tx_id r = tx_id t" for r
  proof (rule inj_onD [OF _ _ that(1) u(1)])
    show "inj_on tx_id (set ts)" using ok by (simp add: txns_ok_def distinct_map)
    show "tx_id r = tx_id u" using that(2) core_id [OF u(2)] by simp
  qed
  have keep: "map g (repo_update tx_id t ts) = map g ts" if "g t = g u" for g :: "txn \<Rightarrow> 'b"
  proof (rule map_repo_update_same)
    fix x
    assume "x \<in> set ts" "tx_id x = tx_id t"
    then have "x = u" by (rule same)
    then show "g x = g t" using that by simp
  qed
  show m: "map core (repo_update tx_id t ts) = map core ts" by (rule keep) (rule u(2) [symmetric])
  have r: "map (\<lambda>t. (tx_merchant_id t, tx_merchant_reference t)) (repo_update tx_id t ts)
      = map (\<lambda>t. (tx_merchant_id t, tx_merchant_reference t)) ts"
    using keep [of "\<lambda>t. (tx_merchant_id t, tx_merchant_reference t)"] u(2) by (simp add: core_def)
  have "tx_id u = tx_id t" using u(2) by (rule core_id)
  then show "t \<in> set (repo_update tx_id t ts)" using u(1) by (auto simp: set_repo_update)
  have c: "tx_amount t = tx_amount u" using u(2) by (simp add: core_def)
  have uniq': "txn_unique_receipt x (filter (\<lambda>r. tx_id r \<noteq> tx_id x) (repo_update tx_id t ts))"
    if x: "x \<in> set (repo_update tx_id t ts)" for x
  proof (cases "tx_id x = tx_id t")
    case True
    then have "x = t" using x by (auto simp: set_repo_update)
    then show ?thesis using uniq by (simp add: filter_other_repo_update)
  next
    case False
    then have xts: "x \<in> set ts" using x by (auto simp: set_repo_update)
    then have "txn_unique_receipt x (filter (\<lambda>r. tx_id r \<noteq> tx_id x) ts)" using ok by (simp add: txns_ok_def)
    moreover have "tx_receipt_number t = None \<or> tx_receipt_number x \<noteq> tx_receipt_number t"
      using uniq xts False by (auto simp: txn_unique_receipt_def list_ex_iff)
    ultimately show ?thesis
      by (auto simp: txn_unique_receipt_def list_ex_iff set_repo_update)
  qed
  show "txns_ok (repo_update tx_id t ts)"
    using ok c u(1) del uniq' unfolding txns_ok_def r map_repo_update_ident
    by (auto simp: set_repo_update)
qed

lemma books_put_txn:
  assumes "books_ok d" "loaded t d" "txn_unique_receipt t (filter (\<lambda>r. tx_id r \<noteq> tx_id t) (db_txns d))"
  shows "books_ok (d\<lparr> db_txns := repo_update tx_id t (db_txns d) \<rparr>)"
    "books_grow d (d\<lparr> db_txns := repo_update tx_id t (db_txns d) \<rparr>)"
    "t \<in> set (repo_update tx_id t (db_txns d))"
  using assms txns_ok_put [of "db_txns d" t]
  by (simp_all add: books_ok_def loaded_def books_grow_def completed_kept_refl)

lemma books_add_txn:
  assumes "books_ok d" "repo_add tx_id txn_constraints t (db_txns d) = Inr rows" "tx_deleted_at t = None"
    "expo (tx_amount t) = - 2"
  shows "books_ok (d\<lparr> db_txns := rows \<rparr>)" "books_grow d (d\<lparr> db_txns := rows \<rparr>)" "t \<in> set rows"
proof -
  have r: "rows = db_txns d @ [t]" and new: "\<forall>r \<in> set (db_txns d). tx_id r \<noteq> tx_id t"
    and c: "txn_constraints t (db_txns d)"
    using assms(2) by (auto simp: repo_add_def list_ex_iff split: if_splits)
  have "txn_unique_receipt t (filter (\<lambda>r. tx_id r \<noteq> tx_id t) (db_txns d))"
    using c by (auto simp: txn_constraints_def txn_unique_receipt_def list_ex_iff)
  moreover have "\<forall>x \<in> set (db_txns d). tx_receipt_number t = None \<or> tx_receipt_number x \<noteq> tx_receipt_number t"
    using c by (auto simp: txn_constraints_def txn_unique_receipt_def list_ex_iff)
  moreover have "\<forall>x \<in> set (db_txns d). (tx_merchant_id x, tx_merchant_reference x) \<noteq> (tx_merchant_id t, tx_merchant_reference t)"
    using c by (auto simp: txn_constraints_def list_ex_iff)
  ultimately show "books_ok (d\<lparr> db_txns := rows \<rparr>)"
    using assms(1,3,4) c new unfolding r books_ok_def txns_ok_def
    by (auto simp: txn_constraints_def txn_unique_receipt_def list_ex_iff image_iff)
  show "books_grow d (d\<lparr> db_txns := rows \<rparr>)" by (simp add: r books_grow_def completed_kept_refl)
  show "t \<in> set rows" by (simp add: r)
qed

lemma books_add_receipt:
  assumes "books_ok d" "repo_add rc_id receipt_constraints x (db_receipts d) = Inr rows"
  shows "books_ok (d\<lparr> db_receipts := rows \<rparr>)" "books_grow d (d\<lparr> db_receipts := rows \<rparr>)"
proof -
  have r: "rows = db_receipts d @ [x]" and new: "\<forall>r \<in> set (db_receipts d). rc_id r \<noteq> rc_id x"
    and c: "receipt_constraints x (db_receipts d)"
    using assms(2) by (auto simp: repo_add_def list_ex_iff split: if_splits)
  show "books_ok (d\<lparr> db_receipts := rows \<rparr>)"
    using assms(1) new c unfolding r books_ok_def receipts_ok_def
    by (auto simp: receipt_constraints_def list_ex_iff image_iff)
  show "books_grow d (d\<lparr> db_receipts := rows \<rparr>)" by (simp add: r books_grow_def completed_kept_refl)
qed

lemma books_logs [simp]:
  "books_ok (d\<lparr> db_status_logs := l1 \<rparr>) = books_ok d" "books_ok (d\<lparr> db_attempts := l2 \<rparr>) = books_ok d"
  "books_ok (d\<lparr> db_audit_logs := l3 \<rparr>) = books_ok d"
  "books_grow d (d\<lparr> db_status_logs := db_status_logs d @ x1 \<rparr>)"
  "books_grow d (d\<lparr> db_attempts := db_attempts d @ x2 \<rparr>)"
  "books_grow d (d\<lparr> db_audit_logs := db_audit_logs d @ x3 \<rparr>)"
  by (simp_all add: books_ok_def books_grow_def completed_kept_refl)

section \<open>Settlements\<close>

lemma numeric_idem: "numeric p s x = Inr y \<Longrightarrow> numeric p s y = Inr y"
  by (auto simp: numeric_def Let_def rescale_def split: if_splits)

lemma numeric_expo: "numeric p s x = Inr y \<Longrightarrow> expo y = - int s"
proof -
  assume "numeric p s x = Inr y"
  then have "y = rescale ROUND_HALF_UP x (- int s)" by (simp add: numeric_def Let_def split: if_splits)
  then show ?thesis by (simp add: rescale_def)
qed

lemma txn_stored_fields:
  assumes "txn_stored t = Inr x"
  shows "tx_id x = tx_id t" "tx_deleted_at x = tx_deleted_at t" "tx_status x = tx_status t"
    "tx_extra_data x = tx_extra_data t" "tx_merchant_id x = tx_merchant_id t"
    "tx_merchant_reference x = tx_merchant_reference t" "expo (tx_amount x) = - 2"
proof -
  from assms obtain a f g n where a: "numeric 18 2 (tx_amount t) = Inr a"
    and x: "x = t\<lparr> tx_amount := a, tx_fees := f, tx_tax := g, tx_net_amount := n \<rparr>"
    by (auto simp: txn_stored_def bindr_Inr_iff)
  show "tx_id x = tx_id t" "tx_deleted_at x = tx_deleted_at t" "tx_status x = tx_status t"
    "tx_extra_data x = tx_extra_data t" "tx_merchant_id x = tx_merchant_id t"
    "tx_merchant_reference x = tx_merchant_reference t" by (simp_all add: x)
  show "expo (tx_amount x) = - 2" using numeric_expo [OF a] by (simp add: x)
qed

lemma settlement_stored_idem:
  assumes "settlement_stored s = Inr s'"
  shows "settlement_stored s' = Inr s'"
proof -
  from assms obtain f u r where n: "numeric 18 2 (se_fiat_amount s) = Inr f"
      "numeric 24 8 (se_usdt_amount s) = Inr u" "numeric 24 8 (se_exchange_rate s) = Inr r"
    and s': "s' = s\<lparr> se_fiat_amount := f, se_usdt_amount := u, se_exchange_rate := r \<rparr>"
    by (auto simp: settlement_stored_def bindr_Inr_iff)
  show ?thesis by (simp add: settlement_stored_def s' n [THEN numeric_idem])
qed

lemma settlement_stored_fields:
  "settlement_stored s = Inr s' \<Longrightarrow> se_id s' = se_id s \<and> se_transaction_id s' = se_transaction_id s
     \<and> se_status s' = se_status s \<and> se_deleted_at s' = se_deleted_at s
     \<and> se_wallet_address s' = se_wallet_address s \<and> se_retry_count s' = se_retry_count s"
  by (auto simp: settlement_stored_def bindr_Inr_iff)

lemma settlement_stored_ends:
  assumes "settlement_stored s = Inr s"
  shows "settlement_stored (s\<lparr> se_blockchain_tx_hash := h, se_confirmation_count := n, se_status := st \<rparr>)
      = Inr (s\<lparr> se_blockchain_tx_hash := h, se_confirmation_count := n, se_status := st \<rparr>)"
    and "settlement_stored (s\<lparr> se_status := st, se_failure_reason := f, se_retry_count := k \<rparr>)
      = Inr (s\<lparr> se_status := st, se_failure_reason := f, se_retry_count := k \<rparr>)"
  using assms by (auto simp: settlement_stored_def bindr_Inr_iff) (cases s, simp)+

definition idle :: "settlement list \<Rightarrow> uuid \<Rightarrow> settlement option \<Rightarrow> bool" where
  \<comment> \<open>the settlement row of a transaction, if any, and not completed\<close>
  "idle ss tid existing \<longleftrightarrow>
     (case existing of
        None \<Rightarrow> (\<forall>s \<in> set ss. se_transaction_id s \<noteq> tid)
      | Some s \<Rightarrow> s \<in> set ss \<and> se_transaction_id s = tid \<and> se_status s \<noteq> S_COMPLETED)"

lemma transfers_append: "transfers sid (ls @ ms) = transfers sid ls + transfers sid ms"
  by (simp add: transfers_def)

lemma transfers_none: "\<forall>l \<in> set ls. tl_settlement_id l \<noteq> sid \<Longrightarrow> transfers sid ls = 0"
  by (auto simp: transfers_def filter_empty_conv)

lemma payouts_add:
  assumes ok: "payouts_ok ss ls" and add: "repo_add se_id settlement_constraints s ss = Inr rows"
    and s: "se_status s \<noteq> S_COMPLETED" "se_deleted_at s = None" "settlement_stored s = Inr s"
  shows "payouts_ok rows ls" "completed_kept ss rows" "s \<in> set rows"
proof -
  have r: "rows = ss @ [s]" and new: "\<forall>r \<in> set ss. se_id r \<noteq> se_id s"
    and c: "settlement_constraints s ss"
    using add by (auto simp: repo_add_def list_ex_iff split: if_splits)
  have "transfers (se_id s) ls = 0"
    using ok new by (intro transfers_none) (force simp: payouts_ok_def)
  then show "payouts_ok rows ls"
    using ok new c s unfolding r payouts_ok_def
    by (auto simp: settlement_constraints_def list_ex_iff image_iff)
  show "completed_kept ss rows" "s \<in> set rows" by (simp_all add: r completed_kept_def)
qed

lemma payouts_put:
  assumes ok: "payouts_ok ss ls" and s0: "s0 \<in> set ss" "se_id s0 = se_id s" "se_transaction_id s0 = se_transaction_id s"
    and s: "se_deleted_at s = None" "settlement_stored s = Inr s" "0 < coeff (se_usdt_amount s)"
    and open_s0: "se_status s0 \<noteq> S_COMPLETED"
    and count: "transfers (se_id s) (ls @ ms) = (if se_status s = S_COMPLETED then 1 else 0)"
    and ms: "\<forall>l \<in> set ms. tl_settlement_id l = se_id s"
  shows "payouts_ok (repo_update se_id s ss) (ls @ ms)" "completed_kept ss (repo_update se_id s ss)"
    "s \<in> set (repo_update se_id s ss)"
proof -
  have same: "r = s0" if "r \<in> set ss" "se_id r = se_id s" for r
  proof (rule inj_onD [OF _ _ that(1) s0(1)])
    show "inj_on se_id (set ss)" using ok by (simp add: payouts_ok_def distinct_map)
    show "se_id r = se_id s0" using that(2) s0(2) by simp
  qed
  have keep: "map g (repo_update se_id s ss) = map g ss" if "g s = g s0" for g :: "settlement \<Rightarrow> 'b"
  proof (rule map_repo_update_same)
    fix x
    assume "x \<in> set ss" "se_id x = se_id s"
    then have "x = s0" by (rule same)
    then show "g x = g s" using that by simp
  qed
  have k: "map se_transaction_id (repo_update se_id s ss) = map se_transaction_id ss"
    "map (\<lambda>s. (se_id s, se_transaction_id s)) (repo_update se_id s ss) = map (\<lambda>s. (se_id s, se_transaction_id s)) ss"
    using keep [of se_transaction_id] keep [of "\<lambda>s. (se_id s, se_transaction_id s)"] s0 by simp_all
  show mem: "s \<in> set (repo_update se_id s ss)" using s0 by (auto simp: set_repo_update)
  show "completed_kept ss (repo_update se_id s ss)"
    using same open_s0 by (auto simp: completed_kept_def k set_repo_update)
  have ids: "se_id ` set (repo_update se_id s ss) = se_id ` set ss"
    using map_repo_update_ident [of se_id s ss] by (metis set_map)
  have "transfers (se_id x) ms = 0" if "se_id x \<noteq> se_id s" for x
    using ms that by (intro transfers_none) auto
  then have cnt: "\<forall>x \<in> set (repo_update se_id s ss).
      transfers (se_id x) (ls @ ms) = (if se_status x = S_COMPLETED then 1 else 0)"
    using ok count by (auto simp: set_repo_update payouts_ok_def transfers_append)
  have logs: "\<forall>l \<in> set (ls @ ms). tl_settlement_id l \<in> se_id ` set ss"
  proof
    fix l
    assume l: "l \<in> set (ls @ ms)"
    have "se_id s \<in> se_id ` set ss" using s0(1,2) by (metis image_eqI)
    then show "tl_settlement_id l \<in> se_id ` set ss" using l ok ms by (auto simp: payouts_ok_def)
  qed
  have rows: "\<forall>x \<in> set (repo_update se_id s ss). se_deleted_at x = None \<and> 0 < coeff (se_usdt_amount x)
      \<and> settlement_stored x = Inr x"
    using ok s by (auto simp: set_repo_update payouts_ok_def)
  show "payouts_ok (repo_update se_id s ss) (ls @ ms)"
    unfolding payouts_ok_def k ids map_repo_update_ident
    using ok cnt logs rows by (auto simp: payouts_ok_def)
qed

section \<open>Triples\<close>

interpretation ledger: upkeep books_ok books_grow
  by unfold_locales (simp, erule books_grow_trans)

abbreviation books_step :: "db \<Rightarrow> db \<Rightarrow> bool" where
  "books_step \<equiv> upkeep_step books_ok books_grow"

abbreviation progress :: "db \<times> db \<Rightarrow> db \<times> db \<Rightarrow> bool" where
  "progress \<equiv> upkeep_progress books_ok books_grow"

abbreviation linked :: "db \<times> db \<Rightarrow> bool" where
  "linked \<equiv> upkeep_linked books_ok books_grow"

abbreviation led :: "(db \<Rightarrow> bool) \<Rightarrow> (world, 'a) act \<Rightarrow> ('a \<Rightarrow> db \<Rightarrow> bool) \<Rightarrow> (db \<Rightarrow> bool) \<Rightarrow> bool" where
  "led \<equiv> triple books_ok books_grow"

abbreviation stable :: "(db \<Rightarrow> bool) \<Rightarrow> bool" where
  "stable \<equiv> kept books_grow"

abbreviation clean :: "world \<Rightarrow> bool" where
  "clean \<equiv> settled books_ok"

lemmas books_step_def = upkeep_step_def [of books_ok books_grow]
lemmas progress_def = upkeep_progress_def [of books_ok books_grow]
lemmas linked_def = upkeep_linked_def [of books_ok books_grow]
lemmas led_def = triple_def [of books_ok books_grow]
lemmas stable_def = kept_def [of books_grow]
lemmas clean_def = settled_def [of books_ok]

lemmas books_step_refl [simp] = ledger.step_refl
lemmas books_step_trans = ledger.step_trans
lemmas led_ret = ledger.triple_ret
lemmas led_raise = ledger.triple_raise
lemmas led_bnd = ledger.triple_bnd
lemmas led_silent = ledger.triple_silent
lemmas led_catch = ledger.triple_catch
lemmas led_conseq = ledger.triple_conseq
lemmas led_if = ledger.triple_if
lemmas led_check = ledger.triple_check
lemmas led_expect = ledger.triple_expect
lemmas led_liftr = ledger.triple_liftr
lemmas led_gets = ledger.triple_gets
lemmas led_ask = ledger.triple_ask
lemmas led_on_db = ledger.triple_on_db
lemmas led_commit = ledger.triple_commit
lemmas led_split = ledger.triple_split
lemmas led_steps = ledger.triple_steps
lemmas led_frame = ledger.triple_frame
lemmas led_keep = ledger.triple_keep
lemmas led_exact = ledger.triple_exact
lemmas stable_const = kept_const [of books_grow]
lemmas stable_conj = kept_conj [of books_grow]

lemma stable_loaded [simp]: "stable (loaded t)"
proof -
  have "core ` set (db_txns d) \<subseteq> core ` set (db_txns d')" if "books_grow d d'" for d d'
    using that set_mono_prefix [of "map core (db_txns d)" "map core (db_txns d')"]
    by (simp add: books_grow_def)
  then show ?thesis unfolding stable_def loaded_def by blast
qed

section \<open>Steps of the payment code\<close>

lemma led_add_status_log:
  "(\<And>d l. p d \<Longrightarrow> p (d\<lparr> db_status_logs := l \<rparr>)) \<Longrightarrow> led p (add_status_log i f t n a) (\<lambda>_. p) e"
  unfolding add_status_log_def by (rule led_on_db) simp

lemma led_audit: "led p (audit a b c u x) (\<lambda>_ _. True) e"
  unfolding audit_def by (rule led_on_db) (simp add: audit_record_def)

lemma led_attempt_add: "led p (attempt_add a) (\<lambda>_ _. True) e"
  unfolding attempt_add_def by (rule led_on_db) simp

lemma led_receipt_add: "(\<And>d. p d \<Longrightarrow> e d) \<Longrightarrow> led p (receipt_add r) (\<lambda>_ _. True) e"
  unfolding receipt_add_def
  by (rule led_bnd, rule led_ask, assumption, rule led_on_db) (auto dest: books_add_receipt)

lemma led_txn_put:
  assumes "\<And>d. books_ok d \<Longrightarrow> p d \<Longrightarrow> loaded t d" "\<And>d. p d \<Longrightarrow> e d" "\<And>d. p d \<Longrightarrow> I (db_settlements d)"
  shows "led p (txn_put t) (\<lambda>_ d. t \<in> set (db_txns d) \<and> I (db_settlements d)) e"
  unfolding txn_put_def
proof (rule led_bnd, rule led_ask)
  fix x
  show "led (\<lambda>d. p d \<and> (if txn_unique_receipt t (filter (\<lambda>r. tx_id r \<noteq> tx_id t) (db_txns d)) then Inr ()
      else Inl IntegrityError) = Inr x)
    (on_db (\<lambda>d. d\<lparr> db_txns := repo_update tx_id t (db_txns d) \<rparr>))
    (\<lambda>_ d. t \<in> set (db_txns d) \<and> I (db_settlements d)) e"
    by (rule led_on_db) (use assms(1,3) in \<open>auto simp: books_put_txn split: if_splits\<close>)
qed (use assms(2) in auto)

lemma txn_in_loaded: "books_ok d \<Longrightarrow> t \<in> set (db_txns d) \<Longrightarrow> loaded t d"
  by (auto simp: loaded_def books_ok_def txns_ok_def)

text \<open>Rows that a query returns.\<close>

lemma repo_get_Some: "repo_get_by_id ident del rows i = Inr (Some x) \<Longrightarrow> x \<in> set rows \<and> ident x = i \<and> del x = None"
  by (auto simp: repo_get_by_id_def base_query_def dest: find_one_Some)

lemma txn_detailed_loaded: "txn_get_detailed d i = Inr (Some t) \<Longrightarrow> t \<in> set (db_txns d) \<and> tx_id t = i \<and> loaded t d"
  by (auto simp: txn_get_detailed_def loaded_def dest!: repo_get_Some)

lemma base_query_payouts: "payouts_ok ss ls \<Longrightarrow> base_query se_deleted_at ss = ss"
  by (simp add: base_query_def payouts_ok_def)

lemma existing_idle:
  assumes "books_ok d" "settlement_get_by_transaction d i = Inr existing" "completed_settlement existing = None"
  shows "idle (db_settlements d) i existing"
proof -
  have b: "base_query se_deleted_at (db_settlements d) = db_settlements d"
    using assms(1) base_query_payouts by (auto simp: books_ok_def)
  show ?thesis
    using assms(2,3) find_one_Some [of _ "db_settlements d"] find_one_None [of _ "db_settlements d"]
    by (cases existing) (auto simp: settlement_get_by_transaction_def b idle_def completed_settlement_def
        split: if_splits)
qed

section \<open>The engine keeps the books\<close>

text \<open>Between the quote and the end of the transfer: the settlement row is being processed.\<close>

definition processing :: "txn \<Rightarrow> settlement \<Rightarrow> db \<Rightarrow> bool" where
  "processing t s d \<longleftrightarrow> t \<in> set (db_txns d) \<and> s \<in> set (db_settlements d) \<and> se_status s = S_PROCESSING
     \<and> se_transaction_id s = tx_id t"

lemma led_settle_guard:
  "led (\<lambda>_. True) (settle_guard i) (\<lambda>(t, existing) d. t \<in> set (db_txns d)
     \<and> (completed_settlement existing = None \<longrightarrow> idle (db_settlements d) (tx_id t) existing)) (\<lambda>_. True)"
  unfolding settle_guard_def
  by (rule led_steps led_ret TrueI)+ (auto dest: txn_detailed_loaded existing_idle)

lemma led_settle_start:
  "led (\<lambda>d. t \<in> set (db_txns d) \<and> I (db_settlements d)) (settle_start st t)
     (\<lambda>(t', net) d. t' \<in> set (db_txns d) \<and> tx_id t' = tx_id t \<and> I (db_settlements d)) (\<lambda>_. True)"
  unfolding settle_start_def Let_def
  by (rule led_steps led_split TrueI led_bnd [OF led_txn_put [where I = I]]
      led_bnd [OF led_add_status_log] led_ret
      | fastforce dest: txn_in_loaded simp: loaded_def core_def)+

lemma led_settle_put:
  assumes s0: "\<And>d. p d \<Longrightarrow> \<exists>s0 \<in> set (db_settlements d). se_id s0 = se_id s
      \<and> se_transaction_id s0 = se_transaction_id s \<and> se_status s0 \<noteq> S_COMPLETED"
    and s: "se_status s = S_PROCESSING" "se_deleted_at s = None"
    and e: "\<And>d. p d \<Longrightarrow> e d" and J: "\<And>d. p d \<Longrightarrow> J (db_txns d)"
  shows "led p (settlement_put s) (\<lambda>s' d. s' \<in> set (db_settlements d) \<and> se_status s' = S_PROCESSING
    \<and> se_transaction_id s' = se_transaction_id s \<and> J (db_txns d)) e"
  unfolding settlement_put_def
proof (rule led_steps, simp add: e, rule led_steps, simp add: e, rule led_bnd)
  fix x u
  let ?p = "\<lambda>d. (p d \<and> settlement_stored s = Inr x) \<and> 0 < coeff (se_usdt_amount x)"
  show "led ?p (on_db (\<lambda>d. d\<lparr> db_settlements := repo_update se_id x (db_settlements d) \<rparr>))
    (\<lambda>_ d. settlement_stored s = Inr x \<and> x \<in> set (db_settlements d) \<and> J (db_txns d)) e"
  proof (rule led_on_db, elim conjE)
    fix d
    assume d: "books_ok d" "p d" "settlement_stored s = Inr x" "0 < coeff (se_usdt_amount x)"
    note f = settlement_stored_fields [OF d(3)]
    from s0 [OF d(2)] obtain s0 where s0: "s0 \<in> set (db_settlements d)" "se_id s0 = se_id x"
      "se_transaction_id s0 = se_transaction_id x" "se_status s0 \<noteq> S_COMPLETED" using f by auto
    have ok: "payouts_ok (db_settlements d) (db_transfer_logs d)" using d(1) by (simp add: books_ok_def)
    have "transfers (se_id x) (db_transfer_logs d) = 0"
      using ok s0 by (auto simp: payouts_ok_def)
    then have "payouts_ok (repo_update se_id x (db_settlements d)) (db_transfer_logs d @ [])"
      "completed_kept (db_settlements d) (repo_update se_id x (db_settlements d))"
      "x \<in> set (repo_update se_id x (db_settlements d))"
      using payouts_put [OF ok s0(1-3), of "[]"] s0(4) s f settlement_stored_idem [OF d(3)] d(4) by simp_all
    then show "books_ok (d\<lparr> db_settlements := repo_update se_id x (db_settlements d) \<rparr>)
      \<and> books_grow d (d\<lparr> db_settlements := repo_update se_id x (db_settlements d) \<rparr>)
      \<and> settlement_stored s = Inr x
      \<and> x \<in> set (db_settlements (d\<lparr> db_settlements := repo_update se_id x (db_settlements d) \<rparr>))
      \<and> J (db_txns (d\<lparr> db_settlements := repo_update se_id x (db_settlements d) \<rparr>))"
      using d(1,2,3) J by (simp add: books_ok_def books_grow_def)
  qed
qed (rule led_ret, auto dest: settlement_stored_fields simp: s)

lemma led_settle_add:
  assumes s: "se_status s = S_PROCESSING" "se_deleted_at s = None"
    and e: "\<And>d. p d \<Longrightarrow> e d" and J: "\<And>d. p d \<Longrightarrow> J (db_txns d)"
  shows "led p (settlement_add s) (\<lambda>s' d. s' \<in> set (db_settlements d) \<and> se_status s' = S_PROCESSING
    \<and> se_transaction_id s' = se_transaction_id s \<and> J (db_txns d)) e"
  unfolding settlement_add_def
proof (rule led_steps, simp add: e, rule led_steps, simp add: e, rule led_bnd)
  fix x rows
  let ?p = "\<lambda>d. (p d \<and> settlement_stored s = Inr x)
      \<and> repo_add se_id settlement_constraints x (db_settlements d) = Inr rows"
  show "led ?p (on_db (\<lambda>d. d\<lparr> db_settlements := rows \<rparr>))
    (\<lambda>_ d. settlement_stored s = Inr x \<and> x \<in> set (db_settlements d) \<and> J (db_txns d)) e"
  proof (rule led_on_db, elim conjE)
    fix d
    assume d: "books_ok d" "p d" "settlement_stored s = Inr x"
      "repo_add se_id settlement_constraints x (db_settlements d) = Inr rows"
    note f = settlement_stored_fields [OF d(3)]
    have ok: "payouts_ok (db_settlements d) (db_transfer_logs d)" using d(1) by (simp add: books_ok_def)
    show "books_ok (d\<lparr> db_settlements := rows \<rparr>) \<and> books_grow d (d\<lparr> db_settlements := rows \<rparr>)
      \<and> settlement_stored s = Inr x \<and> x \<in> set (db_settlements (d\<lparr> db_settlements := rows \<rparr>))
      \<and> J (db_txns (d\<lparr> db_settlements := rows \<rparr>))"
      using payouts_add [OF ok d(4)] f s settlement_stored_idem [OF d(3)] d(1,2,3) J
      by (simp add: books_ok_def books_grow_def)
  qed
qed (rule led_ret, auto dest: settlement_stored_fields simp: s)

lemma settlement_put_run:
  "settlement_stored s = Inr s \<Longrightarrow> 0 < coeff (se_usdt_amount s) \<Longrightarrow>
     bnd (settlement_put s) k w
       = k s (w\<lparr> w_db := (w_db w)\<lparr> db_settlements := repo_update se_id s (db_settlements (w_db w)) \<rparr> \<rparr>)"
  by (rule bnd_cong_run) (simp add: settlement_put_def)

lemma txn_put_run:
  "txn_unique_receipt t (filter (\<lambda>r. tx_id r \<noteq> tx_id t) (db_txns (w_db w))) \<Longrightarrow>
     bnd (txn_put t) k w = k () (w\<lparr> w_db := (w_db w)\<lparr> db_txns := repo_update tx_id t (db_txns (w_db w)) \<rparr> \<rparr>)"
  by (rule bnd_cong_run) (simp add: txn_put_def)

lemma status_log_run:
  "bnd (add_status_log i f u n a) k w = k () (w\<lparr> w_db := (w_db w)\<lparr> db_status_logs := db_status_logs (w_db w) @
     [\<lparr> sl_transaction_id = i, sl_from_status = f, sl_to_status = u, sl_note = n, sl_actor = Some a \<rparr>] \<rparr> \<rparr>)"
  by (simp add: add_status_log_def)

lemma transfer_log_run:
  "bnd (transfer_log_add l) k w = k () (w\<lparr> w_db := (w_db w)\<lparr> db_transfer_logs := db_transfer_logs (w_db w) @ [l] \<rparr> \<rparr>)"
  by (simp add: transfer_log_add_def)

text \<open>The end of a transfer in one step: the log, the settlement, the transaction and its status log.\<close>

lemma books_transfer_end:
  assumes ok: "books_ok d" and p: "processing t s d"
    and s': "se_id s' = se_id s" "se_transaction_id s' = se_transaction_id s" "se_deleted_at s' = se_deleted_at s"
      "settlement_stored s' = Inr s'" "se_usdt_amount s' = se_usdt_amount s"
    and l: "tl_settlement_id l = se_id s"
      "transfers (se_id s) [l] = (if se_status s' = S_COMPLETED then 1 else 0)"
    and d': "d' = d\<lparr> db_transfer_logs := db_transfer_logs d @ [l],
        db_settlements := repo_update se_id s' (db_settlements d),
        db_txns := repo_update tx_id (t\<lparr> tx_status := u \<rparr>) (db_txns d),
        db_status_logs := db_status_logs d @ [sl] \<rparr>"
  shows "books_ok d' \<and> books_grow d d'"
proof -
  have po: "payouts_ok (db_settlements d) (db_transfer_logs d)" using ok by (simp add: books_ok_def)
  have s: "s \<in> set (db_settlements d)" "se_status s = S_PROCESSING" "t \<in> set (db_txns d)"
    using p by (auto simp: processing_def)
  then have row: "se_deleted_at s = None" "0 < coeff (se_usdt_amount s)"
    "transfers (se_id s) (db_transfer_logs d) = 0"
    using po by (auto simp: payouts_ok_def)
  have "payouts_ok (repo_update se_id s' (db_settlements d)) (db_transfer_logs d @ [l])"
    "completed_kept (db_settlements d) (repo_update se_id s' (db_settlements d))"
    using payouts_put [OF po s(1), of s' "[l]"] s' s(2) row l by (simp_all add: transfers_append)
  moreover have tx: "txns_ok (db_txns d)" using ok by (simp add: books_ok_def)
  have "tx_deleted_at t = None" "txn_unique_receipt t (filter (\<lambda>r. tx_id r \<noteq> tx_id t) (db_txns d))"
    using tx s(3) by (auto simp: txns_ok_def)
  then have "txns_ok (repo_update tx_id (t\<lparr> tx_status := u \<rparr>) (db_txns d))"
    "map core (repo_update tx_id (t\<lparr> tx_status := u \<rparr>) (db_txns d)) = map core (db_txns d)"
    using txns_ok_put [OF tx, of "t\<lparr> tx_status := u \<rparr>"] s(3) by (simp_all add: txn_unique_receipt_def)
  ultimately show ?thesis
    using ok by (simp add: books_ok_def books_grow_def d')
qed

lemma led_quote_log:
  assumes "tl_settlement_id l = se_id s" "tl_action l = ''exchange_quote''"
  shows "led (processing t s) (transfer_log_add l) (\<lambda>_. processing t s) e"
  unfolding transfer_log_add_def
proof (rule led_on_db)
  fix d
  assume d: "books_ok d" "processing t s d"
  have "transfers i (db_transfer_logs d @ [l]) = transfers i (db_transfer_logs d)" for i
    using assms(2) by (simp add: transfers_append) (simp add: transfers_def)
  then have "payouts_ok (db_settlements d) (db_transfer_logs d @ [l])"
    using d assms(1) by (auto simp: books_ok_def payouts_ok_def processing_def)
  then show "books_ok (d\<lparr> db_transfer_logs := db_transfer_logs d @ [l] \<rparr>)
      \<and> books_grow d (d\<lparr> db_transfer_logs := db_transfer_logs d @ [l] \<rparr>)
      \<and> processing t s (d\<lparr> db_transfer_logs := db_transfer_logs d @ [l] \<rparr>)"
    using d by (simp add: books_ok_def books_grow_def completed_kept_refl processing_def)
qed

lemma led_settle_row:
  "led (\<lambda>d. t \<in> set (db_txns d) \<and> idle (db_settlements d) (tx_id t) existing)
     (case existing of
        Some s \<Rightarrow> settlement_put (s\<lparr> se_fiat_amount := net, se_usdt_amount := u, se_exchange_rate := r,
                   se_exchange_provider := pr, se_status := S_PROCESSING, se_failure_reason := None \<rparr>)
      | None \<Rightarrow> settlement_add (new_settlement dr t wallet net u quote))
     (\<lambda>s. processing t s) (\<lambda>_. True)"
proof (cases existing)
  case None
  show ?thesis
    unfolding None option.case
    by (rule led_conseq [OF led_settle_add [where J = "\<lambda>ts. t \<in> set ts" and p = "\<lambda>d. t \<in> set (db_txns d)"
          and e = "\<lambda>_. True"]])
      (simp_all add: new_settlement_def processing_def)
next
  case (Some s)
  let ?s = "s\<lparr> se_fiat_amount := net, se_usdt_amount := u, se_exchange_rate := r,
                   se_exchange_provider := pr, se_status := S_PROCESSING, se_failure_reason := None \<rparr>"
  show ?thesis
  proof (cases "se_deleted_at s = None")
    case True
    show ?thesis
      unfolding Some option.case
      by (rule led_conseq [OF led_settle_put [where J = "\<lambda>ts. t \<in> set ts \<and> se_transaction_id s = tx_id t" and s = ?s and e = "\<lambda>_. True"
            and p = "\<lambda>d. t \<in> set (db_txns d) \<and> idle (db_settlements d) (tx_id t) (Some s)"]])
        (auto simp: True idle_def processing_def)
  next
    case False
    have "led (\<lambda>_. False) m q e" for m and q :: "settlement \<Rightarrow> db \<Rightarrow> bool" and e
      by (simp add: led_def runs_def)
    then show ?thesis
      by (rule led_conseq) (use False in \<open>auto simp: Some idle_def books_ok_def payouts_ok_def\<close>)
  qed
qed

lemma led_settle_quote:
  "led (\<lambda>d. t \<in> set (db_txns d) \<and> idle (db_settlements d) (tx_id t) existing)
     (settle_quote st dr t existing wallet net) (\<lambda>s. processing t s) (\<lambda>_. True)"
  unfolding settle_quote_def
  by (rule led_steps led_split TrueI led_ret led_bnd [OF led_quote_log] led_bnd [where r = "\<lambda>s. processing t s"]
      led_conseq [OF led_settle_row] | simp)+

lemma led_settle_end:
  assumes l: "tl_settlement_id l = se_id s" "transfers (se_id s) [l] = (if wr_success tr then 1 else 0)"
  shows "led (processing t s)
     (bnd (transfer_log_add l) (\<lambda>_. if \<not> wr_success tr then settle_failed t s tr else settle_done t s tr))
     (\<lambda>_ _. True) (\<lambda>_. True)"
proof (rule led_exact)
  fix w :: world
  assume ok: "books_ok (w_db w)" and p: "processing t s (w_db w)"
  have row: "settlement_stored s = Inr s" "0 < coeff (se_usdt_amount s)"
    using ok p by (auto simp: books_ok_def payouts_ok_def processing_def)
  have u: "txn_unique_receipt (t\<lparr> tx_status := x \<rparr>) (filter (\<lambda>r. tx_id r \<noteq> tx_id t) (db_txns (w_db w)))" for x
    using ok p by (auto simp: books_ok_def txns_ok_def processing_def txn_unique_receipt_def)
  define ts where "ts = (if wr_success tr then COMPLETED else MANUAL_REVIEW)"
  define s' where "s' = (if wr_success tr
      then s\<lparr> se_blockchain_tx_hash := wr_tx_hash tr, se_confirmation_count := wr_confirmation_count tr,
              se_status := S_COMPLETED \<rparr>
      else s\<lparr> se_status := S_FAILED, se_failure_reason := wr_error_message tr, se_retry_count := se_retry_count s + 1 \<rparr>)"
  have stored: "settlement_stored s' = Inr s'" using row(1) by (simp add: s'_def settlement_stored_ends)
  define d' where "d' = (\<lambda>sl. (w_db w)\<lparr> db_transfer_logs := db_transfer_logs (w_db w) @ [l],
        db_settlements := repo_update se_id s' (db_settlements (w_db w)),
        db_txns := repo_update tx_id (t\<lparr> tx_status := ts \<rparr>) (db_txns (w_db w)),
        db_status_logs := db_status_logs (w_db w) @ [sl] \<rparr>)"
  have books: "books_ok (d' sl) \<and> books_grow (w_db w) (d' sl)" for sl
    by (rule books_transfer_end [OF ok p _ _ _ stored _ l(1) _ d'_def [THEN fun_cong]])
      (use l(2) in \<open>simp_all add: s'_def\<close>)
  have "\<exists>sl r. bnd (transfer_log_add l) (\<lambda>_. if \<not> wr_success tr then settle_failed t s tr else settle_done t s tr) w
      = (w\<lparr> w_db := d' sl \<rparr>, r)"
    using stored row(2) u [of COMPLETED] u [of MANUAL_REVIEW]
    by (auto simp: transfer_log_run settle_done_def settle_failed_def Let_def settlement_put_run txn_put_run
        status_log_run s'_def ts_def d'_def split: if_splits)
  then show "\<exists>d' r. bnd (transfer_log_add l)
      (\<lambda>_. if \<not> wr_success tr then settle_failed t s tr else settle_done t s tr) w = (w\<lparr> w_db := d' \<rparr>, r)
      \<and> books_ok d' \<and> books_grow (w_db w) d' \<and> (case r of Inr x \<Rightarrow> True | Inl _ \<Rightarrow> True)"
    using books by (force split: sum.split)
qed

lemma led_settle_transfer:
  "led (processing t s) (settle_transfer st dr t s wallet) (\<lambda>_ _. True) (\<lambda>_. True)"
  unfolding settle_transfer_def Let_def
  by (rule led_steps TrueI led_conseq [OF led_settle_end]
      | simp add: transfers_def transfer_status_def)+

lemma led_settle_now:
  "led (\<lambda>d. t \<in> set (db_txns d) \<and> idle (db_settlements d) (tx_id t) existing) (settle_now st dr t existing)
     (\<lambda>_ _. True) (\<lambda>_. True)"
  unfolding settle_now_def
proof (rule led_steps led_steps TrueI, rule led_steps, rule TrueI, rule led_bnd)
  fix wallet' and wallet :: merchant_wallet
  let ?idle = "\<lambda>ss. idle ss (tx_id t) existing"
  show "led (\<lambda>d. ((t \<in> set (db_txns d) \<and> ?idle (db_settlements d)) \<and> wallet' = wallet_get_primary d (tx_merchant_id t))
      \<and> wallet' = Some wallet) (settle_start st t)
     (\<lambda>(t', net) d. t' \<in> set (db_txns d) \<and> tx_id t' = tx_id t \<and> ?idle (db_settlements d)) (\<lambda>_. True)"
    by (rule led_conseq [OF led_settle_start [where I = ?idle]]) simp_all
  show "led ((\<lambda>(t', net) d. t' \<in> set (db_txns d) \<and> tx_id t' = tx_id t \<and> ?idle (db_settlements d)) x)
      (case x of (t, net) \<Rightarrow> bnd (settle_quote st dr t existing wallet net)
         (\<lambda>s. settle_transfer st dr t s wallet)) (\<lambda>_ _. True) (\<lambda>_. True)" for x
  proof (cases x)
    case (Pair t' net)
    show ?thesis
      unfolding Pair prod.case
    proof (rule led_bnd)
      show "led (\<lambda>d. t' \<in> set (db_txns d) \<and> tx_id t' = tx_id t \<and> ?idle (db_settlements d))
          (settle_quote st dr t' existing wallet net) (\<lambda>s. processing t' s) (\<lambda>_. True)"
        by (rule led_conseq [OF led_settle_quote]) auto
    qed (rule led_settle_transfer)
  qed
qed

theorem led_prepare_and_settle:
  "led (\<lambda>_. True) (prepare_and_settle st dr i) (\<lambda>_ _. True) (\<lambda>_. True)"
  unfolding prepare_and_settle_def
proof (rule led_bnd [OF led_settle_guard])
  show "led ((\<lambda>(t, existing) d. t \<in> set (db_txns d)
     \<and> (completed_settlement existing = None \<longrightarrow> idle (db_settlements d) (tx_id t) existing)) x)
     (case x of (t, existing) \<Rightarrow> case completed_settlement existing of
        None \<Rightarrow> settle_now st dr t existing | Some s \<Rightarrow> ret s) (\<lambda>_ _. True) (\<lambda>_. True)" for x
  proof (cases x)
    case (Pair t existing)
    show ?thesis
      unfolding Pair prod.case
      by (cases "completed_settlement existing") (auto intro: led_ret led_conseq [OF led_settle_now])
  qed
qed

section \<open>Requests\<close>

abbreviation keeps_books :: "'a handler \<Rightarrow> bool" where
  "keeps_books m \<equiv> led (\<lambda>_. True) m (\<lambda>_ _. True) (\<lambda>_. True)"

lemmas run_request_books = ledger.request_keeps
lemmas run_request_led = ledger.request_result
lemmas clean_ok = settled_ok [of books_ok]
lemmas clean_unchanged = settled_unchanged [of books_ok]

end
