(* ===== verification/Clock.thy ===== *)
theory Clock
  imports Prelude
begin

text \<open>
  Moments as the services print them: a \<open>time\<close> counts microseconds since 1970-01-01 UTC. The date
  of a day follows the proleptic Gregorian calendar as \<open>datetime\<close> does; \<open>isoformat\<close> and the stamp of a
  receipt number are the two texts the code makes of it.
\<close>

definition day_us :: int where
  "day_us = 86400000000"

definition civil_of_days :: "int \<Rightarrow> int \<times> int \<times> int" where
  "civil_of_days days =
     (let z = days + 719468;
          era = z div 146097;
          doe = z mod 146097;
          yoe = (doe - doe div 1460 + doe div 36524 - doe div 146096) div 365;
          doy = doe - (365 * yoe + yoe div 4 - yoe div 100);
          mp = (5 * doy + 2) div 153;
          d = doy - (153 * mp + 2) div 5 + 1;
          m = (if mp < 10 then mp + 3 else mp - 9)
      in (yoe + era * 400 + (if m \<le> 2 then 1 else 0), m, d))"

definition padded :: "nat \<Rightarrow> int \<Rightarrow> string" where
  "padded k i = (let s = show_nat (nat i) in replicate (k - length s) (CHR ''0'') @ s)"

definition isoformat :: "time \<Rightarrow> string" where
  "isoformat t =
     (let (y, m, d) = civil_of_days (t div day_us);
          us = t mod day_us;
          s = us div 1000000
      in padded 4 y @ ''-'' @ padded 2 m @ ''-'' @ padded 2 d @ ''T''
         @ padded 2 (s div 3600) @ '':'' @ padded 2 (s div 60 mod 60) @ '':'' @ padded 2 (s mod 60)
         @ (if us mod 1000000 = 0 then [] else ''.'' @ padded 6 (us mod 1000000)) @ ''+00:00'')"

definition stamp :: "time \<Rightarrow> string" where
  \<comment> \<open>\<open>strftime("%Y%m%d")\<close>\<close>
  "stamp t = (let (y, m, d) = civil_of_days (t div day_us) in padded 4 y @ padded 2 m @ padded 2 d)"

lemma epoch: "isoformat 0 = ''1970-01-01T00:00:00+00:00''" "stamp 1709210096123456 = ''20240229''"
  by code_simp+

end
