(* ===== verification/Payments.thy ===== *)
theory Payments
  imports Settlement Gateways Clock
begin

text \<open>
  The payment service: \<open>PaymentService\<close> of \<open>src/app/services/payment_service.py\<close> with the requests and
  responses of \<open>src/app/schemas/payment.py\<close> and the routes of \<open>src/app/api/v1/routes/payments.py\<close> and
  \<open>pos.py\<close>.

  A handler runs on the world of \<open>Database\<close>. Its draws: \<open>dr_uuid\<close> 0 is the transaction, 1 the receipt,
  2 the settlement; \<open>dr_hex\<close> 0 to 2 belong to the gateway, 3 to the receipt number, 4 to the transfer.
  \<open>transaction\<close> is one object per row (the identity map of the session), so a handler that has called
  the settlement engine reads it again. A relationship stands for the rows that refer to the
  transaction; how SQLAlchemy loads it is left out. A failed flush leaves the session unusable, so
  \<open>_try_settle\<close>, which catches every exception, fails with \<open>PendingRollbackError\<close> after it. The Celery
  queue and the loggers are left out.
\<close>

section \<open>Requests\<close>

record create_payment_request =
  cp_amount :: "decimal option"
  cp_amount_minor :: "int option"
  cp_currency :: string
  cp_merchant_reference :: string
  cp_description :: "string option"
  cp_gateway_provider :: "string option"
  cp_idempotency_key :: "string option"
  cp_payment_method_token :: "string option"
  cp_payment_mode :: string
  cp_protocol_code :: "string option"
  cp_sandbox_scenario :: "string option"

definition at_most :: "nat \<Rightarrow> string option \<Rightarrow> bool" where
  "at_most n s = (case s of None \<Rightarrow> True | Some t \<Rightarrow> py_len t \<le> n)"

definition money_field :: "decimal option \<Rightarrow> bool" where
  \<comment> \<open>\<open>Field(default=None, gt=0, max_digits=18, decimal_places=2)\<close>\<close>
  "money_field a = (case a of None \<Rightarrow> True
     | Some d \<Rightarrow> 0 < coeff d \<and> - 2 \<le> expo d \<and> nat (coeff d) * 10 ^ nat (expo d) < 10 ^ 18)"

definition create_payment_fields :: "create_payment_request \<Rightarrow> bool" where
  "create_payment_fields p \<longleftrightarrow>
     money_field (cp_amount p) \<and> (case cp_amount_minor p of None \<Rightarrow> True | Some m \<Rightarrow> 0 < m)
     \<and> py_len (cp_currency p) = 3
     \<and> 3 \<le> py_len (cp_merchant_reference p) \<and> py_len (cp_merchant_reference p) \<le> 128
     \<and> at_most 255 (cp_description p) \<and> at_most 128 (cp_idempotency_key p)
     \<and> at_most 128 (cp_payment_method_token p) \<and> at_most 32 (cp_protocol_code p)
     \<and> cp_payment_mode p \<in> set [''online'', ''offline_test'']
     \<and> (case cp_sandbox_scenario p of None \<Rightarrow> True | Some s \<Rightarrow> s \<in> set [''success'', ''declined'', ''signature''])"

definition require_amount :: "create_payment_request \<Rightarrow> create_payment_request res" where
  "require_amount p =
     (if cp_amount p = None \<and> cp_amount_minor p = None then Inl (ValueError ''Provide amount or amount_minor'')
      else
        (case cp_payment_method_token p of
           None \<Rightarrow> Inr p
         | Some token \<Rightarrow>
             (if \<not> starts_with (strip token) ''pm_''
              then Inl (ValueError (''payment_method_token must be a tokenized pm_'' @ [CHR 0xE2, CHR 0x80, CHR 0xA6] @
                          '' value '' @ em_dash @ '' never send PAN/CVV''))
              else Inr (p\<lparr> cp_payment_method_token := Some (strip token) \<rparr>))))"

record refund_payment_request =
  rp_amount :: "decimal option"
  rp_reason :: "string option"

record complete_signature_request =
  sg_signature_data_url :: "string option"
  sg_acknowledged :: bool

section \<open>Responses\<close>

record payment_out =
  pay_id :: uuid
  pay_merchant_id :: uuid
  pay_amount :: decimal
  pay_currency :: string
  pay_gateway_reference :: "string option"
  pay_merchant_reference :: string
  pay_payment_method :: "string option"
  pay_status :: transaction_status
  pay_payment_date :: "time option"
  pay_fees :: decimal
  pay_tax :: decimal
  pay_net_amount :: decimal
  pay_receipt_number :: "string option"
  pay_failure_reason :: "string option"
  pay_created_at :: time
  pay_settlement :: "settlement option"
  pay_receipt :: "receipt option"
  pay_signature_required :: bool
  pay_authorization_code :: json
  pay_payment_mode :: json
  pay_protocol_code :: json
  pay_card_last4 :: json
  pay_amount_minor :: json

definition receipt_of :: "db \<Rightarrow> uuid \<Rightarrow> receipt option" where
  \<comment> \<open>the relationship \<open>Transaction.receipt\<close>\<close>
  "receipt_of d i = find (\<lambda>r. rc_transaction_id r = i) (db_receipts d)"

definition settlement_of :: "db \<Rightarrow> uuid \<Rightarrow> settlement option" where
  "settlement_of d i = find (\<lambda>s. se_transaction_id s = i) (db_settlements d)"

definition payment_out_of :: "db \<Rightarrow> txn \<Rightarrow> payment_out" where
  \<comment> \<open>\<open>_payment_out\<close>\<close>
  "payment_out_of d t =
     (let extra = tx_extra_data t in
      \<lparr> pay_id = tx_id t, pay_merchant_id = tx_merchant_id t, pay_amount = tx_amount t,
        pay_currency = tx_currency t, pay_gateway_reference = tx_gateway_reference t,
        pay_merchant_reference = tx_merchant_reference t, pay_payment_method = tx_payment_method t,
        pay_status = tx_status t, pay_payment_date = tx_payment_date t, pay_fees = tx_fees t,
        pay_tax = tx_tax t, pay_net_amount = tx_net_amount t, pay_receipt_number = tx_receipt_number t,
        pay_failure_reason = tx_failure_reason t, pay_created_at = tx_created_at t,
        pay_settlement = settlement_of d (tx_id t), pay_receipt = receipt_of d (tx_id t),
        pay_signature_required = jbool (dget extra ''signature_required''),
        pay_authorization_code = dget extra ''authorization_code'',
        pay_payment_mode = dget extra ''payment_mode'',
        pay_protocol_code = dget extra ''protocol_code'',
        pay_card_last4 = dget extra ''card_last4'',
        pay_amount_minor = dget extra ''amount_minor'' \<rparr>)"

definition payment_response :: "txn \<Rightarrow> payment_out handler" where
  "payment_response t = gets (\<lambda>w. payment_out_of (w_db w) t)"

section \<open>Common steps\<close>

definition resolve_merchant_for_user :: "uuid \<Rightarrow> merchant_profile handler" where
  "resolve_merchant_for_user user_id =
     bnd (ask_db (\<lambda>d. merchant_get_by_owner d user_id)) (\<lambda>m.
     bnd (expect (NotFoundError ''Merchant profile not found'') m) (\<lambda>m.
     bnd (check (me_status m = M_ACTIVE) (ForbiddenError ''Merchant account is not active'')) (\<lambda>_.
     ret m)))"

definition own_transaction :: "merchant_profile \<Rightarrow> uuid \<Rightarrow> txn handler" where
  "own_transaction merchant transaction_id =
     bnd (ask_db (\<lambda>d. txn_get_detailed d transaction_id)) (\<lambda>t.
     bnd (expect (NotFoundError ''Transaction not found'') t) (\<lambda>t.
     bnd (check (tx_merchant_id t = me_id merchant) (NotFoundError ''Transaction not found'')) (\<lambda>_.
     ret t)))"

definition the_transaction :: "uuid \<Rightarrow> txn handler" where
  \<comment> \<open>\<open>get_detailed\<close> and the assertion after it\<close>
  "the_transaction transaction_id =
     bnd (ask_db (\<lambda>d. txn_get_detailed d transaction_id)) (\<lambda>t. expect AssertionError t)"

definition move_to ::
  "txn \<Rightarrow> transaction_status option \<Rightarrow> string option \<Rightarrow> string \<Rightarrow> unit handler" where
  \<comment> \<open>\<open>transaction.status = ...\<close> and the status log of the change\<close>
  "move_to t from_status note actor =
     bnd (txn_put t) (\<lambda>_. add_status_log (tx_id t) from_status (tx_status t) note actor)"

definition payment_audit :: "string \<Rightarrow> uuid \<Rightarrow> uuid \<Rightarrow> dict option \<Rightarrow> unit handler" where
  "payment_audit action transaction_id user_id details = audit action ''transaction'' transaction_id user_id details"

definition build_receipt_number :: "draws \<Rightarrow> string" where
  "build_receipt_number dr = ''RCP-'' @ stamp (dr_now dr) @ ''-'' @ upper (take 8 (dr_hex dr 3))"

definition attach_receipt :: "draws \<Rightarrow> txn \<Rightarrow> merchant_profile \<Rightarrow> string \<Rightarrow> unit handler" where
  "attach_receipt dr t merchant gateway_name =
     (let extra = tx_extra_data t;
          number = or_str (tx_receipt_number t) (build_receipt_number dr);
          receipt =
            \<lparr> rc_id = dr_uuid dr 1, rc_transaction_id = tx_id t, rc_receipt_number = number,
              rc_merchant_name = me_company_name merchant, rc_amount = tx_amount t,
              rc_currency = tx_currency t, rc_gateway = Some gateway_name, rc_status = tx_status t,
              rc_printable_payload =
                [(''receipt_number'', jopt (tx_receipt_number t)),
                 (''merchant'', JStr (me_company_name merchant)),
                 (''vat_number'', JStr (or_str (me_tax_number merchant) [])),
                 (''amount'', JStr (dec_str (tx_amount t))),
                 (''amount_minor'', dget extra ''amount_minor''),
                 (''currency'', JStr (tx_currency t)),
                 (''gateway_reference'', jopt (tx_gateway_reference t)),
                 (''authorization_code'', dget extra ''authorization_code''),
                 (''payment_method'', jopt (tx_payment_method t)),
                 (''card_last4'', dget extra ''card_last4''),
                 (''status'', JStr (status_value (tx_status t))),
                 (''payment_mode'', dget extra ''payment_mode''),
                 (''protocol_code'', dget extra ''protocol_code''),
                 (''protocol_canonical'', dget extra ''protocol_canonical''),
                 (''protocol_label'', dget extra ''protocol_label''),
                 (''paid_at'', jopt (map_option isoformat (tx_payment_date t)))],
              rc_created_at = dr_now dr, rc_deleted_at = None \<rparr>
      in bnd (if truthy (tx_receipt_number t) then ret ()
              else txn_put (t\<lparr> tx_receipt_number := Some number \<rparr>)) (\<lambda>_.
         receipt_add receipt))"

definition poisons_session :: "exc \<Rightarrow> bool" where
  \<comment> \<open>raised by a flush\<close>
  "poisons_session e \<longleftrightarrow> e = IntegrityError \<or> e = DataError"

definition settlement_deferred :: "uuid \<Rightarrow> exc \<Rightarrow> unit handler" where
  "settlement_deferred transaction_id e =
     (if poisons_session e then raise PendingRollbackError
      else
        bnd (liftr (assert_transition (Some CAPTURED) SETTLEMENT_PENDING)) (\<lambda>_.
        bnd (the_transaction transaction_id) (\<lambda>t.
        move_to (t\<lparr> tx_status := SETTLEMENT_PENDING \<rparr>) (Some CAPTURED)
          (Some ''Settlement deferred for retry'') ''payment_service'')))"

definition try_settle :: "settings \<Rightarrow> draws \<Rightarrow> uuid \<Rightarrow> unit handler" where
  "try_settle st dr transaction_id =
     catch (bnd (prepare_and_settle st dr transaction_id) (\<lambda>_. ret ())) (settlement_deferred transaction_id)"

section \<open>Creating a payment\<close>

definition currency_check :: "settings \<Rightarrow> string \<Rightarrow> unit handler" where
  "currency_check st currency =
     check (currency \<in> supported_currencies st)
       (AppException (''Currency '' @ currency @ '' is not enabled. Allowed: '' @
          join '', '' (sorted_list_of_set (supported_currencies st))) 422)"

definition resolve_amount :: "create_payment_request \<Rightarrow> string \<Rightarrow> (decimal \<times> int) res" where
  "resolve_amount p currency =
     (case cp_amount_minor p of
        Some minor \<Rightarrow> bindr (from_minor_units minor currency) (\<lambda>amount. Inr (amount, minor))
      | None \<Rightarrow>
          (case cp_amount p of
             None \<Rightarrow> Inl AssertionError
           | Some amount \<Rightarrow> bindr (to_minor_units amount currency) (\<lambda>minor. Inr (amount, minor))))"

definition payment_reference :: "create_payment_request \<Rightarrow> string" where
  "payment_reference p = or_str (cp_idempotency_key p) (cp_merchant_reference p)"

definition find_existing :: "create_payment_request \<Rightarrow> uuid \<Rightarrow> db \<Rightarrow> txn option res" where
  "find_existing p merchant_id d =
     bindr (txn_get_by_merchant_reference d merchant_id (payment_reference p)) (\<lambda>existing.
     if existing = None \<and> truthy (cp_idempotency_key p) \<and> cp_idempotency_key p \<noteq> Some (cp_merchant_reference p)
     then txn_get_by_merchant_reference d merchant_id (cp_merchant_reference p)
     else Inr existing)"

definition payment_protocol :: "create_payment_request \<Rightarrow> protocol_definition option res" where
  "payment_protocol p =
     (if truthy (cp_protocol_code p)
      then (case get_protocol (or_str (cp_protocol_code p) []) of
              Inr d \<Rightarrow> Inr (Some d)
            | Inl e \<Rightarrow> Inl (case e of KeyError _ \<Rightarrow> AppException (exc_str e) 422 | _ \<Rightarrow> e))
      else Inr None)"

definition protocol_selection :: "create_payment_request \<Rightarrow> protocol_definition option \<Rightarrow> string option" where
  "protocol_selection p defn = (case defn of Some d \<Rightarrow> Some (pd_selection_id d) | None \<Rightarrow> cp_protocol_code p)"

definition new_transaction ::
  "draws \<Rightarrow> uuid \<Rightarrow> create_payment_request \<Rightarrow> string \<Rightarrow> decimal \<Rightarrow> int \<Rightarrow> gateway
    \<Rightarrow> payment_gateway_row option \<Rightarrow> protocol_definition option \<Rightarrow> txn" where
  "new_transaction dr merchant_id p currency amount minor gateway row defn =
     \<lparr> tx_id = dr_uuid dr 0, tx_merchant_id = merchant_id, tx_gateway_id = map_option gw_id row,
       tx_amount = amount, tx_currency = currency, tx_gateway_reference = None,
       tx_merchant_reference = payment_reference p, tx_payment_method = None, tx_status = PROCESSING,
       tx_payment_date = None, tx_fees = Dec 0 (- 2), tx_tax = Dec 0 (- 2), tx_net_amount = Dec 0 (- 2),
       tx_receipt_number = None, tx_failure_reason = None,
       tx_extra_data =
         [(''description'', jopt (cp_description p)),
          (''gateway_provider'', JStr (gateway_provider_name gateway)),
          (''payment_mode'', JStr (cp_payment_mode p)),
          (''protocol_code'', jopt (protocol_selection p defn)),
          (''protocol_canonical'',
            jopt (case defn of Some d \<Rightarrow> Some (pd_code d) | None \<Rightarrow> cp_protocol_code p)),
          (''protocol_label'', jopt (map_option display_label defn)),
          (''protocol_connectivity'', jopt (map_option (\<lambda>d. connectivity_name (pd_connectivity d)) defn)),
          (''amount_minor'', JInt minor),
          (''idempotency_key'', JStr (or_str (cp_idempotency_key p) (payment_reference p))),
          (''payment_method_token'', jopt (cp_payment_method_token p))],
       tx_created_at = dr_now dr, tx_deleted_at = None \<rparr>"

definition charge_request ::
  "create_payment_request \<Rightarrow> txn \<Rightarrow> decimal \<Rightarrow> protocol_definition option \<Rightarrow> payment_request" where
  "charge_request p t amount defn =
     \<lparr> gq_amount = amount, gq_currency = tx_currency t, gq_merchant_reference = payment_reference p,
       gq_description = or_str (cp_description p) (''Payment '' @ payment_reference p),
       gq_customer_email = None,
       gq_metadata =
         [(''transaction_id'', JStr (tx_id t)), (''merchant_id'', JStr (tx_merchant_id t)),
          (''payment_method_token'', jopt (cp_payment_method_token p)),
          (''payment_token'', jopt (cp_payment_method_token p)),
          (''sandbox_scenario'', jopt (cp_sandbox_scenario p)),
          (''protocol_code'', jopt (protocol_selection p defn)),
          (''payment_mode'', JStr (cp_payment_mode p))] \<rparr>"

definition attempt_of :: "txn \<Rightarrow> gateway \<Rightarrow> payment_result \<Rightarrow> payment_attempt" where
  "attempt_of t gateway result =
     \<lparr> pa_transaction_id = tx_id t, pa_gateway_provider = gateway_provider_name gateway,
       pa_attempt_number = 1, pa_status = gp_status result,
       pa_gateway_response = filter (\<lambda>(k, v). lower k \<notin> set [''pan'', ''cvv'', ''cvc'', ''card_number''])
         (gp_raw_response result),
       pa_error_message = gp_error_message result \<rparr>"

definition charged :: "draws \<Rightarrow> txn \<Rightarrow> payment_result \<Rightarrow> txn" where
  "charged dr t result =
     (let extra = dset ''card_last4'' (jopt (gp_card_last4 result))
            (dset ''signature_required'' (JBool (gp_signature_required result))
              (dset ''authorization_code'' (jopt (gp_authorization_code result)) (tx_extra_data t)));
          extra = (if truthy (gp_payment_method_token result)
                   then dset ''payment_method_token'' (jopt (gp_payment_method_token result)) extra else extra)
      in t\<lparr> tx_gateway_reference := Some (gp_gateway_reference result),
            tx_payment_method := gp_payment_method result, tx_payment_date := Some (dr_now dr),
            tx_extra_data := extra \<rparr>)"

definition payment_declined ::
  "uuid \<Rightarrow> txn \<Rightarrow> payment_result \<Rightarrow> payment_out handler" where
  "payment_declined user_id t result =
     bnd (liftr (assert_transition (Some PROCESSING) FAILED)) (\<lambda>_.
     bnd (move_to (t\<lparr> tx_status := FAILED, tx_failure_reason := gp_error_message result \<rparr>) (Some PROCESSING)
            (gp_error_message result) ''payment_gateway'') (\<lambda>_.
     bnd (payment_audit ''payment_declined'' (tx_id t) user_id
            (Some [(''reason'', jopt (gp_error_message result))])) (\<lambda>_.
     bnd commit (\<lambda>_.
     raise (PaymentError (or_str (gp_error_message result) ''Payment failed''))))))"

definition payment_awaits_signature ::
  "uuid \<Rightarrow> txn \<Rightarrow> payment_result \<Rightarrow> payment_out handler" where
  "payment_awaits_signature user_id t result =
     bnd (liftr (assert_transition (Some PROCESSING) AUTHORIZED)) (\<lambda>_.
     bnd (move_to (t\<lparr> tx_status := AUTHORIZED \<rparr>) (Some PROCESSING)
            (Some ''Signature required before capture'') ''payment_gateway'') (\<lambda>_.
     bnd (payment_audit ''signature_required'' (tx_id t) user_id
            (Some [(''authorization_code'', jopt (gp_authorization_code result))])) (\<lambda>_.
     bnd commit (\<lambda>_.
     bnd (the_transaction (tx_id t)) payment_response))))"

definition settle_and_show :: "settings \<Rightarrow> draws \<Rightarrow> uuid \<Rightarrow> payment_out handler" where
  "settle_and_show st dr transaction_id =
     bnd (try_settle st dr transaction_id) (\<lambda>_. bnd (the_transaction transaction_id) payment_response)"

definition payment_captured ::
  "settings \<Rightarrow> draws \<Rightarrow> uuid \<Rightarrow> merchant_profile \<Rightarrow> gateway \<Rightarrow> txn \<Rightarrow> payment_result \<Rightarrow> payment_out handler" where
  "payment_captured st dr user_id merchant gateway t result =
     (let t = t\<lparr> tx_status := CAPTURED, tx_receipt_number := Some (build_receipt_number dr) \<rparr> in
      bnd (liftr (assert_transition (Some PROCESSING) CAPTURED)) (\<lambda>_.
      bnd (move_to t (Some PROCESSING) (Some ''Card payment captured'') ''payment_gateway'') (\<lambda>_.
      bnd (payment_audit ''payment_captured'' (tx_id t) user_id
             (Some [(''gateway_reference'', JStr (gp_gateway_reference result))])) (\<lambda>_.
      bnd (attach_receipt dr t merchant (gateway_provider_name gateway)) (\<lambda>_.
      settle_and_show st dr (tx_id t))))))"

definition charge_transaction ::
  "settings \<Rightarrow> http \<Rightarrow> draws \<Rightarrow> uuid \<Rightarrow> create_payment_request \<Rightarrow> merchant_profile \<Rightarrow> gateway
    \<Rightarrow> protocol_definition option \<Rightarrow> decimal \<Rightarrow> txn \<Rightarrow> payment_out handler" where
  "charge_transaction st http dr user_id p merchant gateway defn amount t =
     bnd (liftr (gateway_charge gateway st http (dr_hex dr 0) (dr_hex dr 1) (dr_hex dr 2)
                   (charge_request p t amount defn))) (\<lambda>result.
     bnd (attempt_add (attempt_of t gateway result)) (\<lambda>_.
     let t = charged dr t result in
     if \<not> gp_success result then payment_declined user_id t result
     else if gp_signature_required result then payment_awaits_signature user_id t result
     else payment_captured st dr user_id merchant gateway t result))"

definition open_transaction ::
  "draws \<Rightarrow> uuid \<Rightarrow> create_payment_request \<Rightarrow> merchant_profile \<Rightarrow> string \<Rightarrow> decimal \<Rightarrow> int \<Rightarrow> gateway
    \<Rightarrow> protocol_definition option \<Rightarrow> txn handler" where
  "open_transaction dr user_id p merchant currency amount minor gateway defn =
     bnd (ask_db (\<lambda>d. gateway_get_by_provider d (gateway_provider_name gateway))) (\<lambda>row.
     bnd (liftr (assert_transition None PROCESSING)) (\<lambda>_.
     bnd (txn_add (new_transaction dr (me_id merchant) p currency amount minor gateway row defn)) (\<lambda>t.
     bnd (add_status_log (tx_id t) None PROCESSING (Some ''Payment initiated from POS'') ''payment_service'') (\<lambda>_.
     bnd (payment_audit ''payment_initiated'' (tx_id t) user_id
            (Some [(''amount_minor'', JInt minor), (''currency'', JStr currency),
                   (''payment_mode'', JStr (cp_payment_mode p)), (''protocol_code'', jopt (cp_protocol_code p)),
                   (''gateway'', JStr (gateway_provider_name gateway))])) (\<lambda>_.
     ret t)))))"

definition new_payment ::
  "settings \<Rightarrow> http \<Rightarrow> draws \<Rightarrow> uuid \<Rightarrow> create_payment_request \<Rightarrow> merchant_profile \<Rightarrow> string \<Rightarrow> decimal \<Rightarrow> int
    \<Rightarrow> payment_out handler" where
  "new_payment st http dr user_id p merchant currency amount minor =
     bnd (liftr (payment_protocol p)) (\<lambda>defn.
     bnd (check (\<not> (cp_payment_mode p = ''offline_test'' \<and> or_str (cp_gateway_provider p) ''sandbox'' \<noteq> ''sandbox''))
            (AppException (''offline_test mode is sandbox-only '' @ em_dash @ '' no real processor charges'') 422)) (\<lambda>_.
     bnd (liftr (get_payment_gateway st (cp_gateway_provider p))) (\<lambda>gateway.
     bnd (open_transaction dr user_id p merchant currency amount minor gateway defn) (\<lambda>t.
     charge_transaction st http dr user_id p merchant gateway defn amount t))))"

definition create_payment ::
  "settings \<Rightarrow> http \<Rightarrow> draws \<Rightarrow> uuid \<Rightarrow> create_payment_request \<Rightarrow> payment_out handler" where
  "create_payment st http dr user_id p =
     (let currency = upper (cp_currency p) in
      bnd (currency_check st currency) (\<lambda>_.
      bnd (resolve_merchant_for_user user_id) (\<lambda>merchant.
      bnd (liftr (resolve_amount p currency)) (\<lambda>(amount, minor).
      bnd (ask_db (find_existing p (me_id merchant))) (\<lambda>existing.
      case existing of
        Some t \<Rightarrow> bnd (the_transaction (tx_id t)) payment_response
      | None \<Rightarrow> new_payment st http dr user_id p merchant currency amount minor)))))"

section \<open>The other operations\<close>

definition signed_extra :: "complete_signature_request \<Rightarrow> dict \<Rightarrow> dict" where
  "signed_extra p extra =
     (let extra = dset ''signature_completed'' (JBool True) (dset ''signature_required'' (JBool False) extra) in
      if truthy (sg_signature_data_url p)
      then dset ''signature_bytes_approx'' (JInt (min (int (py_len (or_str (sg_signature_data_url p) []))) 200000))
             (dset ''signature_present'' (JBool True) extra)
      else extra)"

definition complete_signature ::
  "settings \<Rightarrow> draws \<Rightarrow> uuid \<Rightarrow> uuid \<Rightarrow> complete_signature_request \<Rightarrow> payment_out handler" where
  "complete_signature st dr user_id transaction_id p =
     bnd (resolve_merchant_for_user user_id) (\<lambda>merchant.
     bnd (own_transaction merchant transaction_id) (\<lambda>t.
     bnd (check (tx_status t = AUTHORIZED) (AppException ''Transaction is not awaiting signature'' 409)) (\<lambda>_.
     bnd (check (sg_acknowledged p) (AppException ''Signature must be acknowledged'' 422)) (\<lambda>_.
     bnd (liftr (assert_transition (Some AUTHORIZED) CAPTURED)) (\<lambda>_.
     let t = t\<lparr> tx_extra_data := signed_extra p (tx_extra_data t), tx_status := CAPTURED,
                 tx_receipt_number := Some (or_str (tx_receipt_number t) (build_receipt_number dr)) \<rparr> in
     bnd (move_to t (Some AUTHORIZED) (Some ''Signature completed; payment captured'') ''pos_signature'') (\<lambda>_.
     bnd (payment_audit ''signature_completed'' (tx_id t) user_id
            (Some [(''signature_present'', JBool (truthy (sg_signature_data_url p)))])) (\<lambda>_.
     bnd (gets (\<lambda>w. receipt_of (w_db w) (tx_id t))) (\<lambda>receipt.
     bnd (if receipt = None
          then attach_receipt dr t merchant (str_or (dget (tx_extra_data t) ''gateway_provider'') ''sandbox'')
          else ret ()) (\<lambda>_.
     settle_and_show st dr (tx_id t))))))))))"

definition cancel_payment :: "uuid \<Rightarrow> uuid \<Rightarrow> payment_out handler" where
  "cancel_payment user_id transaction_id =
     bnd (resolve_merchant_for_user user_id) (\<lambda>merchant.
     bnd (own_transaction merchant transaction_id) (\<lambda>t.
     bnd (liftr (assert_transition (Some (tx_status t)) CANCELLED)) (\<lambda>_.
     bnd (move_to (t\<lparr> tx_status := CANCELLED \<rparr>) (Some (tx_status t)) (Some ''Cancelled by merchant'')
            ''payment_service'') (\<lambda>_.
     bnd (payment_audit ''payment_cancelled'' (tx_id t) user_id None) (\<lambda>_.
     bnd commit (\<lambda>_.
     payment_response (t\<lparr> tx_status := CANCELLED \<rparr>)))))))"

definition get_payment :: "uuid \<Rightarrow> uuid \<Rightarrow> payment_out handler" where
  "get_payment user_id transaction_id =
     bnd (resolve_merchant_for_user user_id) (\<lambda>merchant.
     bnd (own_transaction merchant transaction_id) payment_response)"

record transaction_list_out =
  tlo_items :: "payment_out list"
  tlo_total :: nat
  tlo_page :: nat
  tlo_page_size :: nat

definition list_payments ::
  "uuid \<Rightarrow> string option \<Rightarrow> nat \<Rightarrow> nat \<Rightarrow> transaction_list_out handler" where
  "list_payments user_id status page page_size =
     bnd (resolve_merchant_for_user user_id) (\<lambda>merchant.
     gets (\<lambda>w.
       let (items, total) = txn_list_for_merchant (w_db w) (me_id merchant) status ((page - 1) * page_size) page_size
       in \<lparr> tlo_items = map (payment_out_of (w_db w)) items, tlo_total = total, tlo_page = page,
            tlo_page_size = page_size \<rparr>))"

definition get_receipt :: "uuid \<Rightarrow> uuid \<Rightarrow> receipt handler" where
  "get_receipt user_id transaction_id =
     bnd (resolve_merchant_for_user user_id) (\<lambda>merchant.
     bnd (own_transaction merchant transaction_id) (\<lambda>t.
     bnd (gets (\<lambda>w. receipt_of (w_db w) (tx_id t))) (\<lambda>receipt.
     expect (NotFoundError ''Receipt not found'') receipt)))"

definition refundable :: "transaction_status list" where
  "refundable = [CAPTURED, SUCCESS, SETTLEMENT_COMPLETE, SETTLEMENT_PENDING, COMPLETED]"

definition refund_amount :: "refund_payment_request \<Rightarrow> txn \<Rightarrow> decimal" where
  "refund_amount p t =
     (case rp_amount p of None \<Rightarrow> tx_amount t | Some a \<Rightarrow> if coeff a = 0 then tx_amount t else a)"

definition refund_payment ::
  "settings \<Rightarrow> http \<Rightarrow> draws \<Rightarrow> uuid \<Rightarrow> uuid \<Rightarrow> refund_payment_request \<Rightarrow> payment_out handler" where
  "refund_payment st http dr user_id transaction_id p =
     bnd (resolve_merchant_for_user user_id) (\<lambda>merchant.
     bnd (own_transaction merchant transaction_id) (\<lambda>t.
     bnd (check (tx_status t \<in> set refundable)
            (AppException (''Transaction status '' @ [CHR 0x27] @ status_value (tx_status t) @ [CHR 0x27] @
               '' cannot be refunded'') 409)) (\<lambda>_.
     bnd (check (truthy (tx_gateway_reference t)) (AppException ''Missing gateway reference for refund'' 409)) (\<lambda>_.
     bnd (liftr (get_payment_gateway st
            (Some (str_or (dget (tx_extra_data t) ''gateway_provider'') (default_payment_gateway st))))) (\<lambda>gateway.
     bnd (liftr (gateway_refund gateway st http (dr_hex dr 0)
            \<lparr> gf_gateway_reference = or_str (tx_gateway_reference t) [], gf_amount = refund_amount p t,
              gf_currency = tx_currency t, gf_reason = rp_reason p \<rparr>)) (\<lambda>result.
     bnd (check (gr_success result) (PaymentError (or_str (gr_error_message result) ''Refund failed''))) (\<lambda>_.
     bnd (move_to (t\<lparr> tx_status := REFUNDED, tx_failure_reason := rp_reason p \<rparr>) (Some (tx_status t))
            (Some (or_str (rp_reason p) (gr_refund_reference result))) ''payment_service'') (\<lambda>_.
     bnd (the_transaction (tx_id t)) payment_response))))))))"

section \<open>Webhooks\<close>

definition nowpayments_transaction :: "string \<Rightarrow> string \<Rightarrow> db \<Rightarrow> txn option res" where
  "nowpayments_transaction order_id reference d =
     bindr (if order_id \<noteq> [] then txn_get_by_merchant_reference_for_any_merchant d order_id else Inr None) (\<lambda>t.
     if t = None \<and> reference \<noteq> [] then txn_get_by_gateway_reference d reference else Inr t)"

definition nowpayments_apply :: "draws \<Rightarrow> payment_result \<Rightarrow> txn \<Rightarrow> txn" where
  "nowpayments_apply dr result t =
     (if gp_success result \<and> tx_status t \<in> set [FAILED, PROCESSING, PENDING] then
        t\<lparr> tx_status := CAPTURED,
           tx_receipt_number := Some (or_str (tx_receipt_number t) (build_receipt_number dr)) \<rparr>
      else if \<not> gp_success result \<and> tx_status t \<in> set [PROCESSING, PENDING] then
        t\<lparr> tx_status := FAILED, tx_failure_reason := gp_error_message result \<rparr>
      else t)"

definition webhook_matched :: "txn \<Rightarrow> dict" where
  "webhook_matched t = [(''accepted'', JBool True), (''matched'', JBool True), (''transaction_id'', JStr (tx_id t))]"

definition handle_nowpayments_webhook ::
  "settings \<Rightarrow> draws \<Rightarrow> (string \<times> string) list \<Rightarrow> dict \<Rightarrow> dict handler" where
  "handle_nowpayments_webhook st dr headers payload =
     bnd (liftr (get_payment_gateway st (Some ''nowpayments''))) (\<lambda>gateway.
     bnd (liftr (gateway_verify_callback gateway headers payload (dr_hex dr 0))) (\<lambda>result.
     let order_id = str_or (dget payload ''order_id'') [];
         reference = gp_gateway_reference result in
     bnd (ask_db (nowpayments_transaction order_id reference)) (\<lambda>t.
     case t of
       None \<Rightarrow> ret [(''accepted'', JBool True), (''matched'', JBool False),
                    (''gateway_reference'', JStr reference), (''order_id'', JStr order_id)]
     | Some t \<Rightarrow> bnd (txn_put (nowpayments_apply dr result t)) (\<lambda>_. ret (webhook_matched t)))))"

definition moyasar_apply :: "payment_result \<Rightarrow> txn \<Rightarrow> txn" where
  "moyasar_apply result t =
     (if gp_success result \<and> tx_status t = FAILED then t\<lparr> tx_status := CAPTURED \<rparr>
      else if \<not> gp_success result \<and> tx_status t \<in> set [PROCESSING, PENDING] then
        t\<lparr> tx_status := FAILED, tx_failure_reason := gp_error_message result \<rparr>
      else t)"

definition handle_moyasar_webhook ::
  "settings \<Rightarrow> draws \<Rightarrow> (string \<times> string) list \<Rightarrow> dict \<Rightarrow> dict handler" where
  "handle_moyasar_webhook st dr headers payload =
     bnd (liftr (get_payment_gateway st (Some ''moyasar''))) (\<lambda>gateway.
     bnd (liftr (gateway_verify_callback gateway headers payload (dr_hex dr 0))) (\<lambda>result.
     let reference = gp_gateway_reference result in
     if reference = [] then ret [(''accepted'', JBool True), (''matched'', JBool False)]
     else
       bnd (ask_db (\<lambda>d. txn_get_by_gateway_reference d reference)) (\<lambda>t.
       case t of
         None \<Rightarrow> ret [(''accepted'', JBool True), (''matched'', JBool False), (''gateway_reference'', JStr reference)]
       | Some t \<Rightarrow> bnd (txn_put (moyasar_apply result t)) (\<lambda>_. ret (webhook_matched t)))))"

section \<open>Static operations\<close>

record sandbox_token_out =
  sk_payment_method_token :: string
  sk_scenario :: string
  sk_card_last4 :: string
  sk_notice :: string

definition issue_sandbox_token :: "string \<Rightarrow> sandbox_token_out res" where
  "issue_sandbox_token test_pan_hint =
     (case map_of
        [(''4111111111111111'', (''pm_test_visa_success'', ''success'', ''1111'')),
         (''4000000000000002'', (''pm_test_visa_declined'', ''declined'', ''0002'')),
         (''4111111111111111_sig'', (''pm_test_visa_signature'', ''signature'', ''1111''))] test_pan_hint of
        None \<Rightarrow> Inl (KeyError test_pan_hint)
      | Some (token, scenario, last4) \<Rightarrow>
          Inr \<lparr> sk_payment_method_token = token, sk_scenario = scenario, sk_card_last4 = last4,
                sk_notice = ''TEST DATA ONLY '' @ em_dash @ '' not a real card; never send real PANs to this API.'' \<rparr>)"

record protocol_out =
  pt_selection_id :: string
  pt_code :: string
  pt_name :: string
  pt_display_label :: string
  pt_description :: string
  pt_mode :: string
  pt_connectivity :: string
  pt_sandbox_outcome :: string
  pt_digit_group :: "nat option"
  pt_family :: string
  pt_version :: string
  pt_enabled :: bool
  pt_documented :: bool
  pt_sandbox_only :: bool
  pt_requires_online_authorization :: bool
  pt_authorization_mode :: string
  pt_supported_transaction_types :: "string list"
  pt_allows_manual_entry :: bool
  pt_signature_likely :: bool
  pt_ui_environment_label :: string

definition protocol_out_of :: "protocol_definition \<Rightarrow> protocol_out" where
  "protocol_out_of item =
     \<lparr> pt_selection_id = pd_selection_id item, pt_code = pd_code item, pt_name = pd_name item,
       pt_display_label = display_label item, pt_description = pd_description item, pt_mode = pd_mode item,
       pt_connectivity = connectivity_name (pd_connectivity item),
       pt_sandbox_outcome = outcome_name (pd_sandbox_outcome item), pt_digit_group = pd_digit_group item,
       pt_family = pd_family item, pt_version = pd_version item, pt_enabled = pd_enabled item,
       pt_documented = pd_documented item, pt_sandbox_only = pd_sandbox_only item,
       pt_requires_online_authorization = pd_requires_online_authorization item,
       pt_authorization_mode = pd_authorization_mode item,
       pt_supported_transaction_types = pd_supported_transaction_types item,
       pt_allows_manual_entry = pd_allows_manual_entry item, pt_signature_likely = pd_signature_likely item,
       pt_ui_environment_label = pd_ui_environment_label item \<rparr>"

definition list_pos_protocols :: "string option \<Rightarrow> string option \<Rightarrow> string option \<Rightarrow> protocol_out list" where
  "list_pos_protocols md family transaction_type = map protocol_out_of (list_protocols md family transaction_type)"

section \<open>Routes\<close>

datatype payment_call =
    Create_Payment create_payment_request
  | List_Payments "string option" nat nat
  | Refund_Payment uuid refund_payment_request
  | Get_Payment uuid
  | Get_Receipt uuid
  | Complete_Signature uuid complete_signature_request
  | Cancel_Payment uuid
  | Nowpayments_Webhook "(string \<times> string) list" dict
  | Moyasar_Webhook "(string \<times> string) list" dict
  | Settle_Task uuid  \<comment> \<open>the Celery task\<close>

definition lower_headers :: "(string \<times> string) list \<Rightarrow> (string \<times> string) list" where
  "lower_headers headers = map (\<lambda>(k, v). (lower k, v)) headers"

text \<open>The world after a request; the caller of a webhook or a task plays no part.\<close>

fun serve_payment :: "settings \<Rightarrow> http \<Rightarrow> draws \<Rightarrow> uuid \<Rightarrow> payment_call \<Rightarrow> world \<Rightarrow> world" where
  "serve_payment st http dr u (Create_Payment p) w = fst (run_request (create_payment st http dr u p) w)"
| "serve_payment st http dr u (List_Payments s n k) w = fst (run_request (list_payments u s n k) w)"
| "serve_payment st http dr u (Refund_Payment i p) w = fst (run_request (refund_payment st http dr u i p) w)"
| "serve_payment st http dr u (Get_Payment i) w = fst (run_request (get_payment u i) w)"
| "serve_payment st http dr u (Get_Receipt i) w = fst (run_request (get_receipt u i) w)"
| "serve_payment st http dr u (Complete_Signature i p) w = fst (run_request (complete_signature st dr u i p) w)"
| "serve_payment st http dr u (Cancel_Payment i) w = fst (run_request (cancel_payment u i) w)"
| "serve_payment st http dr u (Nowpayments_Webhook h b) w =
     fst (run_request (handle_nowpayments_webhook st dr (lower_headers h) b) w)"
| "serve_payment st http dr u (Moyasar_Webhook h b) w =
     fst (run_request (handle_moyasar_webhook st dr (lower_headers h) b) w)"
| "serve_payment st http dr u (Settle_Task i) w = fst (settle_task st dr i w)"

end
