(* ===== verification/Payment_Books.thy ===== *)
theory Payment_Books
  imports Payments Ledger
begin

text \<open>
  Every operation of the payment service keeps the books of \<open>Ledger\<close>: one triple per operation, from
  those of its steps, and then any sequence of requests (\<open>payment_run\<close>).
\<close>

section \<open>Steps\<close>

text \<open>The merchant of a user stays the same while the books grow.\<close>

definition owner :: "uuid \<Rightarrow> merchant_profile \<Rightarrow> db \<Rightarrow> bool" where
  "owner u m d \<longleftrightarrow> merchant_get_by_owner d u = Inr (Some m) \<and> me_status m = M_ACTIVE"

lemma stable_owner [simp]: "stable (owner u m)"
  by (simp add: stable_def owner_def merchant_get_by_owner_def books_grow_def)

lemma led_resolve_merchant: "led p (resolve_merchant_for_user u) (\<lambda>m d. p d \<and> owner u m d) (\<lambda>_. True)"
  unfolding resolve_merchant_for_user_def
  by (rule led_steps led_ret TrueI | fastforce simp: owner_def)+

lemma led_own_transaction:
  "led p (own_transaction m i) (\<lambda>t d. p d \<and> loaded t d \<and> tx_id t = i \<and> t \<in> set (db_txns d) \<and> tx_merchant_id t = me_id m) (\<lambda>_. True)"
  unfolding own_transaction_def
  by (rule led_steps led_ret TrueI | fastforce dest: txn_detailed_loaded)+

lemma led_the_transaction:
  "led p (the_transaction i) (\<lambda>t d. p d \<and> loaded t d \<and> tx_id t = i) (\<lambda>_. True)"
  unfolding the_transaction_def
proof (rule led_steps, rule TrueI)
  fix t
  show "led (\<lambda>d. p d \<and> txn_get_detailed d i = Inr t) (expect AssertionError t)
      (\<lambda>t d. p d \<and> loaded t d \<and> tx_id t = i) (\<lambda>_. True)"
    by (rule led_conseq [OF led_expect [where p = "\<lambda>d. p d \<and> txn_get_detailed d i = Inr t" and e = "\<lambda>_. True"]])
      (auto dest: txn_detailed_loaded)
qed

lemma led_payment_response: "led p (payment_response t) (\<lambda>_. p) (\<lambda>_. True)"
  unfolding payment_response_def by (rule led_conseq [OF led_gets]) simp_all

lemma led_put_loaded:
  "(\<And>d. p d \<Longrightarrow> loaded t d) \<Longrightarrow> led p (txn_put t) (\<lambda>_. loaded t) (\<lambda>_. True)"
  by (rule led_conseq [OF led_txn_put [where p = p and t = t and e = "\<lambda>_. True" and I = "\<lambda>_. True"]])
    (auto dest: txn_in_loaded)

text \<open>A step that keeps the books keeps a loaded transaction loaded.\<close>

lemma led_past: "stable p \<Longrightarrow> keeps_books m \<Longrightarrow> led p m (\<lambda>_. p) (\<lambda>_. True)"
  by (rule led_conseq [OF led_keep]) simp_all

lemma led_any: "led (\<lambda>_. True) m q (\<lambda>_. True) \<Longrightarrow> led p m q (\<lambda>_. True)"
  by (rule led_conseq) simp_all

lemma loaded_logs [simp]: "loaded t (d\<lparr> db_status_logs := l \<rparr>) = loaded t d"
  by (simp add: loaded_def)

lemma loaded_update [simp]:
  "loaded (t\<lparr> tx_status := s \<rparr>) = loaded t" "loaded (t\<lparr> tx_receipt_number := r \<rparr>) = loaded t"
  "loaded (t\<lparr> tx_failure_reason := g \<rparr>) = loaded t" "loaded (t\<lparr> tx_extra_data := e \<rparr>) = loaded t"
  "loaded (t\<lparr> tx_gateway_reference := h \<rparr>) = loaded t" "loaded (t\<lparr> tx_payment_method := m \<rparr>) = loaded t"
  "loaded (t\<lparr> tx_payment_date := x \<rparr>) = loaded t"
  by (rule ext, rule loaded_core, simp, simp)+

lemma led_move_to:
  assumes "\<And>d. p d \<Longrightarrow> loaded t d"
  shows "led p (move_to t f n a) (\<lambda>_. loaded t) (\<lambda>_. True)"
  unfolding move_to_def
  by (rule led_bnd [OF led_put_loaded led_add_status_log]) (simp_all add: assms)

lemma led_moved: "(\<And>d. p d \<Longrightarrow> loaded t d) \<Longrightarrow> led p (move_to t f n a) (\<lambda>_ _. True) (\<lambda>_. True)"
  by (rule led_conseq [OF led_move_to [where p = p]]) simp_all

lemma led_payment_audit: "keeps_books (payment_audit a i u d)"
  unfolding payment_audit_def by (rule led_audit)

lemma led_attach_receipt: "led (loaded t) (attach_receipt dr t m g) (\<lambda>_. loaded t) (\<lambda>_. True)"
  unfolding attach_receipt_def Let_def
proof (rule led_bnd [where r = "\<lambda>_. loaded t"], rule led_if)
  show "led (loaded t) (txn_put (t\<lparr> tx_receipt_number := r \<rparr>)) (\<lambda>_. loaded t) (\<lambda>_. True)" for r
    by (rule led_conseq [OF led_put_loaded [where p = "loaded t"]]) simp_all
qed (rule led_ret, simp, rule led_past [OF stable_loaded led_receipt_add], simp)

lemma led_settlement_deferred: "keeps_books (settlement_deferred i err)"
  unfolding settlement_deferred_def
  by (rule led_if, rule led_raise, simp, rule led_steps, simp, rule led_bnd [OF led_the_transaction],
      rule led_moved) simp_all

lemma led_try_settle: "keeps_books (try_settle st dr i)"
  unfolding try_settle_def
  by (rule led_catch [OF led_bnd [OF led_prepare_and_settle] led_settlement_deferred]) (rule led_ret, rule TrueI)

text \<open>The answer of a payment operation: the transaction it shows.\<close>

definition shown_core :: "payment_out \<Rightarrow> txn_core" where
  "shown_core out = (pay_id out, pay_merchant_id out, pay_amount out, pay_currency out, pay_merchant_reference out,
     pay_created_at out)"

definition shown :: "txn \<Rightarrow> payment_out \<Rightarrow> db \<Rightarrow> bool" where
  "shown t out d \<longleftrightarrow> loaded t d \<and> shown_core out = core t"

lemma shown_out: "shown_core (payment_out_of d t) = core t"
  by (simp add: shown_core_def payment_out_of_def Let_def core_def)

lemma shown_update [simp]:
  "shown (t\<lparr> tx_status := s \<rparr>) = shown t" "shown (t\<lparr> tx_receipt_number := r \<rparr>) = shown t"
  by (rule ext, rule ext, simp add: shown_def)+

lemma same_core: "books_ok d \<Longrightarrow> loaded t d \<Longrightarrow> loaded u d \<Longrightarrow> tx_id t = tx_id u \<Longrightarrow> core t = core u"
proof -
  assume ok: "books_ok d" and l: "loaded t d" "loaded u d" and i: "tx_id t = tx_id u"
  obtain x y where xy: "x \<in> set (db_txns d)" "core x = core t" "y \<in> set (db_txns d)" "core y = core u"
    using l by (auto simp: loaded_def)
  have "x = y"
  proof (rule inj_onD [OF _ _ xy(1) xy(3)])
    show "inj_on tx_id (set (db_txns d))" using ok by (simp add: books_ok_def txns_ok_def distinct_map)
    show "tx_id x = tx_id y" using core_id [OF xy(2)] core_id [OF xy(4)] i by simp
  qed
  then show "core t = core u" using xy(2,4) by simp
qed

lemma led_show:
  "led (loaded t) (bnd (the_transaction (tx_id t)) payment_response) (shown t) (\<lambda>_. True)"
proof (rule led_bnd)
  show "led (loaded t) (the_transaction (tx_id t)) (\<lambda>t' d. loaded t d \<and> core t' = core t) (\<lambda>_. True)"
    by (rule led_conseq [OF led_the_transaction [where p = "loaded t"]]) (auto dest: same_core)
  show "led (\<lambda>d. loaded t d \<and> core t' = core t) (payment_response t') (shown t) (\<lambda>_. True)" for t'
    unfolding payment_response_def by (rule led_conseq [OF led_gets]) (auto simp: shown_def shown_out)
qed

lemma led_show_any: "keeps_books (bnd (the_transaction i) payment_response)"
  by (rule led_bnd [OF led_the_transaction]) (rule led_conseq [OF led_payment_response], simp_all)

lemma led_settle_and_show: "led (loaded t) (settle_and_show st dr (tx_id t)) (shown t) (\<lambda>_. True)"
  unfolding settle_and_show_def
  by (rule led_bnd [OF led_past [OF stable_loaded led_try_settle]]) (rule led_show)

lemma led_settle_any: "keeps_books (settle_and_show st dr i)"
  unfolding settle_and_show_def by (rule led_bnd [OF led_try_settle]) (rule led_any, rule led_show_any)

section \<open>Operations\<close>

lemma led_txn_add:
  assumes "tx_deleted_at t = None"
  shows "led (\<lambda>_. True) (txn_add t) (\<lambda>x d. loaded x d \<and> tx_merchant_id x = tx_merchant_id t
    \<and> tx_merchant_reference x = tx_merchant_reference t) (\<lambda>_. True)"
  unfolding txn_add_def
proof (rule led_steps, rule TrueI, rule led_steps, rule TrueI, rule led_bnd)
  fix x rows
  let ?p = "\<lambda>d. (True \<and> txn_stored t = Inr x) \<and> repo_add tx_id txn_constraints x (db_txns d) = Inr rows"
  let ?q = "\<lambda>d. loaded x d \<and> tx_merchant_id x = tx_merchant_id t \<and> tx_merchant_reference x = tx_merchant_reference t"
  show "led ?p (on_db (\<lambda>d. d\<lparr> db_txns := rows \<rparr>)) (\<lambda>_. ?q) (\<lambda>_. True)"
  proof (rule led_on_db, elim conjE)
    fix d
    assume d: "books_ok d" "txn_stored t = Inr x" "repo_add tx_id txn_constraints x (db_txns d) = Inr rows"
    have x: "tx_deleted_at x = None" "expo (tx_amount x) = - 2"
      using txn_stored_fields [OF d(2)] assms by simp_all
    note b = books_add_txn [OF d(1) d(3) x]
    have "loaded x (d\<lparr> db_txns := rows \<rparr>)" by (rule txn_in_loaded [OF b(1)]) (use b(3) in simp)
    then show "books_ok (d\<lparr> db_txns := rows \<rparr>) \<and> books_grow d (d\<lparr> db_txns := rows \<rparr>) \<and> ?q (d\<lparr> db_txns := rows \<rparr>)"
      using b(1,2) txn_stored_fields [OF d(2)] by simp
  qed
qed (rule led_ret)

lemma led_open_transaction:
  "led (\<lambda>_. True) (open_transaction dr u p m c a minor g defn)
     (\<lambda>t d. loaded t d \<and> tx_merchant_id t = me_id m \<and> tx_merchant_reference t = payment_reference p) (\<lambda>_. True)"
  unfolding open_transaction_def
proof (rule led_steps, rule TrueI, rule led_steps, rule TrueI, rule led_bnd)
  let ?own = "\<lambda>t. tx_merchant_id t = me_id m \<and> tx_merchant_reference t = payment_reference p"
  fix row x
  show "led (\<lambda>d. (True \<and> gateway_get_by_provider d (gateway_provider_name g) = Inr row)
      \<and> assert_transition None PROCESSING = Inr x) (txn_add (new_transaction dr (me_id m) p c a minor g row defn))
    (\<lambda>t d. loaded t d \<and> ?own t) (\<lambda>_. True)"
    by (rule led_conseq [OF led_txn_add]) (simp_all add: new_transaction_def)
  fix t
  show "led (\<lambda>d. loaded t d \<and> ?own t)
     (bnd (add_status_log (tx_id t) None PROCESSING (Some ''Payment initiated from POS'') ''payment_service'')
        (\<lambda>_. bnd (payment_audit ''payment_initiated'' (tx_id t) u
            (Some [(''amount_minor'', JInt minor), (''currency'', JStr c),
                   (''payment_mode'', JStr (cp_payment_mode p)), (''protocol_code'', jopt (cp_protocol_code p)),
                   (''gateway'', JStr (gateway_provider_name g))])) (\<lambda>_. ret t)))
     (\<lambda>t d. loaded t d \<and> ?own t) (\<lambda>_. True)"
    by (rule led_bnd, rule led_add_status_log, simp, rule led_bnd, rule led_past, simp,
        rule led_payment_audit, rule led_ret)
qed

lemma led_payment_declined: "led (loaded t) (payment_declined u t r) q (\<lambda>_. True)"
  unfolding payment_declined_def
  by (rule led_steps, simp, rule led_bnd [OF led_moved], simp,
      rule led_bnd [OF led_payment_audit], rule led_bnd [OF led_commit], rule led_raise, simp)

lemma led_payment_awaits_signature: "led (loaded t) (payment_awaits_signature u t r) (shown t) (\<lambda>_. True)"
proof -
  let ?t = "t\<lparr> tx_status := AUTHORIZED \<rparr>"
  have "led (loaded ?t) (bnd commit (\<lambda>_. bnd (the_transaction (tx_id ?t)) payment_response)) (shown ?t) (\<lambda>_. True)"
    by (rule led_bnd [OF led_commit]) (rule led_show)
  then show ?thesis
    unfolding payment_awaits_signature_def
    by (intro led_steps led_bnd [OF led_move_to] led_bnd [OF led_past [OF stable_loaded led_payment_audit]]) simp_all
qed

lemma led_payment_captured: "led (loaded t) (payment_captured st dr u m g t r) (shown t) (\<lambda>_. True)"
proof -
  let ?t = "t\<lparr> tx_status := CAPTURED, tx_receipt_number := Some (build_receipt_number dr) \<rparr>"
  have "led (loaded ?t) (settle_and_show st dr (tx_id ?t)) (shown ?t) (\<lambda>_. True)" by (rule led_settle_and_show)
  moreover have "led (loaded ?t) (attach_receipt dr ?t m (gateway_provider_name g)) (\<lambda>_. loaded ?t) (\<lambda>_. True)"
    by (rule led_attach_receipt)
  ultimately show ?thesis
    unfolding payment_captured_def Let_def
    by (intro led_steps led_bnd [OF led_move_to] led_bnd [OF led_past [OF stable_loaded led_payment_audit]]
        led_bnd [where r = "\<lambda>_. loaded ?t"]) simp_all
qed

lemma led_charge_transaction: "led (loaded t) (charge_transaction st h dr u p m g defn a t) (shown t) (\<lambda>_. True)"
proof -
  have c: "loaded (charged dr t r) = loaded t" "shown (charged dr t r) = shown t" for r
    by (simp_all add: charged_def Let_def shown_def fun_eq_iff)
  show ?thesis
    unfolding charge_transaction_def Let_def
  proof (rule led_steps, rule TrueI, rule led_bnd)
    show "led (\<lambda>d. loaded t d \<and> gateway_charge g st h (dr_hex dr 0) (dr_hex dr 1) (dr_hex dr 2)
        (charge_request p t a defn) = Inr r) (attempt_add (attempt_of t g r)) (\<lambda>_. loaded t) (\<lambda>_. True)" for r
      by (rule led_conseq [OF led_past [OF stable_loaded [of t] led_attempt_add]]) simp_all
    show "led (loaded t) (if \<not> gp_success r then payment_declined u (charged dr t r) r
        else if gp_signature_required r then payment_awaits_signature u (charged dr t r) r
        else payment_captured st dr u m g (charged dr t r) r) (shown t) (\<lambda>_. True)" for r
      unfolding c [of r, symmetric]
      by (intro led_if led_payment_declined led_payment_awaits_signature led_payment_captured)
  qed
qed

definition shows_payment_of :: "merchant_profile \<Rightarrow> payment_out \<Rightarrow> db \<Rightarrow> bool" where
  "shows_payment_of m out d \<longleftrightarrow> (\<exists>t. shown t out d \<and> tx_merchant_id t = me_id m)"

lemma led_new_payment:
  "led (\<lambda>_. True) (new_payment st h dr u p m c a minor) (shows_payment_of m) (\<lambda>_. True)"
  unfolding new_payment_def
proof (rule led_steps, rule TrueI, rule led_steps, rule TrueI, rule led_steps, rule TrueI, rule led_bnd,
    rule led_any [OF led_open_transaction])
  let ?own = "\<lambda>t. tx_merchant_id t = me_id m \<and> tx_merchant_reference t = payment_reference p"
  show "led (\<lambda>d. loaded t d \<and> ?own t) (charge_transaction st h dr u p m g defn a t) (shows_payment_of m)
      (\<lambda>_. True)" for g defn t
    by (rule led_conseq [OF led_frame [OF stable_const [of "?own t"] led_charge_transaction]])
      (auto simp: shows_payment_of_def)
qed

lemma led_create_payment_shows:
  "led (\<lambda>_. True) (create_payment st h dr u p) (\<lambda>out d. \<exists>m. owner u m d \<and> shows_payment_of m out d) (\<lambda>_. True)"
  unfolding create_payment_def currency_check_def Let_def
proof (rule led_steps, rule TrueI, rule led_bnd, rule led_resolve_merchant, rule led_steps, rule TrueI,
    rule led_split, rule led_steps, rule TrueI)
  fix existing :: "txn option" and c and a and minor and m :: merchant_profile and r r'
  let ?found = "\<lambda>d. find_existing p (me_id m) d = Inr existing"
  show "led (\<lambda>d. (((True \<and> r) \<and> owner u m d) \<and> r') \<and> ?found d)
      (case existing of
        None \<Rightarrow> new_payment st h dr u p m c a minor
      | Some t \<Rightarrow> bnd (the_transaction (tx_id t)) payment_response)
      (\<lambda>out d. \<exists>m. owner u m d \<and> shows_payment_of m out d) (\<lambda>_. True)"
  proof (cases existing)
    case None
    then show ?thesis
      by (auto intro: led_conseq [OF led_frame [OF stable_owner [of u m] led_new_payment]])
  next
    case (Some t)
    have "loaded t d \<and> tx_merchant_id t = me_id m" if "?found d" for d
      using that Some
      by (auto simp: find_existing_def txn_get_by_merchant_reference_def bindr_Inr_iff loaded_def base_query_def
          dest!: find_one_Some split: if_splits)
    then show ?thesis
      unfolding Some option.case
      by (intro led_conseq [OF led_frame [OF stable_conj [OF stable_owner [of u m] stable_const [of "tx_merchant_id t = me_id m"]]
          led_show [of t]]])
        (auto simp: shows_payment_of_def)
  qed
qed

lemma led_create_payment: "keeps_books (create_payment st h dr u p)"
  by (rule led_conseq [OF led_create_payment_shows]) simp_all

lemma led_complete_signature: "keeps_books (complete_signature st dr u i p)"
  unfolding complete_signature_def Let_def
proof (rule led_bnd, rule led_resolve_merchant, rule led_bnd, rule led_own_transaction,
    rule led_steps, rule TrueI, rule led_steps, rule TrueI, rule led_steps, rule TrueI,
    rule led_bnd, rule led_move_to, simp,
    rule led_bnd [OF led_past [OF stable_loaded led_payment_audit]], rule led_steps, rule led_bnd, rule led_if)
  fix t m g and q :: "db \<Rightarrow> bool"
  show "led (\<lambda>d. loaded t d \<and> q d) (attach_receipt dr t m g) (\<lambda>_ _. True) (\<lambda>_. True)"
    by (rule led_conseq [OF led_attach_receipt]) simp_all
qed (rule led_ret, simp, rule led_settle_any)

lemma led_cancel_payment: "keeps_books (cancel_payment u i)"
  unfolding cancel_payment_def
  by (rule led_bnd, rule led_resolve_merchant, rule led_bnd, rule led_own_transaction, rule led_steps, rule TrueI,
      rule led_bnd, rule led_moved, simp, rule led_bnd, rule led_payment_audit, rule led_bnd, rule led_commit,
      rule led_payment_response)

lemma led_get_payment: "keeps_books (get_payment u i)"
  unfolding get_payment_def
  by (rule led_bnd, rule led_resolve_merchant, rule led_bnd, rule led_own_transaction, rule led_any, rule led_conseq,
      rule led_payment_response) simp_all

lemma led_list_payments: "keeps_books (list_payments u s n k)"
  unfolding list_payments_def
  by (rule led_bnd, rule led_resolve_merchant, rule led_any, rule led_conseq, rule led_gets) simp_all

lemma led_get_receipt: "keeps_books (get_receipt u i)"
  unfolding get_receipt_def
  by (rule led_bnd, rule led_resolve_merchant, rule led_bnd, rule led_own_transaction, rule led_steps,
      rule led_conseq, rule led_expect) simp_all

lemma led_refund_payment: "keeps_books (refund_payment st h dr u i p)"
  unfolding refund_payment_def
  by (rule led_bnd, rule led_resolve_merchant, rule led_bnd, rule led_own_transaction,
      rule led_steps, rule TrueI, rule led_steps, rule TrueI, rule led_steps, rule TrueI,
      rule led_steps, rule TrueI, rule led_steps, rule TrueI, rule led_bnd, rule led_moved, simp, rule led_show_any)

lemma led_put: "(\<And>d. p d \<Longrightarrow> loaded t d) \<Longrightarrow> led p (txn_put t) (\<lambda>_ _. True) (\<lambda>_. True)"
  by (rule led_conseq [OF led_put_loaded [where p = p]]) simp_all

lemma base_query_loaded: "find_one P (base_query tx_deleted_at (db_txns d)) = Inr (Some t) \<Longrightarrow> loaded t d"
  by (auto simp: base_query_def loaded_def dest!: find_one_Some)

lemma led_handle_nowpayments_webhook: "keeps_books (handle_nowpayments_webhook st dr h b)"
  unfolding handle_nowpayments_webhook_def Let_def
proof (rule led_steps, rule TrueI, rule led_steps, rule TrueI, rule led_steps, rule TrueI)
  fix g r and t' :: "txn option"
  have l: "loaded t d" if "nowpayments_transaction o' f d = Inr (Some t)" for o' f t d
    using that unfolding nowpayments_transaction_def txn_get_by_merchant_reference_for_any_merchant_def
      txn_get_by_gateway_reference_def
    by (auto simp: bindr_Inr_iff dest: base_query_loaded split: if_splits)
  have a: "loaded (nowpayments_apply dr r t) = loaded t" for t
    by (simp add: nowpayments_apply_def)
  let ?ref = "gp_gateway_reference r" and ?o = "str_or (dget b ''order_id'') []"
  show "led (\<lambda>d. ((True \<and> get_payment_gateway st (Some ''nowpayments'') = Inr g)
        \<and> gateway_verify_callback g h b (dr_hex dr 0) = Inr r) \<and> nowpayments_transaction ?o ?ref d = Inr t')
     (case t' of
       None \<Rightarrow> ret [(''accepted'', JBool True), (''matched'', JBool False),
                    (''gateway_reference'', JStr ?ref), (''order_id'', JStr ?o)]
     | Some t \<Rightarrow> bnd (txn_put (nowpayments_apply dr r t)) (\<lambda>_. ret (webhook_matched t))) (\<lambda>_ _. True) (\<lambda>_. True)"
    by (cases t') (auto intro!: led_ret led_bnd [OF led_put] dest: l simp: a)
qed

lemma led_handle_moyasar_webhook: "keeps_books (handle_moyasar_webhook st dr h b)"
  unfolding handle_moyasar_webhook_def Let_def
proof (rule led_steps, rule TrueI, rule led_steps, rule TrueI, rule led_if, rule led_ret, rule TrueI,
    rule led_steps, rule TrueI)
  fix g r and t' :: "txn option"
  have l: "loaded t d" if "txn_get_by_gateway_reference d f = Inr (Some t)" for f t d
    using that unfolding txn_get_by_gateway_reference_def by (rule base_query_loaded)
  have a: "loaded (moyasar_apply r t) = loaded t" for t
    by (simp add: moyasar_apply_def)
  let ?ref = "gp_gateway_reference r"
  show "led (\<lambda>d. ((True \<and> get_payment_gateway st (Some ''moyasar'') = Inr g)
        \<and> gateway_verify_callback g h b (dr_hex dr 0) = Inr r) \<and> txn_get_by_gateway_reference d ?ref = Inr t')
     (case t' of
        None \<Rightarrow> ret [(''accepted'', JBool True), (''matched'', JBool False), (''gateway_reference'', JStr ?ref)]
      | Some t \<Rightarrow> bnd (txn_put (moyasar_apply r t)) (\<lambda>_. ret (webhook_matched t))) (\<lambda>_ _. True) (\<lambda>_. True)"
    by (cases t') (auto intro!: led_ret led_bnd [OF led_put] dest: l simp: a)
qed

section \<open>Requests\<close>

lemma serve_payment_books:
  assumes "clean w"
  shows "clean (serve_payment st h dr u c w) \<and> books_grow (w_db w) (w_db (serve_payment st h dr u c w))"
  by (cases c)
    (simp_all add: settle_task_def run_request_books [OF _ assms] led_create_payment led_list_payments
      led_refund_payment led_get_payment led_get_receipt led_complete_signature led_cancel_payment
      led_handle_nowpayments_webhook led_handle_moyasar_webhook led_prepare_and_settle)

text \<open>Any sequence of requests, each with a gateway, draws and a caller of its own.\<close>

inductive payment_run :: "settings \<Rightarrow> world \<Rightarrow> world \<Rightarrow> bool" for st where
  payment_start: "payment_run st w w"
| payment_request: "payment_run st w w' \<Longrightarrow> payment_run st w (serve_payment st h dr u c w')"

lemma payment_run_books: "payment_run st w w' \<Longrightarrow> clean w \<Longrightarrow> clean w' \<and> books_grow (w_db w) (w_db w')"
  by (induction rule: payment_run.induct) (auto dest: serve_payment_books intro: books_grow_trans)

end
