(* ===== verification/Settlement_Results.thy ===== *)
theory Settlement_Results
  imports Ledger Session_Properties
begin

text \<open>
  What a settlement that returns has done: one lemma per stage of the engine, and the property of the
  whole. The amounts are exact: the USDT amount is the net amount times the rate, without rounding.
\<close>

section \<open>Stages\<close>

lemma settle_guard_result:
  assumes "settle_guard i w = (w', Inr (t, existing))"
  shows "w' = w" "t \<in> set (db_txns (w_db w))" "tx_id t = i" "tx_status t \<in> set settleable"
    "settlement_get_by_transaction (w_db w) i = Inr existing"
  using assms unfolding settle_guard_def bnd_Inr expect_def check_def
  by (auto split: option.split_asm if_split_asm dest: txn_detailed_loaded)

lemma txn_put_result:
  "txn_put t w = (w', Inr x) \<Longrightarrow> w' = w\<lparr> w_db := (w_db w)\<lparr> db_txns := repo_update tx_id t (db_txns (w_db w)) \<rparr> \<rparr>"
  unfolding txn_put_def bnd_Inr by auto

lemma settle_start_result:
  assumes "settle_start st t w = (w', Inr (t', net))"
  shows "\<exists>fee net0. calculate_fees st (tx_amount t) = Inr (fee, net0) \<and> numeric 18 2 net0 = Inr net"
    "tx_id t' = tx_id t" "tx_currency t' = tx_currency t" "tx_net_amount t' = net"
    "db_txns (w_db w') = repo_update tx_id t' (db_txns (w_db w))"
    "db_settlements (w_db w') = db_settlements (w_db w)" "db_transfer_logs (w_db w') = db_transfer_logs (w_db w)"
  using assms unfolding settle_start_def Let_def bnd_Inr add_status_log_def
  by (auto split: prod.split_asm simp: bnd_Inr dest!: txn_put_result)

lemma settlement_add_result:
  assumes "settlement_add s w = (w', Inr x)"
  shows "settlement_stored s = Inr x" "x \<in> set (db_settlements (w_db w'))" "db_txns (w_db w') = db_txns (w_db w)"
    "db_transfer_logs (w_db w') = db_transfer_logs (w_db w)"
  using assms unfolding settlement_add_def bnd_Inr by (auto simp: repo_add_def split: if_splits)

lemma settlement_put_result:
  assumes "settlement_put s w = (w', Inr x)" "\<exists>r \<in> set (db_settlements (w_db w)). se_id r = se_id s"
  shows "settlement_stored s = Inr x" "x \<in> set (db_settlements (w_db w'))" "db_txns (w_db w') = db_txns (w_db w)"
    "db_transfer_logs (w_db w') = db_transfer_logs (w_db w)"
  using assms settlement_stored_fields [of s x]
  unfolding settlement_put_def bnd_Inr by (auto simp: set_repo_update split: if_splits)

lemma settlement_stored_amounts:
  "settlement_stored s = Inr x \<Longrightarrow> numeric 18 2 (se_fiat_amount s) = Inr (se_fiat_amount x)
     \<and> numeric 24 8 (se_usdt_amount s) = Inr (se_usdt_amount x)
     \<and> numeric 24 8 (se_exchange_rate s) = Inr (se_exchange_rate x)
     \<and> se_blockchain_tx_hash x = se_blockchain_tx_hash s"
  by (auto simp: settlement_stored_def bindr_Inr_iff)

lemma settle_quote_result:
  assumes "settle_quote st dr t existing wallet net w = (w', Inr s)"
    and "case existing of None \<Rightarrow> True | Some r \<Rightarrow> r \<in> set (db_settlements (w_db w)) \<and> se_transaction_id r = tx_id t"
  shows "\<exists>e u q l. exchange_convert e net (tx_currency t) ''USDT'' = Inr (u, q)
      \<and> numeric 18 2 net = Inr (se_fiat_amount s) \<and> numeric 24 8 u = Inr (se_usdt_amount s)
      \<and> numeric 24 8 (eq_sell_rate q) = Inr (se_exchange_rate s)
      \<and> db_transfer_logs (w_db w') = db_transfer_logs (w_db w) @ [l]
      \<and> s \<in> set (db_settlements (w_db w')) \<and> se_transaction_id s = tx_id t
      \<and> db_txns (w_db w') = db_txns (w_db w)"
proof -
  let ?row = "\<lambda>u q. case existing of
            Some s \<Rightarrow> settlement_put (s\<lparr> se_fiat_amount := net, se_usdt_amount := u,
                          se_exchange_rate := eq_sell_rate q, se_exchange_provider := eq_provider q,
                          se_status := S_PROCESSING, se_failure_reason := None \<rparr>)
          | None \<Rightarrow> settlement_add (new_settlement dr t wallet net u q)"
  from assms(1) obtain e u q w1 l where x: "exchange_convert e net (tx_currency t) ''USDT'' = Inr (u, q)"
    and row: "?row u q w = (w1, Inr s)"
    and w': "w' = w1\<lparr> w_db := (w_db w1)\<lparr> db_transfer_logs := db_transfer_logs (w_db w1) @ [l] \<rparr> \<rparr>"
    unfolding settle_quote_def bnd_Inr transfer_log_add_def by (auto simp: bnd_Inr split: prod.split_asm)
  have "numeric 18 2 net = Inr (se_fiat_amount s) \<and> numeric 24 8 u = Inr (se_usdt_amount s)
      \<and> numeric 24 8 (eq_sell_rate q) = Inr (se_exchange_rate s)
      \<and> s \<in> set (db_settlements (w_db w1)) \<and> se_transaction_id s = tx_id t
      \<and> db_txns (w_db w1) = db_txns (w_db w) \<and> db_transfer_logs (w_db w1) = db_transfer_logs (w_db w)"
  proof (cases existing)
    case None
    then have a: "settlement_add (new_settlement dr t wallet net u q) w = (w1, Inr s)" using row by simp
    note r = settlement_add_result [OF a]
    show ?thesis
      using r settlement_stored_amounts [OF r(1)] settlement_stored_fields [OF r(1)] by (simp add: new_settlement_def)
  next
    case (Some r0)
    let ?s = "r0\<lparr> se_fiat_amount := net, se_usdt_amount := u, se_exchange_rate := eq_sell_rate q,
                  se_exchange_provider := eq_provider q, se_status := S_PROCESSING, se_failure_reason := None \<rparr>"
    have a: "settlement_put ?s w = (w1, Inr s)" using row Some by simp
    have "\<exists>r \<in> set (db_settlements (w_db w)). se_id r = se_id ?s" using assms(2) Some by auto
    note r = settlement_put_result [OF a this]
    show ?thesis
      using r settlement_stored_amounts [OF r(1)] settlement_stored_fields [OF r(1)] assms(2) Some by simp
  qed
  then show ?thesis using x w' by (intro exI [of _ e] exI [of _ u] exI [of _ q] exI [of _ l]) simp
qed

lemma settle_transfer_result:
  assumes "settle_transfer st dr t s wallet w = (w', Inr s')" "s \<in> set (db_settlements (w_db w))"
    "settlement_stored s = Inr s"
  shows "trc20_validate_address (wa_wallet_address wallet)"
    "s' = s\<lparr> se_blockchain_tx_hash := Some (''trc20_'' @ dr_hex dr 4), se_confirmation_count := 1, se_status := S_COMPLETED \<rparr>"
    "s' \<in> set (db_settlements (w_db w'))"
    "db_txns (w_db w') = repo_update tx_id (t\<lparr> tx_status := COMPLETED \<rparr>) (db_txns (w_db w))"
    "\<exists>l. db_transfer_logs (w_db w') = db_transfer_logs (w_db w) @ [l] \<and> tl_settlement_id l = se_id s
       \<and> tl_action l = ''wallet_transfer'' \<and> tl_status l = ''success''
       \<and> dget (tl_payload l) ''to'' = JStr (wa_wallet_address wallet)
       \<and> dget (tl_payload l) ''amount'' = JStr (dec_str (se_usdt_amount s))"
proof -
  define tr where "tr = trc20_transfer \<lparr> wt_to_address = wa_wallet_address wallet, wt_amount = se_usdt_amount s,
             wt_network = wa_wallet_network wallet, wt_currency = ''USDT'',
             wt_memo = Some (''settlement:'' @ tx_id t),
             wt_metadata = [(''transaction_id'', JStr (tx_id t))] \<rparr> (dr_hex dr 4)"
  define l where "l = \<lparr> tl_settlement_id = se_id s, tl_action = ''wallet_transfer'', tl_status = transfer_status tr,
              tl_payload = wr_raw_response tr, tl_message = wr_error_message tr \<rparr>"
  define w1 where "w1 = w\<lparr> w_db := (w_db w)\<lparr> db_transfer_logs := db_transfer_logs (w_db w) @ [l] \<rparr> \<rparr>"
  have p: "wallet_transfer provider = trc20_transfer" for provider by (cases provider) (simp add: fun_eq_iff)
  have "(if \<not> wr_success tr then settle_failed t s tr else settle_done t s tr) w1 = (w', Inr s')"
    using assms(1) unfolding settle_transfer_def Let_def bnd_Inr transfer_log_add_def
    by (auto simp: p tr_def l_def w1_def)
  then have ok: "wr_success tr" and d: "settle_done t s tr w1 = (w', Inr s')"
    unfolding settle_failed_def by (auto simp: Let_def bnd_Inr split: if_splits)
  then show a: "trc20_validate_address (wa_wallet_address wallet)" by (simp add: tr_def trc20_transfer_success)
  have tr: "wr_tx_hash tr = Some (''trc20_'' @ dr_hex dr 4)" "wr_confirmation_count tr = 1"
    using a by (simp_all add: tr_def trc20_transfer_def)
  let ?s = "s\<lparr> se_blockchain_tx_hash := Some (''trc20_'' @ dr_hex dr 4), se_confirmation_count := 1, se_status := S_COMPLETED \<rparr>"
  from d obtain w2 w3 where w2: "settlement_put ?s w1 = (w2, Inr s')"
      and w3: "txn_put (t\<lparr> tx_status := COMPLETED \<rparr>) w2 = (w3, Inr ())"
      and w': "db_settlements (w_db w') = db_settlements (w_db w3)" "db_txns (w_db w') = db_txns (w_db w3)"
        "db_transfer_logs (w_db w') = db_transfer_logs (w_db w3)"
    unfolding settle_done_def bnd_Inr add_status_log_def tr by auto
  have "\<exists>r \<in> set (db_settlements (w_db w1)). se_id r = se_id ?s" using assms(2) by (auto simp: w1_def)
  note r = settlement_put_result [OF w2 this]
  show "s' = ?s" using r(1) settlement_stored_ends(1) [OF assms(3)] by simp
  show "s' \<in> set (db_settlements (w_db w'))" using r(2) w' txn_put_result [OF w3] by simp
  show "db_txns (w_db w') = repo_update tx_id (t\<lparr> tx_status := COMPLETED \<rparr>) (db_txns (w_db w))"
    using r(3) w' txn_put_result [OF w3] by (simp add: w1_def)
  show "\<exists>l. db_transfer_logs (w_db w') = db_transfer_logs (w_db w) @ [l] \<and> tl_settlement_id l = se_id s
       \<and> tl_action l = ''wallet_transfer'' \<and> tl_status l = ''success''
       \<and> dget (tl_payload l) ''to'' = JStr (wa_wallet_address wallet)
       \<and> dget (tl_payload l) ''amount'' = JStr (dec_str (se_usdt_amount s))"
    using r(4) w' txn_put_result [OF w3] a ok
    by (intro exI [of _ l]) (simp add: w1_def l_def transfer_status_def tr_def trc20_transfer_def dget_def)
qed

section \<open>The settlement\<close>

lemma exact_conversion:
  assumes "exchange_convert e net c ''USDT'' = Inr (u, q)" "numeric 18 2 x = Inr net"
    and "numeric 24 8 u = Inr u'" "numeric 24 8 (eq_sell_rate q) = Inr r'"
  shows "100 * coeff u' = coeff net * coeff r'" "expo u' = - 8" "expo r' = - 8" "expo net = - 2"
proof -
  show expos: "expo u' = - 8" "expo r' = - 8" "expo net = - 2"
    using numeric_expo [OF assms(3)] numeric_expo [OF assms(4)] numeric_expo [OF assms(2)] by simp_all
  obtain n where n: "net = Dec n (- 2)" using expos(3) by (cases net) simp
  have "nat \<bar>n\<bar> < 10 ^ 18" using assms(2) n by (auto simp: numeric_def Let_def split: if_splits)
  then have b: "\<bar>n\<bar> < 10 ^ 20" by simp
  have c: "sandbox_convert (Dec n (- 2)) c ''USDT'' = Inr (u, q)" using assms(1) n by (cases e) simp
  then have g: "sandbox_get_rate c ''USDT'' = Inr q" by (auto simp: sandbox_convert_def bindr_Inr_iff)
  from sandbox_convert_exact [OF g b] obtain r where r: "eq_sell_rate q = Dec r (- 4)" "u = Dec (n * r * 100) (- 8)"
    using c by auto
  have "u' = Dec (n * r * 100) (- 8)" using assms(3) r(2) by (auto simp: numeric_def Let_def rescale_def split: if_splits)
  moreover have "r' = Dec (r * 10 ^ 4) (- 8)"
    using assms(4) r(1) by (auto simp: numeric_def Let_def rescale_def split: if_splits)
  ultimately show "100 * coeff u' = coeff net * coeff r'" using n by simp
qed

section \<open>A settlement goes through\<close>

lemma txn_found:
  assumes "books_ok d" "t \<in> set (db_txns d)"
  shows "txn_get_detailed d (tx_id t) = Inr (Some t)"
proof -
  have tok: "txns_ok (db_txns d)" using assms(1) by (simp add: books_ok_def)
  then have b: "base_query tx_deleted_at (db_txns d) = db_txns d" by (simp add: base_query_def txns_ok_def)
  have inj: "inj_on tx_id (set (db_txns d))" and dist: "distinct (db_txns d)"
    using tok by (auto simp: txns_ok_def distinct_map)
  have "find_one (\<lambda>x. tx_id x = tx_id t) (db_txns d) = Inr (Some t)"
    by (rule find_one_the [OF dist assms(2)]) (use inj_onD [OF inj _ _ assms(2)] in auto)
  then show ?thesis by (simp add: txn_get_detailed_def repo_get_by_id_def b)
qed

lemma settle_start_succeeds:
  assumes "books_ok (w_db w)" "t \<in> set (db_txns (w_db w))"
    and "calculate_fees st (tx_amount t) = Inr (fee, net0)" "numeric 18 2 fee = Inr fee'" "numeric 18 2 net0 = Inr net"
  shows "\<exists>w' t'. settle_start st t w = (w', Inr (t', net)) \<and> tx_receipt_number t' = tx_receipt_number t"
proof -
  have "txn_unique_receipt (t\<lparr> tx_fees := x, tx_tax := y, tx_net_amount := z, tx_status := s \<rparr>)
      (filter (\<lambda>r. tx_id r \<noteq> tx_id t) (db_txns (w_db w)))" for x y z s
    using assms(1,2) by (auto simp: books_ok_def txns_ok_def txn_unique_receipt_def)
  then show ?thesis
    using assms(3-5) by (simp add: settle_start_def Let_def txn_put_run status_log_run)
qed

definition quoted :: "settlement option \<Rightarrow> settlement \<Rightarrow> settlement" where
  \<comment> \<open>the row of the quote: a new one, or the one of an earlier attempt with the new amounts\<close>
  "quoted existing s =
     (case existing of
        None \<Rightarrow> s
      | Some r \<Rightarrow> r\<lparr> se_fiat_amount := se_fiat_amount s, se_usdt_amount := se_usdt_amount s,
          se_exchange_rate := se_exchange_rate s, se_exchange_provider := se_exchange_provider s,
          se_status := S_PROCESSING, se_failure_reason := None \<rparr>)"

lemma settle_quote_succeeds:
  assumes "exchange_convert SandboxExchangeProvider net (tx_currency t) ''USDT'' = Inr (u, q)"
    and "get_exchange_provider st None = Inr SandboxExchangeProvider"
    and "settlement_stored (quoted existing (new_settlement dr t wallet net u q)) = Inr x" "0 < coeff (se_usdt_amount x)"
    and "existing = None \<Longrightarrow> \<forall>s \<in> set (db_settlements (w_db w)). se_id s \<noteq> dr_uuid dr 2 \<and> se_transaction_id s \<noteq> tx_id t"
  shows "\<exists>w'. settle_quote st dr t existing wallet net w = (w', Inr x)"
proof (cases existing)
  case None
  have f: "se_id x = dr_uuid dr 2" "se_transaction_id x = tx_id t"
    using settlement_stored_fields [OF assms(3)] None by (simp_all add: quoted_def new_settlement_def)
  have "repo_add se_id settlement_constraints x (db_settlements (w_db w)) = Inr (db_settlements (w_db w) @ [x])"
    using assms(4,5) None f by (auto simp: repo_add_def settlement_constraints_def list_ex_iff)
  then show ?thesis
    using assms(1-3) None by (simp add: settle_quote_def settlement_add_def bnd_assoc transfer_log_add_def quoted_def)
next
  case (Some r)
  then have "settlement_stored (r\<lparr> se_fiat_amount := net, se_usdt_amount := u, se_exchange_rate := eq_sell_rate q,
      se_exchange_provider := eq_provider q, se_status := S_PROCESSING, se_failure_reason := None \<rparr>) = Inr x"
    using assms(3) by (simp add: quoted_def new_settlement_def)
  then show ?thesis
    using assms(1,2,4) Some by (simp add: settle_quote_def settlement_put_def bnd_assoc transfer_log_add_def)
qed

lemma settle_transfer_succeeds:
  assumes "get_wallet_provider st (Some (wa_wallet_network wallet)) = Inr Trc20WalletProvider"
    and "trc20_validate_address (wa_wallet_address wallet)"
    and "settlement_stored s = Inr s" "0 < coeff (se_usdt_amount s)"
    and "txn_unique_receipt t (filter (\<lambda>r. tx_id r \<noteq> tx_id t) (db_txns (w_db w)))"
  shows "\<exists>w' s'. settle_transfer st dr t s wallet w = (w', Inr s')"
proof -
  have "txn_unique_receipt (t\<lparr> tx_status := x \<rparr>) (filter (\<lambda>r. tx_id r \<noteq> tx_id t) (db_txns (w_db w)))" for x
    using assms(5) by (simp add: txn_unique_receipt_def)
  then show ?thesis
    using assms(1-4)
    by (simp add: settle_transfer_def Let_def transfer_log_run trc20_transfer_def settle_done_def settlement_put_run
        settlement_stored_ends txn_put_run status_log_run)
qed

lemma numeric_cents: "0 \<le> x \<Longrightarrow> x < 10 ^ 17 \<Longrightarrow> numeric 18 2 (Dec x (- 2)) = Inr (Dec x (- 2))"
  by (simp add: numeric_def Let_def rescale_def)

lemma no_settlement:
  "\<forall>s \<in> set (db_settlements d). se_id s \<noteq> j \<and> se_transaction_id s \<noteq> i \<Longrightarrow> settlement_get_by_transaction d i = Inr None"
proof -
  assume "\<forall>s \<in> set (db_settlements d). se_id s \<noteq> j \<and> se_transaction_id s \<noteq> i"
  then have "filter (\<lambda>s. se_transaction_id s = i) (base_query se_deleted_at (db_settlements d)) = []"
    by (auto simp: base_query_def filter_empty_conv)
  then show ?thesis by (simp add: settlement_get_by_transaction_def find_one_def)
qed

lemma uncompleted:
  assumes "books_ok d" "\<forall>s \<in> set (db_settlements d). se_transaction_id s = i \<longrightarrow> se_status s \<noteq> S_COMPLETED"
  shows "\<exists>existing. settlement_get_by_transaction d i = Inr existing \<and> completed_settlement existing = None"
proof (cases "\<exists>s \<in> set (db_settlements d). se_transaction_id s = i")
  case False
  then have "filter (\<lambda>s. se_transaction_id s = i) (base_query se_deleted_at (db_settlements d)) = []"
    by (auto simp: base_query_def filter_empty_conv)
  then show ?thesis by (simp add: completed_settlement_def settlement_get_by_transaction_def find_one_def)
next
  case True
  then obtain s where s: "s \<in> set (db_settlements d)" "se_transaction_id s = i" by blast
  have p: "payouts_ok (db_settlements d) (db_transfer_logs d)" using assms(1) by (simp add: books_ok_def)
  have "find_one (\<lambda>s. se_transaction_id s = i) (db_settlements d) = Inr (Some s)"
  proof (rule find_one_the)
    show "distinct (db_settlements d)" using p by (simp add: payouts_ok_def distinct_map)
    show "y = s" if "y \<in> set (db_settlements d)" "se_transaction_id y = i" for y
      using same_key [of se_transaction_id "db_settlements d" y s] p s that by (simp add: payouts_ok_def)
  qed (use s in simp_all)
  then show ?thesis
    using assms(2) s base_query_payouts [OF p] by (auto simp: settlement_get_by_transaction_def completed_settlement_def)
qed

lemma settlement_runs:
  assumes ok: "books_ok (w_db w)" and t: "t \<in> set (db_txns (w_db w))" "tx_status t \<in> set settleable"
    and pending: "\<forall>s \<in> set (db_settlements (w_db w)). se_id s \<noteq> dr_uuid dr 2"
      "\<forall>s \<in> set (db_settlements (w_db w)). se_transaction_id s = tx_id t \<longrightarrow> se_status s \<noteq> S_COMPLETED"
    and wallet: "wallet_get_primary (w_db w) (tx_merchant_id t) = Some wallet" "trc20_validate_address (wa_wallet_address wallet)"
      "get_wallet_provider st (Some (wa_wallet_network wallet)) = Inr Trc20WalletProvider"
    and rate: "get_exchange_provider st None = Inr SandboxExchangeProvider" "is_ok (sandbox_get_rate (tx_currency t) ''USDT'')"
    and fees: "calculate_fees st (tx_amount t) = Inr (Dec f (- 2), Dec n (- 2))" "0 \<le> f" "f < 10 ^ 17" "0 < n" "n < 10 ^ 17"
  shows "\<exists>w' s. prepare_and_settle st dr (tx_id t) w = (w', Inr s)"
proof -
  have l: "loaded t (w_db w)" using txn_in_loaded ok t(1) by blast
  note det = txn_found [OF ok t(1)]
  obtain existing where ex: "settlement_get_by_transaction (w_db w) (tx_id t) = Inr existing" "completed_settlement existing = None"
    using uncompleted [OF ok pending(2)] by blast
  note idle = existing_idle [OF ok ex]
  have new: "existing = None \<Longrightarrow> \<forall>s \<in> set (db_settlements (w_db w)). se_id s \<noteq> dr_uuid dr 2 \<and> se_transaction_id s \<noteq> tx_id t"
    using idle pending(1) by (auto simp: idle_def)
  obtain w1 t1 where start: "settle_start st t w = (w1, Inr (t1, Dec n (- 2)))" "tx_receipt_number t1 = tx_receipt_number t"
    using settle_start_succeeds [OF ok t(1) fees(1) numeric_cents numeric_cents] fees(2-5) by auto
  note st = settle_start_result [OF start(1)]
  obtain q where q: "sandbox_get_rate (tx_currency t) ''USDT'' = Inr q" using rate(2) by (auto simp: is_ok_iff)
  have "\<bar>n\<bar> < 10 ^ 20" using fees(4,5) by simp
  from sandbox_convert_exact [OF q this] obtain r where r: "eq_sell_rate q = Dec r (- 4)" "0 < r" "r \<le> 10800"
    "sandbox_convert (Dec n (- 2)) (tx_currency t) ''USDT'' = Inr (Dec (n * r * 100) (- 8), q)" by blast
  have "n * r \<le> 10 ^ 17 * 10800" using fees(4,5) r(2,3) by (intro mult_mono) auto
  then have big: "nat \<bar>n * r * 100\<bar> < 10 ^ 24" "0 < n * r * 100" using fees(4) r(2) by (simp_all add: abs_mult)
  define x where "x = (quoted existing (new_settlement dr t1 wallet (Dec n (- 2)) (Dec (n * r * 100) (- 8)) q))
    \<lparr> se_exchange_rate := Dec (r * 10 ^ 4) (- 8) \<rparr>"
  have rate8: "numeric 24 8 (Dec r (- 4)) = Inr (Dec (r * 10 ^ 4) (- 8))" "numeric 24 8 (Dec (n * r * 100) (- 8)) = Inr (Dec (n * r * 100) (- 8))"
    using big r(2,3) by (simp_all add: numeric_def Let_def rescale_def)
  have x: "settlement_stored (quoted existing (new_settlement dr t1 wallet (Dec n (- 2)) (Dec (n * r * 100) (- 8)) q)) = Inr x"
    using r(1) fees(4,5) rate8
    by (cases existing) (simp_all add: settlement_stored_def quoted_def new_settlement_def x_def numeric_cents)
  have xpos: "0 < coeff (se_usdt_amount x)" using big(2) by (cases existing) (simp_all add: x_def quoted_def new_settlement_def)
  obtain w2 where quote: "settle_quote st dr t1 existing wallet (Dec n (- 2)) w1 = (w2, Inr x)"
    using settle_quote_succeeds [where w = w1, OF _ rate(1) x xpos] r(4) st(2,3,6) new by auto
  have row: "case existing of None \<Rightarrow> True | Some r \<Rightarrow> r \<in> set (db_settlements (w_db w1)) \<and> se_transaction_id r = tx_id t1"
    using idle st(2,6) by (auto simp: idle_def split: option.splits)
  have "txn_unique_receipt t1 (filter (\<lambda>r. tx_id r \<noteq> tx_id t1) (db_txns (w_db w)))"
    using ok t(1) start(2) st(2) by (auto simp: books_ok_def txns_ok_def txn_unique_receipt_def)
  moreover have "db_txns (w_db w2) = repo_update tx_id t1 (db_txns (w_db w))"
    using settle_quote_result [OF quote row] st(5) by auto
  ultimately have u: "txn_unique_receipt t1 (filter (\<lambda>r. tx_id r \<noteq> tx_id t1) (db_txns (w_db w2)))"
    by (simp add: filter_other_repo_update)
  obtain w3 s where tr: "settle_transfer st dr t1 x wallet w2 = (w3, Inr s)"
    using settle_transfer_succeeds [OF wallet(3,2) settlement_stored_idem [OF x] xpos u] by blast
  have "settle_guard (tx_id t) w = (w, Inr (t, existing))"
    using det ex(1) t(2) by (simp add: settle_guard_def)
  moreover have "settle_now st dr t existing w = (w3, Inr s)"
    using wallet(1) start(1) quote tr by (simp add: settle_now_def bnd_def)
  ultimately have "prepare_and_settle st dr (tx_id t) w = (w3, Inr s)"
    using ex(2) by (simp add: prepare_and_settle_def bnd_def)
  then show ?thesis by blast
qed

lemma settlement_result:
  assumes "books_ok (w_db w)" "prepare_and_settle st dr i w = (w', Inr s)"
    and "settlement_get_by_transaction (w_db w) i = Inr existing" "completed_settlement existing = None"
  shows "\<exists>t wallet fee net0 t' lq l. t \<in> set (db_txns (w_db w)) \<and> tx_id t = i \<and> tx_status t \<in> set settleable
    \<and> wallet_get_primary (w_db w) (tx_merchant_id t) = Some wallet
    \<and> calculate_fees st (tx_amount t) = Inr (fee, net0) \<and> numeric 18 2 net0 = Inr (se_fiat_amount s)
    \<and> 100 * coeff (se_usdt_amount s) = coeff (se_fiat_amount s) * coeff (se_exchange_rate s)
    \<and> expo (se_usdt_amount s) = - 8 \<and> expo (se_fiat_amount s) = - 2 \<and> expo (se_exchange_rate s) = - 8
    \<and> se_status s = S_COMPLETED \<and> se_transaction_id s = i \<and> s \<in> set (db_settlements (w_db w'))
    \<and> se_blockchain_tx_hash s = Some (''trc20_'' @ dr_hex dr 4)
    \<and> db_transfer_logs (w_db w') = db_transfer_logs (w_db w) @ [lq, l]
    \<and> tl_settlement_id l = se_id s \<and> tl_action l = ''wallet_transfer'' \<and> tl_status l = ''success''
    \<and> dget (tl_payload l) ''to'' = JStr (wa_wallet_address wallet)
    \<and> dget (tl_payload l) ''amount'' = JStr (dec_str (se_usdt_amount s))
    \<and> t' \<in> set (db_txns (w_db w')) \<and> tx_id t' = i \<and> tx_status t' = COMPLETED \<and> tx_net_amount t' = se_fiat_amount s"
proof -
  from assms(2) obtain w0 t ex where g: "settle_guard i w = (w0, Inr (t, ex))"
      and n: "(case completed_settlement ex of None \<Rightarrow> settle_now st dr t ex | Some s \<Rightarrow> ret s) w0 = (w', Inr s)"
    unfolding prepare_and_settle_def bnd_Inr by auto
  note g' = settle_guard_result [OF g]
  have ex: "ex = existing" using g'(5) assms(3) by simp
  have w0: "w0 = w" by (rule g'(1))
  have now: "settle_now st dr t existing w = (w', Inr s)" using n assms(4) by (simp add: ex w0)
  from now obtain wallet w1 t1 net w2 s1 where wallet: "wallet_get_primary (w_db w) (tx_merchant_id t) = Some wallet"
      and start: "settle_start st t w = (w1, Inr (t1, net))"
      and quote: "settle_quote st dr t1 existing wallet net w1 = (w2, Inr s1)"
      and transfer: "settle_transfer st dr t1 s1 wallet w2 = (w', Inr s)"
    unfolding settle_now_def bnd_Inr expect_def by (auto split: option.split_asm simp: bnd_Inr)
  note st = settle_start_result [OF start]
  have "case existing of None \<Rightarrow> True | Some r \<Rightarrow> r \<in> set (db_settlements (w_db w1)) \<and> se_transaction_id r = tx_id t1"
    using existing_idle [OF assms(1,3,4)] st(2,6) g'(3) by (auto simp: idle_def split: option.splits)
  from settle_quote_result [OF quote this] obtain e u q lq where
    q: "exchange_convert e net (tx_currency t1) ''USDT'' = Inr (u, q)" "numeric 18 2 net = Inr (se_fiat_amount s1)"
      "numeric 24 8 u = Inr (se_usdt_amount s1)" "numeric 24 8 (eq_sell_rate q) = Inr (se_exchange_rate s1)"
      "db_transfer_logs (w_db w2) = db_transfer_logs (w_db w1) @ [lq]" "s1 \<in> set (db_settlements (w_db w2))"
      "se_transaction_id s1 = tx_id t1" "db_txns (w_db w2) = db_txns (w_db w1)" by blast
  obtain fee net0 where fees: "calculate_fees st (tx_amount t) = Inr (fee, net0)" "numeric 18 2 net0 = Inr net"
    using st(1) by blast
  have net: "se_fiat_amount s1 = net" using q(2) numeric_idem [OF fees(2)] by simp
  have stored: "settlement_stored s1 = Inr s1"
    using q(2-4) by (simp add: settlement_stored_def net numeric_idem)
  note tr = settle_transfer_result [OF transfer q(6) stored]
  obtain l where l: "db_transfer_logs (w_db w') = db_transfer_logs (w_db w2) @ [l]" "tl_settlement_id l = se_id s1"
      "tl_action l = ''wallet_transfer''" "tl_status l = ''success''"
      "dget (tl_payload l) ''to'' = JStr (wa_wallet_address wallet)"
      "dget (tl_payload l) ''amount'' = JStr (dec_str (se_usdt_amount s1))" using tr(5) by blast
  note x = exact_conversion [OF q(1) fees(2) q(3,4)]
  have "t1 \<in> set (db_txns (w_db w2))"
    using q(8) st(2,5) g'(2) by (auto simp: set_repo_update)
  then have "t1\<lparr> tx_status := COMPLETED \<rparr> \<in> set (db_txns (w_db w'))"
    using tr(4) by (auto simp: set_repo_update)
  then show ?thesis
    using g'(2-4) wallet fees x tr(2,3) q(5,7) l st(2,4,7) net
    by (intro exI [of _ t] exI [of _ wallet] exI [of _ fee] exI [of _ net0] exI [of _ "t1\<lparr> tx_status := COMPLETED \<rparr>"]
        exI [of _ lq] exI [of _ l]) simp
qed

text \<open>A transaction keeps its settlement row.\<close>

lemma same_row:
  assumes "books_ok d'" "books_grow d d'" "x \<in> set (db_settlements d)" "s \<in> set (db_settlements d')"
    and "se_transaction_id x = se_transaction_id s"
  shows "se_id s = se_id x"
proof -
  have "(se_id x, se_transaction_id x) \<in> set (map (\<lambda>s. (se_id s, se_transaction_id s)) (db_settlements d'))"
    using assms(2,3) set_mono_prefix unfolding books_grow_def completed_kept_def by fastforce
  then obtain y where y: "y \<in> set (db_settlements d')" "se_id y = se_id x" "se_transaction_id y = se_transaction_id x" by auto
  have "y = s" using same_key [of se_transaction_id "db_settlements d'" y s] assms(1,4,5) y
    by (simp add: books_ok_def payouts_ok_def)
  then show ?thesis using y(2) by simp
qed

text \<open>A completed transaction is not settled again.\<close>

lemma completed_not_settled:
  assumes "clean w" "t \<in> set (db_txns (w_db w))" "tx_status t = COMPLETED"
  shows "settle_task st dr (tx_id t) w
    = (w, Inl (SettlementError (''Transaction status '' @ [CHR 0x27] @ ''completed'' @ [CHR 0x27] @ '' is not eligible for settlement'')))"
proof -
  have "prepare_and_settle st dr (tx_id t) w = (w, Inl (SettlementError
      (''Transaction status '' @ [CHR 0x27] @ ''completed'' @ [CHR 0x27] @ '' is not eligible for settlement'')))"
    using txn_found [OF clean_ok [OF assms(1)] assms(2)] assms(3)
    by (simp add: prepare_and_settle_def settle_guard_def settleable_def bnd_def)
  then show ?thesis using assms(1) by (simp add: settle_task_def run_request_def clean_def)
qed

section \<open>Properties\<close>

text \<open>C3. A settlement that returns (and was not completed before) has paid the merchant exactly what
  it owes: the net amount is what the fee engine leaves of the transaction's amount, the USDT amount is
  net times rate with no rounding, one successful transfer of that amount to the merchant's primary
  wallet was logged, the settlement row is COMPLETED with the transfer's hash, and the transaction is
  COMPLETED with its net amount.\<close>

theorem settlement_pays_net:
  assumes "books_ok (w_db w)" "prepare_and_settle st dr i w = (w', Inr s)"
    and "settlement_get_by_transaction (w_db w) i = Inr existing" "completed_settlement existing = None"
  shows "\<exists>t wallet fee net0 t' lq l. t \<in> set (db_txns (w_db w)) \<and> tx_id t = i \<and> tx_status t \<in> set settleable
    \<and> wallet_get_primary (w_db w) (tx_merchant_id t) = Some wallet
    \<and> calculate_fees st (tx_amount t) = Inr (fee, net0) \<and> numeric 18 2 net0 = Inr (se_fiat_amount s)
    \<and> 100 * coeff (se_usdt_amount s) = coeff (se_fiat_amount s) * coeff (se_exchange_rate s)
    \<and> expo (se_usdt_amount s) = - 8 \<and> expo (se_fiat_amount s) = - 2 \<and> expo (se_exchange_rate s) = - 8
    \<and> se_status s = S_COMPLETED \<and> se_transaction_id s = i \<and> s \<in> set (db_settlements (w_db w'))
    \<and> se_blockchain_tx_hash s = Some (''trc20_'' @ dr_hex dr 4)
    \<and> db_transfer_logs (w_db w') = db_transfer_logs (w_db w) @ [lq, l]
    \<and> tl_settlement_id l = se_id s \<and> tl_action l = ''wallet_transfer'' \<and> tl_status l = ''success''
    \<and> dget (tl_payload l) ''to'' = JStr (wa_wallet_address wallet)
    \<and> dget (tl_payload l) ''amount'' = JStr (dec_str (se_usdt_amount s))
    \<and> t' \<in> set (db_txns (w_db w')) \<and> tx_id t' = i \<and> tx_status t' = COMPLETED \<and> tx_net_amount t' = se_fiat_amount s"
  by (rule settlement_result [OF assms])

text \<open>C7. A deferred settlement goes through when it is retried, whether or not an earlier attempt left its
  settlement row behind (FAILED, as a refused transfer does): for a transaction that awaits settlement and
  whose settlement is not completed, with a TRC20 wallet of its merchant, a currency of the sandbox exchange,
  a positive net amount and amounts below ten to the fifteenth, one run of the settlement task ends with the
  transaction and its settlement COMPLETED and committed, in the row of the earlier attempt when there is one;
  from then on the task changes nothing, whatever is asked of it. The identifier drawn for a new row is not
  taken.\<close>

theorem retried_settlement_completes:
  assumes "w_db w = w_committed w" "books_ok (w_db w)" "t \<in> set (db_txns (w_db w))" "tx_status t \<in> set settleable"
    and "\<forall>s \<in> set (db_settlements (w_db w)). se_id s \<noteq> dr_uuid dr 2"
      "\<forall>s \<in> set (db_settlements (w_db w)). se_transaction_id s = tx_id t \<longrightarrow> se_status s \<noteq> S_COMPLETED"
    and "wallet_get_primary (w_db w) (tx_merchant_id t) = Some wallet" "trc20_validate_address (wa_wallet_address wallet)"
      "get_wallet_provider st (Some (wa_wallet_network wallet)) = Inr Trc20WalletProvider"
    and "get_exchange_provider st None = Inr SandboxExchangeProvider" "is_ok (sandbox_get_rate (tx_currency t) ''USDT'')"
    and "calculate_fees st (tx_amount t) = Inr (Dec f (- 2), Dec n (- 2))" "0 \<le> f" "f < 10 ^ 17" "0 < n" "n < 10 ^ 17"
  shows "\<exists>w' s t'. settle_task st dr (tx_id t) w = (w', Inr s) \<and> w_committed w' = w_db w'
    \<and> s \<in> set (db_settlements (w_db w')) \<and> se_status s = S_COMPLETED \<and> se_transaction_id s = tx_id t
    \<and> (\<forall>x \<in> set (db_settlements (w_db w)). se_transaction_id x = tx_id t \<longrightarrow> se_id s = se_id x)
    \<and> t' \<in> set (db_txns (w_db w')) \<and> tx_id t' = tx_id t \<and> tx_status t' = COMPLETED \<and> tx_net_amount t' = Dec n (- 2)
    \<and> (\<forall>dr'. fst (settle_task st dr' (tx_id t) w') = w')"
proof -
  obtain w1 s where run: "prepare_and_settle st dr (tx_id t) w = (w1, Inr s)"
    using settlement_runs [OF assms(2-16)] by blast
  define w' where "w' = w1\<lparr> w_committed := w_db w1 \<rparr>"
  have task: "settle_task st dr (tx_id t) w = (w', Inr s)" by (simp add: settle_task_def run_request_def run w'_def)
  have "clean w" using assms(1,2) by (simp add: clean_def)
  note kept = run_request_books [OF led_prepare_and_settle this, of st dr "tx_id t"]
  have c: "clean w'" and g: "books_grow (w_db w) (w_db w')" using kept task by (simp_all add: settle_task_def)
  obtain existing where "settlement_get_by_transaction (w_db w) (tx_id t) = Inr existing" "completed_settlement existing = None"
    using uncompleted [OF assms(2,6)] by blast
  moreover have db: "w_db w1 = w_db w'" by (simp add: w'_def)
  ultimately obtain x fee net0 t' where
    x: "x \<in> set (db_txns (w_db w))" "tx_id x = tx_id t" "calculate_fees st (tx_amount x) = Inr (fee, net0)"
      "numeric 18 2 net0 = Inr (se_fiat_amount s)"
    and t': "t' \<in> set (db_txns (w_db w'))" "tx_id t' = tx_id t" "tx_status t' = COMPLETED" "tx_net_amount t' = se_fiat_amount s"
    and s: "s \<in> set (db_settlements (w_db w'))" "se_status s = S_COMPLETED" "se_transaction_id s = tx_id t"
    using settlement_result [OF assms(2) run] unfolding db by blast
  have "txn_get_detailed (w_db w) (tx_id t) = Inr (Some x)" using txn_found [OF assms(2) x(1)] unfolding x(2) .
  with txn_found [OF assms(2,3)] have "x = t" by (metis sum.inject(2) option.inject)
  then have "net0 = Dec n (- 2)" using x(3) assms(12) by simp
  then have "se_fiat_amount s = Dec n (- 2)" using x(4) numeric_cents [of n] assms(15,16) by simp
  then have "tx_net_amount t' = Dec n (- 2)" using t'(4) by simp
  moreover have "w_committed w' = w_db w'" by (simp add: w'_def)
  moreover have "fst (settle_task st dr' (tx_id t) w') = w'" for dr'
    using completed_not_settled [OF c t'(1,3), of st dr'] t'(2) by simp
  moreover have "se_id s = se_id x" if "x \<in> set (db_settlements (w_db w))" "se_transaction_id x = tx_id t" for x
    by (rule same_row [OF clean_ok [OF c] g that(1) s(1)]) (simp add: that(2) s(3))
  ultimately show ?thesis using task t'(1-3) s by blast
qed

section \<open>A concrete settlement\<close>

definition sample_wallet :: merchant_wallet where
  "sample_wallet = \<lparr> wa_id = ''w1'', wa_merchant_id = ''m1'', wa_wallet_address = CHR ''T'' # replicate 33 (CHR ''a''),
     wa_wallet_provider = ''tronlink'', wa_wallet_network = ''trc20'', wa_wallet_status = W_ACTIVE, wa_is_primary = True,
     wa_created_at = 0, wa_deleted_at = None \<rparr>"

definition paid_world :: "transaction_status \<Rightarrow> world" where
  \<comment> \<open>one payment of 100.50 SAR\<close>
  "paid_world status =
     (let d = empty_db\<lparr> db_merchants := [sample_merchant ''m1'' ''u1''], db_wallets := [sample_wallet],
                db_txns := [sample_txn ''t1'' status] \<rparr> in
      \<lparr> w_db = d, w_committed = d, w_sessions = empty_store, w_processors = initial_factory \<rparr>)"

lemma paid_world_saved: "w_db (paid_world status) = w_committed (paid_world status)"
  by (simp add: paid_world_def Let_def)

lemma paid_world_facts:
  "books_ok (w_db (paid_world status))"
  "db_txns (w_db (paid_world status)) = [sample_txn ''t1'' status]" "db_settlements (w_db (paid_world status)) = []"
  "wallet_get_primary (w_db (paid_world status)) ''m1'' = Some sample_wallet"
  by (simp_all add: paid_world_def Let_def books_ok_def txns_ok_def receipts_ok_def payouts_ok_def empty_db_def sample_txn_def
      txn_unique_receipt_def wallet_get_primary_def base_query_def sample_wallet_def)

lemma sample_fees: "calculate_fees default_settings (Dec 10050 (- 2)) = Inr (Dec 151 (- 2), Dec 9899 (- 2))"
proof -
  have q: "quantize ROUND_HALF_UP (Dec 10050 (- 2)) (- 2) = Inr (Dec (int 10050) (- 2))"
    "quantize ROUND_HALF_UP (Dec 15 (- 1)) (- 4) = Inr (Dec (int 15000) (- 4))"
    "quantize ROUND_HALF_UP (Dec 0 (- 2)) (- 2) = Inr (Dec (int 0) (- 2))"
    by (simp_all add: quantize_def rescale_def ndigits.simps PREC_def)
  have "fee_cents 10050 15000 0 = 151" by (simp add: fee_cents_def div_half_up_def)
  then show ?thesis
    using calculate_fee_value [OF _ _ _ _ _ q, of "''USDT''" "''platform-v1''"]
    by (simp add: calculate_fees_def default_settings_def dec_lt0_def)
qed

lemma sample_settlement_setting:
  "trc20_validate_address (wa_wallet_address sample_wallet)"
  "get_wallet_provider default_settings (Some (wa_wallet_network sample_wallet)) = Inr Trc20WalletProvider"
  "get_exchange_provider default_settings None = Inr SandboxExchangeProvider"
  "is_ok (sandbox_get_rate ''SAR'' ''USDT'')"
  by code_simp+

definition refused_settlement :: settlement where
  \<comment> \<open>the row of an attempt whose transfer was refused\<close>
  "refused_settlement = \<lparr> se_id = ''s0'', se_transaction_id = ''t1'', se_merchant_wallet_id = ''w1'',
     se_fiat_amount = Dec 9899 (- 2), se_fiat_currency = ''SAR'', se_usdt_amount = Dec 2600000000 (- 8),
     se_exchange_rate = Dec 26000000 (- 8), se_exchange_provider = ''sandbox'', se_wallet_network = ''trc20'',
     se_wallet_address = ''nowhere'', se_blockchain_tx_hash = None, se_confirmation_count = 0, se_retry_count = 1,
     se_status = S_FAILED, se_failure_reason = Some ''Invalid TRC20 address'', se_created_at = 0, se_deleted_at = None \<rparr>"

definition refused_world :: world where
  "refused_world =
     (let d = (w_db (paid_world SETTLEMENT_PENDING))\<lparr> db_settlements := [refused_settlement],
         db_transfer_logs := [\<lparr> tl_settlement_id = ''s0'', tl_action = ''wallet_transfer'', tl_status = ''failed'',
           tl_payload = [], tl_message = None \<rparr>] \<rparr>
      in (paid_world SETTLEMENT_PENDING)\<lparr> w_db := d, w_committed := d \<rparr>)"

lemma refused_world_facts:
  "w_db refused_world = w_committed refused_world" "books_ok (w_db refused_world)"
  "db_txns (w_db refused_world) = [sample_txn ''t1'' SETTLEMENT_PENDING]" "db_settlements (w_db refused_world) = [refused_settlement]"
  "wallet_get_primary (w_db refused_world) ''m1'' = Some sample_wallet"
proof -
  have "settlement_stored refused_settlement = Inr refused_settlement"
    by (simp add: settlement_stored_def refused_settlement_def numeric_def Let_def rescale_def)
  then have "payouts_ok (db_settlements (w_db refused_world)) (db_transfer_logs (w_db refused_world))"
    by (simp add: payouts_ok_def refused_world_def Let_def transfers_def) (simp add: refused_settlement_def)
  then show "books_ok (w_db refused_world)"
    using paid_world_facts(1) [of SETTLEMENT_PENDING] by (simp add: books_ok_def refused_world_def Let_def)
qed (use paid_world_facts [of SETTLEMENT_PENDING] in \<open>simp_all add: refused_world_def Let_def wallet_get_primary_def\<close>)

theorem retried_settlement_completes_witness:
  "\<exists>w' s t'. settle_task default_settings sample_draws ''t1'' refused_world = (w', Inr s)
    \<and> w_committed w' = w_db w' \<and> se_id s = ''s0'' \<and> se_status s = S_COMPLETED
    \<and> t' \<in> set (db_txns (w_db w')) \<and> tx_id t' = ''t1'' \<and> tx_status t' = COMPLETED
    \<and> tx_net_amount t' = Dec 9899 (- 2) \<and> (\<forall>dr'. fst (settle_task default_settings dr' ''t1'' w') = w')"
proof -
  let ?t = "sample_txn ''t1'' SETTLEMENT_PENDING" and ?w = refused_world
  have t: "tx_id ?t = ''t1''" "tx_merchant_id ?t = ''m1''" "tx_currency ?t = ''SAR''" "tx_amount ?t = Dec 10050 (- 2)"
    "tx_status ?t \<in> set settleable"
    by (simp_all add: sample_txn_def settleable_def)
  have m: "?t \<in> set (db_txns (w_db ?w))" by (simp add: refused_world_facts(3))
  have row: "\<forall>s \<in> set (db_settlements (w_db ?w)). se_id s \<noteq> dr_uuid sample_draws 2"
    "\<forall>s \<in> set (db_settlements (w_db ?w)). se_transaction_id s = tx_id ?t \<longrightarrow> se_status s \<noteq> S_COMPLETED"
    by (simp_all add: refused_world_facts(4) sample_draws_def refused_settlement_def)
  have w: "wallet_get_primary (w_db ?w) (tx_merchant_id ?t) = Some sample_wallet" by (simp add: t refused_world_facts(5))
  have r: "is_ok (sandbox_get_rate (tx_currency ?t) ''USDT'')" unfolding t by (rule sample_settlement_setting(4))
  have f: "calculate_fees default_settings (tx_amount ?t) = Inr (Dec 151 (- 2), Dec 9899 (- 2))" unfolding t by (rule sample_fees)
  from retried_settlement_completes [OF refused_world_facts(1,2) m t(5) row w sample_settlement_setting(1-3) r f]
  obtain w' s t' where *: "settle_task default_settings sample_draws ''t1'' ?w = (w', Inr s)" "w_committed w' = w_db w'"
    "se_status s = S_COMPLETED" "\<forall>x \<in> set (db_settlements (w_db ?w)). se_transaction_id x = ''t1'' \<longrightarrow> se_id s = se_id x"
    "t' \<in> set (db_txns (w_db w'))" "tx_id t' = ''t1''" "tx_status t' = COMPLETED" "tx_net_amount t' = Dec 9899 (- 2)"
    "\<forall>dr'. fst (settle_task default_settings dr' ''t1'' w') = w'"
    unfolding t by auto
  have "se_id s = ''s0''" using *(4) by (simp add: refused_world_facts(4) refused_settlement_def)
  then show ?thesis using * by blast
qed

theorem settlement_pays_net_witness:
  "\<exists>w' s. prepare_and_settle default_settings sample_draws ''t1'' (paid_world CAPTURED) = (w', Inr s)
    \<and> se_status s = S_COMPLETED \<and> 100 * coeff (se_usdt_amount s) = coeff (se_fiat_amount s) * coeff (se_exchange_rate s)
    \<and> se_fiat_amount s = Dec 9899 (- 2)"
proof -
  let ?w = "paid_world CAPTURED"
  have t: "sample_txn ''t1'' CAPTURED \<in> set (db_txns (w_db ?w))" by (simp add: paid_world_facts)
  obtain w' s where run: "prepare_and_settle default_settings sample_draws ''t1'' ?w = (w', Inr s)"
    using settlement_runs [OF paid_world_facts(1) t, of sample_draws sample_wallet default_settings 151 9899]
    by (auto simp: paid_world_facts sample_settlement_setting sample_fees settleable_def sample_txn_def)
  have "settlement_get_by_transaction (w_db ?w) ''t1'' = Inr None" by (rule no_settlement) (simp add: paid_world_facts)
  from settlement_pays_net [OF paid_world_facts(1) run this] run show ?thesis
    by (auto simp: completed_settlement_def paid_world_facts sample_txn_def sample_fees numeric_def Let_def rescale_def)
qed

end
