(* ===== verification/Payment_Samples.thy ===== *)
theory Payment_Samples
  imports Settlement_Results Payment_Books
begin

text \<open>
  Concrete requests and worlds for the payment properties.
\<close>

definition no_http :: http where
  "no_http = (\<lambda>_ _ _. Http_Failed [])"

definition sample_payment :: "string \<Rightarrow> create_payment_request" where
  "sample_payment token = \<lparr> cp_amount = Some (Dec 1050 (- 2)), cp_amount_minor = None, cp_currency = ''sar'',
     cp_merchant_reference = ''order-2'', cp_description = None, cp_gateway_provider = None,
     cp_idempotency_key = Some ''k1'', cp_payment_method_token = Some token,
     cp_payment_mode = ''online'', cp_protocol_code = None, cp_sandbox_scenario = None \<rparr>"

lemma sample_currency:
  "upper (cp_currency (sample_payment token)) = ''SAR''" "''SAR'' \<in> supported_currencies default_settings"
proof -
  show "upper (cp_currency (sample_payment token)) = ''SAR''" by (simp add: sample_payment_def) code_simp
  show "''SAR'' \<in> supported_currencies default_settings" by code_simp
qed

lemma sample_amount: "resolve_amount (sample_payment token) ''SAR'' = Inr (Dec 1050 (- 2), 1050)"
proof -
  have "quantize ROUND_HALF_UP (Dec 1050 (- 2)) (- 2) = Inr (Dec (int 1050) (- 2))"
    by (simp add: quantize_def rescale_def ndigits.simps PREC_def)
  moreover have "currency_exponent ''SAR'' = Inr 2" by code_simp
  ultimately have "to_minor_units (Dec 1050 (- 2)) ''SAR'' = Inr (int 1050)"
    by (intro to_minor_units_value) auto
  then show ?thesis by (simp add: resolve_amount_def sample_payment_def)
qed

lemma sample_gateway: "get_payment_gateway default_settings None = Inr SandboxPaymentGateway"
  by code_simp

definition sample_new :: "string \<Rightarrow> txn" where
  "sample_new token = new_transaction sample_draws ''m1'' (sample_payment token) ''SAR'' (Dec 1050 (- 2)) 1050
     SandboxPaymentGateway None None"

lemma sample_new_stored: "txn_stored (sample_new token) = Inr (sample_new token)"
  by (simp add: sample_new_def txn_stored_def new_transaction_def numeric_def Let_def rescale_def)

definition sample_result :: "string \<Rightarrow> payment_result" where
  "sample_result token = sandbox_charge (charge_request (sample_payment token) (sample_new token) (Dec 1050 (- 2)) None)
    (dr_hex sample_draws 0) (dr_hex sample_draws 1) (dr_hex sample_draws 2)"

lemma sample_results:
  "gp_success (sample_result ''pm_test_visa_signature'')" "gp_signature_required (sample_result ''pm_test_visa_signature'')"
  "\<not> gp_success (sample_result ''pm_test_visa_declined'')"
  by code_simp+

definition opened_world :: "string \<Rightarrow> transaction_status \<Rightarrow> world \<Rightarrow> bool" where
  "opened_world token s w1 \<longleftrightarrow>
     open_transaction sample_draws ''u1'' (sample_payment token) (sample_merchant ''m1'' ''u1'') ''SAR'' (Dec 1050 (- 2)) 1050
       SandboxPaymentGateway None (paid_world s) = (w1, Inr (sample_new token))
     \<and> db_txns (w_db w1) = [sample_txn ''t1'' s, sample_new token]"

lemma sample_opened: "\<exists>w1. opened_world token s w1"
proof -
  let ?w = "paid_world s"
  have g: "gateway_get_by_provider (w_db ?w) ''sandbox'' = Inr None"
    by (simp add: paid_world_def Let_def gateway_get_by_provider_def base_query_def find_one_def empty_db_def)
  have a: "repo_add tx_id txn_constraints (sample_new token) (db_txns (w_db ?w)) = Inr [sample_txn ''t1'' s, sample_new token]"
    by (simp add: paid_world_facts repo_add_def txn_constraints_def txn_unique_receipt_def sample_txn_def sample_new_def
        new_transaction_def sample_draws_def payment_reference_def sample_payment_def or_str_def show_nat.simps)
  have "assert_transition None PROCESSING = Inr ()" by code_simp
  then have "\<exists>w1. open_transaction sample_draws ''u1'' (sample_payment token) (sample_merchant ''m1'' ''u1'') ''SAR''
      (Dec 1050 (- 2)) 1050 SandboxPaymentGateway None ?w = (w1, Inr (sample_new token))
      \<and> db_txns (w_db w1) = [sample_txn ''t1'' s, sample_new token]"
    using sample_new_stored [of token] a g
    by (simp add: open_transaction_def txn_add_def bnd_assoc add_status_log_def payment_audit_def audit_def
        sample_new_def sample_merchant_def)
  then show ?thesis by (simp add: opened_world_def)
qed

lemma sample_create:
  assumes "opened_world token s w1"
  shows "create_payment default_settings no_http sample_draws ''u1'' (sample_payment token) (paid_world s)
    = charge_transaction default_settings no_http sample_draws ''u1'' (sample_payment token) (sample_merchant ''m1'' ''u1'')
        SandboxPaymentGateway None (Dec 1050 (- 2)) (sample_new token) w1"
proof -
  have r: "resolve_merchant_for_user ''u1'' (paid_world s) = (paid_world s, Inr (sample_merchant ''m1'' ''u1''))"
    by (simp add: resolve_merchant_for_user_def paid_world_def Let_def merchant_get_by_owner_def base_query_def find_one_def
        sample_merchant_def)
  have f: "find_existing (sample_payment token) ''m1'' (w_db (paid_world s)) = Inr None"
    by (simp add: find_existing_def txn_get_by_merchant_reference_def paid_world_facts base_query_def find_one_def
        sample_txn_def sample_payment_def payment_reference_def or_str_def)
  have fields: "me_id (sample_merchant ''m1'' ''u1'') = ''m1''" "cp_gateway_provider (sample_payment token) = None"
    "cp_payment_mode (sample_payment token) = ''online''" "payment_protocol (sample_payment token) = Inr None"
    by (simp_all add: sample_merchant_def sample_payment_def payment_protocol_def)
  have o: "bnd (open_transaction sample_draws ''u1'' (sample_payment token) (sample_merchant ''m1'' ''u1'') ''SAR''
       (Dec 1050 (- 2)) 1050 SandboxPaymentGateway None) k (paid_world s) = k (sample_new token) w1" for k
    using assms by (intro bnd_cong_run) (simp add: opened_world_def)
  show ?thesis
    using sample_amount [of token] sample_currency(1) [of token] sample_currency(2)
    by (simp add: create_payment_def Let_def currency_check_def bnd_cong_run [where m = "resolve_merchant_for_user ''u1''", OF r] f
        fields new_payment_def sample_gateway o)
qed

text \<open>The request waits for a signature, or is declined.\<close>

lemma sample_awaits_signature:
  "\<exists>w1 out. run_request (create_payment default_settings no_http sample_draws ''u1''
      (sample_payment ''pm_test_visa_signature'')) (paid_world s) = (w1, Inr out)
    \<and> pay_merchant_reference out = payment_reference (sample_payment ''pm_test_visa_signature'')"
proof -
  let ?tok = "''pm_test_visa_signature''"
  obtain w1 where w1: "opened_world ?tok s w1" using sample_opened by blast
  define t where "t = charged sample_draws (sample_new ?tok) (sample_result ?tok)"
  have t: "tx_id t = tx_id (sample_new ?tok)" "tx_receipt_number t = None" "tx_merchant_reference t = ''k1''" "tx_deleted_at t = None"
    by (simp_all add: t_def charged_def Let_def sample_new_def new_transaction_def payment_reference_def sample_payment_def
        or_str_def)
  have rows: "repo_update tx_id (t\<lparr> tx_status := AUTHORIZED \<rparr>) [sample_txn ''t1'' s, sample_new ?tok]
      = [sample_txn ''t1'' s, t\<lparr> tx_status := AUTHORIZED \<rparr>]" and i: "tx_id t \<noteq> ''t1''"
    by (simp_all add: repo_update_def t sample_txn_def sample_new_def new_transaction_def sample_draws_def)
  have d: "find_one (\<lambda>x. tx_id x = tx_id t) (base_query tx_deleted_at [sample_txn ''t1'' s, t\<lparr> tx_status := AUTHORIZED \<rparr>])
      = Inr (Some (t\<lparr> tx_status := AUTHORIZED \<rparr>))"
    using i by (simp add: find_one_def base_query_def t sample_txn_def)
  have "assert_transition (Some PROCESSING) AUTHORIZED = Inr ()" by code_simp
  then have "\<exists>w2 out. create_payment default_settings no_http sample_draws ''u1'' (sample_payment ?tok) (paid_world s)
      = (w2, Inr out) \<and> pay_merchant_reference out = ''k1''"
    using w1 sample_results(1,2) d
    by (simp add: sample_create [OF w1] charge_transaction_def Let_def gateway_charge_def sample_result_def [symmetric]
        attempt_add_def payment_awaits_signature_def t_def [symmetric] move_to_def txn_put_def bnd_assoc add_status_log_def
        payment_audit_def audit_def txn_unique_receipt_def the_transaction_def payment_response_def opened_world_def rows
        txn_get_detailed_def repo_get_by_id_def payment_out_of_def t del: One_nat_def)
  then show ?thesis by (auto simp: run_request_def payment_reference_def sample_payment_def or_str_def)
qed

lemma sample_declined:
  "\<exists>w1 e. run_request (create_payment default_settings no_http sample_draws ''u1''
      (sample_payment ''pm_test_visa_declined'')) (paid_world s) = (w1, Inl e) \<and> length (db_txns (w_db w1)) = 2"
proof -
  let ?tok = "''pm_test_visa_declined''"
  obtain w1 where w1: "opened_world ?tok s w1" using sample_opened by blast
  define t where "t = charged sample_draws (sample_new ?tok) (sample_result ?tok)"
  have t: "tx_receipt_number t = None"
    by (simp add: t_def charged_def Let_def sample_new_def new_transaction_def)
  have "assert_transition (Some PROCESSING) FAILED = Inr ()" by code_simp
  then have "\<exists>w2 e. create_payment default_settings no_http sample_draws ''u1'' (sample_payment ?tok) (paid_world s)
      = (w2, Inl e) \<and> length (db_txns (w_committed w2)) = 2"
    using w1 sample_results(3)
    by (simp add: sample_create [OF w1] charge_transaction_def Let_def gateway_charge_def sample_result_def [symmetric]
        attempt_add_def payment_declined_def t_def [symmetric] move_to_def txn_put_def bnd_assoc add_status_log_def
        payment_audit_def audit_def txn_unique_receipt_def opened_world_def repo_update_def t
        del: One_nat_def)
  then show ?thesis by (auto simp: run_request_def)
qed

lemma sample_refund:
  "\<exists>w' out. run_request (refund_payment default_settings no_http sample_draws ''u1'' ''t1''
      \<lparr> rp_amount = None, rp_reason = None \<rparr>) (paid_world CAPTURED) = (w', Inr out)"
proof -
  let ?w = "paid_world CAPTURED" and ?t = "sample_txn ''t1'' CAPTURED"
  let ?r = "?t\<lparr> tx_status := REFUNDED, tx_failure_reason := None \<rparr>"
  have r: "resolve_merchant_for_user ''u1'' ?w = (?w, Inr (sample_merchant ''m1'' ''u1''))"
    by (simp add: resolve_merchant_for_user_def paid_world_def Let_def merchant_get_by_owner_def base_query_def find_one_def
        sample_merchant_def)
  have o: "own_transaction (sample_merchant ''m1'' ''u1'') ''t1'' ?w = (?w, Inr ?t)"
    using txn_found [OF paid_world_facts(1), of ?t CAPTURED]
    by (simp add: own_transaction_def paid_world_facts) (simp add: sample_txn_def sample_merchant_def)
  have g: "get_payment_gateway default_settings
      (Some (str_or (dget (tx_extra_data ?t) ''gateway_provider'') (default_payment_gateway default_settings)))
      = Inr SandboxPaymentGateway" by code_simp
  have t: "tx_status ?t \<in> set refundable" "truthy (tx_gateway_reference ?t)" "tx_receipt_number ?t = None" "tx_id ?t = ''t1''"
    by code_simp+
  have rows: "repo_update tx_id ?r [?t] = [?r]" by (simp add: repo_update_def)
  have d: "find_one (\<lambda>x. tx_id x = ''t1'') (base_query tx_deleted_at [?r]) = Inr (Some ?r)"
    by (simp add: find_one_def base_query_def sample_txn_def)
  show ?thesis
    using t d
    by (simp add: run_request_def refund_payment_def g rows
        bnd_cong_run [where m = "resolve_merchant_for_user ''u1''", OF r]
        bnd_cong_run [where m = "own_transaction (sample_merchant ''m1'' ''u1'') ''t1''", OF o]
        gateway_refund_def sandbox_refund_def move_to_def txn_put_def bnd_assoc add_status_log_def txn_unique_receipt_def
        the_transaction_def payment_response_def txn_get_detailed_def repo_get_by_id_def paid_world_facts)
qed

end
