(* ===== verification/Payment_Properties.thy ===== *)
theory Payment_Properties
  imports Payment_Samples
begin

text \<open>
  What the payment service promises: the books over any sequence of requests, idempotent payments,
  isolation of merchants, failed payments, refunds, settlement and the webhooks.
\<close>

section \<open>A payment found by its reference\<close>

text \<open>A payment that the merchant already has is found by its reference.\<close>

lemma found_by_reference:
  assumes "books_ok d" "loaded t d" "tx_merchant_id t = m" "tx_merchant_reference t = payment_reference q"
  shows "\<exists>u. find_existing q m d = Inr (Some u) \<and> txn_get_detailed d (tx_id u) = Inr (Some u) \<and> core u = core t"
proof -
  obtain u where u: "u \<in> set (db_txns d)" "core u = core t" using assms(2) by (force simp: loaded_def)
  have f: "tx_merchant_id u = m" "tx_merchant_reference u = payment_reference q"
    using u(2) assms(3,4) by (simp_all add: core_def)
  have ok: "txns_ok (db_txns d)" using assms(1) by (simp add: books_ok_def)
  have b: "base_query tx_deleted_at (db_txns d) = db_txns d" using ok by (simp add: base_query_def txns_ok_def)
  have inj: "inj_on (\<lambda>t. (tx_merchant_id t, tx_merchant_reference t)) (set (db_txns d))"
    "inj_on tx_id (set (db_txns d))" and dist: "distinct (db_txns d)"
    using ok by (auto simp: txns_ok_def distinct_map)
  have r: "find_one (\<lambda>t. tx_merchant_id t = m \<and> tx_merchant_reference t = payment_reference q) (db_txns d)
      = Inr (Some u)"
    by (rule find_one_the [OF dist u(1)]) (use f inj_onD [OF inj(1) _ _ u(1)] in auto)
  have i: "find_one (\<lambda>t. tx_id t = tx_id u) (db_txns d) = Inr (Some u)"
    by (rule find_one_the [OF dist u(1)]) (use inj_onD [OF inj(2) _ _ u(1)] in auto)
  show ?thesis
    using u(2) r i by (auto simp: find_existing_def txn_get_by_merchant_reference_def txn_get_detailed_def
        repo_get_by_id_def b bindr_Inr_iff)
qed

lemma find_again:
  assumes "clean w" "owner u m (w_db w)" "loaded t (w_db w)" "tx_merchant_id t = me_id m"
    "tx_merchant_reference t = payment_reference q"
    "upper (cp_currency q) \<in> supported_currencies st" "is_ok (resolve_amount q (upper (cp_currency q)))"
  shows "\<exists>out. run_request (create_payment st http dr u q) w = (w, Inr out) \<and> shown_core out = core t"
proof -
  note ok = clean_ok [OF assms(1)]
  obtain x where x: "find_existing q (me_id m) (w_db w) = Inr (Some x)"
      "txn_get_detailed (w_db w) (tx_id x) = Inr (Some x)" "core x = core t"
    using found_by_reference [OF ok assms(3,4,5)] by blast
  obtain a minor where a: "resolve_amount q (upper (cp_currency q)) = Inr (a, minor)"
    using assms(7) by (auto simp: is_ok_iff)
  have "create_payment st http dr u q w = (w, Inr (payment_out_of (w_db w) x))"
    using assms(2,6) x(1,2) a
    by (simp add: create_payment_def Let_def currency_check_def resolve_merchant_for_user_def owner_def ask_db_def
        bnd_assoc the_transaction_def payment_response_def)
  then show ?thesis
    using x(3) clean_unchanged [OF assms(1)] by (simp add: run_request_def shown_out)
qed

section \<open>Requests that raise\<close>

text \<open>A handler that never commits leaves nothing behind when it raises.\<close>

definition rest :: "world \<Rightarrow> db \<times> session_store \<times> processor_factory" where
  "rest w = (w_committed w, w_sessions w, w_processors w)"

lemma rolled_back:
  assumes "rest w' = rest w" "clean w"
  shows "w'\<lparr> w_db := w_committed w' \<rparr> = w"
  using assms by (cases w; cases w') (simp add: rest_def clean_def)

lemma silent_rest_on_db: "silent rest (on_db f)" "silent rest (ask_db g)"
  by (simp_all add: silent_def rest_def on_db_def ask_db_def)

lemma silent_cases:
  "(\<And>a b. silent v (f a b)) \<Longrightarrow> silent v (case x of (a, b) \<Rightarrow> f a b)"
  "silent v g \<Longrightarrow> (\<And>y. silent v (h y)) \<Longrightarrow> silent v (case z of None \<Rightarrow> g | Some y \<Rightarrow> h y)"
  by (simp_all split: prod.split option.split)

lemmas silent_rules = silent_pure silent_rest_on_db silent_bnd silent_catch silent_if silent_cases

lemma silent_rest_steps:
  "silent rest (txn_add t)" "silent rest (txn_put t)" "silent rest (add_status_log i fs ts n a)"
  "silent rest (attempt_add pa)" "silent rest (receipt_add r)" "silent rest (settlement_add s)"
  "silent rest (settlement_put s)" "silent rest (transfer_log_add l)" "silent rest (audit b c i u d)"
  unfolding txn_add_def txn_put_def add_status_log_def attempt_add_def receipt_add_def settlement_add_def
    settlement_put_def transfer_log_add_def audit_def
  by (rule silent_rules)+

lemma silent_rest_reads:
  "silent rest (move_to t fs n a)" "silent rest (payment_audit b i u d)" "silent rest (the_transaction i)"
  "silent rest (payment_response t)" "silent rest (resolve_merchant_for_user u)" "silent rest (own_transaction m i)"
  unfolding move_to_def payment_audit_def the_transaction_def payment_response_def resolve_merchant_for_user_def
    own_transaction_def
  by (rule silent_rules silent_rest_steps)+

lemma silent_rest_engine: "silent rest (prepare_and_settle st dr i)"
  unfolding prepare_and_settle_def settle_guard_def settle_now_def settle_start_def settle_quote_def
    settle_transfer_def settle_failed_def settle_done_def Let_def
  by (rule silent_rules silent_rest_steps)+

lemma silent_rest_captured:
  "silent rest (settle_and_show st dr i)" "silent rest (payment_captured st dr u m g t r)"
  unfolding payment_captured_def settle_and_show_def try_settle_def settlement_deferred_def attach_receipt_def Let_def
  by (rule silent_rules silent_rest_steps silent_rest_reads silent_rest_engine)+

lemma silent_rest_open: "silent rest (open_transaction dr u p m c a minor g defn)"
  unfolding open_transaction_def
  by (rule silent_rules silent_rest_steps silent_rest_reads)+

lemma silent_restD: "silent rest m \<Longrightarrow> m w = (w', r) \<Longrightarrow> rest w' = rest w"
  unfolding silent_def by (metis fst_conv)

text \<open>The steps of a new payment that is refused.\<close>

lemma open_transaction_run:
  assumes "open_transaction dr u p m c a minor g defn w = (w1, Inr t)"
  shows "db_txns (w_db w1) = db_txns (w_db w) @ [t]" "tx_id t \<notin> tx_id ` set (db_txns (w_db w))"
    "db_settlements (w_db w1) = db_settlements (w_db w)" "db_receipts (w_db w1) = db_receipts (w_db w)"
    "tx_merchant_reference t = payment_reference p" "tx_merchant_id t = me_id m" "tx_receipt_number t = None"
proof -
  from assms obtain row x where x: "txn_stored (new_transaction dr (me_id m) p c a minor g row defn) = Inr x"
    and add: "repo_add tx_id txn_constraints x (db_txns (w_db w)) = Inr (db_txns (w_db w1))" "t = x"
    and d: "db_settlements (w_db w1) = db_settlements (w_db w)" "db_receipts (w_db w1) = db_receipts (w_db w)"
    unfolding open_transaction_def txn_add_def add_status_log_def payment_audit_def audit_def bnd_Inr by auto
  have r: "tx_receipt_number x = None"
    using x by (auto simp: txn_stored_def bindr_Inr_iff new_transaction_def)
  show "db_txns (w_db w1) = db_txns (w_db w) @ [t]" "tx_id t \<notin> tx_id ` set (db_txns (w_db w))"
    using add by (auto simp: repo_add_def list_ex_iff split: if_splits)
  show "tx_merchant_reference t = payment_reference p" "tx_merchant_id t = me_id m" "tx_receipt_number t = None"
    using txn_stored_fields [OF x] r add(2) by (simp_all add: new_transaction_def)
  show "db_settlements (w_db w1) = db_settlements (w_db w)" "db_receipts (w_db w1) = db_receipts (w_db w)" by (rule d)+
qed

lemma update_last:
  "tx_id t = tx_id t0 \<Longrightarrow> tx_id t0 \<notin> tx_id ` set ts \<Longrightarrow> repo_update tx_id t (ts @ [t0]) = ts @ [t]"
  by (induction ts) (auto simp: repo_update_def)

lemma payment_declined_run:
  assumes "db_txns (w_db w) = ts @ [t0]" "tx_id t = tx_id t0" "tx_id t0 \<notin> tx_id ` set ts" "tx_receipt_number t = None"
    and "payment_declined u t r w = (w', Inl e)"
  shows "w_db w' = w_committed w'
    \<and> db_txns (w_db w') = ts @ [t\<lparr> tx_status := FAILED, tx_failure_reason := gp_error_message r \<rparr>]
    \<and> db_settlements (w_db w') = db_settlements (w_db w) \<and> db_receipts (w_db w') = db_receipts (w_db w)
    \<and> w_sessions w' = w_sessions w \<and> w_processors w' = w_processors w
    \<and> e = PaymentError (or_str (gp_error_message r) ''Payment failed'')"
proof -
  have "assert_transition (Some PROCESSING) FAILED = Inr ()" by code_simp
  then show ?thesis
    using assms
    by (auto simp: payment_declined_def move_to_def txn_put_def bnd_assoc add_status_log_def payment_audit_def audit_def
        txn_unique_receipt_def update_last)
qed

text \<open>A loaded transaction is always found again, so what is shown after a commit never fails.\<close>

lemma loaded_detailed:
  assumes "books_ok d" "loaded t d"
  shows "\<exists>u. txn_get_detailed d (tx_id t) = Inr (Some u)"
proof -
  obtain u where u: "u \<in> set (db_txns d)" "core u = core t" using assms(2) by (force simp: loaded_def)
  then show ?thesis using txn_found [OF assms(1) u(1)] core_id [OF u(2)] by auto
qed

lemma led_show_total:
  "led (loaded t) (bnd (the_transaction (tx_id t)) payment_response) (\<lambda>_ _. True) (\<lambda>_. False)"
proof (rule led_exact)
  fix w :: world
  assume "books_ok (w_db w)" "loaded t (w_db w)"
  then obtain x where "txn_get_detailed (w_db w) (tx_id t) = Inr (Some x)" using loaded_detailed by blast
  then have "bnd (the_transaction (tx_id t)) payment_response w = (w\<lparr> w_db := w_db w \<rparr>, Inr (payment_out_of (w_db w) x))"
    by (simp add: the_transaction_def payment_response_def bnd_assoc)
  then show "\<exists>d' r. bnd (the_transaction (tx_id t)) payment_response w = (w\<lparr> w_db := d' \<rparr>, r)
      \<and> books_ok d' \<and> books_grow (w_db w) d' \<and> (case r of Inr x \<Rightarrow> True | Inl _ \<Rightarrow> False)"
    using \<open>books_ok (w_db w)\<close> by (intro exI [of _ "w_db w"] exI) auto
qed

lemma awaits_error:
  assumes "payment_awaits_signature u t r w = (w', Inl e)" "linked (books w)" "loaded t (w_db w)"
  shows "rest w' = rest w"
proof -
  let ?t = "t\<lparr> tx_status := AUTHORIZED \<rparr>"
  define pre where "pre =
     bnd (liftr (assert_transition (Some PROCESSING) AUTHORIZED)) (\<lambda>_.
     bnd (move_to ?t (Some PROCESSING) (Some ''Signature required before capture'') ''payment_gateway'') (\<lambda>_.
     payment_audit ''signature_required'' (tx_id ?t) u
            (Some [(''authorization_code'', jopt (gp_authorization_code r))])))"
  define tail where "tail = bnd commit (\<lambda>_. bnd (the_transaction (tx_id ?t)) payment_response)"
  have eq: "payment_awaits_signature u t r = bnd pre (\<lambda>_. tail)"
    by (simp add: payment_awaits_signature_def pre_def tail_def bnd_assoc)
  have s: "silent rest pre"
    unfolding pre_def by (rule silent_rules silent_rest_reads)+
  have p: "led (loaded t) pre (\<lambda>_. loaded ?t) (\<lambda>_. True)"
    unfolding pre_def
    by (intro led_steps led_bnd [OF led_move_to] led_past [OF stable_loaded led_payment_audit]) simp_all
  have l: "led (loaded ?t) tail (\<lambda>_ _. True) (\<lambda>_. False)"
    unfolding tail_def by (rule led_bnd [OF led_commit led_show_total])
  from assms(1)[unfolded eq] consider "pre w = (w', Inl e)"
    | w1 where "pre w = (w1, Inr ())" "tail w1 = (w', Inl e)" by (auto simp: bnd_Inl)
  then show ?thesis
  proof cases
    case 1
    then show ?thesis by (rule silent_restD [OF s])
  next
    case (2 w1)
    have "linked (books w1) \<and> loaded ?t (snd (books w1))"
      using runsD(2) [OF p [unfolded led_def] _ 2(1)] assms(2,3) by (simp add: books_def)
    then have False using runsD(3) [OF l [unfolded led_def] _ 2(2)] by blast
    then show ?thesis ..
  qed
qed

text \<open>A refused payment: what \<open>create_payment\<close> has committed when it raises.\<close>

definition refused :: "uuid \<Rightarrow> create_payment_request \<Rightarrow> world \<Rightarrow> exc \<Rightarrow> world \<Rightarrow> bool" where
  "refused u p w e w' \<longleftrightarrow>
     (\<exists>m t. owner u m (w_db w) \<and> w_db w' = w_committed w' \<and> db_txns (w_db w') = db_txns (w_db w) @ [t]
        \<and> tx_status t = FAILED \<and> tx_failure_reason t \<noteq> None
        \<and> tx_merchant_id t = me_id m \<and> tx_merchant_reference t = payment_reference p
        \<and> e = PaymentError (or_str (tx_failure_reason t) ''Payment failed'')
        \<and> db_settlements (w_db w') = db_settlements (w_db w) \<and> db_receipts (w_db w') = db_receipts (w_db w)
        \<and> w_sessions w' = w_sessions w \<and> w_processors w' = w_processors w)"

lemma charge_refused:
  assumes open_t: "open_transaction dr u p m c a minor g defn w = (w1, Inr t)" and m: "owner u m (w_db w)"
    and linked: "linked (books w1)" "loaded t (w_db w1)"
    and err: "charge_transaction st h dr u p m g defn a t w1 = (w', Inl e)"
  shows "rest w' = rest w \<or> refused u p w e w'"
proof -
  note o = open_transaction_run [OF open_t]
  have w1: "rest w1 = rest w" by (rule silent_restD [OF silent_rest_open open_t])
  from err consider "w' = w1"
    | r w2 where "gateway_charge g st h (dr_hex dr 0) (dr_hex dr 1) (dr_hex dr 2) (charge_request p t a defn) = Inr r"
        "attempt_add (attempt_of t g r) w1 = (w2, Inr ())"
        "(if \<not> gp_success r then payment_declined u (charged dr t r) r
          else if gp_signature_required r then payment_awaits_signature u (charged dr t r) r
          else payment_captured st dr u m g (charged dr t r) r) w2 = (w', Inl e)"
    unfolding charge_transaction_def Let_def bnd_Inl by (auto simp: attempt_add_def)
  then show ?thesis
  proof cases
    case 1
    then show ?thesis using w1 by simp
  next
    case (2 r w2)
    let ?t = "charged dr t r"
    have c: "core ?t = core t" "tx_id ?t = tx_id t" "tx_receipt_number ?t = tx_receipt_number t"
      "tx_merchant_id ?t = tx_merchant_id t" "tx_merchant_reference ?t = tx_merchant_reference t"
      "tx_deleted_at ?t = tx_deleted_at t"
      by (simp_all add: charged_def Let_def)
    have w2: "w2 = w1\<lparr> w_db := (w_db w1)\<lparr> db_attempts := db_attempts (w_db w1) @ [attempt_of t g r] \<rparr> \<rparr>"
      using 2(2) by (simp add: attempt_add_def)
    have r2: "rest w2 = rest w" using w1 by (simp add: w2 rest_def)
    have l2: "linked (books w2) \<and> loaded ?t (w_db w2)"
    proof -
      have "books_step (w_db w1) (w_db w2)" by (simp add: w2 books_step_def)
      then have "linked (books w2)" using linked(1) by (auto simp: linked_def books_def w2 intro: books_step_trans)
      then show ?thesis using linked(2) c by (simp add: loaded_def w2)
    qed
    show ?thesis
    proof (cases "gp_success r")
      case True
      show ?thesis
      proof (cases "gp_signature_required r")
        case True
        then show ?thesis using 2(3) \<open>gp_success r\<close> awaits_error [of u ?t r w2 w' e] l2 r2 by simp
      next
        case False
        then show ?thesis
          using 2(3) \<open>gp_success r\<close> silent_restD [OF silent_rest_captured(2), of st dr u m g ?t r w2 w'] r2 by simp
      qed
    next
      case False
      have f: "gp_error_message r \<noteq> None" using gw.charge_fails [OF 2(1) False] by blast
      have "payment_declined u ?t r w2 = (w', Inl e)" using 2(3) False by simp
      from payment_declined_run [OF _ c(2) o(2) _ this] c o w2
      show ?thesis
        using m f r2 by (auto simp: refused_def rest_def)
    qed
  qed
qed

lemma resolve_merchant_result:
  "resolve_merchant_for_user u w = (w', r) \<Longrightarrow> w' = w \<and> (\<forall>m. r = Inr m \<longrightarrow> owner u m (w_db w))"
  by (auto simp: resolve_merchant_for_user_def owner_def expect_def check_def split: sum.splits option.splits if_splits)

lemma show_unchanged: "bnd (the_transaction i) payment_response w = (w', r) \<Longrightarrow> w' = w"
  by (auto simp: the_transaction_def payment_response_def expect_def bnd_assoc split: sum.splits option.splits)

lemma found_or_new:
  assumes "bnd (ask_db (find_existing p i)) (case_option new (\<lambda>t. bnd (the_transaction (tx_id t)) payment_response)) w
    = (w', Inl e)"
  shows "w' = w \<or> new w = (w', Inl e)"
proof (cases "find_existing p i (w_db w)")
  case (Inr x)
  then show ?thesis using assms by (cases x) (auto dest: show_unchanged)
qed (use assms in simp)

lemma create_refused:
  assumes "create_payment st h dr u p w = (w', Inl e)" "clean w"
  shows "rest w' = rest w \<or> refused u p w e w'"
proof -
  consider "w' = w" | m c a minor where "owner u m (w_db w)" "new_payment st h dr u p m c a minor w = (w', Inl e)"
  proof -
    have "w' = w \<or> (\<exists>m a minor. owner u m (w_db w) \<and>
        bnd (ask_db (find_existing p (me_id m))) (case_option (new_payment st h dr u p m (upper (cp_currency p)) a minor)
          (\<lambda>t. bnd (the_transaction (tx_id t)) payment_response)) w = (w', Inl e))"
      using assms(1)
      unfolding create_payment_def Let_def currency_check_def bnd_Inl [of "check b e'" for b e']
        bnd_Inl [of "resolve_merchant_for_user u"] bnd_Inl [of "liftr r" for r]
      by (auto dest!: resolve_merchant_result simp del: bnd_run ask_db_run split: if_splits)
    then show thesis using found_or_new that by blast
  qed
  then show ?thesis
  proof cases
    case (2 m c a minor)
    from 2(2) consider "rest w' = rest w"
      | defn g t w1 where "open_transaction dr u p m c a minor g defn w = (w1, Inr t)"
          "charge_transaction st h dr u p m g defn a t w1 = (w', Inl e)"
      unfolding new_payment_def bnd_Inl by (auto split: if_splits dest: silent_restD [OF silent_rest_open])
    then show ?thesis
    proof cases
      case (2 defn g t w1)
      have "linked (books w) \<and> True" using assms(2) by (auto simp: clean_def linked_def books_def)
      from runsD(2) [OF led_open_transaction [unfolded led_def] this 2(1)] 2 \<open>owner u m (w_db w)\<close>
      show ?thesis by (intro charge_refused) (auto simp: books_def)
    qed simp
  qed simp
qed

lemma own_transaction_result:
  "own_transaction m i w = (w', Inr t) \<Longrightarrow>
     w' = w \<and> t \<in> set (db_txns (w_db w)) \<and> tx_id t = i \<and> tx_merchant_id t = me_id m"
  unfolding own_transaction_def bnd_Inr expect_def check_def
  by (auto split: option.split_asm if_split_asm dest: txn_detailed_loaded)

lemma move_to_result:
  "move_to t f n a w = (w', Inr x) \<Longrightarrow>
     db_txns (w_db w') = repo_update tx_id t (db_txns (w_db w))
     \<and> db_status_logs (w_db w') = db_status_logs (w_db w) @
         [\<lparr> sl_transaction_id = tx_id t, sl_from_status = f, sl_to_status = tx_status t, sl_note = n, sl_actor = Some a \<rparr>]"
  unfolding move_to_def txn_put_def add_status_log_def bnd_Inr by auto

lemma show_result:
  "bnd (the_transaction i) payment_response w = (w', Inr out) \<Longrightarrow>
     w' = w \<and> (\<exists>x \<in> set (db_txns (w_db w)). tx_id x = i \<and> out = payment_out_of (w_db w) x)"
  unfolding the_transaction_def payment_response_def bnd_Inr expect_def
  by (auto split: option.split_asm dest: txn_detailed_loaded)

section \<open>The properties\<close>

text \<open>C1. Whatever requests the payment service serves, in any order, with any gateway answers: the
  tables stay consistent (identifiers and references unique, at most one receipt and one settlement
  per transaction, exactly one successful wallet transfer for a completed settlement and none for any
  other), no transaction disappears or changes its merchant, amount, currency or reference, the
  status, attempt, receipt, transfer and audit logs only grow, and a completed settlement never
  changes again. So no settlement is ever paid out twice.\<close>

theorem payment_ledger:
  assumes "payment_run st w w'" "w_db w = w_committed w" "books_ok (w_db w)"
  shows "w_db w' = w_committed w' \<and> books_ok (w_db w') \<and> books_grow (w_db w) (w_db w')
    \<and> (\<forall>s \<in> set (db_settlements (w_db w')). transfers (se_id s) (db_transfer_logs (w_db w')) \<le> 1)"
proof -
  have "clean w'" "books_grow (w_db w) (w_db w')"
    using payment_run_books [OF assms(1)] assms(2,3) unfolding clean_def by blast+
  then show ?thesis by (auto simp: clean_def books_ok_def payouts_ok_def)
qed

theorem payment_ledger_witness:
  "let w = serve_payment default_settings no_http sample_draws ''u1'' (Settle_Task ''t1'')
         (serve_payment default_settings no_http sample_draws ''u1'' (Create_Payment (sample_payment ''pm_test_visa_success''))
           (paid_world CAPTURED))
   in books_ok (w_db w) \<and> (\<forall>s \<in> set (db_settlements (w_db w)). transfers (se_id s) (db_transfer_logs (w_db w)) \<le> 1)"
proof -
  note run = payment_request [OF payment_request [OF payment_start]]
  show ?thesis unfolding Let_def using payment_ledger [OF run paid_world_saved paid_world_facts(1)] by blast
qed

text \<open>C2. Idempotent payments: once a payment was created under a reference (its idempotency key, or
  else its merchant reference), every later payment request of that user with the same reference
  returns that payment, with its amount and currency, and changes nothing: no charge is repeated.
  What happens in between, the gateway, the clock and the other fields of the request play no part.\<close>

theorem payment_idempotent:
  assumes "w_db w = w_committed w" "books_ok (w_db w)"
    and "run_request (create_payment st http dr u p) w = (w1, Inr out)"
    and "pay_merchant_reference out = payment_reference p"
    and "payment_run st w1 w2"
    and "payment_reference q = payment_reference p"
    and "upper (cp_currency q) \<in> supported_currencies st" "is_ok (resolve_amount q (upper (cp_currency q)))"
  shows "\<exists>out'. run_request (create_payment st http' dr' u q) w2 = (w2, Inr out') \<and> pay_id out' = pay_id out
    \<and> pay_amount out' = pay_amount out \<and> pay_currency out' = pay_currency out"
proof -
  have c: "clean w" using assms(1,2) by (simp add: clean_def)
  note r = run_request_led [OF led_create_payment_shows c assms(3)]
  from r(3) obtain m t where m: "owner u m (w_db w1)" and t: "loaded t (w_db w1)" "shown_core out = core t"
      "tx_merchant_id t = me_id m"
    by (auto simp: shows_payment_of_def shown_def)
  have g: "clean w2" "books_grow (w_db w1) (w_db w2)" using payment_run_books [OF assms(5) r(1)] by simp_all
  have "owner u m (w_db w2)" "loaded t (w_db w2)"
    using stable_owner [of u m] stable_loaded [of t] m t(1) g(2) unfolding stable_def by blast+
  moreover have "tx_merchant_reference t = payment_reference q"
    using t(2) assms(4,6) by (simp add: shown_core_def core_def)
  ultimately obtain out' where "run_request (create_payment st http' dr' u q) w2 = (w2, Inr out')"
      "shown_core out' = core t"
    using find_again [OF g(1) _ _ t(3) _ assms(7,8)] by blast
  moreover have "shown_core out' = shown_core out" using calculation t(2) by simp
  ultimately show ?thesis by (auto simp: shown_core_def)
qed

theorem payment_idempotent_witness:
  "\<exists>w1 out out'. run_request (create_payment default_settings no_http sample_draws ''u1''
      (sample_payment ''pm_test_visa_signature'')) (paid_world CAPTURED) = (w1, Inr out)
    \<and> run_request (create_payment default_settings no_http sample_draws ''u1'' (sample_payment ''pm_test_visa_declined'')) w1
      = (w1, Inr out') \<and> pay_id out' = pay_id out"
proof -
  obtain w1 out where run: "run_request (create_payment default_settings no_http sample_draws ''u1''
      (sample_payment ''pm_test_visa_signature'')) (paid_world CAPTURED) = (w1, Inr out)"
    "pay_merchant_reference out = payment_reference (sample_payment ''pm_test_visa_signature'')"
    using sample_awaits_signature by blast
  have "payment_reference (sample_payment ''pm_test_visa_declined'') = payment_reference (sample_payment ''pm_test_visa_signature'')"
    by (simp add: payment_reference_def sample_payment_def)
  moreover have "is_ok (resolve_amount (sample_payment token) (upper (cp_currency (sample_payment token))))" for token
    by (simp add: sample_currency(1) sample_amount)
  moreover have "upper (cp_currency (sample_payment token)) \<in> supported_currencies default_settings" for token
    by (simp add: sample_currency)
  ultimately show ?thesis
    using payment_idempotent [OF paid_world_saved paid_world_facts(1) run payment_start] run(1) by blast
qed

text \<open>C4. A payment request that raises leaves one of two things behind: nothing at all, or, when the
  gateway refused the charge, exactly one new transaction of the caller's merchant under the requested
  reference, FAILED with its reason, committed although the request failed (so that a repeated request
  finds it), and a \<open>PaymentError\<close> with that reason. It never leaves a receipt or a settlement.\<close>

theorem create_payment_error:
  assumes "w_db w = w_committed w" "books_ok (w_db w)"
    and "run_request (create_payment st http dr u p) w = (w', Inl e)"
  shows "w' = w \<or> refused u p w e w'"
proof -
  have c: "clean w" using assms(1,2) by (simp add: clean_def)
  obtain w1 where w1: "create_payment st http dr u p w = (w1, Inl e)" and w': "w' = w1\<lparr> w_db := w_committed w1 \<rparr>"
    using assms(3) by (auto simp: run_request_def split: prod.splits sum.splits)
  from create_refused [OF w1 c] show ?thesis
  proof
    assume "rest w1 = rest w"
    then show ?thesis using rolled_back [OF _ c] w' by simp
  next
    assume r: "refused u p w e w1"
    then have "w1\<lparr> w_db := w_committed w1 \<rparr> = w1" by (auto simp: refused_def)
    then show ?thesis using r w' by simp
  qed
qed

theorem create_payment_error_witness:
  "\<exists>w' e. run_request (create_payment default_settings no_http sample_draws ''u1''
      (sample_payment ''pm_test_visa_declined'')) (paid_world CAPTURED) = (w', Inl e)
    \<and> refused ''u1'' (sample_payment ''pm_test_visa_declined'') (paid_world CAPTURED) e w'"
proof -
  obtain w' e where run: "run_request (create_payment default_settings no_http sample_draws ''u1''
      (sample_payment ''pm_test_visa_declined'')) (paid_world CAPTURED) = (w', Inl e)" "length (db_txns (w_db w')) = 2"
    using sample_declined by blast
  have "w' \<noteq> paid_world CAPTURED" using run(2) by (auto simp: paid_world_facts)
  then show ?thesis using create_payment_error [OF paid_world_saved paid_world_facts(1) run(1)] run(1) by blast
qed

text \<open>C6. A merchant cannot touch another's payments: for a transaction of a different merchant every
  operation on it answers exactly as for a transaction that does not exist, and nothing changes.\<close>

theorem foreign_payment_hidden:
  assumes "w_db w = w_committed w" "books_ok (w_db w)" "owner u m (w_db w)"
    and "t \<in> set (db_txns (w_db w))" "tx_merchant_id t \<noteq> me_id m"
  shows "get_payment u (tx_id t) w = (w, Inl (NotFoundError ''Transaction not found''))
    \<and> get_receipt u (tx_id t) w = (w, Inl (NotFoundError ''Transaction not found''))
    \<and> cancel_payment u (tx_id t) w = (w, Inl (NotFoundError ''Transaction not found''))
    \<and> refund_payment st http dr u (tx_id t) rq w = (w, Inl (NotFoundError ''Transaction not found''))
    \<and> complete_signature st dr u (tx_id t) sq w = (w, Inl (NotFoundError ''Transaction not found''))"
proof -
  have l: "loaded t (w_db w)" using txn_in_loaded assms(2,4) by blast
  obtain x where x: "txn_get_detailed (w_db w) (tx_id t) = Inr (Some x)" using loaded_detailed [OF assms(2) l] by blast
  have "core x = core t" using same_core [OF assms(2) _ l] txn_detailed_loaded [OF x] by blast
  then have "tx_merchant_id x \<noteq> me_id m" using assms(5) by (simp add: core_def)
  then have o: "own_transaction m (tx_id t) w = (w, Inl (NotFoundError ''Transaction not found''))"
    using x by (simp add: own_transaction_def)
  have r: "resolve_merchant_for_user u w = (w, Inr m)"
    using assms(3) by (simp add: resolve_merchant_for_user_def owner_def)
  show ?thesis
    by (simp add: get_payment_def get_receipt_def cancel_payment_def refund_payment_def complete_signature_def
        bnd_cong_run [where m = "resolve_merchant_for_user u" and w = w and w' = w and x = m, OF r]
        bnd_cong_err [where m = "own_transaction m (tx_id t)" and w = w and w' = w, OF o])
qed

theorem foreign_payment_hidden_witness:
  "let w = (paid_world CAPTURED)\<lparr> w_db := (w_db (paid_world CAPTURED))\<lparr> db_merchants := [sample_merchant ''m2'' ''u2''] \<rparr>,
              w_committed := (w_db (paid_world CAPTURED))\<lparr> db_merchants := [sample_merchant ''m2'' ''u2''] \<rparr> \<rparr>
   in cancel_payment ''u2'' ''t1'' w = (w, Inl (NotFoundError ''Transaction not found''))"
proof -
  define w where "w = (paid_world CAPTURED)\<lparr> w_db := (w_db (paid_world CAPTURED))\<lparr> db_merchants := [sample_merchant ''m2'' ''u2''] \<rparr>,
              w_committed := (w_db (paid_world CAPTURED))\<lparr> db_merchants := [sample_merchant ''m2'' ''u2''] \<rparr> \<rparr>"
  have "w_db w = w_committed w" "books_ok (w_db w)"
    using paid_world_facts(1) [of CAPTURED] by (simp_all add: w_def books_ok_def)
  moreover have "owner ''u2'' (sample_merchant ''m2'' ''u2'') (w_db w)"
    by (simp add: w_def owner_def merchant_get_by_owner_def base_query_def find_one_def sample_merchant_def)
  moreover have "sample_txn ''t1'' CAPTURED \<in> set (db_txns (w_db w))" by (simp add: w_def paid_world_facts)
  moreover have "tx_merchant_id (sample_txn ''t1'' CAPTURED) \<noteq> me_id (sample_merchant ''m2'' ''u2'')"
    by (simp add: sample_txn_def sample_merchant_def)
  ultimately have "cancel_payment ''u2'' (tx_id (sample_txn ''t1'' CAPTURED)) w = (w, Inl (NotFoundError ''Transaction not found''))"
    by (rule foreign_payment_hidden [THEN conjunct2, THEN conjunct2, THEN conjunct1])
  then show ?thesis unfolding Let_def w_def [symmetric] by (simp add: sample_txn_def)
qed

lemma refundable_iff:
  "s \<in> set refundable \<longleftrightarrow> assert_transition (Some s) REFUNDED = Inr () \<and> s \<noteq> MANUAL_REVIEW"
  by (cases s) (simp_all add: refundable_def assert_transition_Some_iff allowed_from_def)

text \<open>C5. A refund that succeeds: the transaction is one of the caller's, its status is one that the state
  machine lets become REFUNDED (so it was captured and not refunded before) and it is not under review, the gateway accepted the refund of the requested or the whole amount, and exactly this is
  recorded: the transaction is REFUNDED and the status log gains the step from its previous status.\<close>

theorem refund_payment_spec:
  assumes "w_db w = w_committed w" "books_ok (w_db w)"
    and "run_request (refund_payment st http dr u i p) w = (w', Inr out)"
  shows "\<exists>m t g r. owner u m (w_db w) \<and> t \<in> set (db_txns (w_db w)) \<and> tx_id t = i \<and> tx_merchant_id t = me_id m
    \<and> assert_transition (Some (tx_status t)) REFUNDED = Inr () \<and> tx_status t \<noteq> MANUAL_REVIEW
    \<and> gateway_refund g st http (dr_hex dr 0)
         \<lparr> gf_gateway_reference = or_str (tx_gateway_reference t) [], gf_amount = refund_amount p t,
           gf_currency = tx_currency t, gf_reason = rp_reason p \<rparr> = Inr r \<and> gr_status r = REFUNDED
    \<and> db_txns (w_db w') = repo_update tx_id (t\<lparr> tx_status := REFUNDED, tx_failure_reason := rp_reason p \<rparr>) (db_txns (w_db w))
    \<and> (\<exists>l. db_status_logs (w_db w') = db_status_logs (w_db w) @ [l] \<and> sl_transaction_id l = i
         \<and> sl_from_status l = Some (tx_status t) \<and> sl_to_status l = REFUNDED)
    \<and> pay_id out = i \<and> pay_status out = REFUNDED"
proof -
  obtain w1 where w1: "refund_payment st http dr u i p w = (w1, Inr out)" and w': "w_db w' = w_db w1"
    using assms(3) by (auto simp: run_request_def split: prod.splits sum.splits)
  from w1 obtain m t g r w0 w0' w2 where m: "resolve_merchant_for_user u w = (w0, Inr m)"
      and t: "own_transaction m i w0 = (w0', Inr t)" and s: "tx_status t \<in> set refundable"
      and r: "gateway_refund g st http (dr_hex dr 0)
         \<lparr> gf_gateway_reference = or_str (tx_gateway_reference t) [], gf_amount = refund_amount p t,
           gf_currency = tx_currency t, gf_reason = rp_reason p \<rparr> = Inr r" "gr_success r"
      and mv: "move_to (t\<lparr> tx_status := REFUNDED, tx_failure_reason := rp_reason p \<rparr>) (Some (tx_status t))
            (Some (or_str (rp_reason p) (gr_refund_reference r))) ''payment_service'' w0' = (w2, Inr ())"
      and sh: "bnd (the_transaction (tx_id t)) payment_response w2 = (w1, Inr out)"
    unfolding refund_payment_def bnd_Inr [of "resolve_merchant_for_user u"] bnd_Inr [of "own_transaction m i" for m]
      bnd_Inr [of "check b e" for b e] bnd_Inr [of "liftr x" for x] bnd_Inr [of "move_to t f n a" for t f n a]
    by (auto split: if_splits)
  have w0: "w0 = w" "owner u m (w_db w)" using resolve_merchant_result [OF m] by simp_all
  let ?t = "t\<lparr> tx_status := REFUNDED, tx_failure_reason := rp_reason p \<rparr>"
  note t' = own_transaction_result [OF t, unfolded w0] and mv' = move_to_result [OF mv] and sh' = show_result [OF sh]
  have w1: "w1 = w2" and w0': "w0' = w" using t' sh' by simp_all
  have rows: "db_txns (w_db w') = repo_update tx_id ?t (db_txns (w_db w))" using mv' w1 w0' w' by simp
  have logs: "\<exists>l. db_status_logs (w_db w') = db_status_logs (w_db w) @ [l] \<and> sl_transaction_id l = i
         \<and> sl_from_status l = Some (tx_status t) \<and> sl_to_status l = REFUNDED"
    using mv' w1 w0' w' t' by simp
  obtain x where x: "x \<in> set (db_txns (w_db w2))" "tx_id x = tx_id t" "out = payment_out_of (w_db w2) x"
    using sh' by blast
  then have "x = ?t" using rows w1 w' by (simp add: set_repo_update)
  then have "pay_id out = i \<and> pay_status out = REFUNDED"
    using x(3) t' by (simp add: payment_out_of_def Let_def)
  moreover have "gr_status r = REFUNDED" using gw.refund_law [OF r(1)] r(2) by blast
  ultimately show ?thesis
    using t' s [unfolded refundable_iff] r(1) rows logs w0(2) by blast
qed

theorem refund_payment_spec_witness:
  "\<exists>w' out. run_request (refund_payment default_settings no_http sample_draws ''u1'' ''t1''
      \<lparr> rp_amount = None, rp_reason = None \<rparr>) (paid_world CAPTURED) = (w', Inr out) \<and> pay_status out = REFUNDED"
proof -
  let ?p = "\<lparr> rp_amount = None, rp_reason = None \<rparr>" and ?w = "paid_world CAPTURED"
  let ?t = "sample_txn ''t1'' CAPTURED"
  obtain w' out where run: "run_request (refund_payment default_settings no_http sample_draws ''u1'' ''t1'' ?p) ?w = (w', Inr out)"
    using sample_refund by blast
  then show ?thesis using refund_payment_spec [OF paid_world_saved paid_world_facts(1) run] by blast
qed

text \<open>C8. A webhook is believed without any proof of its origin: whoever knows the gateway reference of
  a FAILED payment can post a Moyasar callback, with any headers at all and whatever secret is
  configured, and the payment becomes CAPTURED, a change that \<open>assert_transition\<close> forbids and that
  leaves no trace in the status log.\<close>

theorem forged_webhook_revives_payment:
  assumes "w_db w = w_committed w" "books_ok (w_db w)"
    and "txn_get_by_gateway_reference (w_db w) ref = Inr (Some t)" "ref \<noteq> []" "tx_status t = FAILED"
  shows "\<exists>w'. run_request (handle_moyasar_webhook st dr headers [(''id'', JStr ref), (''status'', JStr ''paid'')]) w
      = (w', Inr (webhook_matched t))
    \<and> t\<lparr> tx_status := CAPTURED \<rparr> \<in> set (db_txns (w_db w')) \<and> db_status_logs (w_db w') = db_status_logs (w_db w)
    \<and> db_audit_logs (w_db w') = db_audit_logs (w_db w)
    \<and> \<not> is_ok (assert_transition (Some FAILED) CAPTURED)"
proof -
  have g: "get_payment_gateway st (Some ''moyasar'') = Inr MoyasarPaymentGateway"
    by (simp add: get_payment_gateway_def get_payment_gateway_in_def GATEWAY_REGISTRY_def Let_def or_str_def) code_simp
  define r where "r = (PaymentResult True CAPTURED ref) \<lparr> gp_payment_method := Some ''card'',
    gp_raw_response := [(''headers'', str_dict headers), (''payload'', JDict [(''id'', JStr ref), (''status'', JStr ''paid'')])] \<rparr>"
  have v: "gateway_verify_callback MoyasarPaymentGateway headers [(''id'', JStr ref), (''status'', JStr ''paid'')] h = Inr r" for h
    using assms(4) by (simp add: gateway_verify_callback_def moyasar_verify_callback_def r_def dget_def moyasar_paid_def
        captured_if_def Let_def str_or_def)
  have gr: "gp_gateway_reference r = ref" by (simp add: r_def)
  have a: "moyasar_apply r t = t\<lparr> tx_status := CAPTURED \<rparr>" using assms(5) by (simp add: moyasar_apply_def r_def)
  have t: "loaded t (w_db w)" "t \<in> set (db_txns (w_db w))"
    using assms(3) unfolding txn_get_by_gateway_reference_def
    by (auto dest: base_query_loaded) (auto simp: base_query_def dest: find_one_Some)
  have "txn_unique_receipt (t\<lparr> tx_status := CAPTURED \<rparr>) (filter (\<lambda>r. tx_id r \<noteq> tx_id t) (db_txns (w_db w)))"
    using assms(2) t(2) by (auto simp: books_ok_def txns_ok_def txn_unique_receipt_def)
  then have h: "handle_moyasar_webhook st dr headers [(''id'', JStr ref), (''status'', JStr ''paid'')] w
      = (w\<lparr> w_db := (w_db w)\<lparr> db_txns := repo_update tx_id (t\<lparr> tx_status := CAPTURED \<rparr>) (db_txns (w_db w)) \<rparr> \<rparr>,
         Inr (webhook_matched t))"
    using assms(3,4) gr by (simp add: handle_moyasar_webhook_def g v a Let_def txn_put_def bnd_assoc webhook_matched_def)
  have "\<not> is_ok (assert_transition (Some FAILED) CAPTURED)" by code_simp
  moreover have "t\<lparr> tx_status := CAPTURED \<rparr> \<in> set (repo_update tx_id (t\<lparr> tx_status := CAPTURED \<rparr>) (db_txns (w_db w)))"
    using t(2) by (auto simp: set_repo_update)
  ultimately show ?thesis by (simp add: run_request_def h)
qed

theorem forged_webhook_revives_payment_witness:
  "\<exists>w'. run_request (handle_moyasar_webhook (default_settings\<lparr> moyasar_webhook_secret := ''s3cret'' \<rparr>) sample_draws []
        [(''id'', JStr ''sbx_1''), (''status'', JStr ''paid'')]) (paid_world FAILED)
      = (w', Inr (webhook_matched (sample_txn ''t1'' FAILED)))
    \<and> (sample_txn ''t1'' FAILED)\<lparr> tx_status := CAPTURED \<rparr> \<in> set (db_txns (w_db w'))"
proof -
  have "txn_get_by_gateway_reference (w_db (paid_world FAILED)) ''sbx_1'' = Inr (Some (sample_txn ''t1'' FAILED))"
    by (simp add: txn_get_by_gateway_reference_def paid_world_facts base_query_def find_one_def sample_txn_def)
  moreover have "''sbx_1'' \<noteq> []" "tx_status (sample_txn ''t1'' FAILED) = FAILED" by (simp_all add: sample_txn_def)
  ultimately show ?thesis
    using forged_webhook_revives_payment [where w = "paid_world FAILED" and ref = "''sbx_1''"
      and t = "sample_txn ''t1'' FAILED" and st = "default_settings\<lparr> moyasar_webhook_secret := ''s3cret'' \<rparr>"
      and dr = sample_draws and headers = "[]"] paid_world_saved paid_world_facts(1)
    by blast
qed

end
