(* ===== verification/Security.thy ===== *)
theory Security
  imports Database Config
begin

text \<open>
  Passwords, tokens and the gate of the routes: \<open>src/app/core/security.py\<close>, \<open>src/app/api/v1/deps.py\<close> and
  \<open>src/app/repositories/user.py\<close>.

  The password hash (passlib) and the token signature (python-jose) are outside the repository: an
  \<open>auth_lib\<close> holds the four calls the code makes of them and is an argument of every operation.
  \<open>lib_hash\<close> takes the salt it draws; \<open>lib_decode\<close> the instant of the call, since it refuses an expired
  token, and answers \<open>None\<close> for a \<open>JWTError\<close>. jose writes the instants of the claims as whole seconds and
  refuses a token whose \<open>sub\<close> or \<open>jti\<close> is not a string, so the claims hold \<open>JInt\<close> and \<open>JStr\<close> there.
\<close>

section \<open>\<open>UUID(text)\<close>\<close>

function remove_all :: "string \<Rightarrow> string \<Rightarrow> string" where
  \<comment> \<open>\<open>s.replace(m, '')\<close> for a nonempty \<open>m\<close>\<close>
  "remove_all m [] = []"
| "remove_all m (c # s) =
     (if m \<noteq> [] \<and> starts_with (c # s) m then remove_all m (drop (length m) (c # s)) else c # remove_all m s)"
  by pat_completeness auto
termination
  by (relation "measure (\<lambda>(m, s). length s)") auto

definition strip_braces :: "string \<Rightarrow> string" where
  "strip_braces s =
     (let brace = (\<lambda>c. c = CHR ''{'' \<or> c = CHR ''}'') in rev (dropWhile brace (rev (dropWhile brace s))))"

definition hex_value :: "char \<Rightarrow> int option" where
  "hex_value c =
     (let n = ord c in
      if 48 \<le> n \<and> n \<le> 57 then Some (int n - 48)
      else if 97 \<le> n \<and> n \<le> 102 then Some (int n - 87)
      else if 65 \<le> n \<and> n \<le> 70 then Some (int n - 55)
      else None)"

fun hex_number :: "bool \<Rightarrow> int \<Rightarrow> string \<Rightarrow> int option" where
  \<comment> \<open>the digits of \<open>int(s, 16)\<close>: single underscores may separate them\<close>
  "hex_number digit_before acc [] = (if digit_before then Some acc else None)"
| "hex_number digit_before acc (c # s) =
     (if c = CHR ''_'' then (if digit_before then hex_number False acc s else None)
      else case hex_value c of None \<Rightarrow> None | Some v \<Rightarrow> hex_number True (acc * 16 + v) s)"

definition int_16 :: "string \<Rightarrow> int option" where
  "int_16 s =
     (let s = strip s;
          minus = starts_with s ''-'';
          s = (if minus \<or> starts_with s ''+'' then tl s else s);
          r = (if (starts_with s ''0x'' \<or> starts_with s ''0X'') \<and> 2 < length s
               then hex_number (starts_with (drop 2 s) ''_'') 0 (drop 2 s) else hex_number False 0 s)
      in map_option (\<lambda>v. if minus then - v else v) r)"

fun hex_text :: "nat \<Rightarrow> int \<Rightarrow> string" where
  "hex_text 0 v = []"
| "hex_text (Suc n) v = hex_text n (v div 16) @ [hex_digit (nat (v mod 16))]"

definition dashed :: "string \<Rightarrow> uuid" where
  "dashed h = take 8 h @ ''-'' @ take 4 (drop 8 h) @ ''-'' @ take 4 (drop 12 h) @ ''-'' @ take 4 (drop 16 h)
     @ ''-'' @ drop 20 h"

definition parse_uuid :: "string \<Rightarrow> uuid res" where
  "parse_uuid s =
     (let h = filter (\<lambda>c. c \<noteq> CHR ''-'') (strip_braces (remove_all ''uuid:'' (remove_all ''urn:'' s))) in
      if py_len h \<noteq> 32 then Inl (ValueError ''badly formed hexadecimal UUID string'')
      else case int_16 h of
        None \<Rightarrow> Inl (ValueError (''invalid literal for int() with base 16: '' @ py_repr h))
      | Some v \<Rightarrow> if v < 0 then Inl (ValueError ''int is out of range (need a 128-bit value)'')
                  else Inr (dashed (hex_text 32 v)))"

section \<open>Passwords and tokens\<close>

record auth_lib =
  lib_hash :: "string \<Rightarrow> string \<Rightarrow> string"
  lib_verify :: "string \<Rightarrow> string \<Rightarrow> bool"
  lib_encode :: "dict \<Rightarrow> string \<Rightarrow> string \<Rightarrow> string"
  lib_decode :: "time \<Rightarrow> string \<Rightarrow> string \<Rightarrow> string \<Rightarrow> dict option"

definition hash_password :: "auth_lib \<Rightarrow> string \<Rightarrow> string \<Rightarrow> string" where
  "hash_password lib salt password = lib_hash lib salt password"

definition verify_password :: "auth_lib \<Rightarrow> string \<Rightarrow> string \<Rightarrow> bool" where
  "verify_password lib plain_password password_hash = lib_verify lib plain_password password_hash"

definition second_us :: int where
  "second_us = 1000000"

definition token_claims :: "time \<Rightarrow> uuid \<Rightarrow> string \<Rightarrow> int \<Rightarrow> dict \<Rightarrow> dict" where
  "token_claims now subject token_type expires_delta extra_claims =
     foldl (\<lambda>payload (k, v). dset k v payload)
       [(''sub'', JStr subject), (''type'', JStr token_type), (''iat'', JInt (now div second_us)),
        (''exp'', JInt ((now + expires_delta) div second_us))] extra_claims"

definition create_token ::
  "auth_lib \<Rightarrow> settings \<Rightarrow> time \<Rightarrow> uuid \<Rightarrow> string \<Rightarrow> int \<Rightarrow> dict \<Rightarrow> string" where
  "create_token lib st now subject token_type expires_delta extra_claims =
     lib_encode lib (token_claims now subject token_type expires_delta extra_claims) (secret_key st) (jwt_algorithm st)"

definition access_lifetime :: "settings \<Rightarrow> int" where
  "access_lifetime st = access_token_expire_minutes st * 60 * second_us"

definition refresh_lifetime :: "settings \<Rightarrow> int" where
  "refresh_lifetime st = refresh_token_expire_days st * 86400 * second_us"

definition create_access_token :: "auth_lib \<Rightarrow> settings \<Rightarrow> time \<Rightarrow> uuid \<Rightarrow> dict \<Rightarrow> string" where
  "create_access_token lib st now subject extra_claims =
     create_token lib st now subject ''access'' (access_lifetime st) extra_claims"

definition create_refresh_token :: "auth_lib \<Rightarrow> settings \<Rightarrow> time \<Rightarrow> uuid \<Rightarrow> string \<Rightarrow> string" where
  "create_refresh_token lib st now subject jti =
     create_token lib st now subject ''refresh'' (refresh_lifetime st) [(''jti'', JStr jti)]"

definition decode_token :: "auth_lib \<Rightarrow> settings \<Rightarrow> time \<Rightarrow> string \<Rightarrow> dict res" where
  "decode_token lib st now token =
     (case lib_decode lib now token (secret_key st) (jwt_algorithm st) of
        None \<Rightarrow> Inl (ValueError ''Invalid or expired token'')
      | Some claims \<Rightarrow> Inr claims)"

definition claimed_subject :: "dict \<Rightarrow> uuid res" where
  \<comment> \<open>\<open>UUID(claims["sub"])\<close>\<close>
  "claimed_subject claims =
     (case map_of claims ''sub'' of
        None \<Rightarrow> Inl (KeyError ''sub'')
      | Some (JStr s) \<Rightarrow> parse_uuid s
      | Some _ \<Rightarrow> Inl AttributeError)"

section \<open>Repositories\<close>

definition user_get_by_email :: "db \<Rightarrow> string \<Rightarrow> user_row option res" where
  "user_get_by_email d email = find_one (\<lambda>u. us_email u = lower email) (base_query us_deleted_at (db_users d))"

definition user_get_by_id_with_relations :: "db \<Rightarrow> uuid \<Rightarrow> user_row option res" where
  "user_get_by_id_with_relations d user_id = find_one (\<lambda>u. us_id u = user_id) (base_query us_deleted_at (db_users d))"

definition role_get_by_name :: "db \<Rightarrow> string \<Rightarrow> role_row option res" where
  "role_get_by_name d name = find_one (\<lambda>r. ro_name r = name) (base_query ro_deleted_at (db_roles d))"

definition refresh_get_active_by_jti :: "db \<Rightarrow> time \<Rightarrow> string \<Rightarrow> refresh_token_row option res" where
  "refresh_get_active_by_jti d now jti =
     find_one (\<lambda>t. rt_jti t = jti \<and> rt_revoked_at t = None \<and> now < rt_expires_at t)
       (base_query rt_deleted_at (db_refresh_tokens d))"

definition refresh_revoke :: "time \<Rightarrow> refresh_token_row \<Rightarrow> unit handler" where
  "refresh_revoke now token =
     on_db (\<lambda>d. d\<lparr> db_refresh_tokens := repo_update rt_id (token\<lparr> rt_revoked_at := Some now \<rparr>) (db_refresh_tokens d) \<rparr>)"

definition refresh_revoke_all_for_user :: "time \<Rightarrow> uuid \<Rightarrow> nat handler" where
  "refresh_revoke_all_for_user now user_id =
     (let active = (\<lambda>t. rt_user_id t = user_id \<and> rt_revoked_at t = None \<and> rt_deleted_at t = None) in
      bnd (gets (\<lambda>w. length (filter active (db_refresh_tokens (w_db w))))) (\<lambda>count.
      bnd (on_db (\<lambda>d. d\<lparr> db_refresh_tokens :=
             map (\<lambda>t. if active t then t\<lparr> rt_revoked_at := Some now \<rparr> else t) (db_refresh_tokens d) \<rparr>)) (\<lambda>_.
      ret count)))"

definition varchar :: "nat \<Rightarrow> string option \<Rightarrow> bool" where
  \<comment> \<open>a column \<open>String(n)\<close> takes the value\<close>
  "varchar n s = (case s of None \<Rightarrow> True | Some t \<Rightarrow> py_len t \<le> n)"

definition user_add :: "user_row \<Rightarrow> user_row handler" where
  "user_add u = bnd (ask_db (\<lambda>d. repo_add us_id user_constraints u (db_users d))) (\<lambda>rows.
     bnd (on_db (\<lambda>d. d\<lparr> db_users := rows \<rparr>)) (\<lambda>_. ret u))"

definition user_put :: "user_row \<Rightarrow> unit handler" where
  "user_put u = on_db (\<lambda>d. d\<lparr> db_users := repo_update us_id u (db_users d) \<rparr>)"

definition refresh_token_add :: "refresh_token_row \<Rightarrow> unit handler" where
  "refresh_token_add t =
     bnd (check (varchar 512 (rt_user_agent t) \<and> varchar 64 (rt_ip_address t)) DataError) (\<lambda>_.
     bnd (ask_db (\<lambda>d. repo_add rt_id refresh_token_constraints t (db_refresh_tokens d))) (\<lambda>rows.
     on_db (\<lambda>d. d\<lparr> db_refresh_tokens := rows \<rparr>)))"

section \<open>The gate\<close>

definition get_current_user ::
  "auth_lib \<Rightarrow> settings \<Rightarrow> time \<Rightarrow> (string \<times> string) option \<Rightarrow> user_row handler" where
  \<comment> \<open>the credentials are the scheme and the token of the \<open>Authorization\<close> header\<close>
  "get_current_user lib st now credentials =
     (case credentials of
        None \<Rightarrow> raise (UnauthorizedError ''Bearer token required'')
      | Some (scheme, token) \<Rightarrow>
          if lower scheme \<noteq> ''bearer'' then raise (UnauthorizedError ''Bearer token required'')
          else
            bnd (liftr (case decode_token lib st now token of
                   Inl e \<Rightarrow> Inl (UnauthorizedError (exc_str e)) | Inr claims \<Rightarrow> Inr claims)) (\<lambda>claims.
            bnd (check (dget claims ''type'' = JStr ''access'') (UnauthorizedError ''Access token required'')) (\<lambda>_.
            bnd (liftr (claimed_subject claims)) (\<lambda>user_id.
            bnd (ask_db (\<lambda>d. user_get_by_id_with_relations d user_id)) (\<lambda>user.
            bnd (expect (UnauthorizedError ''User not found or inactive'') user) (\<lambda>user.
            bnd (check (us_is_active user) (UnauthorizedError ''User not found or inactive'')) (\<lambda>_.
            ret user)))))))"

definition require_roles :: "user_role list \<Rightarrow> user_row \<Rightarrow> user_row res" where
  "require_roles roles user =
     (if us_role_code user \<notin> set (map user_role_value roles) then Inl (ForbiddenError ''Insufficient permissions'')
      else Inr user)"

definition get_client_ip :: "string option \<Rightarrow> string option \<Rightarrow> string option" where
  \<comment> \<open>the header \<open>X-Forwarded-For\<close> and the host of the connection\<close>
  "get_client_ip forwarded client_host =
     (case forwarded of
        Some f \<Rightarrow> if f \<noteq> [] then Some (strip (hd (split_on (CHR '','') f))) else client_host
      | None \<Rightarrow> client_host)"

section \<open>The canonical text is read back\<close>

definition lower_hex :: "char \<Rightarrow> bool" where
  "lower_hex c = (let n = ord c in (48 \<le> n \<and> n \<le> 57) \<or> (97 \<le> n \<and> n \<le> 102))"

definition is_uuid :: "string \<Rightarrow> bool" where
  "is_uuid s = (let h = filter (\<lambda>c. c \<noteq> CHR ''-'') s in
     length h = 32 \<and> list_all lower_hex h \<and> s = dashed h)"

lemma remove_all_id: "x \<notin> set s \<Longrightarrow> remove_all (x # m) s = s"
  by (induction "x # m" s rule: remove_all.induct) (auto simp: starts_with_def)

lemma strip_braces_id: "CHR ''{'' \<notin> set s \<Longrightarrow> CHR ''}'' \<notin> set s \<Longrightarrow> strip_braces s = s"
proof -
  assume a: "CHR ''{'' \<notin> set s" "CHR ''}'' \<notin> set s"
  have "dropWhile (\<lambda>c. c = CHR ''{'' \<or> c = CHR ''}'') xs = xs" if "set xs = set s" for xs
    using a that by (cases xs) auto
  then show ?thesis by (simp add: strip_braces_def Let_def)
qed

lemma strip_id: "(\<And>c. c \<in> set s \<Longrightarrow> \<not> is_space c) \<Longrightarrow> strip s = s"
proof -
  assume a: "\<And>c. c \<in> set s \<Longrightarrow> \<not> is_space c"
  have "dropWhile is_space xs = xs" if "set xs = set s" for xs
    using a that by (cases xs) auto
  then show ?thesis by (simp add: strip_def)
qed

lemma py_len_ascii: "(\<And>c. c \<in> set s \<Longrightarrow> \<not> continuation c) \<Longrightarrow> py_len s = length s"
proof -
  have "code_points s = map (\<lambda>c. [c]) s" if "\<forall>c \<in> set s. \<not> continuation c" for s
    using that by (induction s) (auto simp: takeWhile_eq_Nil_iff dropWhile_eq_self_iff hd_conv_nth)
  then show "(\<And>c. c \<in> set s \<Longrightarrow> \<not> continuation c) \<Longrightarrow> py_len s = length s"
    by (simp add: py_len_def)
qed

definition hex_int :: "string \<Rightarrow> int" where
  "hex_int s = foldl (\<lambda>acc c. acc * 16 + the (hex_value c)) 0 s"

lemma lower_hex_value: "lower_hex c \<Longrightarrow> \<exists>v. hex_value c = Some v \<and> 0 \<le> v \<and> v < 16 \<and> hex_digit (nat v) = c \<and> c \<noteq> CHR ''_''"
  unfolding lower_hex_def hex_value_def hex_digit_def Let_def
  by (auto simp: ord_def chr_def nat_diff_distrib nat_add_distrib)

lemma hex_number_digits:
  "list_all lower_hex s \<Longrightarrow> b \<or> s \<noteq> [] \<Longrightarrow>
     hex_number b acc s = Some (foldl (\<lambda>acc c. acc * 16 + the (hex_value c)) acc s)"
proof (induction s arbitrary: b acc)
  case (Cons c s)
  then obtain v where "hex_value c = Some v" "c \<noteq> CHR ''_''" using lower_hex_value [of c] by auto
  then show ?case using Cons by simp
qed simp

lemma hex_text_int: "list_all lower_hex s \<Longrightarrow> hex_text (length s) (hex_int s) = s"
proof (induction s rule: rev_induct)
  case (snoc c s)
  obtain v where v: "hex_value c = Some v" "0 \<le> v" "v < 16" "hex_digit (nat v) = c"
    using lower_hex_value [of c] snoc.prems by auto
  have "hex_int (s @ [c]) = hex_int s * 16 + v" by (simp add: hex_int_def v(1))
  then show ?case using snoc v by simp
qed simp

lemma hex_int_nonneg: "list_all lower_hex s \<Longrightarrow> 0 \<le> hex_int s"
proof (induction s rule: rev_induct)
  case (snoc c s)
  obtain v where "hex_value c = Some v" "0 \<le> v" using lower_hex_value [of c] snoc.prems by auto
  then show ?case using snoc by (simp add: hex_int_def)
qed (simp add: hex_int_def)

lemma lower_hex_chars:
  assumes "lower_hex c"
  shows "\<not> is_space c" "\<not> continuation c" "c \<noteq> CHR ''-''" "c \<noteq> CHR ''+''" "c \<noteq> CHR ''x''" "c \<noteq> CHR ''X''"
    "c \<noteq> CHR ''u''" "c \<noteq> CHR ''{''" "c \<noteq> CHR ''}''"
  using assms by (auto simp: lower_hex_def Let_def is_space_def continuation_def ord_def)

lemma int_16_hex:
  assumes "list_all lower_hex h" "h \<noteq> []"
  shows "int_16 h = Some (hex_int h)"
proof -
  have c: "lower_hex c" if "c \<in> set h" for c using assms(1) that by (auto simp: list_all_iff)
  have "strip h = h" by (rule strip_id) (use c lower_hex_chars(1) in blast)
  moreover have "CHR ''-'' \<notin> set h" "CHR ''+'' \<notin> set h" "CHR ''x'' \<notin> set h" "CHR ''X'' \<notin> set h"
    using c lower_hex_chars by blast+
  then have "\<not> starts_with h ''-''" "\<not> starts_with h ''+''" "\<not> starts_with h ''0x''" "\<not> starts_with h ''0X''"
    by (auto simp: starts_with_iff)
  ultimately show ?thesis
    using hex_number_digits [OF assms(1)] assms(2) by (simp add: int_16_def Let_def hex_int_def)
qed

lemma parse_uuid_canonical: "is_uuid s \<Longrightarrow> parse_uuid s = Inr s"
proof -
  assume u: "is_uuid s"
  define h where "h = filter (\<lambda>c. c \<noteq> CHR ''-'') s"
  have h: "length h = 32" "list_all lower_hex h" "s = dashed h" using u by (simp_all add: is_uuid_def h_def Let_def)
  have c: "lower_hex c" if "c \<in> set h" for c using h(2) that by (auto simp: list_all_iff)
  have s: "lower_hex c \<or> c = CHR ''-''" if "c \<in> set s" for c
    using that c by (auto simp: h_def)
  have "CHR ''u'' \<notin> set s" "CHR ''{'' \<notin> set s" "CHR ''}'' \<notin> set s"
    using s lower_hex_chars by blast+
  then have b: "strip_braces (remove_all ''uuid:'' (remove_all ''urn:'' s)) = s"
    by (simp add: remove_all_id strip_braces_id)
  have "py_len h = 32" using py_len_ascii [of h] h(1) c lower_hex_chars(2) by metis
  moreover have "int_16 h = Some (hex_int h)" using int_16_hex [OF h(2)] h(1) by (cases h) simp_all
  ultimately show ?thesis
    unfolding parse_uuid_def b h_def [symmetric] Let_def
    using hex_int_nonneg [OF h(2)] hex_text_int [OF h(2)] h(1) h(3) [symmetric] by simp
qed

end
