(* ===== verification/Auth_Service.thy ===== *)
theory Auth_Service
  imports Security Upkeep
begin

text \<open>
  Registration, login and refresh tokens: \<open>AuthService\<close> of \<open>src/app/services/auth_service.py\<close> with
  \<open>src/app/schemas/auth.py\<close> and the routes of \<open>src/app/api/v1/routes/auth.py\<close>.

  Draws: \<open>dr_uuid\<close> 0 is the new row, \<open>dr_hex\<close> 0 the \<open>jti\<close> of a refresh token, \<open>dr_hex\<close> 1 the salt of a
  hash. An email has passed \<open>EmailStr\<close> before the handler sees it.
\<close>

section \<open>Requests and responses\<close>

record register_request =
  rg_first_name :: string
  rg_last_name :: string
  rg_email :: string
  rg_phone :: "string option"
  rg_password :: string

definition register_fields :: "register_request \<Rightarrow> bool" where
  "register_fields p \<longleftrightarrow>
     1 \<le> py_len (rg_first_name p) \<and> py_len (rg_first_name p) \<le> 100
     \<and> 1 \<le> py_len (rg_last_name p) \<and> py_len (rg_last_name p) \<le> 100
     \<and> varchar 32 (rg_phone p) \<and> 8 \<le> py_len (rg_password p) \<and> py_len (rg_password p) \<le> 128"

record login_request =
  lg_email :: string
  lg_password :: string

definition login_fields :: "login_request \<Rightarrow> bool" where
  "login_fields p \<longleftrightarrow> 8 \<le> py_len (lg_password p) \<and> py_len (lg_password p) \<le> 128"

record token_pair =
  tp_access_token :: string
  tp_refresh_token :: string
  tp_token_type :: string
  tp_expires_in :: int

record user_out =
  uo_id :: uuid
  uo_first_name :: string
  uo_last_name :: string
  uo_email :: string
  uo_phone :: "string option"
  uo_is_active :: bool
  uo_is_verified :: bool
  uo_role_code :: string
  uo_created_at :: time

definition user_out_of :: "user_row \<Rightarrow> user_out" where
  "user_out_of u =
     \<lparr> uo_id = us_id u, uo_first_name = us_first_name u, uo_last_name = us_last_name u, uo_email = us_email u,
       uo_phone = us_phone u, uo_is_active = us_is_active u, uo_is_verified = us_is_verified u,
       uo_role_code = us_role_code u, uo_created_at = us_created_at u \<rparr>"

section \<open>The service\<close>

definition new_user :: "auth_lib \<Rightarrow> draws \<Rightarrow> role_row \<Rightarrow> register_request \<Rightarrow> user_row" where
  "new_user lib dr role p =
     \<lparr> us_id = dr_uuid dr 0, us_first_name = rg_first_name p, us_last_name = rg_last_name p,
       us_email = lower (rg_email p), us_phone = rg_phone p,
       us_password_hash = hash_password lib (dr_hex dr 1) (rg_password p), us_is_active = True,
       us_is_verified = False, us_role_id = ro_id role, us_role_code = user_role_value MERCHANT_OWNER,
       us_last_login_at = None, us_created_at = dr_now dr, us_deleted_at = None \<rparr>"

definition register :: "auth_lib \<Rightarrow> draws \<Rightarrow> register_request \<Rightarrow> user_out handler" where
  "register lib dr p =
     bnd (ask_db (\<lambda>d. user_get_by_email d (rg_email p))) (\<lambda>existing.
     bnd (check (existing = None) (ConflictError ''Email is already registered'')) (\<lambda>_.
     bnd (ask_db (\<lambda>d. role_get_by_name d (user_role_value MERCHANT_OWNER))) (\<lambda>role.
     bnd (expect (ConflictError ''Default merchant role is not seeded'') role) (\<lambda>role.
     bnd (user_add (new_user lib dr role p)) (\<lambda>user.
     ret (user_out_of user))))))"

definition token_row ::
  "auth_lib \<Rightarrow> settings \<Rightarrow> draws \<Rightarrow> user_row \<Rightarrow> string option \<Rightarrow> string option \<Rightarrow> refresh_token_row" where
  "token_row lib st dr user ip_address user_agent =
     \<lparr> rt_id = dr_uuid dr 0, rt_user_id = us_id user, rt_jti = dr_hex dr 0,
       rt_token_hash = hash_password lib (dr_hex dr 1) (create_refresh_token lib st (dr_now dr) (us_id user) (dr_hex dr 0)),
       rt_expires_at = dr_now dr + refresh_lifetime st, rt_revoked_at = None,
       rt_user_agent = user_agent, rt_ip_address = ip_address, rt_deleted_at = None \<rparr>"

definition tokens_for :: "auth_lib \<Rightarrow> settings \<Rightarrow> draws \<Rightarrow> user_row \<Rightarrow> token_pair" where
  "tokens_for lib st dr user =
     \<lparr> tp_access_token = create_access_token lib st (dr_now dr) (us_id user)
         [(''role'', JStr (us_role_code user)), (''email'', JStr (us_email user))],
       tp_refresh_token = create_refresh_token lib st (dr_now dr) (us_id user) (dr_hex dr 0),
       tp_token_type = ''bearer'', tp_expires_in = access_token_expire_minutes st * 60 \<rparr>"

definition issue_tokens ::
  "auth_lib \<Rightarrow> settings \<Rightarrow> draws \<Rightarrow> user_row \<Rightarrow> string option \<Rightarrow> string option \<Rightarrow> token_pair handler" where
  "issue_tokens lib st dr user ip_address user_agent =
     bnd (refresh_token_add (token_row lib st dr user ip_address user_agent)) (\<lambda>_.
     ret (tokens_for lib st dr user))"

definition credentials_match :: "auth_lib \<Rightarrow> user_row option \<Rightarrow> string \<Rightarrow> bool" where
  "credentials_match lib user password =
     (case user of None \<Rightarrow> False | Some u \<Rightarrow> verify_password lib password (us_password_hash u))"

definition login ::
  "auth_lib \<Rightarrow> settings \<Rightarrow> draws \<Rightarrow> login_request \<Rightarrow> string option \<Rightarrow> string option \<Rightarrow>
     (token_pair \<times> user_out) handler" where
  "login lib st dr p ip_address user_agent =
     bnd (ask_db (\<lambda>d. user_get_by_email d (lg_email p))) (\<lambda>user.
     bnd (expect (UnauthorizedError ''Invalid email or password'')
            (if credentials_match lib user (lg_password p) then user else None)) (\<lambda>user.
     bnd (check (us_is_active user) (UnauthorizedError ''Account is inactive'')) (\<lambda>_.
     (let user = user\<lparr> us_last_login_at := Some (dr_now dr) \<rparr> in
     bnd (user_put user) (\<lambda>_.
     bnd (issue_tokens lib st dr user ip_address user_agent) (\<lambda>tokens.
     ret (tokens, user_out_of user)))))))"

definition claimed_jti :: "dict \<Rightarrow> string" where
  "claimed_jti claims = (case dget claims ''jti'' of JStr j \<Rightarrow> j | _ \<Rightarrow> [])"

definition refresh :: "auth_lib \<Rightarrow> settings \<Rightarrow> draws \<Rightarrow> string \<Rightarrow> token_pair handler" where
  "refresh lib st dr refresh_token =
     bnd (liftr (case decode_token lib st (dr_now dr) refresh_token of
            Inl e \<Rightarrow> Inl (UnauthorizedError (exc_str e)) | Inr claims \<Rightarrow> Inr claims)) (\<lambda>claims.
     bnd (check (dget claims ''type'' = JStr ''refresh'') (UnauthorizedError ''Invalid refresh token'')) (\<lambda>_.
     bnd (check (claimed_jti claims \<noteq> []) (UnauthorizedError ''Invalid refresh token'')) (\<lambda>_.
     bnd (ask_db (\<lambda>d. refresh_get_active_by_jti d (dr_now dr) (claimed_jti claims))) (\<lambda>stored.
     bnd (expect (UnauthorizedError ''Refresh token revoked or unknown'')
            (case stored of None \<Rightarrow> None
             | Some t \<Rightarrow> if verify_password lib refresh_token (rt_token_hash t) then Some t else None)) (\<lambda>stored.
     bnd (liftr (claimed_subject claims)) (\<lambda>user_id.
     bnd (ask_db (\<lambda>d. user_get_by_id_with_relations d user_id)) (\<lambda>user.
     bnd (expect (UnauthorizedError ''User not found or inactive'')
            (case user of None \<Rightarrow> None | Some u \<Rightarrow> if us_is_active u then Some u else None)) (\<lambda>user.
     bnd (refresh_revoke (dr_now dr) stored) (\<lambda>_.
     issue_tokens lib st dr user None None)))))))))"

definition logout :: "auth_lib \<Rightarrow> settings \<Rightarrow> draws \<Rightarrow> string \<Rightarrow> unit handler" where
  "logout lib st dr refresh_token =
     (case decode_token lib st (dr_now dr) refresh_token of
        Inl _ \<Rightarrow> ret ()
      | Inr claims \<Rightarrow>
          if claimed_jti claims = [] then ret ()
          else
            bnd (ask_db (\<lambda>d. refresh_get_active_by_jti d (dr_now dr) (claimed_jti claims))) (\<lambda>stored.
            case stored of None \<Rightarrow> ret () | Some t \<Rightarrow> refresh_revoke (dr_now dr) t))"

section \<open>The routes\<close>

record client =
  cl_forwarded :: "string option"
  cl_host :: "string option"
  cl_user_agent :: "string option"

definition client_ip :: "client \<Rightarrow> string option" where
  "client_ip c = get_client_ip (cl_forwarded c) (cl_host c)"

definition audit_client :: "string \<Rightarrow> uuid option \<Rightarrow> client \<Rightarrow> dict \<Rightarrow> unit handler" where
  "audit_client action user c details =
     bnd (check (varchar 64 (client_ip c) \<and> varchar 512 (cl_user_agent c)) DataError) (\<lambda>_.
     on_db (\<lambda>d. d\<lparr> db_audit_logs :=
       audit_record action ''user'' user user (client_ip c) (cl_user_agent c) (Some details) (db_audit_logs d) \<rparr>))"

definition register_route :: "auth_lib \<Rightarrow> draws \<Rightarrow> client \<Rightarrow> register_request \<Rightarrow> user_out handler" where
  "register_route lib dr c p =
     bnd (register lib dr p) (\<lambda>user.
     bnd (audit_client ''user_registered'' (Some (uo_id user)) c
            [(''email'', JStr (uo_email user)), (''role'', JStr (uo_role_code user))]) (\<lambda>_.
     ret user))"

definition login_route ::
  "auth_lib \<Rightarrow> settings \<Rightarrow> draws \<Rightarrow> client \<Rightarrow> login_request \<Rightarrow> (token_pair \<times> user_out) handler" where
  "login_route lib st dr c p =
     bnd (login lib st dr p (client_ip c) (cl_user_agent c)) (\<lambda>(tokens, user).
     bnd (audit_client ''user_login'' (Some (uo_id user)) c
            [(''email'', JStr (uo_email user)), (''role'', JStr (uo_role_code user)), (''result'', JStr ''success'')]) (\<lambda>_.
     ret (tokens, user)))"

definition logout_route :: "auth_lib \<Rightarrow> settings \<Rightarrow> draws \<Rightarrow> client \<Rightarrow> string \<Rightarrow> unit handler" where
  "logout_route lib st dr c refresh_token =
     bnd (logout lib st dr refresh_token) (\<lambda>_.
     audit_client ''user_logout'' None c [(''result'', JStr ''success'')])"

definition me_route :: "auth_lib \<Rightarrow> settings \<Rightarrow> draws \<Rightarrow> (string \<times> string) option \<Rightarrow> user_out handler" where
  "me_route lib st dr credentials =
     bnd (get_current_user lib st (dr_now dr) credentials) (\<lambda>user. ret (user_out_of user))"

datatype auth_call =
    Register client register_request
  | Login client login_request
  | Refresh string
  | Logout client string
  | Me "(string \<times> string) option"

fun serve_auth :: "auth_lib \<Rightarrow> settings \<Rightarrow> draws \<Rightarrow> auth_call \<Rightarrow> world \<Rightarrow> world" where
  "serve_auth lib st dr (Register c p) w = fst (run_request (register_route lib dr c p) w)"
| "serve_auth lib st dr (Login c p) w = fst (run_request (login_route lib st dr c p) w)"
| "serve_auth lib st dr (Refresh t) w = fst (run_request (refresh lib st dr t) w)"
| "serve_auth lib st dr (Logout c t) w = fst (run_request (logout_route lib st dr c t) w)"
| "serve_auth lib st dr (Me cr) w = fst (run_request (me_route lib st dr cr) w)"

end
