(* ===== verification/Account_Books.thy ===== *)
theory Account_Books
  imports Auth_Service "HOL-Library.Sublist"
begin

text \<open>
  The contract of the account tables: emails, identifiers and the \<open>jti\<close> of refresh tokens are unique; no
  request removes a user or changes anything of it but its last login, and a revoked token stays revoked.
\<close>

definition account :: "user_row \<Rightarrow> user_row" where
  \<comment> \<open>what of a user no request of the service changes\<close>
  "account u = u\<lparr> us_last_login_at := None \<rparr>"

definition accounts_ok :: "db \<Rightarrow> bool" where
  "accounts_ok d \<longleftrightarrow>
     distinct (map us_id (db_users d)) \<and> distinct (map us_email (db_users d))
     \<and> distinct (map rt_id (db_refresh_tokens d)) \<and> distinct (map rt_jti (db_refresh_tokens d))"

definition spent :: "db \<Rightarrow> refresh_token_row set" where
  "spent d = {t \<in> set (db_refresh_tokens d). rt_revoked_at t \<noteq> None}"

definition accounts_grow :: "db \<Rightarrow> db \<Rightarrow> bool" where
  "accounts_grow d d' \<longleftrightarrow>
     account ` set (db_users d) \<subseteq> account ` set (db_users d')
     \<and> spent d \<subseteq> spent d' \<and> rt_jti ` set (db_refresh_tokens d) \<subseteq> rt_jti ` set (db_refresh_tokens d')
     \<and> db_roles d' = db_roles d \<and> prefix (db_audit_logs d) (db_audit_logs d')"

lemma accounts_grow_refl [simp]: "accounts_grow d d"
  by (simp add: accounts_grow_def)

lemma accounts_grow_trans: "accounts_grow a b \<Longrightarrow> accounts_grow b c \<Longrightarrow> accounts_grow a c"
  unfolding accounts_grow_def
  by (elim conjE) (intro conjI, (erule (1) subset_trans)+, simp, erule (1) prefix_order.trans)

interpretation accounts: upkeep accounts_ok accounts_grow
  by unfold_locales (simp, erule accounts_grow_trans)

abbreviation acc :: "(db \<Rightarrow> bool) \<Rightarrow> (world, 'a) act \<Rightarrow> ('a \<Rightarrow> db \<Rightarrow> bool) \<Rightarrow> (db \<Rightarrow> bool) \<Rightarrow> bool" where
  "acc \<equiv> triple accounts_ok accounts_grow"

abbreviation keeps_accounts :: "'a handler \<Rightarrow> bool" where
  "keeps_accounts m \<equiv> acc (\<lambda>_. True) m (\<lambda>_ _. True) (\<lambda>_. True)"

section \<open>Steps\<close>

lemma account_simps [simp]:
  "us_id (account u) = us_id u" "us_email (account u) = us_email u" "us_is_active (account u) = us_is_active u"
  "us_deleted_at (account u) = us_deleted_at u" "us_password_hash (account u) = us_password_hash u"
  "us_role_code (account u) = us_role_code u"
  "account (u\<lparr> us_last_login_at := x \<rparr>) = account u" "user_out_of (account u) = user_out_of u"
  by (simp_all add: account_def user_out_of_def)

lemma acc_user_add: "acc p (user_add u) (\<lambda>u' d. u' = u \<and> u \<in> set (db_users d)) (\<lambda>_. True)"
  unfolding user_add_def
  by (rule accounts.triple_steps, rule TrueI, rule accounts.triple_bnd, rule accounts.triple_on_db [where q = "\<lambda>_ d. u \<in> set (db_users d)"])
    (auto simp: repo_add_rows accounts_ok_def accounts_grow_def spent_def user_constraints_def list_ex_iff
      intro: accounts.triple_ret)

lemma acc_user_put: "acc (\<lambda>d. account u \<in> account ` set (db_users d)) (user_put u) (\<lambda>_ d. u \<in> set (db_users d)) e"
  unfolding user_put_def
proof (rule accounts.triple_on_db)
  fix d :: db
  assume ok: "accounts_ok d" and "account u \<in> account ` set (db_users d)"
  then obtain u0 where u0: "u0 \<in> set (db_users d)" "account u = account u0" by auto
  then have i: "us_id u0 = us_id u" "us_email u0 = us_email u" by (metis account_simps(1,2))+
  have "distinct (map us_id (db_users d))" using ok by (simp add: accounts_ok_def)
  note u = update_maps [OF this u0(1) i(1)]
  have a: "map account (repo_update us_id u (db_users d)) = map account (db_users d)" by (rule u [OF u0(2)])
  have m: "map us_id (repo_update us_id u (db_users d)) = map us_id (db_users d)"
    "map us_email (repo_update us_id u (db_users d)) = map us_email (db_users d)"
    by (rule u, simp add: i)+
  have m: "map us_id (repo_update us_id u (db_users d)) = map us_id (db_users d)"
    "map us_email (repo_update us_id u (db_users d)) = map us_email (db_users d)"
    "account ` set (repo_update us_id u (db_users d)) = account ` set (db_users d)"
    using m arg_cong [OF a, of set] by simp_all
  have "u \<in> set (repo_update us_id u (db_users d))" using u0(1) i(1) by (force simp: repo_update_def)
  then show "accounts_ok (d\<lparr>db_users := repo_update us_id u (db_users d)\<rparr>)
      \<and> accounts_grow d (d\<lparr>db_users := repo_update us_id u (db_users d)\<rparr>)
      \<and> u \<in> set (db_users (d\<lparr>db_users := repo_update us_id u (db_users d)\<rparr>))"
    using ok m by (simp add: accounts_ok_def accounts_grow_def spent_def)
qed

lemma acc_token_add: "acc p (refresh_token_add t) (\<lambda>_ _. True) (\<lambda>_. True)"
  unfolding refresh_token_add_def
  by (rule accounts.triple_steps, rule TrueI, rule accounts.triple_steps, rule TrueI, rule accounts.triple_on_db)
    (auto simp: repo_add_rows accounts_ok_def accounts_grow_def spent_def refresh_token_constraints_def list_ex_iff)

lemma acc_revoke:
  "acc (\<lambda>d. t \<in> set (db_refresh_tokens d) \<and> rt_revoked_at t = None) (refresh_revoke now t)
     (\<lambda>_ d. t\<lparr> rt_revoked_at := Some now \<rparr> \<in> spent d) e"
  unfolding refresh_revoke_def
proof (rule accounts.triple_on_db)
  fix d :: db
  let ?t = "t\<lparr> rt_revoked_at := Some now \<rparr>"
  let ?rows = "repo_update rt_id ?t (db_refresh_tokens d)"
  assume ok: "accounts_ok d" and t: "t \<in> set (db_refresh_tokens d) \<and> rt_revoked_at t = None"
  have same: "x = t" if "x \<in> set (db_refresh_tokens d)" "rt_id x = rt_id t" for x
    using same_key [of rt_id "db_refresh_tokens d" x t] ok that t by (simp add: accounts_ok_def)
  have m: "map f ?rows = map f (db_refresh_tokens d)" if "f ?t = f t" for f :: "refresh_token_row \<Rightarrow> 'b"
    using update_maps [of rt_id "db_refresh_tokens d" t ?t f] ok t that by (simp add: accounts_ok_def)
  have "rt_id ` set ?rows = rt_id ` set (db_refresh_tokens d)" "rt_jti ` set ?rows = rt_jti ` set (db_refresh_tokens d)"
    using m [of rt_id] m [of rt_jti] by (simp_all flip: set_map)
  moreover have "?t \<in> set ?rows" using t by (force simp: repo_update_def)
  moreover have "x \<in> set ?rows" if "x \<in> spent d" for x
    using that t same [of x] by (force simp: spent_def repo_update_def)
  ultimately show "accounts_ok (d\<lparr>db_refresh_tokens := ?rows\<rparr>) \<and> accounts_grow d (d\<lparr>db_refresh_tokens := ?rows\<rparr>)
      \<and> ?t \<in> spent (d\<lparr>db_refresh_tokens := ?rows\<rparr>)"
    using ok m [of rt_id] m [of rt_jti] by (auto simp: accounts_ok_def accounts_grow_def spent_def)
qed

lemma acc_audit: "acc p (audit_client a u c x) (\<lambda>_ _. True) (\<lambda>_. True)"
  unfolding audit_client_def
  by (rule accounts.triple_steps, rule TrueI, rule accounts.triple_on_db)
    (simp add: accounts_ok_def accounts_grow_def spent_def audit_record_def)

section \<open>Operations\<close>

lemma acc_past: "acc (\<lambda>_. True) m (\<lambda>_ _. True) (\<lambda>_. True) \<Longrightarrow> acc p m (\<lambda>_ _. True) (\<lambda>_. True)"
  by (rule accounts.triple_conseq) simp_all

definition registered :: "auth_lib \<Rightarrow> string \<Rightarrow> register_request \<Rightarrow> user_out \<Rightarrow> db \<Rightarrow> bool" where
  \<comment> \<open>the account that a registration made\<close>
  "registered lib salt p out d \<longleftrightarrow>
     (\<exists>u. account u \<in> account ` set (db_users d) \<and> out = user_out_of u \<and> us_email u = lower (rg_email p)
        \<and> us_password_hash u = hash_password lib salt (rg_password p) \<and> us_is_active u \<and> us_deleted_at u = None)"

lemma kept_registered [simp]: "kept accounts_grow (registered lib salt p out)"
  unfolding kept_def registered_def accounts_grow_def by blast

lemma new_user_registered:
  "new_user lib dr role p \<in> set (db_users d) \<Longrightarrow> registered lib (dr_hex dr 1) p (user_out_of (new_user lib dr role p)) d"
  unfolding registered_def by (rule exI [of _ "new_user lib dr role p"]) (simp add: new_user_def)

lemma acc_register: "acc (\<lambda>_. True) (register lib dr p) (registered lib (dr_hex dr 1) p) (\<lambda>_. True)"
  unfolding register_def
  by (rule accounts.triple_steps, rule TrueI, rule accounts.triple_steps, rule TrueI, rule accounts.triple_steps,
      rule TrueI, rule accounts.triple_steps, rule TrueI, rule accounts.triple_bnd, rule acc_user_add,
      rule accounts.triple_ret) (use new_user_registered in blast)

lemma acc_register_route:
  "acc (\<lambda>_. True) (register_route lib dr c p) (registered lib (dr_hex dr 1) p) (\<lambda>_. True)"
  unfolding register_route_def
proof (rule accounts.triple_bnd [OF acc_register], rule accounts.triple_bnd)
  fix out
  show "acc (registered lib (dr_hex dr 1) p out) (audit_client ''user_registered'' (Some (uo_id out)) c
       [(''email'', JStr (uo_email out)), (''role'', JStr (uo_role_code out))])
     (\<lambda>_. registered lib (dr_hex dr 1) p out) (\<lambda>_. True)"
    by (rule accounts.triple_conseq [OF accounts.triple_keep [OF kept_registered acc_audit]]) simp_all
qed (rule accounts.triple_ret)

lemma acc_issue_tokens: "keeps_accounts (issue_tokens lib st dr u ip agent)"
  unfolding issue_tokens_def Let_def by (rule accounts.triple_bnd, rule acc_token_add, rule accounts.triple_ret) simp

lemma user_found: "user_get_by_email d e = Inr (Some u) \<Longrightarrow> u \<in> set (db_users d)"
  by (auto simp: user_get_by_email_def base_query_def dest: find_one_Some)

lemma token_found:
  "refresh_get_active_by_jti d now j = Inr (Some t) \<Longrightarrow>
     t \<in> set (db_refresh_tokens d) \<and> rt_revoked_at t = None \<and> rt_jti t = j"
  by (auto simp: refresh_get_active_by_jti_def base_query_def dest: find_one_Some)

lemma acc_login: "keeps_accounts (login lib st dr p ip agent)"
  unfolding login_def Let_def
proof (rule accounts.triple_steps, rule TrueI, rule accounts.triple_steps, rule TrueI, rule accounts.triple_steps,
    rule TrueI, rule accounts.triple_bnd [where r = "\<lambda>_ _. True"])
  fix found u
  show "acc (\<lambda>d. ((True \<and> user_get_by_email d (lg_email p) = Inr found) \<and>
        (if credentials_match lib found (lg_password p) then found else None) = Some u) \<and> us_is_active u)
     (user_put (u\<lparr> us_last_login_at := Some (dr_now dr) \<rparr>)) (\<lambda>_ _. True) (\<lambda>_. True)"
    by (rule accounts.triple_conseq [OF acc_user_put]) (auto dest: user_found split: if_splits)
qed (rule accounts.triple_bnd, rule acc_issue_tokens, rule accounts.triple_ret, rule TrueI)

lemma acc_login_route: "keeps_accounts (login_route lib st dr c p)"
  unfolding login_route_def
  by (rule accounts.triple_bnd, rule acc_login, rule accounts.triple_split, rule accounts.triple_bnd, rule acc_audit,
      rule accounts.triple_ret, rule TrueI)

lemma acc_refresh:
  "acc (\<lambda>_. True) (refresh lib st dr tok)
     (\<lambda>_ d. \<exists>c t. decode_token lib st (dr_now dr) tok = Inr c \<and> t \<in> spent d \<and> rt_jti t = claimed_jti c) (\<lambda>_. True)"
  unfolding refresh_def
proof (rule accounts.triple_steps, rule TrueI, rule accounts.triple_steps, rule TrueI, rule accounts.triple_steps,
    rule TrueI, rule accounts.triple_steps, rule TrueI, rule accounts.triple_steps, rule TrueI,
    rule accounts.triple_steps, rule TrueI, rule accounts.triple_steps, rule TrueI, rule accounts.triple_steps,
    rule TrueI)
  fix c found t i found_user u
  let ?spent = "\<lambda>d. \<exists>c t. decode_token lib st (dr_now dr) tok = Inr c \<and> t \<in> spent d \<and> rt_jti t = claimed_jti c"
  let ?p = "\<lambda>d. (((((((True \<and> (case decode_token lib st (dr_now dr) tok of Inl e \<Rightarrow> Inl (UnauthorizedError (exc_str e)) | Inr c \<Rightarrow> Inr c) = Inr c)
      \<and> dget c ''type'' = JStr ''refresh'') \<and> claimed_jti c \<noteq> []) \<and> refresh_get_active_by_jti d (dr_now dr) (claimed_jti c) = Inr found)
      \<and> (case found of None \<Rightarrow> None | Some t \<Rightarrow> if verify_password lib tok (rt_token_hash t) then Some t else None) = Some t)
      \<and> claimed_subject c = Inr i) \<and> user_get_by_id_with_relations d i = Inr found_user)
      \<and> (case found_user of None \<Rightarrow> None | Some u \<Rightarrow> if us_is_active u then Some u else None) = Some u"
  have k: "kept accounts_grow ?spent" unfolding kept_def accounts_grow_def by blast
  have f: "decode_token lib st (dr_now dr) tok = Inr c \<and> t \<in> set (db_refresh_tokens d) \<and> rt_revoked_at t = None
      \<and> rt_jti t = claimed_jti c" if "?p d" for d
    using that by (auto dest: token_found split: sum.splits option.splits if_splits)
  show "acc ?p (bnd (refresh_revoke (dr_now dr) t) (\<lambda>_. issue_tokens lib st dr u None None)) (\<lambda>_. ?spent) (\<lambda>_. True)"
  proof (rule accounts.triple_bnd)
    show "acc ?p (refresh_revoke (dr_now dr) t) (\<lambda>_. ?spent) (\<lambda>_. True)"
    proof (cases "\<exists>d. ?p d")
      case True
      then have c: "decode_token lib st (dr_now dr) tok = Inr c" "rt_jti t = claimed_jti c" using f by blast+
      show ?thesis
      proof (rule accounts.triple_conseq [OF acc_revoke [where e = "\<lambda>_. True"]])
        show "t \<in> set (db_refresh_tokens d) \<and> rt_revoked_at t = None" if "?p d" for d using f [OF that] by blast
        show "?spent d" if "t\<lparr> rt_revoked_at := Some (dr_now dr) \<rparr> \<in> spent d" for d
          using that c by (intro exI [of _ c] exI [of _ "t\<lparr> rt_revoked_at := Some (dr_now dr) \<rparr>"]) simp
      qed simp
    next
      case False
      then show ?thesis by (auto simp: triple_def runs_def)
    qed
    show "acc ?spent (issue_tokens lib st dr u None None) (\<lambda>_. ?spent) (\<lambda>_. True)"
      by (rule accounts.triple_conseq [OF accounts.triple_keep [OF k acc_issue_tokens]]) simp_all
  qed
qed

lemma acc_logout: "keeps_accounts (logout lib st dr tok)"
proof (cases "decode_token lib st (dr_now dr) tok")
  case (Inr c)
  show ?thesis
    unfolding logout_def Inr sum.case
  proof (rule accounts.triple_if, rule accounts.triple_ret, rule TrueI, rule accounts.triple_steps, rule TrueI)
    fix found
    show "acc (\<lambda>d. True \<and> refresh_get_active_by_jti d (dr_now dr) (claimed_jti c) = Inr found)
       (case found of None \<Rightarrow> ret () | Some t \<Rightarrow> refresh_revoke (dr_now dr) t) (\<lambda>_ _. True) (\<lambda>_. True)"
      by (cases found) (auto intro!: accounts.triple_ret accounts.triple_conseq [OF acc_revoke] dest: token_found)
  qed
qed (simp add: logout_def accounts.triple_ret)

lemma acc_logout_route: "keeps_accounts (logout_route lib st dr c tok)"
  unfolding logout_route_def by (rule accounts.triple_bnd, rule acc_logout, rule acc_past, rule acc_audit)

lemma get_current_user_reads: "silent books (get_current_user lib st now cr)"
  unfolding get_current_user_def
  by (cases cr) (auto intro!: silent_bnd simp: ask_db_def split: prod.splits)

lemma acc_me: "keeps_accounts (me_route lib st dr cr)"
  unfolding me_route_def
  by (rule accounts.triple_silent, rule silent_bnd, rule get_current_user_reads) simp_all

section \<open>Requests\<close>

lemma serve_auth_books:
  assumes "settled accounts_ok w"
  shows "settled accounts_ok (serve_auth lib st dr c w)
    \<and> accounts_grow (w_db w) (w_db (serve_auth lib st dr c w))"
  by (cases c)
    (simp_all add: accounts.request_keeps [OF _ assms] acc_login_route acc_logout_route acc_me
      accounts.triple_conseq [OF acc_register_route] accounts.triple_conseq [OF acc_refresh])

text \<open>Any sequence of requests to the service.\<close>

inductive auth_run :: "auth_lib \<Rightarrow> settings \<Rightarrow> world \<Rightarrow> world \<Rightarrow> bool" for lib st where
  auth_start: "auth_run lib st w w"
| auth_request: "auth_run lib st w w' \<Longrightarrow> auth_run lib st w (serve_auth lib st dr c w')"

lemma auth_run_books:
  "auth_run lib st w w' \<Longrightarrow> settled accounts_ok w \<Longrightarrow> settled accounts_ok w' \<and> accounts_grow (w_db w) (w_db w')"
  by (induction rule: auth_run.induct) (auto dest: serve_auth_books intro: accounts_grow_trans)

end
