(* ===== verification/Auth_Properties.thy ===== *)
theory Auth_Properties
  imports Account_Books "HOL-Library.Countable"
begin

text \<open>
  What the accounts promise: the invariant of their tables, that a registered user can log in and is then
  recognised, and that a refresh token is good for one exchange. What is relied on of the two libraries is
  \<open>auth_laws\<close>; \<open>toy_lib\<close> has it.
\<close>

definition hashable :: "string \<Rightarrow> bool" where
  \<comment> \<open>what passlib takes as a password: no NUL character, at most 4096 of them\<close>
  "hashable p \<longleftrightarrow> CHR 0x00 \<notin> set p \<and> length p \<le> 4096"

text \<open>What is relied on of passlib and python-jose, for the passwords and the claims the code gives them: a hash
  verifies the password it was made of; it verifies a refresh token it was made of (a token of a UUID and of the
  32 digits of a \<open>jti\<close> is a short ASCII text); and the two kinds of tokens of \<open>core/security.py\<close>, whose
  subject is a UUID and whose other claims are strings, decode under the configured key and algorithm to the
  claims they were made of until they expire. Nothing is said about other claims, keys or algorithms.\<close>

definition access_token_claims :: "settings \<Rightarrow> time \<Rightarrow> uuid \<Rightarrow> string \<Rightarrow> string \<Rightarrow> dict" where
  "access_token_claims st now i r e = token_claims now i ''access'' (access_lifetime st) [(''role'', JStr r), (''email'', JStr e)]"

definition refresh_token_claims :: "settings \<Rightarrow> time \<Rightarrow> uuid \<Rightarrow> string \<Rightarrow> dict" where
  "refresh_token_claims st now i j = token_claims now i ''refresh'' (refresh_lifetime st) [(''jti'', JStr j)]"

definition decodes :: "auth_lib \<Rightarrow> settings \<Rightarrow> time \<Rightarrow> dict \<Rightarrow> bool" where
  "decodes lib st t c \<longleftrightarrow>
     lib_decode lib t (lib_encode lib c (secret_key st) (jwt_algorithm st)) (secret_key st) (jwt_algorithm st) = Some c"

definition auth_laws :: "auth_lib \<Rightarrow> settings \<Rightarrow> bool" where
  "auth_laws lib st \<longleftrightarrow>
     (\<forall>salt p. hashable p \<longrightarrow> lib_verify lib p (lib_hash lib salt p))
     \<and> (\<forall>salt now i j. is_uuid i \<longrightarrow> length j = 32 \<longrightarrow>
          verify_password lib (create_refresh_token lib st now i j) (hash_password lib salt (create_refresh_token lib st now i j)))
     \<and> (\<forall>t now i r e. is_uuid i \<longrightarrow> t div second_us \<le> (now + access_lifetime st) div second_us \<longrightarrow>
          decodes lib st t (access_token_claims st now i r e))
     \<and> (\<forall>t now i j. is_uuid i \<longrightarrow> length j = 32 \<longrightarrow> t div second_us \<le> (now + refresh_lifetime st) div second_us \<longrightarrow>
          decodes lib st t (refresh_token_claims st now i j))"

section \<open>Runs of the operations\<close>

lemma user_by_email:
  assumes "accounts_ok d" "x \<in> set (db_users d)" "us_deleted_at x = None" "us_email x = lower e"
  shows "user_get_by_email d e = Inr (Some x)"
  unfolding user_get_by_email_def base_query_def
proof (rule find_one_the)
  have "distinct (db_users d)" using assms(1) by (simp add: accounts_ok_def distinct_map)
  then show "distinct (filter (\<lambda>e. us_deleted_at e = None) (db_users d))" by simp
  show "y = x" if "y \<in> set (filter (\<lambda>e. us_deleted_at e = None) (db_users d))" "us_email y = lower e" for y
    using same_key [of us_email "db_users d" y x] assms that by (simp add: accounts_ok_def)
qed (use assms in simp_all)

lemma user_by_id:
  assumes "accounts_ok d" "x \<in> set (db_users d)" "us_deleted_at x = None"
  shows "user_get_by_id_with_relations d (us_id x) = Inr (Some x)"
  unfolding user_get_by_id_with_relations_def base_query_def
proof (rule find_one_the)
  have "distinct (db_users d)" using assms(1) by (simp add: accounts_ok_def distinct_map)
  then show "distinct (filter (\<lambda>e. us_deleted_at e = None) (db_users d))" by simp
  show "y = x" if "y \<in> set (filter (\<lambda>e. us_deleted_at e = None) (db_users d))" "us_id y = us_id x" for y
    using same_key [of us_id "db_users d" y x] assms that by (simp add: accounts_ok_def)
qed (use assms in simp_all)

definition fits :: "client \<Rightarrow> bool" where
  "fits c \<longleftrightarrow> varchar 64 (client_ip c) \<and> varchar 512 (cl_user_agent c)"

definition fresh_token :: "draws \<Rightarrow> db \<Rightarrow> bool" where
  "fresh_token dr d \<longleftrightarrow> (\<forall>t \<in> set (db_refresh_tokens d). rt_id t \<noteq> dr_uuid dr 0 \<and> rt_jti t \<noteq> dr_hex dr 0)"

lemma token_add_run:
  assumes "fresh_token dr (w_db w)" "varchar 64 ip" "varchar 512 agent"
  shows "issue_tokens lib st dr u ip agent w
    = (w\<lparr> w_db := (w_db w)\<lparr> db_refresh_tokens := db_refresh_tokens (w_db w) @ [token_row lib st dr u ip agent] \<rparr> \<rparr>,
       Inr (tokens_for lib st dr u))"
  using assms
  by (simp add: issue_tokens_def refresh_token_add_def fresh_token_def repo_add_def refresh_token_constraints_def
      list_ex_iff token_row_def) (simp add: bnd_def)

definition seen :: "draws \<Rightarrow> user_row \<Rightarrow> user_row" where
  "seen dr x = x\<lparr> us_last_login_at := Some (dr_now dr) \<rparr>"

lemma seen_simps [simp]:
  "user_out_of (seen dr x) = user_out_of x" "us_id (seen dr x) = us_id x" "us_is_active (seen dr x) = us_is_active x"
  "us_deleted_at (seen dr x) = us_deleted_at x" "us_email (seen dr x) = us_email x" "us_role_code (seen dr x) = us_role_code x"
  by (simp_all add: seen_def user_out_of_def)

lemma login_run:
  assumes "user_get_by_email (w_db w) (lg_email p) = Inr (Some x)" "verify_password lib (lg_password p) (us_password_hash x)"
    and "us_is_active x" "fits c" "fresh_token dr (w_db w)"
  shows "\<exists>logs. login_route lib st dr c p w
      = (w\<lparr> w_db := (w_db w)\<lparr> db_users := repo_update us_id (seen dr x) (db_users (w_db w)),
                db_refresh_tokens := db_refresh_tokens (w_db w)
                  @ [token_row lib st dr (seen dr x) (client_ip c) (cl_user_agent c)], db_audit_logs := logs \<rparr> \<rparr>,
         Inr (tokens_for lib st dr (seen dr x), user_out_of x))"
proof -
  let ?w = "w\<lparr> w_db := (w_db w)\<lparr> db_users := repo_update us_id (seen dr x) (db_users (w_db w)) \<rparr> \<rparr>"
  have "fresh_token dr (w_db ?w)" using assms(5) by (simp add: fresh_token_def)
  note t = token_add_run [OF this, of "client_ip c" "cl_user_agent c" lib st "seen dr x"]
  have "login lib st dr p (client_ip c) (cl_user_agent c) w
    = (fst (issue_tokens lib st dr (seen dr x) (client_ip c) (cl_user_agent c) ?w), Inr (tokens_for lib st dr (seen dr x), user_out_of x))"
    using assms(1-4) t
    by (simp add: login_def credentials_match_def user_put_def Let_def fits_def flip: seen_def) (simp add: bnd_def)
  then show ?thesis
    using assms(4) t by (simp add: login_route_def audit_client_def fits_def) (simp add: bnd_def, blast)
qed

lemma access_claims:
  assumes "auth_laws lib st" "is_uuid i" "t div second_us \<le> (now + access_lifetime st) div second_us"
  shows "decode_token lib st t (create_access_token lib st now i [(''role'', JStr r), (''email'', JStr e)])
    = Inr (token_claims now i ''access'' (access_lifetime st) [(''role'', JStr r), (''email'', JStr e)])"
proof -
  have "decodes lib st t (access_token_claims st now i r e)" using assms unfolding auth_laws_def by blast
  then show ?thesis
    by (simp add: decode_token_def create_access_token_def create_token_def decodes_def access_token_claims_def)
qed

lemma refresh_claims:
  assumes "auth_laws lib st" "is_uuid i" "length j = 32" "t div second_us \<le> (now + refresh_lifetime st) div second_us"
  shows "decode_token lib st t (create_refresh_token lib st now i j)
    = Inr (token_claims now i ''refresh'' (refresh_lifetime st) [(''jti'', JStr j)])"
proof -
  have "decodes lib st t (refresh_token_claims st now i j)" using assms unfolding auth_laws_def by blast
  then show ?thesis
    by (simp add: decode_token_def create_refresh_token_def create_token_def decodes_def refresh_token_claims_def)
qed

lemma me_run:
  assumes laws: "auth_laws lib st" "t div second_us \<le> (now + access_lifetime st) div second_us"
    and ok: "accounts_ok (w_db w)" "x \<in> set (db_users (w_db w))" "us_deleted_at x = None" "us_is_active x" "is_uuid (us_id x)"
    and "dr_now dr = t"
  shows "me_route lib st dr (Some (''Bearer'',
      create_access_token lib st now (us_id x) [(''role'', JStr r), (''email'', JStr e)])) w = (w, Inr (user_out_of x))"
proof -
  let ?c = "token_claims now (us_id x) ''access'' (access_lifetime st) [(''role'', JStr r), (''email'', JStr e)]"
  have "dget ?c ''type'' = JStr ''access''" "map_of ?c ''sub'' = Some (JStr (us_id x))"
    by (simp_all add: token_claims_def dset_def dget_def)
  moreover have "lower ''Bearer'' = ''bearer''" by code_simp
  ultimately show ?thesis
    using access_claims [OF laws(1) ok(5) laws(2)] user_by_id [OF ok(1-3)] ok(4) parse_uuid_canonical [OF ok(5)] assms(8)
    by (simp add: me_route_def get_current_user_def claimed_subject_def) (simp add: bnd_def)
qed

lemma spent_refused:
  assumes none: "refresh_get_active_by_jti (w_db w) (dr_now dr') (claimed_jti c) = Inr None"
    and token: "\<forall>now c c'. decode_token lib st (dr_now dr) tok = Inr c \<longrightarrow> decode_token lib st now tok = Inr c' \<longrightarrow>
                  claimed_jti c' = claimed_jti c"
    and c: "decode_token lib st (dr_now dr) tok = Inr c"
  shows "\<exists>m. refresh lib st dr' tok w = (w, Inl (UnauthorizedError m))"
proof (cases "decode_token lib st (dr_now dr') tok")
  case (Inl e)
  then show ?thesis by (simp add: refresh_def) blast
next
  case (Inr c')
  have "claimed_jti c' = claimed_jti c" using token c Inr by blast
  then show ?thesis
    using none by (cases "dget c' ''type'' = JStr ''refresh''"; cases "claimed_jti c = []") (simp_all add: refresh_def Inr, blast+)
qed

lemma refresh_run:
  assumes laws: "auth_laws lib st" "dr_now dr div second_us \<le> (now + refresh_lifetime st) div second_us"
    and tok: "tok = create_refresh_token lib st now (us_id x) jti" "length jti = 32"
    and ok: "accounts_ok (w_db w)" "x \<in> set (db_users (w_db w))" "us_deleted_at x = None" "us_is_active x" "is_uuid (us_id x)"
    and row: "t \<in> set (db_refresh_tokens (w_db w))" "rt_jti t = jti" "rt_revoked_at t = None" "rt_deleted_at t = None"
      "rt_token_hash t = hash_password lib salt tok" "dr_now dr < rt_expires_at t"
    and fresh: "fresh_token dr (w_db w)"
  shows "\<exists>w'. refresh lib st dr tok w = (w', Inr (tokens_for lib st dr x))"
proof -
  let ?c = "token_claims now (us_id x) ''refresh'' (refresh_lifetime st) [(''jti'', JStr jti)]"
  have d: "decode_token lib st (dr_now dr) tok = Inr ?c"
    unfolding tok(1) by (rule refresh_claims [OF laws(1) ok(5) tok(2) laws(2)])
  have c: "dget ?c ''type'' = JStr ''refresh''" "map_of ?c ''sub'' = Some (JStr (us_id x))" "claimed_jti ?c = jti"
    by (simp_all add: token_claims_def dset_def dget_def claimed_jti_def)
  have a: "refresh_get_active_by_jti (w_db w) (dr_now dr) jti = Inr (Some t)"
    unfolding refresh_get_active_by_jti_def base_query_def
  proof (rule find_one_the)
    have "distinct (db_refresh_tokens (w_db w))" using ok(1) by (simp add: accounts_ok_def distinct_map)
    then show "distinct (filter (\<lambda>e. rt_deleted_at e = None) (db_refresh_tokens (w_db w)))" by simp
    show "y = t" if "y \<in> set (filter (\<lambda>e. rt_deleted_at e = None) (db_refresh_tokens (w_db w)))"
      "rt_jti y = jti \<and> rt_revoked_at y = None \<and> dr_now dr < rt_expires_at y" for y
      using same_key [of rt_jti "db_refresh_tokens (w_db w)" y t] ok(1) row(1,2) that by (simp add: accounts_ok_def)
  qed (use row in simp_all)
  have v: "verify_password lib tok (rt_token_hash t)"
    using laws(1) ok(5) tok(2) unfolding row(5) tok(1) auth_laws_def by blast
  have j: "jti \<noteq> []" using tok(2) by auto
  have s: "claimed_subject ?c = Inr (us_id x)" using c(2) parse_uuid_canonical [OF ok(5)] by (simp add: claimed_subject_def)
  let ?w = "w\<lparr> w_db := (w_db w)\<lparr> db_refresh_tokens :=
      repo_update rt_id (t\<lparr> rt_revoked_at := Some (dr_now dr) \<rparr>) (db_refresh_tokens (w_db w)) \<rparr> \<rparr>"
  have "fresh_token dr (w_db ?w)" using fresh row(1) by (auto simp: fresh_token_def repo_update_def)
  from token_add_run [OF this, of None None lib st x] show ?thesis
    using d c(1,3) a v s user_by_id [OF ok(1-3)] ok(4) j
    by (simp add: refresh_def refresh_revoke_def varchar_def)
qed

text \<open>A registration, any requests, and a login.\<close>

lemma registered_login:
  assumes laws: "auth_laws lib st" and w: "w_db w = w_committed w" "accounts_ok (w_db w)"
    and reg: "run_request (register_route lib dr c p) w = (w1, Inr u)" and run: "auth_run lib st w1 w2"
    and same: "lower (lg_email q) = lower (rg_email p)" "lg_password q = rg_password p" "hashable (rg_password p)"
    and env: "fits c'" "fresh_token dr' (w_db w2)" "is_uuid (uo_id u)" "length (dr_hex dr' 0) = 32"
    and time: "dr_now dr'' div second_us \<le> (dr_now dr' + access_lifetime st) div second_us"
  shows "\<exists>w3 tokens. run_request (login_route lib st dr' c' q) w2 = (w3, Inr (tokens, u))
    \<and> run_request (me_route lib st dr'' (Some (''Bearer'', tp_access_token tokens))) w3 = (w3, Inr u)
    \<and> (fresh_token dr'' (w_db w3) \<longrightarrow> dr_now dr'' < dr_now dr' + refresh_lifetime st \<longrightarrow>
        (\<exists>w4 pair. run_request (refresh lib st dr'' (tp_refresh_token tokens)) w3 = (w4, Inr pair)))"
proof -
  have s: "settled accounts_ok w" using w by (simp add: settled_def)
  note r = accounts.request_result [OF acc_register_route s reg]
  have s2: "settled accounts_ok w2" and g: "accounts_grow (w_db w1) (w_db w2)" using auth_run_books [OF run r(1)] by simp_all
  have "registered lib (dr_hex dr 1) p u (w_db w2)" using kept_registered r(3) g unfolding kept_def by blast
  then obtain x where x: "x \<in> set (db_users (w_db w2))" "u = user_out_of x" "us_email x = lower (rg_email p)"
      "us_password_hash x = hash_password lib (dr_hex dr 1) (rg_password p)" "us_is_active x" "us_deleted_at x = None"
    unfolding registered_def by (auto simp del: One_nat_def) (metis account_simps)
  have e: "user_get_by_email (w_db w2) (lg_email q) = Inr (Some x)"
    by (rule user_by_email [OF settled_ok [OF s2] x(1,6)]) (simp add: x(3) same(1))
  have v: "verify_password lib (lg_password q) (us_password_hash x)"
    using laws same(3) by (simp add: x(4) same(2) auth_laws_def verify_password_def hash_password_def)
  from login_run [OF e v x(5) env(1,2), of st] obtain logs where
    l: "login_route lib st dr' c' q w2
      = (w2\<lparr> w_db := (w_db w2)\<lparr> db_users := repo_update us_id (seen dr' x) (db_users (w_db w2)),
                db_refresh_tokens := db_refresh_tokens (w_db w2)
                  @ [token_row lib st dr' (seen dr' x) (client_ip c') (cl_user_agent c')], db_audit_logs := logs \<rparr> \<rparr>,
         Inr (tokens_for lib st dr' (seen dr' x), u))"
    unfolding x(2) by blast
  define w3 where "w3 = fst (run_request (login_route lib st dr' c' q) w2)"
  define tokens where "tokens = tokens_for lib st dr' (seen dr' x)"
  have l3: "run_request (login_route lib st dr' c' q) w2 = (w3, Inr (tokens, u))"
    by (simp add: w3_def run_request_def l tokens_def)
  have s3: "settled accounts_ok w3" using accounts.request_keeps [OF acc_login_route s2] by (simp add: w3_def)
  have x3: "seen dr' x \<in> set (db_users (w_db w3))" "us_deleted_at (seen dr' x) = None" "us_is_active (seen dr' x)"
      "is_uuid (us_id (seen dr' x))"
    using x(1) env(3) by (force simp: w3_def run_request_def l repo_update_def seen_def, simp_all add: x user_out_of_def)
  have "me_route lib st dr'' (Some (''Bearer'', tp_access_token tokens)) w3 = (w3, Inr u)"
    using me_run [OF laws time settled_ok [OF s3] x3] by (simp add: tokens_def tokens_for_def x(2))
  then have me: "run_request (me_route lib st dr'' (Some (''Bearer'', tp_access_token tokens))) w3 = (w3, Inr u)"
    using settled_unchanged [OF s3] by (simp add: run_request_def)
  have "\<exists>w4 pair. run_request (refresh lib st dr'' (tp_refresh_token tokens)) w3 = (w4, Inr pair)"
    if f: "fresh_token dr'' (w_db w3)" "dr_now dr'' < dr_now dr' + refresh_lifetime st"
  proof -
    let ?t = "token_row lib st dr' (seen dr' x) (client_ip c') (cl_user_agent c')"
    have "dr_now dr'' div second_us \<le> (dr_now dr' + refresh_lifetime st) div second_us"
      using f(2) by (intro zdiv_mono1) (simp_all add: second_us_def)
    moreover have "?t \<in> set (db_refresh_tokens (w_db w3))" by (simp add: w3_def run_request_def l)
    ultimately have "\<exists>w'. refresh lib st dr'' (tp_refresh_token tokens) w3 = (w', Inr (tokens_for lib st dr'' (seen dr' x)))"
      using f env(4) by (intro refresh_run [OF laws _ _ _ settled_ok [OF s3] x3, where t = ?t and now = "dr_now dr'"
            and jti = "dr_hex dr' 0" and salt = "dr_hex dr' 1"]) (simp_all add: tokens_def tokens_for_def token_row_def)
    then show ?thesis by (auto simp: run_request_def)
  qed
  with l3 me show ?thesis by blast
qed

section \<open>Properties\<close>

text \<open>C13. Whatever requests the account service handles, in any order and by anyone: emails, user
  identifiers and the identifiers of refresh tokens stay unique, no user disappears or changes in
  anything but its last login, a revoked refresh token is never active again, and the audit log only
  grows.\<close>

theorem account_books:
  assumes "auth_run lib st w w'" "w_db w = w_committed w" "accounts_ok (w_db w)"
  shows "w_db w' = w_committed w' \<and> accounts_ok (w_db w') \<and> accounts_grow (w_db w) (w_db w')"
  using auth_run_books [OF assms(1)] assms(2,3) unfolding settled_def by blast


text \<open>C15. A refresh token is good for one exchange: after it was exchanged, whatever the service did since
  and whenever it is presented again, it is refused and nothing changes.\<close>

theorem refresh_token_single_use:
  assumes w: "w_db w = w_committed w" "accounts_ok (w_db w)"
    and first: "run_request (refresh lib st dr tok) w = (w1, Inr pair)" and run: "auth_run lib st w1 w2"
    and token: "\<forall>now c c'. decode_token lib st (dr_now dr) tok = Inr c \<longrightarrow> decode_token lib st now tok = Inr c' \<longrightarrow>
                  claimed_jti c' = claimed_jti c"
  shows "\<exists>m. run_request (refresh lib st dr' tok) w2 = (w2, Inl (UnauthorizedError m))"
proof -
  have s: "settled accounts_ok w" using w by (simp add: settled_def)
  note r = accounts.request_result [OF acc_refresh s first]
  have s2: "settled accounts_ok w2" and g: "accounts_grow (w_db w1) (w_db w2)" using auth_run_books [OF run r(1)] by simp_all
  obtain c t where c: "decode_token lib st (dr_now dr) tok = Inr c" and t: "t \<in> spent (w_db w2)" "rt_jti t = claimed_jti c"
    using r(3) g unfolding accounts_grow_def by blast
  have "refresh_get_active_by_jti (w_db w2) (dr_now dr') (claimed_jti c) = Inr None"
  proof -
    have "\<not> (rt_jti x = claimed_jti c \<and> rt_revoked_at x = None)" if "x \<in> set (db_refresh_tokens (w_db w2))" for x
      using same_key [of rt_jti "db_refresh_tokens (w_db w2)" x t] that t settled_ok [OF s2]
      by (auto simp: accounts_ok_def spent_def)
    then show ?thesis
      by (auto simp: refresh_get_active_by_jti_def base_query_def find_one_def filter_empty_conv split: list.split)
  qed
  then have "\<exists>m. refresh lib st dr' tok w2 = (w2, Inl (UnauthorizedError m))"
    using token c by (rule spent_refused)
  moreover have "w2\<lparr> w_db := w_committed w2 \<rparr> = w2" using s2 by (simp add: settled_def)
  ultimately show ?thesis by (auto simp: run_request_def)
qed

text \<open>C16. An email registers once: a second registration under it, in any letter case and whatever the
  service did in between, is refused with a 409 and changes nothing.\<close>

theorem email_registers_once:
  assumes w: "w_db w = w_committed w" "accounts_ok (w_db w)"
    and reg: "run_request (register_route lib dr c p) w = (w1, Inr u)" and run: "auth_run lib st w1 w2"
    and same: "lower (rg_email q) = lower (rg_email p)"
  shows "run_request (register_route lib dr' c' q) w2 = (w2, Inl (ConflictError ''Email is already registered''))"
proof -
  have s: "settled accounts_ok w" using w by (simp add: settled_def)
  note r = accounts.request_result [OF acc_register_route s reg]
  have s2: "settled accounts_ok w2" and g: "accounts_grow (w_db w1) (w_db w2)" using auth_run_books [OF run r(1)] by simp_all
  have "registered lib (dr_hex dr 1) p u (w_db w2)" using kept_registered r(3) g unfolding kept_def by blast
  then obtain x where x: "x \<in> set (db_users (w_db w2))" "us_email x = lower (rg_email p)" "us_deleted_at x = None"
    unfolding registered_def by (auto simp del: One_nat_def) (metis account_simps)
  have "user_get_by_email (w_db w2) (rg_email q) = Inr (Some x)"
    by (rule user_by_email [OF settled_ok [OF s2] x(1,3)]) (simp add: x(2) same)
  then have "register_route lib dr' c' q w2 = (w2, Inl (ConflictError ''Email is already registered''))"
    by (simp add: register_route_def register_def) (simp add: bnd_def)
  moreover have "w2\<lparr> w_db := w_committed w2 \<rparr> = w2" using s2 by (simp add: settled_def)
  ultimately show ?thesis by (simp add: run_request_def)
qed

section \<open>A concrete service\<close>

lemma login_tokens:
  assumes "run_request (login_route lib st dr c p) w = (w', Inr x)"
  shows "\<exists>u. db_refresh_tokens (w_db w') = db_refresh_tokens (w_db w) @ [token_row lib st dr u (client_ip c) (cl_user_agent c)]"
  using assms
  by (auto simp: run_request_def login_route_def login_def issue_tokens_def user_put_def refresh_token_add_def
      audit_client_def Let_def bnd_Inr repo_add_def expect_def split: prod.splits sum.splits option.splits if_splits)

instance json :: countable
  by countable_datatype

definition toy_lib :: auth_lib where
  \<comment> \<open>the token is a numeral for the claims, the key and the algorithm; the hash shows its salt\<close>
  "toy_lib = \<lparr> lib_hash = (\<lambda>salt p. salt @ ''$'' @ p), lib_verify = (\<lambda>p h. ends_with h (''$'' @ p)),
     lib_encode = (\<lambda>c k a. replicate (to_nat (c, k, a)) (CHR ''x'')),
     lib_decode = (\<lambda>now t k a. case from_nat (length t) of (c, k', a') \<Rightarrow>
       if k' = k \<and> a' = a \<and> (case dget c ''exp'' of JInt e \<Rightarrow> now div second_us \<le> e | _ \<Rightarrow> True) then Some c else None) \<rparr>"

lemma toy_laws: "auth_laws toy_lib st"
  by (simp add: auth_laws_def decodes_def toy_lib_def ends_with_iff verify_password_def hash_password_def
      access_token_claims_def refresh_token_claims_def token_claims_def dset_def dget_def)

lemma toy_decode: "decode_token toy_lib st now t = Inr c \<Longrightarrow> c = fst (from_nat (length t) :: dict \<times> string \<times> string)"
  by (auto simp: decode_token_def toy_lib_def split: option.splits prod.splits if_splits)

definition office :: world where
  \<comment> \<open>a database with its roles and no user\<close>
  "office = (let d = empty_db\<lparr> db_roles := [\<lparr> ro_id = ''r1'', ro_name = ''merchant_owner'', ro_description = None, ro_deleted_at = None \<rparr>] \<rparr>
     in \<lparr> w_db = d, w_committed = d, w_sessions = empty_store, w_processors = initial_factory \<rparr>)"

definition office_draws :: "string \<Rightarrow> draws" where
  "office_draws tag = \<lparr> dr_now = 1000000000, dr_uuid = (\<lambda>_. ''00000000-0000-4000-8000-00000000000'' @ tag),
     dr_hex = (\<lambda>_. ''0123456789abcdef0123456789abcde'' @ tag) \<rparr>"

definition browser :: client where
  "browser = \<lparr> cl_forwarded = None, cl_host = Some ''203.0.113.7'', cl_user_agent = Some ''curl'' \<rparr>"

definition newcomer :: register_request where
  "newcomer = \<lparr> rg_first_name = ''Turki'', rg_last_name = ''H'', rg_email = ''Turki@Example.com'', rg_phone = None,
     rg_password = ''Password1!'' \<rparr>"

lemma office_saved: "w_db office = w_committed office" "accounts_ok (w_db office)"
  by (simp_all add: office_def Let_def accounts_ok_def empty_db_def)

abbreviation "first_draws \<equiv> office_draws ''1''"
abbreviation "second_draws \<equiv> office_draws ''2''"

definition sign_in :: login_request where
  "sign_in = \<lparr> lg_email = ''turki@example.COM'', lg_password = ''Password1!'' \<rparr>"

lemma same_person: "lower (lg_email sign_in) = lower (rg_email newcomer)" "lg_password sign_in = rg_password newcomer"
  "hashable (rg_password newcomer)"
  by code_simp+

lemma browser_fits: "fits browser"
  by code_simp

lemma office_registers:
  "\<exists>w1 u. run_request (register_route toy_lib first_draws browser newcomer) office = (w1, Inr u)
     \<and> uo_id u = dr_uuid first_draws 0 \<and> db_refresh_tokens (w_db w1) = []"
proof -
  have r: "role_get_by_name (w_db office) ''merchant_owner'' =
      Inr (Some \<lparr> ro_id = ''r1'', ro_name = ''merchant_owner'', ro_description = None, ro_deleted_at = None \<rparr>)"
    by (simp add: role_get_by_name_def base_query_def office_def Let_def find_one_def)
  have u: "user_get_by_email (w_db office) e = Inr None" "db_users (w_db office) = []" "db_refresh_tokens (w_db office) = []" for e
    by (simp_all add: user_get_by_email_def base_query_def office_def Let_def find_one_def empty_db_def)
  show ?thesis
    using r u browser_fits
    by (simp add: run_request_def register_route_def register_def user_add_def repo_add_def user_constraints_def
        audit_client_def fits_def) (simp add: bnd_def user_out_of_def new_user_def)
qed

lemma office_id: "is_uuid (dr_uuid first_draws 0)" "length (dr_hex first_draws 0) = 32"
  by (simp add: office_draws_def, code_simp) (simp add: office_draws_def)

theorem account_books_witness:
  "accounts_ok (w_db (serve_auth toy_lib default_settings first_draws (Register browser newcomer) office))"
  using account_books [OF auth_request [OF auth_start] office_saved] by blast

theorem email_registers_once_witness:
  "\<exists>w1 u. run_request (register_route toy_lib first_draws browser newcomer) office = (w1, Inr u)
    \<and> run_request (register_route toy_lib second_draws browser (newcomer\<lparr> rg_email := ''TURKI@example.com'' \<rparr>)) w1
      = (w1, Inl (ConflictError ''Email is already registered''))"
proof -
  obtain w1 u where r: "run_request (register_route toy_lib first_draws browser newcomer) office = (w1, Inr u)"
    using office_registers by blast
  have "lower (rg_email (newcomer\<lparr> rg_email := ''TURKI@example.com'' \<rparr>)) = lower (rg_email newcomer)"
    by code_simp
  from email_registers_once [OF office_saved r auth_start [of toy_lib default_settings] this] r show ?thesis by blast
qed


theorem refresh_token_single_use_witness:
  "\<exists>w w1 tok pair m. run_request (refresh toy_lib default_settings second_draws tok) w = (w1, Inr pair)
    \<and> run_request (refresh toy_lib default_settings second_draws tok) w1 = (w1, Inl (UnauthorizedError m))"
proof -
  obtain w1 u where r: "run_request (register_route toy_lib first_draws browser newcomer) office = (w1, Inr u)"
      "uo_id u = dr_uuid first_draws 0" "db_refresh_tokens (w_db w1) = []"
    using office_registers by blast
  have f: "fresh_token first_draws (w_db w1)" "is_uuid (uo_id u)" "length (dr_hex first_draws 0) = 32" using r office_id by (simp_all add: fresh_token_def)
  have t: "dr_now second_draws div second_us
      \<le> (dr_now first_draws + access_lifetime default_settings) div second_us"
    by (simp add: office_draws_def access_lifetime_def default_settings_def second_us_def)
  from registered_login [OF toy_laws office_saved r(1) auth_start same_person browser_fits f t]
  obtain w3 tokens where l: "run_request (login_route toy_lib default_settings first_draws browser sign_in) w1 = (w3, Inr (tokens, u))"
    and e: "fresh_token second_draws (w_db w3) \<longrightarrow>
        dr_now second_draws < dr_now first_draws + refresh_lifetime default_settings \<longrightarrow>
        (\<exists>w4 pair. run_request (refresh toy_lib default_settings second_draws (tp_refresh_token tokens)) w3 = (w4, Inr pair))"
    by blast
  have s: "settled accounts_ok w1"
    by (rule accounts.request_result(1) [OF acc_register_route _ r(1)]) (use office_saved in \<open>simp add: settled_def\<close>)
  have "settled accounts_ok w3"
    using accounts.request_keeps [OF acc_login_route s, of toy_lib default_settings first_draws browser sign_in] l by simp
  then have s3: "w_db w3 = w_committed w3" "accounts_ok (w_db w3)" unfolding settled_def by blast+
  have "fresh_token second_draws (w_db w3)"
    using login_tokens [OF l] r(3) by (auto simp: fresh_token_def office_draws_def token_row_def)
  then obtain w4 pair where x: "run_request (refresh toy_lib default_settings second_draws (tp_refresh_token tokens)) w3 = (w4, Inr pair)"
    using e by (auto simp: office_draws_def refresh_lifetime_def default_settings_def second_us_def)
  have "\<forall>now c c'. decode_token toy_lib default_settings (dr_now second_draws) (tp_refresh_token tokens) = Inr c \<longrightarrow>
      decode_token toy_lib default_settings now (tp_refresh_token tokens) = Inr c' \<longrightarrow> claimed_jti c' = claimed_jti c"
    using toy_decode by metis
  from refresh_token_single_use [OF s3 x auth_start this] x show ?thesis by blast
qed

end
