(* ===== verification/Devices.thy ===== *)
theory Devices
  imports Upkeep
begin

text \<open>
  Registration and heartbeat of the terminals: \<open>DeviceService\<close> of \<open>src/app/services/device_service.py\<close> and
  the routes of \<open>src/app/api/v1/routes/devices.py\<close>.

  \<open>session.scalar\<close> takes the first row; \<open>session.get\<close> the row of the identifier, deleted or not. Draws:
  \<open>dr_uuid\<close> 0 is a new device, 1 its information row. The statuses a device reports are kept as strings
  of a JSON object, and only this service writes them.
\<close>

section \<open>Requests and responses\<close>

record register_device_request =
  rd_serial_number :: string
  rd_model :: string
  rd_android_version :: "string option"
  rd_manufacturer :: string
  rd_app_version :: "string option"
  rd_connectivity_status :: "string option"
  rd_printer_status :: "string option"
  rd_card_reader_status :: "string option"
  rd_overall_status :: "string option"
  rd_firmware :: "string option"

definition short :: "nat \<Rightarrow> string option \<Rightarrow> bool" where
  "short n s = (case s of None \<Rightarrow> True | Some t \<Rightarrow> py_len t \<le> n)"

definition register_device_fields :: "register_device_request \<Rightarrow> bool" where
  "register_device_fields p \<longleftrightarrow>
     3 \<le> py_len (rd_serial_number p) \<and> py_len (rd_serial_number p) \<le> 128
     \<and> py_len (rd_model p) \<le> 64 \<and> short 32 (rd_android_version p) \<and> py_len (rd_manufacturer p) \<le> 64
     \<and> short 32 (rd_app_version p) \<and> short 32 (rd_connectivity_status p) \<and> short 32 (rd_printer_status p)
     \<and> short 32 (rd_card_reader_status p) \<and> short 32 (rd_overall_status p) \<and> short 128 (rd_firmware p)"

record device_heartbeat_request =
  hb_device_id :: "uuid option"
  hb_serial_number :: "string option"
  hb_connectivity_status :: string
  hb_printer_status :: "string option"
  hb_card_reader_status :: "string option"
  hb_overall_status :: "string option"

definition heartbeat_fields :: "device_heartbeat_request \<Rightarrow> bool" where
  "heartbeat_fields p \<longleftrightarrow>
     short 128 (hb_serial_number p) \<and> py_len (hb_connectivity_status p) \<le> 32 \<and> short 32 (hb_printer_status p)
     \<and> short 32 (hb_card_reader_status p) \<and> short 32 (hb_overall_status p)"

record device_out =
  do_id :: uuid
  do_serial_number :: string
  do_model :: string
  do_android_version :: "string option"
  do_status :: string
  do_last_seen_at :: "time option"
  do_merchant_id :: uuid
  do_connectivity_status :: string
  do_manufacturer :: "string option"
  do_app_version :: "string option"
  do_printer_status :: "string option"
  do_card_reader_status :: "string option"
  do_overall_status :: "string option"

section \<open>The service\<close>

definition extra_status ::
  "string option \<Rightarrow> string option \<Rightarrow> string option \<Rightarrow> string option \<Rightarrow> dict" where
  "extra_status connectivity printer card_reader overall =
     map (\<lambda>(k, v). (k, jopt v))
       (filter (\<lambda>(k, v). truthy v)
         [(''connectivity_status'', connectivity), (''printer_status'', printer),
          (''card_reader_status'', card_reader), (''overall_status'', overall)])"

definition dict_update :: "dict \<Rightarrow> dict \<Rightarrow> dict" where
  \<comment> \<open>\<open>d.update(e)\<close>\<close>
  "dict_update d e = foldl (\<lambda>d (k, v). dset k v d) d e"

definition dict_or_empty :: "dict option \<Rightarrow> dict" where
  "dict_or_empty x = (case x of None \<Rightarrow> [] | Some d \<Rightarrow> d)"

definition caller_merchant :: "uuid \<Rightarrow> merchant_profile handler" where
  "caller_merchant user_id =
     bnd (ask_db (\<lambda>d. merchant_get_by_owner d user_id)) (\<lambda>merchant.
     expect (AppException ''Merchant profile required'' 403) merchant)"

definition device_by_serial :: "db \<Rightarrow> string \<Rightarrow> sunmi_device option" where
  "device_by_serial d serial = find (\<lambda>x. sd_serial_number x = serial) (db_devices d)"

definition info_by_serial :: "db \<Rightarrow> string \<Rightarrow> device_information option" where
  "info_by_serial d serial = find (\<lambda>x. di_external_id x = serial) (db_device_info d)"

definition device_get :: "db \<Rightarrow> uuid \<Rightarrow> sunmi_device option" where
  "device_get d i = find (\<lambda>x. sd_id x = i) (db_devices d)"

definition device_put :: "sunmi_device \<Rightarrow> unit handler" where
  "device_put x = on_db (\<lambda>d. d\<lparr> db_devices := repo_update sd_id x (db_devices d) \<rparr>)"

definition device_add :: "sunmi_device \<Rightarrow> unit handler" where
  "device_add x = bnd (ask_db (\<lambda>d. repo_add sd_id device_constraints x (db_devices d))) (\<lambda>rows.
     on_db (\<lambda>d. d\<lparr> db_devices := rows \<rparr>))"

definition updated_info ::
  "uuid \<Rightarrow> string \<Rightarrow> string \<Rightarrow> string option \<Rightarrow> string option \<Rightarrow> dict \<Rightarrow> time \<Rightarrow> device_information \<Rightarrow> device_information" where
  "updated_info sunmi_device_id manufacturer model android_version app_version extra now info =
     info\<lparr> di_sunmi_device_id := Some sunmi_device_id, di_manufacturer := manufacturer, di_model_name := model,
           di_os_version := android_version, di_app_version := app_version, di_last_seen_at := Some now,
           di_status := ''active'', di_extra_data := Some (dict_update (dict_or_empty (di_extra_data info)) extra) \<rparr>"

definition new_info ::
  "uuid \<Rightarrow> uuid \<Rightarrow> uuid \<Rightarrow> string \<Rightarrow> string \<Rightarrow> string \<Rightarrow> string option \<Rightarrow> string option \<Rightarrow> dict \<Rightarrow> time \<Rightarrow>
     device_information" where
  "new_info i merchant_id sunmi_device_id serial manufacturer model android_version app_version extra now =
     \<lparr> di_id = i, di_merchant_id = merchant_id, di_sunmi_device_id = Some sunmi_device_id, di_external_id = serial,
       di_manufacturer = manufacturer, di_model_name = model, di_os_name = ''Android'', di_os_version = android_version,
       di_app_version = app_version, di_push_token = None, di_last_ip = None, di_last_seen_at = Some now,
       di_status = ''active'', di_extra_data = (if extra = [] then None else Some extra) \<rparr>"

definition upsert_info ::
  "draws \<Rightarrow> uuid \<Rightarrow> uuid \<Rightarrow> string \<Rightarrow> string \<Rightarrow> string \<Rightarrow> string option \<Rightarrow> string option \<Rightarrow> dict \<Rightarrow> unit handler" where
  "upsert_info dr merchant_id sunmi_device_id serial manufacturer model android_version app_version extra =
     bnd (gets (\<lambda>w. info_by_serial (w_db w) serial)) (\<lambda>info.
     case info of
       Some info \<Rightarrow>
         on_db (\<lambda>d. d\<lparr> db_device_info := repo_update di_id
           (updated_info sunmi_device_id manufacturer model android_version app_version extra (dr_now dr) info)
           (db_device_info d) \<rparr>)
     | None \<Rightarrow>
         bnd (ask_db (\<lambda>d. repo_add di_id device_info_constraints
           (new_info (dr_uuid dr 1) merchant_id sunmi_device_id serial manufacturer model android_version app_version
              extra (dr_now dr)) (db_device_info d))) (\<lambda>rows.
         on_db (\<lambda>d. d\<lparr> db_device_info := rows \<rparr>)))"

definition device_out_of :: "db \<Rightarrow> sunmi_device \<Rightarrow> device_out" where
  \<comment> \<open>\<open>_to_out\<close>\<close>
  "device_out_of d x =
     (let info = info_by_serial d (sd_serial_number x);
          extra = (case info of None \<Rightarrow> [] | Some i \<Rightarrow> dict_or_empty (di_extra_data i));
          text = (\<lambda>k. jstr (dget extra k))
      in \<lparr> do_id = sd_id x, do_serial_number = sd_serial_number x, do_model = sd_model x,
           do_android_version = sd_android_version x, do_status = sd_status x, do_last_seen_at = sd_last_seen_at x,
           do_merchant_id = sd_merchant_id x,
           do_connectivity_status = or_str (text ''connectivity_status'')
             (if sd_status x = ''active'' then ''ONLINE'' else ''OFFLINE''),
           do_manufacturer = map_option di_manufacturer info,
           do_app_version = (case info of None \<Rightarrow> None | Some i \<Rightarrow> di_app_version i),
           do_printer_status = text ''printer_status'', do_card_reader_status = text ''card_reader_status'',
           do_overall_status = text ''overall_status'' \<rparr>)"

definition refreshed_device :: "time \<Rightarrow> register_device_request \<Rightarrow> sunmi_device \<Rightarrow> sunmi_device" where
  "refreshed_device now p x =
     x\<lparr> sd_model := rd_model p, sd_android_version := rd_android_version p, sd_last_seen_at := Some now,
        sd_status := ''active'' \<rparr>"

definition new_device :: "draws \<Rightarrow> uuid \<Rightarrow> register_device_request \<Rightarrow> sunmi_device" where
  "new_device dr merchant_id p =
     \<lparr> sd_id = dr_uuid dr 0, sd_merchant_id = merchant_id, sd_serial_number = rd_serial_number p,
       sd_model = rd_model p, sd_android_version = rd_android_version p, sd_status = ''active'',
       sd_last_seen_at = Some (dr_now dr), sd_created_at = dr_now dr \<rparr>"

definition claim_device :: "draws \<Rightarrow> merchant_profile \<Rightarrow> register_device_request \<Rightarrow> sunmi_device handler" where
  "claim_device dr merchant p =
     bnd (gets (\<lambda>w. device_by_serial (w_db w) (rd_serial_number p))) (\<lambda>existing.
     case existing of
       Some x \<Rightarrow>
         bnd (check (sd_merchant_id x = me_id merchant)
                (AppException ''Device serial already registered to another merchant'' 409)) (\<lambda>_.
         (let x = refreshed_device (dr_now dr) p x in bnd (device_put x) (\<lambda>_. ret x)))
     | None \<Rightarrow> (let x = new_device dr (me_id merchant) p in bnd (device_add x) (\<lambda>_. ret x)))"

definition register_device :: "draws \<Rightarrow> uuid \<Rightarrow> register_device_request \<Rightarrow> device_out handler" where
  "register_device dr user_id p =
     bnd (caller_merchant user_id) (\<lambda>merchant.
     bnd (claim_device dr merchant p) (\<lambda>x.
     bnd (upsert_info dr (me_id merchant) (sd_id x) (rd_serial_number p) (rd_manufacturer p) (rd_model p)
            (rd_android_version p) (rd_app_version p)
            (extra_status (rd_connectivity_status p) (rd_printer_status p) (rd_card_reader_status p) (rd_overall_status p))) (\<lambda>_.
     bnd (audit ''device_registered'' ''device'' (sd_id x) user_id
            (Some [(''serial_number'', JStr (sd_serial_number x)), (''model'', JStr (sd_model x))])) (\<lambda>_.
     gets (\<lambda>w. device_out_of (w_db w) x)))))"

definition addressed :: "db \<Rightarrow> device_heartbeat_request \<Rightarrow> sunmi_device option" where
  "addressed d p =
     (case hb_device_id p of
        Some i \<Rightarrow> device_get d i
      | None \<Rightarrow> (case hb_serial_number p of
          Some s \<Rightarrow> if s \<noteq> [] then device_by_serial d s else None
        | None \<Rightarrow> None))"

definition owned_device :: "merchant_profile \<Rightarrow> string \<Rightarrow> (db \<Rightarrow> sunmi_device option) \<Rightarrow> sunmi_device handler" where
  \<comment> \<open>\<open>if device is None or device.merchant_id != merchant.id: raise NotFoundError(...)\<close>\<close>
  "owned_device merchant message lookup =
     bnd (gets (\<lambda>w. lookup (w_db w))) (\<lambda>x.
     expect (NotFoundError message)
       (case x of None \<Rightarrow> None | Some x \<Rightarrow> if sd_merchant_id x = me_id merchant then Some x else None))"

definition record_heartbeat ::
  "draws \<Rightarrow> uuid \<Rightarrow> merchant_profile \<Rightarrow> device_heartbeat_request \<Rightarrow> sunmi_device \<Rightarrow> device_out handler" where
  "record_heartbeat dr user_id merchant p x =
     bnd (device_put x) (\<lambda>_.
     bnd (gets (\<lambda>w. info_by_serial (w_db w) (sd_serial_number x))) (\<lambda>info.
     bnd (upsert_info dr (me_id merchant) (sd_id x) (sd_serial_number x)
            (case info of Some i \<Rightarrow> di_manufacturer i | None \<Rightarrow> ''Generic'') (sd_model x) (sd_android_version x)
            (case info of Some i \<Rightarrow> di_app_version i | None \<Rightarrow> None)
            (dict_update (case info of Some i \<Rightarrow> dict_or_empty (di_extra_data i) | None \<Rightarrow> [])
               (extra_status (Some (hb_connectivity_status p)) (hb_printer_status p) (hb_card_reader_status p)
                  (hb_overall_status p)))) (\<lambda>_.
     bnd (audit ''device_heartbeat'' ''device'' (sd_id x) user_id
            (Some [(''overall_status'', jopt (hb_overall_status p))])) (\<lambda>_.
     gets (\<lambda>w. device_out_of (w_db w) x)))))"

definition heartbeat :: "draws \<Rightarrow> uuid \<Rightarrow> device_heartbeat_request \<Rightarrow> device_out handler" where
  "heartbeat dr user_id p =
     bnd (caller_merchant user_id) (\<lambda>merchant.
     bnd (owned_device merchant (''Device not found '' @ em_dash @ '' register first'') (\<lambda>d. addressed d p)) (\<lambda>x.
     record_heartbeat dr user_id merchant p (x\<lparr> sd_last_seen_at := Some (dr_now dr), sd_status := ''active'' \<rparr>)))"

definition list_devices :: "uuid \<Rightarrow> device_out list handler" where
  "list_devices user_id =
     bnd (caller_merchant user_id) (\<lambda>merchant.
     gets (\<lambda>w. map (device_out_of (w_db w))
       (sort_key (\<lambda>x. - sd_created_at x) (filter (\<lambda>x. sd_merchant_id x = me_id merchant) (db_devices (w_db w))))))"

definition get_device :: "uuid \<Rightarrow> uuid \<Rightarrow> device_out handler" where
  "get_device user_id device_id =
     bnd (caller_merchant user_id) (\<lambda>merchant.
     bnd (owned_device merchant ''Device not found'' (\<lambda>d. device_get d device_id)) (\<lambda>x.
     gets (\<lambda>w. device_out_of (w_db w) x)))"

section \<open>The routes\<close>

datatype device_call =
    Register_Device register_device_request
  | Device_Heartbeat device_heartbeat_request
  | List_Devices
  | Get_Device uuid

fun serve_device :: "draws \<Rightarrow> uuid \<Rightarrow> device_call \<Rightarrow> world \<Rightarrow> world" where
  "serve_device dr u (Register_Device p) w = fst (run_request (register_device dr u p) w)"
| "serve_device dr u (Device_Heartbeat p) w = fst (run_request (heartbeat dr u p) w)"
| "serve_device dr u List_Devices w = fst (run_request (list_devices u) w)"
| "serve_device dr u (Get_Device i) w = fst (run_request (get_device u i) w)"

end
