(* ===== verification/Device_Books.thy ===== *)
theory Device_Books
  imports Devices "HOL-Library.Sublist"
begin

text \<open>
  The contract of the device tables: identifiers and serial numbers are unique, every information row
  belongs to the device of its serial number and to that device's merchant, a device keeps its serial
  number and its merchant for ever, and a request touches rows of its caller's merchant only.
\<close>

definition device_key :: "sunmi_device \<Rightarrow> uuid \<times> string \<times> uuid \<times> time" where
  "device_key x = (sd_id x, sd_serial_number x, sd_merchant_id x, sd_created_at x)"

definition info_linked :: "sunmi_device list \<Rightarrow> device_information \<Rightarrow> bool" where
  "info_linked devices i \<longleftrightarrow> (\<exists>x \<in> set devices. di_sunmi_device_id i = Some (sd_id x)
     \<and> di_external_id i = sd_serial_number x \<and> di_merchant_id i = sd_merchant_id x)"

definition devices_ok :: "db \<Rightarrow> bool" where
  "devices_ok d \<longleftrightarrow>
     distinct (map sd_id (db_devices d)) \<and> distinct (map sd_serial_number (db_devices d))
     \<and> distinct (map di_id (db_device_info d)) \<and> distinct (map di_external_id (db_device_info d))
     \<and> (\<forall>i \<in> set (db_device_info d). info_linked (db_devices d) i)"

definition foreign_devices :: "uuid \<Rightarrow> db \<Rightarrow> sunmi_device list \<times> device_information list" where
  "foreign_devices mid d = (filter (\<lambda>x. sd_merchant_id x \<noteq> mid) (db_devices d),
     filter (\<lambda>i. di_merchant_id i \<noteq> mid) (db_device_info d))"

definition devices_grow :: "uuid \<Rightarrow> db \<Rightarrow> db \<Rightarrow> bool" where
  "devices_grow mid d d' \<longleftrightarrow>
     prefix (map device_key (db_devices d)) (map device_key (db_devices d'))
     \<and> foreign_devices mid d' = foreign_devices mid d
     \<and> db_merchants d' = db_merchants d \<and> db_wallets d' = db_wallets d \<and> db_txns d' = db_txns d
     \<and> prefix (db_audit_logs d) (db_audit_logs d')"

lemma devices_grow_refl [simp]: "devices_grow mid d d"
  by (simp add: devices_grow_def)

lemma devices_grow_trans: "devices_grow mid a b \<Longrightarrow> devices_grow mid b c \<Longrightarrow> devices_grow mid a c"
  unfolding devices_grow_def
  by (elim conjE) (intro conjI; (erule (1) prefix_order.trans | simp))

interpretation devices: upkeep devices_ok "devices_grow mid" for mid
  by unfold_locales (simp, erule devices_grow_trans)

abbreviation dev :: "uuid \<Rightarrow> (db \<Rightarrow> bool) \<Rightarrow> (world, 'a) act \<Rightarrow> ('a \<Rightarrow> db \<Rightarrow> bool) \<Rightarrow> (db \<Rightarrow> bool) \<Rightarrow> bool" where
  "dev mid \<equiv> triple devices_ok (devices_grow mid)"

section \<open>Steps\<close>

lemma key_parts:
  "device_key x = device_key y \<Longrightarrow>
     sd_id x = sd_id y \<and> sd_serial_number x = sd_serial_number y \<and> sd_merchant_id x = sd_merchant_id y"
  by (simp add: device_key_def)

lemma info_linked_keys:
  "map device_key xs = map device_key ys \<Longrightarrow> info_linked xs i \<Longrightarrow> info_linked ys i"
proof -
  assume k: "map device_key xs = map device_key ys" and "info_linked xs i"
  then obtain x where x: "x \<in> set xs" "di_sunmi_device_id i = Some (sd_id x)" "di_external_id i = sd_serial_number x"
      "di_merchant_id i = sd_merchant_id x"
    by (auto simp: info_linked_def)
  have "device_key x \<in> set (map device_key ys)" using x(1) k [symmetric] by simp
  then obtain y where "y \<in> set ys" "device_key y = device_key x" by auto
  then show ?thesis using x key_parts [of y x] unfolding info_linked_def by metis
qed

definition mine :: "uuid \<Rightarrow> sunmi_device \<Rightarrow> db \<Rightarrow> bool" where
  "mine mid x d \<longleftrightarrow> sd_merchant_id x = mid \<and> device_key x \<in> device_key ` set (db_devices d)"

lemma kept_mine [simp]: "kept (devices_grow mid) (mine mid x)"
proof -
  have "device_key ` set (db_devices d) \<subseteq> device_key ` set (db_devices d')" if "devices_grow mid d d'" for d d'
    using that set_mono_prefix [of "map device_key (db_devices d)" "map device_key (db_devices d')"]
    by (simp add: devices_grow_def)
  then show ?thesis unfolding kept_def mine_def by blast
qed

lemma dev_put: "dev mid (mine mid x) (device_put x) (\<lambda>_. mine mid x) e"
  unfolding device_put_def
proof (rule devices.triple_on_db)
  fix d :: db
  assume ok: "devices_ok d" and "mine mid x d"
  then obtain x0 where x0: "x0 \<in> set (db_devices d)" "device_key x = device_key x0" "sd_merchant_id x = mid"
    by (auto simp: mine_def)
  note k = key_parts [OF x0(2)]
  have i: "distinct (map sd_id (db_devices d))" "sd_id x0 = sd_id x" using ok k by (simp_all add: devices_ok_def)
  note m = update_maps [OF i(1) x0(1) i(2)]
  have m': "map device_key (repo_update sd_id x (db_devices d)) = map device_key (db_devices d)"
    "map sd_id (repo_update sd_id x (db_devices d)) = map sd_id (db_devices d)"
    "map sd_serial_number (repo_update sd_id x (db_devices d)) = map sd_serial_number (db_devices d)"
    by (rule m, simp add: x0(2) k)+
  have f: "filter (\<lambda>x. sd_merchant_id x \<noteq> mid) (repo_update sd_id x (db_devices d)) = filter (\<lambda>x. sd_merchant_id x \<noteq> mid) (db_devices d)"
    by (rule update_filter [OF i(1) x0(1) i(2)]) (use k x0(3) in simp_all)
  have l: "info_linked (repo_update sd_id x (db_devices d)) j" if "info_linked (db_devices d) j" for j
    by (rule info_linked_keys [OF m'(1) [symmetric] that])
  have "device_key ` set (repo_update sd_id x (db_devices d)) = device_key ` set (db_devices d)"
    using m'(1) by (metis set_map)
  then have "device_key x \<in> device_key ` set (repo_update sd_id x (db_devices d))" using x0(1,2) by simp
  then show "devices_ok (d\<lparr>db_devices := repo_update sd_id x (db_devices d)\<rparr>)
      \<and> devices_grow mid d (d\<lparr>db_devices := repo_update sd_id x (db_devices d)\<rparr>)
      \<and> mine mid x (d\<lparr>db_devices := repo_update sd_id x (db_devices d)\<rparr>)"
    using ok m' f l x0(3) by (simp add: devices_ok_def devices_grow_def foreign_devices_def mine_def)
qed

lemma dev_add: "dev mid (\<lambda>_. sd_merchant_id x = mid) (device_add x) (\<lambda>_. mine mid x) (\<lambda>_. True)"
  unfolding device_add_def
proof (rule devices.triple_steps, rule TrueI, rule devices.triple_on_db)
  fix rows and d :: db
  assume ok: "devices_ok d" and a: "sd_merchant_id x = mid \<and> repo_add sd_id device_constraints x (db_devices d) = Inr rows"
  then have r: "rows = db_devices d @ [x]" "\<forall>y \<in> set (db_devices d). sd_id y \<noteq> sd_id x \<and> sd_serial_number y \<noteq> sd_serial_number x"
    by (auto simp: repo_add_def device_constraints_def list_ex_iff split: if_splits)
  have "info_linked rows j" if "info_linked (db_devices d) j" for j using that r(1) by (auto simp: info_linked_def)
  then show "devices_ok (d\<lparr>db_devices := rows\<rparr>) \<and> devices_grow mid d (d\<lparr>db_devices := rows\<rparr>)
      \<and> mine mid x (d\<lparr>db_devices := rows\<rparr>)"
    using ok a r by (auto simp: devices_ok_def devices_grow_def foreign_devices_def mine_def)
qed

lemma dev_upsert:
  "dev mid (mine mid x) (upsert_info dr mid (sd_id x) (sd_serial_number x) mf mo av apv extra) (\<lambda>_ _. True) (\<lambda>_. True)"
  unfolding upsert_info_def
proof (rule devices.triple_bnd, rule devices.triple_gets)
  fix found
  let ?new = "new_info (dr_uuid dr 1) mid (sd_id x) (sd_serial_number x) mf mo av apv extra (dr_now dr)"
  show "dev mid (\<lambda>d. mine mid x d \<and> found = info_by_serial d (sd_serial_number x))
     (case found of
       None \<Rightarrow> bnd (ask_db (\<lambda>d. repo_add di_id device_info_constraints ?new (db_device_info d)))
         (\<lambda>rows. on_db (\<lambda>d. d\<lparr> db_device_info := rows \<rparr>))
     | Some info \<Rightarrow> on_db (\<lambda>d. d\<lparr> db_device_info :=
         repo_update di_id (updated_info (sd_id x) mf mo av apv extra (dr_now dr) info) (db_device_info d) \<rparr>))
     (\<lambda>_ _. True) (\<lambda>_. True)"
  proof (cases found)
    case None
    show ?thesis
      unfolding None option.case
    proof (rule devices.triple_steps, rule TrueI, rule devices.triple_on_db)
      fix rows and d :: db
      assume ok: "devices_ok d" and a: "(mine mid x d \<and> None = info_by_serial d (sd_serial_number x))
          \<and> repo_add di_id device_info_constraints ?new (db_device_info d) = Inr rows"
      then have r: "rows = db_device_info d @ [?new]"
          "\<forall>y \<in> set (db_device_info d). di_id y \<noteq> di_id ?new \<and> di_external_id y \<noteq> di_external_id ?new"
        by (auto simp: repo_add_def device_info_constraints_def list_ex_iff split: if_splits)
      obtain y where "y \<in> set (db_devices d)" "device_key x = device_key y" "sd_merchant_id x = mid"
        using a by (auto simp: mine_def)
      then have "info_linked (db_devices d) ?new"
        using key_parts [of x y] by (auto simp: info_linked_def new_info_def)
      then show "devices_ok (d\<lparr>db_device_info := rows\<rparr>) \<and> devices_grow mid d (d\<lparr>db_device_info := rows\<rparr>) \<and> True"
        using ok r by (auto simp: devices_ok_def devices_grow_def foreign_devices_def new_info_def)
    qed
  next
    case (Some info)
    let ?i = "updated_info (sd_id x) mf mo av apv extra (dr_now dr) info"
    show ?thesis
      unfolding Some option.case
    proof (rule devices.triple_on_db)
      fix d :: db
      assume ok: "devices_ok d" and a: "mine mid x d \<and> Some info = info_by_serial d (sd_serial_number x)"
      then have i: "info \<in> set (db_device_info d)" "di_external_id info = sd_serial_number x"
        unfolding info_by_serial_def by (auto dest: sym dest!: find_row)
      obtain y where y: "y \<in> set (db_devices d)" "device_key x = device_key y" "sd_merchant_id x = mid"
        using a by (auto simp: mine_def)
      obtain z where z: "z \<in> set (db_devices d)" "di_sunmi_device_id info = Some (sd_id z)"
          "di_external_id info = sd_serial_number z" "di_merchant_id info = sd_merchant_id z"
        using ok i(1) by (auto simp: devices_ok_def info_linked_def)
      have "z = y" using same_key [of sd_serial_number "db_devices d" z y] ok y z i(2) key_parts [OF y(2)]
        by (simp add: devices_ok_def)
      then have own: "di_merchant_id info = mid" "di_sunmi_device_id info = Some (sd_id x)"
        using z(2,4) y key_parts [OF y(2)] by simp_all
      have s: "di_id ?i = di_id info" "di_external_id ?i = di_external_id info" "di_merchant_id ?i = di_merchant_id info"
          "di_sunmi_device_id ?i = di_sunmi_device_id info"
        by (simp_all add: updated_info_def own(2))
      have dis: "distinct (map di_id (db_device_info d))" using ok by (simp add: devices_ok_def)
      note m = update_maps [OF dis i(1) s(1) [symmetric]]
      have f: "filter (\<lambda>i. di_merchant_id i \<noteq> mid) (repo_update di_id ?i (db_device_info d)) = filter (\<lambda>i. di_merchant_id i \<noteq> mid) (db_device_info d)"
        by (rule update_filter [OF dis i(1) s(1) [symmetric]]) (use s(3) own(1) in simp_all)
      have "info_linked (db_devices d) j" if "j \<in> set (repo_update di_id ?i (db_device_info d))" for j
      proof (cases "j = ?i")
        case True
        have "info_linked (db_devices d) info" using ok i(1) by (simp add: devices_ok_def)
        then show ?thesis using s unfolding True info_linked_def by simp
      next
        case False
        then have "j \<in> set (db_device_info d)" using that by (auto simp: repo_update_def split: if_splits)
        then show ?thesis using ok by (simp add: devices_ok_def)
      qed
      then show "devices_ok (d\<lparr>db_device_info := repo_update di_id ?i (db_device_info d)\<rparr>)
          \<and> devices_grow mid d (d\<lparr>db_device_info := repo_update di_id ?i (db_device_info d)\<rparr>) \<and> True"
        using ok f m [of di_id] m [of di_external_id] s by (simp add: devices_ok_def devices_grow_def foreign_devices_def)
    qed
  qed
qed

lemma dev_audit: "dev mid p (audit a r i u x) (\<lambda>_ _. True) e"
  unfolding audit_def
  by (rule devices.triple_on_db) (simp add: devices_ok_def devices_grow_def foreign_devices_def audit_record_def)

section \<open>Operations\<close>

definition acting :: "uuid \<Rightarrow> uuid \<Rightarrow> db \<Rightarrow> bool" where
  \<comment> \<open>whoever the caller is, it is not the owner of a merchant other than \<open>mid\<close>\<close>
  "acting u mid d \<longleftrightarrow> (\<forall>m. merchant_get_by_owner d u = Inr (Some m) \<longrightarrow> me_id m = mid)"

lemma dev_caller:
  "dev mid (acting u mid) (caller_merchant u) (\<lambda>m _. me_id m = mid) (\<lambda>_. True)"
  unfolding caller_merchant_def
  by (rule devices.triple_steps, rule TrueI, rule devices.triple_expects) (auto simp: acting_def)

lemma dev_claim:
  "me_id m = mid \<Longrightarrow> dev mid (\<lambda>_. True) (claim_device dr m p) (\<lambda>x d. mine mid x d \<and> sd_serial_number x = rd_serial_number p) (\<lambda>_. True)"
  unfolding claim_device_def
proof (rule devices.triple_bnd, rule devices.triple_gets)
  fix found
  assume m: "me_id m = mid"
  let ?q = "\<lambda>x d. mine mid x d \<and> sd_serial_number x = rd_serial_number p"
  let ?n = "new_device dr (me_id m) p"
  show "dev mid (\<lambda>d. True \<and> found = device_by_serial d (rd_serial_number p))
     (case found of
       None \<Rightarrow> let x = ?n in bnd (device_add x) (\<lambda>_. ret x)
     | Some x \<Rightarrow> bnd (check (sd_merchant_id x = me_id m) (AppException ''Device serial already registered to another merchant'' 409))
         (\<lambda>_. let x = refreshed_device (dr_now dr) p x in bnd (device_put x) (\<lambda>_. ret x))) ?q (\<lambda>_. True)"
  proof (cases found)
    case None
    have "dev mid (\<lambda>d. True \<and> None = device_by_serial d (rd_serial_number p)) (device_add ?n) (\<lambda>_. mine mid ?n) (\<lambda>_. True)"
      by (rule devices.triple_conseq [OF dev_add]) (simp_all add: new_device_def m)
    then show ?thesis
      unfolding None option.case Let_def
      by (rule devices.triple_bnd) (rule devices.triple_ret, simp add: new_device_def)
  next
    case (Some x)
    let ?x = "refreshed_device (dr_now dr) p x"
    have k: "device_key ?x = device_key x" "sd_serial_number ?x = sd_serial_number x" "sd_merchant_id ?x = sd_merchant_id x"
      by (simp_all add: refreshed_device_def device_key_def)
    have put: "dev mid (\<lambda>d. (True \<and> Some x = device_by_serial d (rd_serial_number p)) \<and> sd_merchant_id x = me_id m) (device_put ?x)
        (\<lambda>_ d. mine mid ?x d \<and> sd_serial_number x = rd_serial_number p) (\<lambda>_. True)"
    proof (cases "sd_serial_number x = rd_serial_number p")
      case True
      show ?thesis
        by (rule devices.triple_conseq [OF dev_put]) (auto simp: mine_def k m device_by_serial_def True dest!: sym [of "Some x"] find_row)
    next
      case False
      then show ?thesis
        by (intro devices.triple_never) (auto simp: device_by_serial_def dest!: sym [of "Some x"] find_row)
    qed
    show ?thesis
      unfolding Some option.case Let_def
      by (rule devices.triple_steps, rule TrueI, rule devices.triple_bnd, rule put, rule devices.triple_ret) (simp add: k)
  qed
qed

lemma dev_show: "dev mid p (gets (\<lambda>w. f (w_db w))) (\<lambda>_ _. True) (\<lambda>_. True)"
  by (rule devices.triple_reads) simp

lemma dev_register: "dev mid (acting u mid) (register_device dr u p) (\<lambda>_ _. True) (\<lambda>_. True)"
  unfolding register_device_def
proof (rule devices.triple_bnd [OF dev_caller])
  fix m
  let ?ops = "bnd (claim_device dr m p) (\<lambda>x.
     bnd (upsert_info dr (me_id m) (sd_id x) (rd_serial_number p) (rd_manufacturer p) (rd_model p)
            (rd_android_version p) (rd_app_version p)
            (extra_status (rd_connectivity_status p) (rd_printer_status p) (rd_card_reader_status p) (rd_overall_status p))) (\<lambda>_.
     bnd (audit ''device_registered'' ''device'' (sd_id x) u
            (Some [(''serial_number'', JStr (sd_serial_number x)), (''model'', JStr (sd_model x))])) (\<lambda>_.
     gets (\<lambda>w. device_out_of (w_db w) x))))"
  have up: "dev mid (\<lambda>d. mine mid x d \<and> sd_serial_number x = rd_serial_number p)
      (upsert_info dr mid (sd_id x) (rd_serial_number p) a b c e ex) (\<lambda>_ _. True) (\<lambda>_. True)" for x a b c e ex
  proof (cases "sd_serial_number x = rd_serial_number p")
    case True
    show ?thesis unfolding True [symmetric] by (rule devices.triple_conseq [OF dev_upsert]) simp_all
  qed (rule devices.triple_never, simp)
  show "dev mid (\<lambda>_. me_id m = mid) ?ops (\<lambda>_ _. True) (\<lambda>_. True)"
  proof (cases "me_id m = mid")
    case True
    show ?thesis
      unfolding True
      by (rule devices.triple_bnd, rule devices.triple_conseq, rule dev_claim [OF True], simp, assumption, assumption,
          rule devices.triple_bnd, rule up, rule devices.triple_bnd, rule dev_audit, rule dev_show)
  qed (rule devices.triple_never, simp)
qed

lemma dev_owned:
  assumes l: "\<And>d x. f d = Some x \<Longrightarrow> x \<in> set (db_devices d)"
  shows "dev mid (\<lambda>_. me_id m = mid) (owned_device m msg f) (\<lambda>x. mine mid x) (\<lambda>_. True)"
  unfolding owned_device_def
  by (rule devices.triple_steps, rule devices.triple_expects)
    (auto simp: mine_def split: option.split_asm if_splits dest!: sym [of "Some _"] l)

lemma addressed_row: "addressed d p = Some x \<Longrightarrow> x \<in> set (db_devices d)"
  by (auto simp: addressed_def device_get_def device_by_serial_def dest: find_row split: option.split_asm if_splits)

lemma dev_record:
  assumes m: "me_id m = mid"
  shows "dev mid (mine mid x) (record_heartbeat dr u m p x) (\<lambda>_ _. True) (\<lambda>_. True)"
proof -
  have up: "dev mid (\<lambda>d. mine mid y d \<and> i = f d)
      (upsert_info dr mid (sd_id y) (sd_serial_number y) a b c e ex) (\<lambda>_ _. True) (\<lambda>_. True)" for y i f a b c e ex
    by (rule devices.triple_conseq [OF dev_upsert]) simp_all
  show ?thesis
    unfolding record_heartbeat_def m
    by (rule devices.triple_bnd, rule dev_put, rule devices.triple_bnd, rule devices.triple_gets, rule devices.triple_bnd,
        rule up, rule devices.triple_bnd, rule dev_audit, rule dev_show)
qed

lemma dev_heartbeat: "dev mid (acting u mid) (heartbeat dr u p) (\<lambda>_ _. True) (\<lambda>_. True)"
  unfolding heartbeat_def
proof (rule devices.triple_bnd [OF dev_caller])
  fix m
  let ?put = "\<lambda>x. x\<lparr> sd_last_seen_at := Some (dr_now dr), sd_status := ''active'' \<rparr>"
  have put: "mine mid (?put x) d \<longleftrightarrow> mine mid x d" for x d by (simp add: mine_def device_key_def)
  show "dev mid (\<lambda>_. me_id m = mid)
     (bnd (owned_device m (''Device not found '' @ em_dash @ '' register first'') (\<lambda>d. addressed d p))
       (\<lambda>x. record_heartbeat dr u m p (?put x))) (\<lambda>_ _. True) (\<lambda>_. True)"
  proof (cases "me_id m = mid")
    case True
    show ?thesis
      by (rule devices.triple_bnd, rule devices.triple_conseq, rule dev_owned [where m = m], erule addressed_row, rule True,
          assumption, assumption, rule devices.triple_conseq, rule dev_record [OF True]) (simp_all only: put)
  qed (rule devices.triple_never, simp)
qed

lemma dev_list: "dev mid (acting u mid) (list_devices u) (\<lambda>_ _. True) (\<lambda>_. True)"
  unfolding list_devices_def by (rule devices.triple_bnd, rule dev_caller, rule dev_show)

lemma dev_get: "dev mid (acting u mid) (get_device u i) (\<lambda>_ _. True) (\<lambda>_. True)"
  unfolding get_device_def
  by (rule devices.triple_bnd, rule dev_caller, rule devices.triple_bnd, rule dev_owned)
    (auto simp: device_get_def dest: find_row intro: dev_show)

section \<open>Requests\<close>

lemma device_request_keeps:
  assumes m: "dev mid (acting u mid) h (\<lambda>_ _. True) (\<lambda>_. True)" and s: "settled devices_ok w" and a: "acting u mid (w_db w)"
  shows "settled devices_ok (fst (run_request h w)) \<and> devices_grow mid (w_db w) (w_db (fst (run_request h w)))"
proof -
  have "upkeep_linked devices_ok (devices_grow mid) (books w) \<and> acting u mid (snd (books w))"
    using s a by (auto simp: settled_def upkeep_linked_def upkeep_step_def books_def)
  then have "upkeep_progress devices_ok (devices_grow mid) (books w) (books (fst (h w)))"
    using runsD(1) [OF m [unfolded triple_def]] by (metis prod.collapse)
  then show ?thesis
    using s by (cases "h w"; cases "snd (h w)")
      (auto simp: run_request_def upkeep_progress_def books_def upkeep_step_def settled_def)
qed

lemma serve_device_books:
  assumes "settled devices_ok w" "acting u mid (w_db w)"
  shows "settled devices_ok (serve_device dr u c w) \<and> devices_grow mid (w_db w) (w_db (serve_device dr u c w))"
  by (cases c) (simp_all add: device_request_keeps [OF _ assms] dev_register dev_heartbeat dev_list dev_get)

text \<open>Any sequence of requests by any callers.\<close>

inductive device_run :: "world \<Rightarrow> world \<Rightarrow> bool" where
  device_start: "device_run w w"
| device_request: "device_run w w' \<Longrightarrow> device_run w (serve_device dr u c w')"

definition devices_last :: "db \<Rightarrow> db \<Rightarrow> bool" where
  "devices_last d d' \<longleftrightarrow>
     prefix (map device_key (db_devices d)) (map device_key (db_devices d')) \<and> db_merchants d' = db_merchants d
     \<and> db_txns d' = db_txns d \<and> prefix (db_audit_logs d) (db_audit_logs d')"

lemma devices_grow_last: "devices_grow mid d d' \<Longrightarrow> devices_last d d'"
  by (simp add: devices_grow_def devices_last_def)

lemma devices_last_trans: "devices_last a b \<Longrightarrow> devices_last b c \<Longrightarrow> devices_last a c"
  unfolding devices_last_def by (elim conjE) (intro conjI; (erule (1) prefix_order.trans | simp))

lemma some_merchant: "\<exists>mid. acting u mid d"
proof (cases "\<exists>m. merchant_get_by_owner d u = Inr (Some m)")
  case True
  then obtain m where "merchant_get_by_owner d u = Inr (Some m)" by blast
  then show ?thesis by (auto simp: acting_def)
qed (auto simp: acting_def)

lemma device_run_books:
  "device_run w w' \<Longrightarrow> settled devices_ok w \<Longrightarrow> settled devices_ok w' \<and> devices_last (w_db w) (w_db w')"
proof (induction rule: device_run.induct)
  case (device_start w)
  then show ?case by (simp add: devices_last_def)
next
  case (device_request w w' dr u c)
  obtain mid where "acting u mid (w_db w')" using some_merchant by blast
  from serve_device_books [OF _ this, of dr c] device_request show ?case
    by (blast intro: devices_last_trans devices_grow_last)
qed

end
