(* ===== verification/Device_Properties.thy ===== *)
theory Device_Properties
  imports Device_Books Session_Properties
begin

text \<open>
  What the device service promises: the tables stay consistent and devices keep their merchant; a
  merchant can neither take nor see another's device; a heartbeat reports what it was told and keeps
  what it was not told.
\<close>

section \<open>Runs of the operations\<close>

lemma caller_run: "merchant_get_by_owner (w_db w) u = Inr (Some m) \<Longrightarrow> bnd (caller_merchant u) f w = f m w"
  by (simp add: caller_merchant_def bnd_assoc)

lemma find_unique: "distinct (map f xs) \<Longrightarrow> x \<in> set xs \<Longrightarrow> find (\<lambda>y. f y = f x) xs = Some x"
  by (induction xs) (auto simp: image_iff)

lemma serial_found: "devices_ok d \<Longrightarrow> x \<in> set (db_devices d) \<Longrightarrow> device_by_serial d (sd_serial_number x) = Some x"
  unfolding device_by_serial_def by (rule find_unique) (simp_all add: devices_ok_def)

lemma device_found: "devices_ok d \<Longrightarrow> x \<in> set (db_devices d) \<Longrightarrow> device_get d (sd_id x) = Some x"
  unfolding device_get_def by (rule find_unique) (simp_all add: devices_ok_def)

lemma owned_refused:
  "f (w_db w) = Some x \<Longrightarrow> sd_merchant_id x \<noteq> me_id m \<Longrightarrow> bnd (owned_device m msg f) k w = (w, Inl (NotFoundError msg))"
  by (simp add: owned_device_def bnd_assoc)

lemma refused_unchanged: "settled ok w \<Longrightarrow> h w = (w, Inl e) \<Longrightarrow> run_request h w = (w, Inl e)"
  by (simp add: run_request_def settled_def)

section \<open>Merging the reported statuses\<close>

lemma map_of_dict_update: "distinct (map fst e) \<Longrightarrow> map_of (dict_update d e) = map_of d ++ map_of e"
proof (induction e arbitrary: d)
  case (Cons kv e)
  obtain k v where kv: "kv = (k, v)" by (cases kv)
  have "k \<notin> dom (map_of e)" using Cons.prems by (auto simp: kv dom_map_of_conv_image_fst)
  then have "(map_of d)(k \<mapsto> v) ++ map_of e = map_of d ++ (map_of e)(k \<mapsto> v)" by (simp add: map_add_upd_left)
  then show ?case using Cons by (simp add: kv dict_update_def dset_def map_of_update fun_upd_def del: map_add_upd)
qed (simp add: dict_update_def)

lemma distinct_dict_update: "distinct (map fst d) \<Longrightarrow> distinct (map fst (dict_update d e))"
proof (induction e arbitrary: d)
  case (Cons kv e)
  then show ?case by (cases kv) (simp add: dict_update_def dset_def distinct_update)
qed (simp add: dict_update_def)

lemma extra_status_keys: "distinct (map fst (extra_status c p r ov))"
  by (simp add: extra_status_def)

lemma extra_status_values:
  "map_of (extra_status c p r ov) ''connectivity_status'' = (if truthy c then Some (jopt c) else None)"
  "map_of (extra_status c p r ov) ''printer_status'' = (if truthy p then Some (jopt p) else None)"
  "map_of (extra_status c p r ov) ''card_reader_status'' = (if truthy r then Some (jopt r) else None)"
  "map_of (extra_status c p r ov) ''overall_status'' = (if truthy ov then Some (jopt ov) else None)"
  by (simp_all add: extra_status_def)

definition known :: "db \<Rightarrow> string \<Rightarrow> dict" where
  \<comment> \<open>the statuses on record for a serial number\<close>
  "known d serial = (case info_by_serial d serial of None \<Rightarrow> [] | Some i \<Rightarrow> dict_or_empty (di_extra_data i))"

definition proper_dicts :: "db \<Rightarrow> bool" where
  "proper_dicts d \<longleftrightarrow> (\<forall>i \<in> set (db_device_info d). distinct (map fst (dict_or_empty (di_extra_data i))))"

text \<open>After a heartbeat the record holds the old statuses overridden by the new ones.\<close>

lemma upsert_known:
  assumes ok: "distinct (map di_id (db_device_info (w_db w)))" "distinct (map di_external_id (db_device_info (w_db w)))" and p: "proper_dicts (w_db w)" and e: "distinct (map fst e)"
    and run: "upsert_info dr mid i serial mf mo av apv (dict_update (known (w_db w) serial) e) w = (w', Inr ())"
  shows "map_of (known (w_db w') serial) = map_of (known (w_db w) serial) ++ map_of e"
proof (cases "info_by_serial (w_db w) serial")
  case None
  let ?new = "new_info (dr_uuid dr 1) mid i serial mf mo av apv (dict_update [] e) (dr_now dr)"
  have k: "known (w_db w) serial = []" by (simp add: known_def None)
  have w': "w_db w' = (w_db w)\<lparr> db_device_info := db_device_info (w_db w) @ [?new] \<rparr>"
    using run by (auto simp: upsert_info_def None k repo_add_def split: if_splits)
  have "find (\<lambda>j. di_external_id j = serial) (rows @ [?new]) = Some ?new"
    if "find (\<lambda>j. di_external_id j = serial) rows = None" for rows
    using that by (induction rows) (auto simp: new_info_def split: if_splits)
  from this [of "db_device_info (w_db w)"]
  have "find (\<lambda>j. di_external_id j = serial) (db_device_info (w_db w) @ [?new]) = Some ?new"
    using None by (simp add: info_by_serial_def)
  then have "known (w_db w') serial = dict_update [] e"
    by (simp add: known_def info_by_serial_def w') (simp add: new_info_def dict_or_empty_def)
  then show ?thesis using map_of_dict_update [OF e, of "[]"] by (simp add: k)
next
  case (Some j)
  have j: "j \<in> set (db_device_info (w_db w))" "di_external_id j = serial"
    using Some by (auto simp: info_by_serial_def dest: find_row)
  let ?b = "dict_or_empty (di_extra_data j)"
  let ?j = "updated_info i mf mo av apv (dict_update ?b e) (dr_now dr) j"
  have k: "known (w_db w) serial = ?b" by (simp add: known_def Some)
  have w': "w_db w' = (w_db w)\<lparr> db_device_info := repo_update di_id ?j (db_device_info (w_db w)) \<rparr>"
    using run by (auto simp: upsert_info_def Some k)
  have u: "di_id j = di_id ?j" "di_external_id ?j = serial" by (simp_all add: updated_info_def j(2))
  have d: "distinct (map di_external_id (repo_update di_id ?j (db_device_info (w_db w))))"
    using update_maps [of di_id "db_device_info (w_db w)" j ?j di_external_id] ok j u by simp
  have "?j \<in> set (repo_update di_id ?j (db_device_info (w_db w)))"
    using j(1) u(1) by (force simp: repo_update_def)
  then have "find (\<lambda>y. di_external_id y = serial) (repo_update di_id ?j (db_device_info (w_db w))) = Some ?j"
    using find_unique [OF d, of ?j] u(2) by simp
  then have "known (w_db w') serial = dict_update ?b (dict_update ?b e)"
    by (simp add: known_def info_by_serial_def w') (simp add: updated_info_def dict_or_empty_def)
  moreover have b: "distinct (map fst ?b)" using p j(1) by (simp add: proper_dicts_def)
  have "map_of ?b ++ (map_of ?b ++ map_of e) = map_of ?b ++ map_of e"
    by (rule ext) (simp add: map_add_def split: option.split)
  ultimately show ?thesis
    using map_of_dict_update [OF e, of ?b] map_of_dict_update [OF distinct_dict_update [OF b], of ?b e] by (simp add: k)
qed

lemma out_statuses:
  "do_printer_status (device_out_of d x) = jstr (dget (known d (sd_serial_number x)) ''printer_status'')"
  "do_card_reader_status (device_out_of d x) = jstr (dget (known d (sd_serial_number x)) ''card_reader_status'')"
  "do_overall_status (device_out_of d x) = jstr (dget (known d (sd_serial_number x)) ''overall_status'')"
  "do_connectivity_status (device_out_of d x) = or_str (jstr (dget (known d (sd_serial_number x)) ''connectivity_status''))
     (if sd_status x = ''active'' then ''ONLINE'' else ''OFFLINE'')"
  by (simp_all add: device_out_of_def known_def Let_def)

definition reported :: "string option \<Rightarrow> dict \<Rightarrow> string \<Rightarrow> string option" where
  \<comment> \<open>the new status, or the one on record\<close>
  "reported new old k = (if truthy new then new else jstr (dget old k))"

lemma merged_status:
  assumes "map_of d' = map_of d ++ map_of e" "map_of e k = (if truthy v then Some (jopt v) else None)"
  shows "jstr (dget d' k) = reported v d k"
  using assms by (simp add: dget_def reported_def map_add_def)

lemma caller_Inr: "bnd (caller_merchant u) f w = (w', Inr y) \<Longrightarrow> \<exists>m. f m w = (w', Inr y)"
  by (auto simp: caller_merchant_def bnd_assoc expect_def split: sum.splits option.splits)

lemma owned_Inr:
  "bnd (owned_device m msg f) k w = (w', Inr y) \<Longrightarrow> \<exists>x. f (w_db w) = Some x \<and> k x w = (w', Inr y)"
  by (auto simp: owned_device_def bnd_assoc expect_def split: option.splits if_splits)

lemma bnd_unit: "bnd m f w = (w'', Inr y) \<longleftrightarrow> (\<exists>w'. m w = (w', Inr ()) \<and> f () w' = (w'', Inr y))"
  by (simp add: bnd_Inr)

text \<open>The steps of a heartbeat that returns.\<close>

lemma heartbeat_steps:
  assumes "heartbeat dr u p w = (w', Inr out)"
  shows "\<exists>m x w2 w3 mf mo av apv. addressed (w_db w) p = Some x
    \<and> db_device_info (w_db w2) = db_device_info (w_db w)
    \<and> upsert_info dr m (sd_id x) (sd_serial_number x) mf mo av apv
        (dict_update (known (w_db w2) (sd_serial_number x))
          (extra_status (Some (hb_connectivity_status p)) (hb_printer_status p) (hb_card_reader_status p)
            (hb_overall_status p))) w2 = (w3, Inr ())
    \<and> db_device_info (w_db w') = db_device_info (w_db w3)
    \<and> out = device_out_of (w_db w') (x\<lparr> sd_last_seen_at := Some (dr_now dr), sd_status := ''active'' \<rparr>)"
proof -
  obtain m x where x: "addressed (w_db w) p = Some x" and
    h: "record_heartbeat dr u m p (x\<lparr> sd_last_seen_at := Some (dr_now dr), sd_status := ''active'' \<rparr>) w = (w', Inr out)"
    using caller_Inr [OF assms [unfolded heartbeat_def]] by (elim exE) (drule owned_Inr, elim exE conjE, rule that)
  let ?x = "x\<lparr> sd_last_seen_at := Some (dr_now dr), sd_status := ''active'' \<rparr>"
  let ?w2 = "w\<lparr> w_db := (w_db w)\<lparr> db_devices := repo_update sd_id ?x (db_devices (w_db w)) \<rparr> \<rparr>"
  have k: "(case info_by_serial (w_db ?w2) serial of Some i \<Rightarrow> dict_or_empty (di_extra_data i) | None \<Rightarrow> [])
      = known (w_db ?w2) serial" for serial
    by (simp add: known_def split: option.splits)
  have put: "bnd (device_put ?x) f w = f () ?w2" for f :: "unit \<Rightarrow> device_out handler"
    by (simp add: device_put_def)
  from h [unfolded record_heartbeat_def put bnd_run k] obtain w3 where
    "upsert_info dr (me_id m) (sd_id ?x) (sd_serial_number ?x)
        (case info_by_serial (w_db ?w2) (sd_serial_number ?x) of Some i \<Rightarrow> di_manufacturer i | None \<Rightarrow> ''Generic'')
        (sd_model ?x) (sd_android_version ?x)
        (case info_by_serial (w_db ?w2) (sd_serial_number ?x) of Some i \<Rightarrow> di_app_version i | None \<Rightarrow> None)
        (dict_update (known (w_db ?w2) (sd_serial_number ?x))
          (extra_status (Some (hb_connectivity_status p)) (hb_printer_status p) (hb_card_reader_status p)
            (hb_overall_status p))) ?w2 = (w3, Inr ())"
    and "bnd (audit ''device_heartbeat'' ''device'' (sd_id ?x) u
            (Some [(''overall_status'', jopt (hb_overall_status p))])) (\<lambda>_. gets (\<lambda>w. device_out_of (w_db w) ?x)) w3 = (w', Inr out)"
    unfolding bnd_unit [where m = "upsert_info _ _ _ _ _ _ _ _ _"] by blast
  then show ?thesis
    using x by (intro exI [of _ "me_id m"] exI [of _ x] exI [of _ ?w2] exI [of _ w3] exI) (auto simp: audit_def)
qed

section \<open>Properties\<close>

text \<open>C17. Whatever requests the device service handles, from any callers and in any order: identifiers
  and serial numbers stay unique, every information row belongs to the device of its serial number and
  to that device's merchant, and no device disappears or changes its serial number or its merchant.\<close>

theorem device_books:
  assumes "device_run w w'" "w_db w = w_committed w" "devices_ok (w_db w)"
  shows "w_db w' = w_committed w' \<and> devices_ok (w_db w') \<and> devices_last (w_db w) (w_db w')"
  using device_run_books [OF assms(1)] assms(2,3) unfolding settled_def by blast

text \<open>C18. A merchant cannot take, revive or read another's device: registering its serial number is
  refused with a 409, a heartbeat for it and a look at it with a 404, and nothing changes; and whatever a
  caller asks, every row of the other merchants is as it was.\<close>

theorem foreign_device_refused:
  assumes w: "w_db w = w_committed w" "devices_ok (w_db w)" and m: "merchant_get_by_owner (w_db w) u = Inr (Some m)"
    and x: "x \<in> set (db_devices (w_db w))" "sd_merchant_id x \<noteq> me_id m"
    and p: "rd_serial_number p = sd_serial_number x"
    and q: "hb_device_id q = Some (sd_id x) \<or> hb_device_id q = None \<and> hb_serial_number q = Some (sd_serial_number x)"
  shows "run_request (register_device dr u p) w
      = (w, Inl (AppException ''Device serial already registered to another merchant'' 409))
    \<and> (\<exists>msg. run_request (heartbeat dr u q) w = (w, Inl (NotFoundError msg)))
    \<and> run_request (get_device u (sd_id x)) w = (w, Inl (NotFoundError ''Device not found''))
    \<and> foreign_devices (me_id m) (w_db (serve_device dr u c w)) = foreign_devices (me_id m) (w_db w)"
proof (intro conjI)
  have s: "settled devices_ok w" using w by (simp add: settled_def)
  note r = refused_unchanged [OF s]
  show "run_request (register_device dr u p) w
      = (w, Inl (AppException ''Device serial already registered to another merchant'' 409))"
    by (rule r) (simp add: register_device_def caller_run [OF m] claim_device_def p serial_found [OF w(2) x(1)] x(2) bnd_assoc)
  have g: "device_get (w_db w) (sd_id x) = Some x" by (rule device_found [OF w(2) x(1)])
  show "run_request (get_device u (sd_id x)) w = (w, Inl (NotFoundError ''Device not found''))"
    by (rule r) (simp add: get_device_def caller_run [OF m] owned_refused [OF _ x(2)] g)
  show "\<exists>msg. run_request (heartbeat dr u q) w = (w, Inl (NotFoundError msg))"
  proof (cases "addressed (w_db w) q")
    case None
    then show ?thesis
      by (intro exI r) (simp add: heartbeat_def caller_run [OF m] owned_device_def bnd_assoc)
  next
    case (Some y)
    have "y = x" using Some q g serial_found [OF w(2) x(1)] by (auto simp: addressed_def split: if_splits)
    then show ?thesis
      using Some x(2) by (intro exI r) (simp add: heartbeat_def caller_run [OF m] owned_refused [of _ w x])
  qed
  have "acting u (me_id m) (w_db w)" using m by (simp add: acting_def)
  from serve_device_books [OF s this, of dr c]
  show "foreign_devices (me_id m) (w_db (serve_device dr u c w)) = foreign_devices (me_id m) (w_db w)"
    by (simp add: devices_grow_def)
qed

text \<open>C19. After a heartbeat the terminal is active and was last seen now, and each status the answer
  shows (and the record keeps) is the reported one, or, where the report leaves it out, the last one known.\<close>

theorem heartbeat_merges:
  assumes w: "w_db w = w_committed w" "devices_ok (w_db w)" "proper_dicts (w_db w)"
    and run: "run_request (heartbeat dr u p) w = (w', Inr out)"
  shows "do_status out = ''active'' \<and> do_last_seen_at out = Some (dr_now dr)
    \<and> (let old = known (w_db w) (do_serial_number out); new = known (w_db w') (do_serial_number out) in
        do_printer_status out = reported (hb_printer_status p) old ''printer_status''
        \<and> do_card_reader_status out = reported (hb_card_reader_status p) old ''card_reader_status''
        \<and> do_overall_status out = reported (hb_overall_status p) old ''overall_status''
        \<and> do_connectivity_status out
            = or_str (reported (Some (hb_connectivity_status p)) old ''connectivity_status'') ''ONLINE''
        \<and> jstr (dget new ''printer_status'') = do_printer_status out
        \<and> jstr (dget new ''card_reader_status'') = do_card_reader_status out
        \<and> jstr (dget new ''overall_status'') = do_overall_status out)"
proof -
  obtain w1 where h: "heartbeat dr u p w = (w1, Inr out)" and w': "w_db w' = w_db w1"
    using run by (auto simp: run_request_def split: prod.splits sum.splits)
  from heartbeat_steps [OF h] obtain m x w2 w3 mf mo av apv where i: "db_device_info (w_db w2) = db_device_info (w_db w)"
    and up: "upsert_info dr m (sd_id x) (sd_serial_number x) mf mo av apv
        (dict_update (known (w_db w2) (sd_serial_number x))
          (extra_status (Some (hb_connectivity_status p)) (hb_printer_status p) (hb_card_reader_status p)
            (hb_overall_status p))) w2 = (w3, Inr ())"
    and i3: "db_device_info (w_db w1) = db_device_info (w_db w3)"
    and out: "out = device_out_of (w_db w1) (x\<lparr> sd_last_seen_at := Some (dr_now dr), sd_status := ''active'' \<rparr>)"
    by blast
  have k: "known d = known d'" if "db_device_info d = db_device_info d'" for d d'
    by (rule ext) (simp add: known_def info_by_serial_def that)
  have "map_of (known (w_db w3) (sd_serial_number x)) = map_of (known (w_db w2) (sd_serial_number x))
      ++ map_of (extra_status (Some (hb_connectivity_status p)) (hb_printer_status p) (hb_card_reader_status p)
            (hb_overall_status p))"
    by (rule upsert_known [OF _ _ _ extra_status_keys up]) (use w(2,3) i in \<open>simp_all add: devices_ok_def proper_dicts_def\<close>)
  from this [folded k [OF i3] k [OF i]]
  have "map_of (known (w_db w1) (sd_serial_number x)) = map_of (known (w_db w) (sd_serial_number x))
      ++ map_of (extra_status (Some (hb_connectivity_status p)) (hb_printer_status p) (hb_card_reader_status p)
            (hb_overall_status p))" by (simp add: k [OF i3] k [OF i])
  note v = merged_status [OF this extra_status_values(1)] merged_status [OF this extra_status_values(2)]
    merged_status [OF this extra_status_values(3)] merged_status [OF this extra_status_values(4)]
  have "do_serial_number out = sd_serial_number x" "do_status out = ''active''" "do_last_seen_at out = Some (dr_now dr)"
    by (simp_all add: out device_out_of_def Let_def)
  then show ?thesis using v by (simp add: w' Let_def) (simp add: out out_statuses)
qed

section \<open>A concrete shop\<close>

definition till :: sunmi_device where
  "till = \<lparr> sd_id = ''d1'', sd_merchant_id = ''m1'', sd_serial_number = ''SN-1'', sd_model = ''P2'', sd_android_version = None,
     sd_status = ''inactive'', sd_last_seen_at = None, sd_created_at = 0 \<rparr>"

definition till_info :: device_information where
  "till_info = new_info ''i1'' ''m1'' ''d1'' ''SN-1'' ''SUNMI'' ''P2'' None None [(''printer_status'', JStr ''OK'')] 0"

definition shop :: world where
  \<comment> \<open>a till of the first of two merchants\<close>
  "shop = (let d = empty_db\<lparr> db_merchants := [sample_merchant ''m1'' ''u1'', sample_merchant ''m2'' ''u2''],
       db_devices := [till], db_device_info := [till_info] \<rparr>
     in \<lparr> w_db = d, w_committed = d, w_sessions = empty_store, w_processors = initial_factory \<rparr>)"

definition beat :: device_heartbeat_request where
  "beat = \<lparr> hb_device_id = None, hb_serial_number = Some ''SN-1'', hb_connectivity_status = ''WIFI'',
     hb_printer_status = None, hb_card_reader_status = None, hb_overall_status = Some ''READY'' \<rparr>"

definition claim :: register_device_request where
  "claim = \<lparr> rd_serial_number = ''SN-1'', rd_model = ''P2'', rd_android_version = None, rd_manufacturer = ''SUNMI'',
     rd_app_version = None, rd_connectivity_status = None, rd_printer_status = None, rd_card_reader_status = None,
     rd_overall_status = None, rd_firmware = None \<rparr>"

lemma shop_saved:
  "w_db shop = w_committed shop" "devices_ok (w_db shop)" "proper_dicts (w_db shop)"
  by (simp_all add: shop_def Let_def devices_ok_def info_linked_def till_def till_info_def new_info_def
      proper_dicts_def dict_or_empty_def)

lemma shop_facts:
  "merchant_get_by_owner (w_db shop) ''u1'' = Inr (Some (sample_merchant ''m1'' ''u1''))"
  "merchant_get_by_owner (w_db shop) ''u2'' = Inr (Some (sample_merchant ''m2'' ''u2''))"
  "db_devices (w_db shop) = [till]" "db_device_info (w_db shop) = [till_info]"
  by (simp_all add: shop_def Let_def merchant_get_by_owner_def base_query_def find_one_def sample_merchant_def)

lemma shop_beats: "\<exists>w' out. run_request (heartbeat sample_draws ''u1'' beat) shop = (w', Inr out)"
  by (simp add: run_request_def heartbeat_def record_heartbeat_def caller_run [OF shop_facts(1)] owned_device_def bnd_assoc addressed_def
      device_by_serial_def shop_facts beat_def till_def sample_merchant_def device_put_def info_by_serial_def
      till_info_def new_info_def upsert_info_def audit_def Let_def)

theorem device_books_witness:
  "devices_ok (w_db (serve_device sample_draws ''u2'' (Register_Device claim)
     (serve_device sample_draws ''u1'' (Device_Heartbeat beat) shop)))"
  using device_books [OF device_request [OF device_request [OF device_start]] shop_saved(1,2)] by blast

theorem foreign_device_refused_witness:
  "run_request (register_device sample_draws ''u2'' claim) shop
      = (shop, Inl (AppException ''Device serial already registered to another merchant'' 409))"
  using foreign_device_refused [OF shop_saved(1,2) shop_facts(2), of till claim beat sample_draws]
  by (simp add: shop_facts) (simp add: till_def claim_def beat_def sample_merchant_def)

theorem heartbeat_merges_witness:
  "\<exists>w' out. run_request (heartbeat sample_draws ''u1'' beat) shop = (w', Inr out)
    \<and> do_overall_status out = Some ''READY''"
proof -
  obtain w' out where run: "run_request (heartbeat sample_draws ''u1'' beat) shop = (w', Inr out)"
    using shop_beats by blast
  from heartbeat_merges [OF shop_saved run] have "do_overall_status out = Some ''READY''"
    by (simp add: Let_def reported_def beat_def)
  then show ?thesis using run by blast
qed

end
