(* ===== verification/Edge.thy ===== *)
theory Edge
  imports Config Clock
begin

text \<open>
  What surrounds every request: the rate limiter and the security headers of
  \<open>src/app/middlewares/security.py\<close>, the response envelope of \<open>src/app/core/responses.py\<close>, the exception
  handlers of \<open>src/app/exceptions/handlers.py\<close>, and their order in \<open>create_app\<close> of \<open>src/app/main.py\<close>.

  \<open>time()\<close> is read in microseconds. A dict of lists is a partial map. Header names are kept in lower case,
  as Starlette sends them; the headers of the response class itself (length, type) and those of the CORS
  middleware, which is Starlette's, are left out. What the router answers is a parameter: an exception with
  the \<open>data\<close> it carries, or the arguments of \<open>success_response\<close>.
\<close>

section \<open>Responses\<close>

record request =
  rq_path :: string
  rq_scheme :: string
  rq_host :: "string option"

record response =
  hr_status :: nat
  hr_headers :: "(string \<times> string) list"
  hr_body :: json

definition success_response :: "time \<Rightarrow> json \<Rightarrow> string \<Rightarrow> nat \<Rightarrow> response" where
  "success_response now data message status_code =
     \<lparr> hr_status = status_code, hr_headers = [],
       hr_body = JDict [(''success'', JBool True), (''message'', JStr message), (''data'', data), (''errors'', JNull),
         (''timestamp'', JStr (isoformat now))] \<rparr>"

definition error_response :: "time \<Rightarrow> string \<Rightarrow> nat \<Rightarrow> json \<Rightarrow> json \<Rightarrow> response" where
  "error_response now message status_code errors data =
     \<lparr> hr_status = status_code, hr_headers = [],
       hr_body = JDict [(''success'', JBool False), (''message'', JStr message), (''data'', data), (''errors'', errors),
         (''timestamp'', JStr (isoformat now))] \<rparr>"

section \<open>Exception handlers\<close>

definition app_exception_handler :: "time \<Rightarrow> string \<Rightarrow> nat \<Rightarrow> json \<Rightarrow> response" where
  \<comment> \<open>no caller gives an \<open>AppException\<close> its \<open>errors\<close>\<close>
  "app_exception_handler now message status_code data = error_response now message status_code JNull data"

definition error_location :: "json list \<Rightarrow> string" where
  "error_location loc =
     (let location = join ''.'' (map py_str (filter (\<lambda>part. part \<noteq> JStr ''body'') loc))
      in if location = [] then ''body'' else location)"

definition field_errors :: "(json list \<times> string) list \<Rightarrow> (string \<times> json list) list" where
  \<comment> \<open>\<open>setdefault(location, []).append(msg)\<close> for each error\<close>
  "field_errors errors =
     foldl (\<lambda>d (loc, msg). AList.update (error_location loc)
         ((case map_of d (error_location loc) of None \<Rightarrow> [] | Some ms \<Rightarrow> ms) @ [JStr msg]) d) [] errors"

definition validation_exception_handler :: "time \<Rightarrow> (json list \<times> string) list \<Rightarrow> response" where
  "validation_exception_handler now errors =
     error_response now ''Validation failed'' 422 (JDict (map (\<lambda>(k, ms). (k, JList ms)) (field_errors errors))) JNull"

definition integrity_exception_handler :: "time \<Rightarrow> response" where
  "integrity_exception_handler now = error_response now ''Database constraint violation'' 409 JNull JNull"

definition unhandled_exception_handler :: "time \<Rightarrow> response" where
  "unhandled_exception_handler now =
     \<lparr> hr_status = 500, hr_headers = [],
       hr_body = JDict [(''success'', JBool False), (''message'', JStr ''Internal server error''), (''data'', JNull),
         (''errors'', JNull), (''timestamp'', JStr (isoformat now))] \<rparr>"

definition handled :: "time \<Rightarrow> exc \<Rightarrow> json \<Rightarrow> response option" where
  \<comment> \<open>the handlers that run inside the middlewares; the one of \<open>Exception\<close> runs outside of them\<close>
  "handled now e data =
     (case e of AppException message status_code \<Rightarrow> Some (app_exception_handler now message status_code data)
      | IntegrityError \<Rightarrow> Some (integrity_exception_handler now)
      | _ \<Rightarrow> None)"

section \<open>Rate limiter\<close>

record rate_limiter =
  rl_hits :: "string \<rightharpoonup> time list"
  rl_auth_hits :: "string \<rightharpoonup> time list"

definition empty_limiter :: rate_limiter where
  "empty_limiter = \<lparr> rl_hits = Map.empty, rl_auth_hits = Map.empty \<rparr>"

definition AUTH_PATH_SUFFIXES :: "string list" where
  "AUTH_PATH_SUFFIXES = [''/auth/login'', ''/auth/register'', ''/auth/refresh'']"

definition client_of :: "request \<Rightarrow> string" where
  "client_of rq = (case rq_host rq of Some host \<Rightarrow> host | None \<Rightarrow> ''unknown'')"

definition exempt :: "request \<Rightarrow> bool" where
  "exempt rq \<longleftrightarrow> ends_with (rq_path rq) ''/health''"

definition auth_path :: "request \<Rightarrow> bool" where
  "auth_path rq \<longleftrightarrow> list_ex (ends_with (rq_path rq)) AUTH_PATH_SUFFIXES"

definition minute :: int where
  "minute = 60000000"

definition recent :: "time \<Rightarrow> time list \<Rightarrow> time list" where
  "recent now window = filter (\<lambda>stamp. now - stamp < minute) window"

definition stamps :: "(string \<rightharpoonup> time list) \<Rightarrow> string \<Rightarrow> time list" where
  "stamps hits client = (case hits client of None \<Rightarrow> [] | Some window \<Rightarrow> window)"

definition budget :: "int \<Rightarrow> time \<Rightarrow> string \<Rightarrow> (string \<rightharpoonup> time list) \<Rightarrow> (string \<rightharpoonup> time list) \<times> bool" where
  \<comment> \<open>the pruned window of the client, with the new hit when there is room for it\<close>
  "budget limit now client hits =
     (let window = recent now (stamps hits client) in
      if int (length window) \<ge> limit then (hits(client \<mapsto> window), False)
      else (hits(client \<mapsto> window @ [now]), True))"

definition rate_limit :: "settings \<Rightarrow> time \<Rightarrow> request \<Rightarrow> rate_limiter \<Rightarrow> rate_limiter \<times> string option" where
  \<comment> \<open>the message of a refusal, or \<open>None\<close> when the request goes on to \<open>call_next\<close>\<close>
  "rate_limit st now rq rl =
     (if exempt rq then (rl, None)
      else
        (let (hits, ok) = budget (rate_limit_per_minute st) now (client_of rq) (rl_hits rl); rl = rl\<lparr> rl_hits := hits \<rparr> in
         if \<not> ok then (rl, Some ''Rate limit exceeded'')
         else if auth_path rq then
           (let (hits, ok) = budget (auth_rate_limit_per_minute st) now (client_of rq) (rl_auth_hits rl) in
            (rl\<lparr> rl_auth_hits := hits \<rparr>, if ok then None else Some ''Auth rate limit exceeded''))
         else (rl, None)))"

section \<open>Security headers\<close>

definition set_header :: "string \<Rightarrow> string \<Rightarrow> response \<Rightarrow> response" where
  "set_header k v r = r\<lparr> hr_headers := AList.update (lower k) v (hr_headers r) \<rparr>"

definition default_header :: "string \<Rightarrow> string \<Rightarrow> response \<Rightarrow> response" where
  "default_header k v r = (if map_of (hr_headers r) (lower k) = None then set_header k v r else r)"

definition security_headers :: "request \<Rightarrow> response \<Rightarrow> response" where
  "security_headers rq r =
     (let r = set_header ''X-Content-Type-Options'' ''nosniff'' r;
          r = set_header ''X-Frame-Options'' ''DENY'' r;
          r = set_header ''Referrer-Policy'' ''strict-origin-when-cross-origin'' r;
          r = set_header ''Permissions-Policy'' ''geolocation=(), microphone=(), camera=(), payment=()'' r;
          r = set_header ''Cross-Origin-Opener-Policy'' ''same-origin'' r;
          r = set_header ''Cross-Origin-Resource-Policy'' ''same-site'' r;
          r = (if contains (rq_path rq) ''/api/'' then default_header ''Cache-Control'' ''no-store'' r else r);
          r = default_header ''Content-Security-Policy'' (''default-src 'none'; frame-ancestors 'none'; base-uri 'none'' @ [CHR 0x27]) r
      in if rq_scheme rq = ''https'' then set_header ''Strict-Transport-Security'' ''max-age=31536000; includeSubDomains'' r
         else r)"

section \<open>The application\<close>

definition serve_http ::
  "settings \<Rightarrow> time \<Rightarrow> request \<Rightarrow> (exc \<times> json) + (json \<times> string \<times> nat) \<Rightarrow> rate_limiter \<Rightarrow> rate_limiter \<times> response" where
  \<comment> \<open>the limiter is outermost (\<open>add_middleware\<close> puts the last one first), then the headers\<close>
  "serve_http st now rq answer rl =
     (let (rl, refusal) = rate_limit st now rq rl in
      (rl, case refusal of
         Some message \<Rightarrow> error_response now message 429 JNull JNull
       | None \<Rightarrow>
           (case answer of
              Inr (data, message, status_code) \<Rightarrow> security_headers rq (success_response now data message status_code)
            | Inl (e, data) \<Rightarrow>
                (case handled now e data of
                   Some r \<Rightarrow> security_headers rq r
                 | None \<Rightarrow> unhandled_exception_handler now))))"

section \<open>The limiter over time\<close>

type_synonym log_entry = "time \<times> request \<times> string option"

definition limited :: "settings \<Rightarrow> time \<times> request \<Rightarrow> rate_limiter \<times> log_entry list \<Rightarrow> rate_limiter \<times> log_entry list" where
  "limited st = (\<lambda>(now, rq) (rl, log). let (rl, v) = rate_limit st now rq rl in (rl, log @ [(now, rq, v)]))"

definition limiter_log :: "settings \<Rightarrow> (time \<times> request) list \<Rightarrow> log_entry list" where
  \<comment> \<open>what a fresh limiter says to the requests, in order\<close>
  "limiter_log st arrivals = snd (fold (limited st) arrivals (empty_limiter, []))"

text \<open>The hits that count against the two budgets, kept for ever: those the global budget let in, and
  of these the ones on an auth path that the auth budget let in.\<close>

definition charged_hits :: "string \<Rightarrow> log_entry list \<Rightarrow> time list" where
  "charged_hits client log = map fst (filter (\<lambda>(now, rq, v). client_of rq = client \<and> \<not> exempt rq
     \<and> v \<noteq> Some ''Rate limit exceeded'') log)"

definition charged_auth_hits :: "string \<Rightarrow> log_entry list \<Rightarrow> time list" where
  "charged_auth_hits client log = map fst (filter (\<lambda>(now, rq, v). client_of rq = client \<and> \<not> exempt rq
     \<and> auth_path rq \<and> v = None) log)"

definition in_window :: "time \<Rightarrow> time list \<Rightarrow> time list" where
  \<comment> \<open>the hits of the minute that ends at \<open>t\<close>\<close>
  "in_window t hs = filter (\<lambda>s. t - minute < s \<and> s \<le> t) hs"

definition bounded :: "int \<Rightarrow> time list \<Rightarrow> bool" where
  "bounded limit hs \<longleftrightarrow> (\<forall>t. length (in_window t hs) \<le> nat limit)"

definition tracks :: "time \<Rightarrow> time list \<Rightarrow> time list \<Rightarrow> bool" where
  \<comment> \<open>the pruned list says the same as the whole history from now on\<close>
  "tracks now hs hist \<longleftrightarrow> (\<forall>t \<ge> now. recent t hs = recent t hist)"

lemma recent_recent: "now \<le> t \<Longrightarrow> recent t (recent now hs) = recent t hs"
  by (induction hs) (auto simp: recent_def)

lemma recent_snoc: "recent t (hs @ [s]) = recent t hs @ (if t - s < minute then [s] else [])"
  by (simp add: recent_def)

lemma tracks_later: "tracks now hs hist \<Longrightarrow> now \<le> t \<Longrightarrow> tracks t hs hist"
  by (simp add: tracks_def)

lemma tracks_prune: "tracks now hs hist \<Longrightarrow> tracks now (recent now hs) hist"
  by (simp add: tracks_def recent_recent)

lemma tracks_snoc: "tracks now hs hist \<Longrightarrow> tracks now (hs @ [s]) (hist @ [s])"
  by (simp add: tracks_def recent_snoc)

lemma stamps_update [simp]: "stamps (hits(c \<mapsto> hs)) c' = (if c' = c then hs else stamps hits c')"
  by (simp add: stamps_def)

lemma bounded_snoc:
  assumes "bounded limit hist" "int (length (recent now hist)) < limit"
  shows "bounded limit (hist @ [now])"
proof -
  have "length (in_window t hist) \<le> length (recent now hist)" if "now \<le> t" for t
    using that by (induction hist) (auto simp: in_window_def recent_def)
  then have "length (in_window t (hist @ [now])) \<le> nat limit" for t
    using assms unfolding bounded_def by (cases "now \<le> t") (fastforce simp: in_window_def)+
  then show ?thesis by (simp add: bounded_def)
qed

text \<open>One step of a budget agrees with the history.\<close>

lemma budget_step:
  assumes t: "\<forall>c. tracks now (stamps hits c) (hist c)" and b: "\<forall>c. bounded limit (hist c)"
    and step: "budget limit now client hits = (hits', ok)"
  shows "ok \<longleftrightarrow> int (length (recent now (hist client))) < limit"
    "\<forall>c. tracks now (stamps hits' c) (hist c @ (if ok \<and> c = client then [now] else []))"
    "\<forall>c. bounded limit (hist c @ (if ok \<and> c = client then [now] else []))"
proof -
  have r: "recent now (stamps hits client) = recent now (hist client)" using t by (simp add: tracks_def)
  show ok: "ok \<longleftrightarrow> int (length (recent now (hist client))) < limit"
    using step by (auto simp: budget_def Let_def r split: if_splits)
  have h: "hits' = hits(client \<mapsto> recent now (stamps hits client) @ (if ok then [now] else []))"
    using step by (auto simp: budget_def Let_def split: if_splits)
  show "\<forall>c. tracks now (stamps hits' c) (hist c @ (if ok \<and> c = client then [now] else []))"
    using t tracks_snoc [OF tracks_prune] tracks_prune by (auto simp: h)
  show "\<forall>c. bounded limit (hist c @ (if ok \<and> c = client then [now] else []))"
    using b bounded_snoc ok by simp
qed

definition limiter_ok :: "settings \<Rightarrow> time \<Rightarrow> rate_limiter \<Rightarrow> log_entry list \<Rightarrow> bool" where
  "limiter_ok st now rl log \<longleftrightarrow>
     (\<forall>c. tracks now (stamps (rl_hits rl) c) (charged_hits c log)) \<and> (\<forall>c. bounded (rate_limit_per_minute st) (charged_hits c log))
     \<and> (\<forall>c. tracks now (stamps (rl_auth_hits rl) c) (charged_auth_hits c log))
     \<and> (\<forall>c. bounded (auth_rate_limit_per_minute st) (charged_auth_hits c log))"

definition verdict :: "settings \<Rightarrow> time \<Rightarrow> request \<Rightarrow> log_entry list \<Rightarrow> string option" where
  \<comment> \<open>the limiter that forgets nothing\<close>
  "verdict st now rq log =
     (if exempt rq then None
      else if rate_limit_per_minute st \<le> int (length (recent now (charged_hits (client_of rq) log)))
      then Some ''Rate limit exceeded''
      else if auth_path rq \<and> auth_rate_limit_per_minute st \<le> int (length (recent now (charged_auth_hits (client_of rq) log)))
      then Some ''Auth rate limit exceeded''
      else None)"

lemma limited_step:
  assumes ok: "limiter_ok st n rl log" "n \<le> now" and step: "rate_limit st now rq rl = (rl', v)"
  shows "v = verdict st now rq log \<and> limiter_ok st now rl' (log @ [(now, rq, v)])"
proof -
  define c0 where "c0 = client_of rq"
  obtain h1 ok1 where g: "budget (rate_limit_per_minute st) now c0 (rl_hits rl) = (h1, ok1)" by force
  obtain h2 ok2 where a: "budget (auth_rate_limit_per_minute st) now c0 (rl_auth_hits rl) = (h2, ok2)" by force
  have later: "limiter_ok st now rl log" using ok by (auto simp: limiter_ok_def intro: tracks_later)
  note g' = budget_step [OF _ _ g, of "\<lambda>c. charged_hits c log"] and a' = budget_step [OF _ _ a, of "\<lambda>c. charged_auth_hits c log"]
  have logs: "charged_hits c (log @ [(now, rq, w)]) = charged_hits c log @
        (if (\<not> exempt rq \<and> w \<noteq> Some ''Rate limit exceeded'') \<and> c = c0 then [now] else [])"
      "charged_auth_hits c (log @ [(now, rq, w)]) = charged_auth_hits c log @
        (if (\<not> exempt rq \<and> auth_path rq \<and> w = None) \<and> c = c0 then [now] else [])" for c w
    by (auto simp: charged_hits_def charged_auth_hits_def c0_def)
  show ?thesis
  proof (cases "exempt rq")
    case True
    then show ?thesis using step later by (auto simp: rate_limit_def verdict_def limiter_ok_def logs)
  next
    case False
    have v: "v = (if \<not> ok1 then Some ''Rate limit exceeded''
        else if auth_path rq \<and> \<not> ok2 then Some ''Auth rate limit exceeded'' else None)"
      and rl': "rl' = rl\<lparr> rl_hits := h1, rl_auth_hits := if ok1 \<and> auth_path rq then h2 else rl_auth_hits rl \<rparr>"
      using step False by (auto simp: rate_limit_def Let_def g [unfolded c0_def] a [unfolded c0_def] split: if_splits)
    have l: "\<forall>c. tracks now (stamps (rl_hits rl) c) (charged_hits c log)"
        "\<forall>c. bounded (rate_limit_per_minute st) (charged_hits c log)"
        "\<forall>c. tracks now (stamps (rl_auth_hits rl) c) (charged_auth_hits c log)"
        "\<forall>c. bounded (auth_rate_limit_per_minute st) (charged_auth_hits c log)"
      using later by (simp_all add: limiter_ok_def)
    note G = g' [OF l(1,2)] and A = a' [OF l(3,4)]
    have verdict: "v = verdict st now rq log"
      using G(1) A(1) by (simp add: verdict_def c0_def [symmetric] False v not_less [symmetric])
    have "limiter_ok st now rl' (log @ [(now, rq, v)])"
      unfolding limiter_ok_def logs rl' using False G(2,3) A(2,3) l(3,4)
      by (cases ok1; cases "auth_path rq"; cases ok2) (simp_all add: v)
    then show ?thesis using verdict by blast
  qed
qed

lemma limiter_run:
  "sorted (map fst arrivals) \<Longrightarrow> fold (limited st) arrivals (empty_limiter, []) = (rl, log) \<Longrightarrow>
     (\<forall>t. (\<forall>x \<in> set arrivals. fst x \<le> t) \<longrightarrow> limiter_ok st t rl log)
     \<and> (\<forall>pre now rq v post. log = pre @ (now, rq, v) # post \<longrightarrow> v = verdict st now rq pre)"
proof (induction arrivals arbitrary: rl log rule: rev_induct)
  case Nil
  have "limiter_ok st n empty_limiter []" for n
    by (simp add: limiter_ok_def empty_limiter_def tracks_def stamps_def charged_hits_def charged_auth_hits_def bounded_def in_window_def recent_def)
  then show ?case using Nil by auto
next
  case (snoc a arrivals)
  obtain now rq where a: "a = (now, rq)" by force
  obtain rl0 log0 where f: "fold (limited st) arrivals (empty_limiter, []) = (rl0, log0)" by force
  obtain v where s: "rate_limit st now rq rl0 = (rl, v)" and log: "log = log0 @ [(now, rq, v)]"
    using snoc.prems(2) f by (cases "rate_limit st now rq rl0") (simp add: a, simp add: limited_def)
  have sorted: "sorted (map fst arrivals)" "\<forall>x \<in> set arrivals. fst x \<le> now"
    using snoc.prems(1) by (auto simp: sorted_append a)
  note before = snoc.IH [OF sorted(1) f]
  have n: "limiter_ok st now rl0 log0" using before sorted(2) by simp
  have past: "\<forall>pre now rq v post. log0 = pre @ (now, rq, v) # post \<longrightarrow> v = verdict st now rq pre"
    using before by (rule conjunct2)
  have step: "v = verdict st now rq log0" "limiter_ok st now rl log"
    using limited_step [OF n order_refl s] unfolding log by blast+
  have "w = verdict st t q pre" if "log = pre @ (t, q, w) # post" for pre t q w post
    using that past step(1) by (cases post rule: rev_cases) (auto simp: log)
  moreover have "limiter_ok st t rl log" if "now \<le> t" for t
    using step(2) that by (auto simp: limiter_ok_def intro: tracks_later)
  ultimately show ?case by (simp add: a)
qed

text \<open>C12. However requests arrive, at most \<open>rate_limit_per_minute\<close> of a client's requests (health checks
  aside) pass in any minute, and at most \<open>auth_rate_limit_per_minute\<close> to the auth endpoints; and a request is
  refused only when that many of the same client's hits were let in during the minute before: forgetting old
  stamps changes no answer.\<close>

theorem rate_limit_holds:
  assumes "sorted (map fst arrivals)"
  shows "length (in_window t (charged_hits c (limiter_log st arrivals))) \<le> nat (rate_limit_per_minute st)
    \<and> length (in_window t (charged_auth_hits c (limiter_log st arrivals))) \<le> nat (auth_rate_limit_per_minute st)
    \<and> (limiter_log st arrivals = pre @ (now, rq, v) # post \<longrightarrow> v = verdict st now rq pre)"
proof -
  obtain rl log where f: "fold (limited st) arrivals (empty_limiter, []) = (rl, log)" by force
  have "\<forall>x \<in> set arrivals. fst x \<le> Max (fst ` set arrivals)" by simp
  then have "limiter_ok st (Max (fst ` set arrivals)) rl log" using limiter_run [OF assms f] by blast
  then show ?thesis
    using limiter_run [OF assms f] by (simp add: limiter_log_def f limiter_ok_def bounded_def)
qed

definition knock :: request where
  "knock = \<lparr> rq_path = ''/api/v1/auth/login'', rq_scheme = ''https'', rq_host = Some ''203.0.113.7'' \<rparr>"

theorem rate_limit_holds_witness:
  "let log = limiter_log (default_settings\<lparr> auth_rate_limit_per_minute := 1 \<rparr>) [(0, knock), (59999999, knock), (60000000, knock)] in
    map (\<lambda>(_, _, v). v) log = [None, Some ''Auth rate limit exceeded'', None]
    \<and> length (in_window 60000000 (charged_auth_hits ''203.0.113.7'' log)) \<le> 1"
proof -
  let ?st = "default_settings\<lparr> auth_rate_limit_per_minute := 1 \<rparr>"
  let ?log = "limiter_log ?st [(0, knock), (59999999, knock), (60000000, knock)]"
  have "map (\<lambda>(_, _, v). v) ?log = [None, Some ''Auth rate limit exceeded'', None]" by code_simp
  moreover have "length (in_window 60000000 (charged_auth_hits ''203.0.113.7'' ?log)) \<le> 1"
    using rate_limit_holds [of "[(0, knock), (59999999, knock), (60000000, knock)]" 60000000 "''203.0.113.7''" ?st] by simp
  ultimately show ?thesis by (simp add: Let_def)
qed

end
