(* ===== verification/Merchants.thy ===== *)
theory Merchants
  imports Upkeep Security "HOL-Library.Sublist"
begin

text \<open>
  Merchant profiles and their wallets: \<open>MerchantService\<close> of \<open>src/app/services/payment_service.py\<close>, the
  schemas of \<open>src/app/schemas/merchant.py\<close> and the routes of \<open>src/app/api/v1/routes/merchants.py\<close>; then the
  contract of the two tables: owners, addresses and identifiers stay unique, and a merchant has at most one
  primary wallet, the one that \<open>Settlement\<close> pays to.

  Draw \<open>dr_uuid\<close> 0 is the identifier of the new row. An email has passed \<open>EmailStr\<close>. Columns that are
  narrower than their schema field raise \<open>DataError\<close>, as in PostgreSQL.
\<close>

section \<open>Requests and responses\<close>

record merchant_create =
  mc_company_name :: string
  mc_commercial_registration :: "string option"
  mc_tax_number :: "string option"
  mc_country :: string
  mc_city :: string
  mc_address :: string
  mc_website :: "string option"
  mc_email :: string
  mc_phone :: string
  mc_industry :: "string option"

definition between :: "nat \<Rightarrow> nat \<Rightarrow> string \<Rightarrow> bool" where
  "between a b s \<longleftrightarrow> a \<le> py_len s \<and> py_len s \<le> b"

definition merchant_fields :: "merchant_create \<Rightarrow> bool" where
  "merchant_fields p \<longleftrightarrow>
     between 2 255 (mc_company_name p) \<and> between 2 2 (mc_country p) \<and> between 2 100 (mc_city p)
     \<and> 5 \<le> py_len (mc_address p) \<and> between 8 32 (mc_phone p)"

record merchant_out =
  mo_id :: uuid
  mo_company_name :: string
  mo_commercial_registration :: "string option"
  mo_tax_number :: "string option"
  mo_country :: string
  mo_city :: string
  mo_address :: string
  mo_website :: "string option"
  mo_email :: string
  mo_phone :: string
  mo_industry :: "string option"
  mo_status :: merchant_status
  mo_created_at :: time

definition merchant_out_of :: "merchant_profile \<Rightarrow> merchant_out" where
  "merchant_out_of m =
     \<lparr> mo_id = me_id m, mo_company_name = me_company_name m, mo_commercial_registration = me_commercial_registration m,
       mo_tax_number = me_tax_number m, mo_country = me_country m, mo_city = me_city m, mo_address = me_address m,
       mo_website = me_website m, mo_email = me_email m, mo_phone = me_phone m, mo_industry = me_industry m,
       mo_status = me_status m, mo_created_at = me_created_at m \<rparr>"

record wallet_create =
  wc_wallet_address :: string
  wc_wallet_provider :: string
  wc_wallet_network :: string
  wc_is_primary :: bool

definition wallet_fields :: "wallet_create \<Rightarrow> bool" where
  "wallet_fields p \<longleftrightarrow> between 20 128 (wc_wallet_address p) \<and> py_len (wc_wallet_network p) \<le> 32"

record wallet_out =
  wo_id :: uuid
  wo_merchant_id :: uuid
  wo_wallet_address :: string
  wo_wallet_provider :: string
  wo_wallet_network :: string
  wo_wallet_status :: wallet_status
  wo_is_primary :: bool
  wo_created_at :: time

definition wallet_out_of :: "merchant_wallet \<Rightarrow> wallet_out" where
  "wallet_out_of x =
     \<lparr> wo_id = wa_id x, wo_merchant_id = wa_merchant_id x, wo_wallet_address = wa_wallet_address x,
       wo_wallet_provider = wa_wallet_provider x, wo_wallet_network = wa_wallet_network x,
       wo_wallet_status = wa_wallet_status x, wo_is_primary = wa_is_primary x, wo_created_at = wa_created_at x \<rparr>"

section \<open>The service\<close>

definition new_merchant :: "draws \<Rightarrow> uuid \<Rightarrow> merchant_create \<Rightarrow> merchant_profile" where
  "new_merchant dr owner_user_id p =
     \<lparr> me_id = dr_uuid dr 0, me_owner_user_id = owner_user_id, me_company_name = mc_company_name p,
       me_commercial_registration = mc_commercial_registration p, me_tax_number = mc_tax_number p,
       me_country = mc_country p, me_city = mc_city p, me_address = mc_address p, me_website = mc_website p,
       me_email = lower (mc_email p), me_phone = mc_phone p, me_logo_url = None, me_industry = mc_industry p,
       me_status = M_ACTIVE, me_created_at = dr_now dr, me_deleted_at = None \<rparr>"

definition merchant_stored :: "merchant_profile \<Rightarrow> bool" where
  "merchant_stored m \<longleftrightarrow> varchar 64 (me_commercial_registration m) \<and> varchar 64 (me_tax_number m)
     \<and> varchar 255 (me_website m) \<and> varchar 255 (Some (me_email m)) \<and> varchar 100 (me_industry m)"

definition merchant_add :: "merchant_profile \<Rightarrow> merchant_profile handler" where
  "merchant_add m =
     bnd (check (merchant_stored m) DataError) (\<lambda>_.
     bnd (ask_db (\<lambda>d. repo_add me_id merchant_constraints m (db_merchants d))) (\<lambda>rows.
     bnd (on_db (\<lambda>d. d\<lparr> db_merchants := rows \<rparr>)) (\<lambda>_. ret m)))"

definition create_merchant :: "draws \<Rightarrow> uuid \<Rightarrow> merchant_create \<Rightarrow> merchant_out handler" where
  "create_merchant dr owner_user_id p =
     bnd (ask_db (\<lambda>d. merchant_get_by_owner d owner_user_id)) (\<lambda>existing.
     bnd (check (existing = None) (ConflictError ''Merchant profile already exists for this user'')) (\<lambda>_.
     bnd (merchant_add (new_merchant dr owner_user_id p)) (\<lambda>m.
     ret (merchant_out_of m))))"

definition my_merchant :: "uuid \<Rightarrow> merchant_profile handler" where
  "my_merchant owner_user_id =
     bnd (ask_db (\<lambda>d. merchant_get_by_owner d owner_user_id)) (\<lambda>merchant.
     expect (NotFoundError ''Merchant profile not found'') merchant)"

definition get_my_merchant :: "uuid \<Rightarrow> merchant_out handler" where
  "get_my_merchant owner_user_id = bnd (my_merchant owner_user_id) (\<lambda>m. ret (merchant_out_of m))"

definition demoted :: "uuid \<Rightarrow> merchant_wallet list \<Rightarrow> merchant_wallet list" where
  \<comment> \<open>\<open>is_primary = False\<close> on the wallets that \<open>list_for_merchant\<close> returns\<close>
  "demoted merchant_id rows =
     map (\<lambda>x. if wa_merchant_id x = merchant_id \<and> wa_deleted_at x = None then x\<lparr> wa_is_primary := False \<rparr> else x) rows"

definition new_wallet :: "draws \<Rightarrow> uuid \<Rightarrow> wallet_create \<Rightarrow> merchant_wallet" where
  "new_wallet dr merchant_id p =
     \<lparr> wa_id = dr_uuid dr 0, wa_merchant_id = merchant_id, wa_wallet_address = wc_wallet_address p,
       wa_wallet_provider = wc_wallet_provider p, wa_wallet_network = wc_wallet_network p, wa_wallet_status = W_ACTIVE,
       wa_is_primary = wc_is_primary p, wa_created_at = dr_now dr, wa_deleted_at = None \<rparr>"

definition wallet_add :: "merchant_wallet \<Rightarrow> merchant_wallet handler" where
  "wallet_add x =
     bnd (check (varchar 64 (Some (wa_wallet_provider x))) DataError) (\<lambda>_.
     bnd (ask_db (\<lambda>d. repo_add wa_id wallet_constraints x (db_wallets d))) (\<lambda>rows.
     bnd (on_db (\<lambda>d. d\<lparr> db_wallets := rows \<rparr>)) (\<lambda>_. ret x)))"

definition add_wallet :: "draws \<Rightarrow> uuid \<Rightarrow> wallet_create \<Rightarrow> wallet_out handler" where
  "add_wallet dr owner_user_id p =
     bnd (my_merchant owner_user_id) (\<lambda>m.
     bnd (if wc_is_primary p then on_db (\<lambda>d. d\<lparr> db_wallets := demoted (me_id m) (db_wallets d) \<rparr>) else ret ()) (\<lambda>_.
     bnd (wallet_add (new_wallet dr (me_id m) p)) (\<lambda>x.
     ret (wallet_out_of x))))"

definition list_wallets :: "uuid \<Rightarrow> wallet_out list handler" where
  "list_wallets owner_user_id =
     bnd (my_merchant owner_user_id) (\<lambda>m.
     gets (\<lambda>w. map wallet_out_of (wallet_list_for_merchant (w_db w) (me_id m))))"

section \<open>The routes\<close>

datatype merchant_call =
    Create_Merchant merchant_create
  | Get_My_Merchant
  | Add_Wallet wallet_create
  | List_Wallets

fun serve_merchant :: "draws \<Rightarrow> uuid \<Rightarrow> merchant_call \<Rightarrow> world \<Rightarrow> world" where
  "serve_merchant dr u (Create_Merchant p) w = fst (run_request (create_merchant dr u p) w)"
| "serve_merchant dr u Get_My_Merchant w = fst (run_request (get_my_merchant u) w)"
| "serve_merchant dr u (Add_Wallet p) w = fst (run_request (add_wallet dr u p) w)"
| "serve_merchant dr u List_Wallets w = fst (run_request (list_wallets u) w)"

section \<open>The contract\<close>

definition primaries :: "db \<Rightarrow> uuid \<Rightarrow> merchant_wallet list" where
  "primaries d i = filter (\<lambda>x. wa_merchant_id x = i \<and> wa_is_primary x) (base_query wa_deleted_at (db_wallets d))"

definition wallet_key :: "merchant_wallet \<Rightarrow> uuid \<times> string \<times> string" where
  "wallet_key x = (wa_merchant_id x, wa_wallet_address x, wa_wallet_network x)"

definition merchants_ok :: "db \<Rightarrow> bool" where
  "merchants_ok d \<longleftrightarrow>
     distinct (map me_id (db_merchants d)) \<and> distinct (map me_owner_user_id (db_merchants d))
     \<and> distinct (map wa_id (db_wallets d)) \<and> distinct (map wallet_key (db_wallets d))
     \<and> wa_merchant_id ` set (db_wallets d) \<subseteq> me_id ` set (db_merchants d)
     \<and> (\<forall>i. length (primaries d i) \<le> 1)"

definition unmarked :: "merchant_wallet \<Rightarrow> merchant_wallet" where
  "unmarked x = x\<lparr> wa_is_primary := False \<rparr>"

definition merchants_grow :: "db \<Rightarrow> db \<Rightarrow> bool" where
  "merchants_grow d d' \<longleftrightarrow>
     prefix (db_merchants d) (db_merchants d') \<and> prefix (map unmarked (db_wallets d)) (map unmarked (db_wallets d'))
     \<and> db_users d' = db_users d \<and> db_txns d' = db_txns d \<and> db_settlements d' = db_settlements d"

lemma merchants_grow_refl: "merchants_grow d d"
  by (simp add: merchants_grow_def)

lemma merchants_grow_trans: "merchants_grow a b \<Longrightarrow> merchants_grow b c \<Longrightarrow> merchants_grow a c"
  unfolding merchants_grow_def
  by (elim conjE) (intro conjI; (erule (1) prefix_order.trans | simp))

interpretation shops: upkeep merchants_ok merchants_grow
  by unfold_locales (rule merchants_grow_refl, erule merchants_grow_trans)

abbreviation mer :: "(db \<Rightarrow> bool) \<Rightarrow> (world, 'a) act \<Rightarrow> ('a \<Rightarrow> db \<Rightarrow> bool) \<Rightarrow> (db \<Rightarrow> bool) \<Rightarrow> bool" where
  "mer \<equiv> triple merchants_ok merchants_grow"

lemma find_filter: "find P xs = (case filter P xs of [] \<Rightarrow> None | x # _ \<Rightarrow> Some x)"
  by (induction xs) auto

lemma base_query_append: "base_query del (xs @ ys) = base_query del xs @ base_query del ys"
  by (simp add: base_query_def)

lemma primary_wallet: "wallet_get_primary d i = (case primaries d i of [] \<Rightarrow> None | x # _ \<Rightarrow> Some x)"
  unfolding wallet_get_primary_def primaries_def by (rule find_filter)

lemma demoted_maps:
  "(\<And>x. f (x\<lparr> wa_is_primary := False \<rparr>) = f x) \<Longrightarrow> map f (demoted i rows) = map f rows"
  by (simp add: demoted_def)

lemma filter_map_fixed: "(\<And>x. P (f x) \<longleftrightarrow> P x) \<Longrightarrow> (\<And>x. P x \<Longrightarrow> f x = x) \<Longrightarrow> filter P (map f xs) = filter P xs"
  by (induction xs) simp_all

lemma filter_map_gone: "(\<And>x. \<not> P (f x)) \<Longrightarrow> filter P (map f xs) = []"
  by (induction xs) simp_all

lemma demoted_primaries:
  "primaries (d\<lparr> db_wallets := demoted i (db_wallets d) \<rparr>) j = (if j = i then [] else primaries d j)"
proof (cases "j = i")
  case True
  have "filter (\<lambda>x. wa_deleted_at x = None \<and> wa_merchant_id x = i \<and> wa_is_primary x) (demoted i (db_wallets d)) = []"
    unfolding demoted_def by (rule filter_map_gone) simp
  then show ?thesis by (simp add: True primaries_def base_query_def conj_commute conj_left_commute)
next
  case False
  have "filter (\<lambda>x. wa_deleted_at x = None \<and> wa_merchant_id x = j \<and> wa_is_primary x) (demoted i (db_wallets d))
      = filter (\<lambda>x. wa_deleted_at x = None \<and> wa_merchant_id x = j \<and> wa_is_primary x) (db_wallets d)"
    unfolding demoted_def by (rule filter_map_fixed) (use False in auto)
  then show ?thesis using False by (simp add: primaries_def base_query_def conj_commute conj_left_commute)
qed

lemma mer_demote: "mer p (on_db (\<lambda>d. d\<lparr> db_wallets := demoted i (db_wallets d) \<rparr>))
    (\<lambda>_ d. primaries d i = []) e"
proof (rule shops.triple_on_db)
  fix d :: db
  assume ok: "merchants_ok d"
  have m: "map wa_id (demoted i (db_wallets d)) = map wa_id (db_wallets d)"
    "map wallet_key (demoted i (db_wallets d)) = map wallet_key (db_wallets d)"
    "map unmarked (demoted i (db_wallets d)) = map unmarked (db_wallets d)"
    "map wa_merchant_id (demoted i (db_wallets d)) = map wa_merchant_id (db_wallets d)"
    by (rule demoted_maps, simp add: wallet_key_def unmarked_def)+
  have "wa_merchant_id ` set (demoted i (db_wallets d)) = wa_merchant_id ` set (db_wallets d)"
    using m(4) by (metis set_map)
  then show "merchants_ok (d\<lparr> db_wallets := demoted i (db_wallets d) \<rparr>)
      \<and> merchants_grow d (d\<lparr> db_wallets := demoted i (db_wallets d) \<rparr>)
      \<and> primaries (d\<lparr> db_wallets := demoted i (db_wallets d) \<rparr>) i = []"
    using ok m(1-3) by (simp add: merchants_ok_def merchants_grow_def demoted_primaries)
qed

lemma primaries_snoc:
  "primaries (d\<lparr> db_wallets := rows @ [x] \<rparr>) i = primaries (d\<lparr> db_wallets := rows \<rparr>) i
     @ (if wa_merchant_id x = i \<and> wa_is_primary x \<and> wa_deleted_at x = None then [x] else [])"
  by (simp add: primaries_def base_query_def)

lemma mer_wallet_add:
  "mer (\<lambda>d. wa_merchant_id x \<in> me_id ` set (db_merchants d) \<and> (wa_is_primary x \<longrightarrow> primaries d (wa_merchant_id x) = []))
     (wallet_add x) (\<lambda>_ _. True) (\<lambda>_. True)"
  unfolding wallet_add_def
proof (rule shops.triple_steps, rule TrueI, rule shops.triple_steps, rule TrueI, rule shops.triple_bnd,
    rule shops.triple_on_db [where q = "\<lambda>_ _. True"])
  fix rows and d :: db
  assume ok: "merchants_ok d"
    and a: "((wa_merchant_id x \<in> me_id ` set (db_merchants d) \<and> (wa_is_primary x \<longrightarrow> primaries d (wa_merchant_id x) = []))
        \<and> varchar 64 (Some (wa_wallet_provider x))) \<and> repo_add wa_id wallet_constraints x (db_wallets d) = Inr rows"
  then have r: "rows = db_wallets d @ [x]" "\<forall>y \<in> set (db_wallets d). wa_id y \<noteq> wa_id x \<and> wallet_key y \<noteq> wallet_key x"
    by (auto simp: repo_add_rows wallet_constraints_def wallet_key_def list_ex_iff)
  have "length (primaries (d\<lparr> db_wallets := rows \<rparr>) i) \<le> 1" for i
    using ok a by (auto simp: r(1) primaries_snoc merchants_ok_def)
  then show "merchants_ok (d\<lparr> db_wallets := rows \<rparr>) \<and> merchants_grow d (d\<lparr> db_wallets := rows \<rparr>) \<and> True"
    using ok a r by (auto simp: merchants_ok_def merchants_grow_def)
qed (rule shops.triple_ret, simp)

lemma mer_merchant_add: "mer p (merchant_add m) (\<lambda>_ _. True) (\<lambda>_. True)"
  unfolding merchant_add_def
proof (rule shops.triple_steps, rule TrueI, rule shops.triple_steps, rule TrueI, rule shops.triple_bnd,
    rule shops.triple_on_db [where q = "\<lambda>_ _. True"])
  fix rows and d :: db
  assume ok: "merchants_ok d" and "(p d \<and> merchant_stored m) \<and> repo_add me_id merchant_constraints m (db_merchants d) = Inr rows"
  then have "rows = db_merchants d @ [m]"
    "\<forall>y \<in> set (db_merchants d). me_id y \<noteq> me_id m \<and> me_owner_user_id y \<noteq> me_owner_user_id m"
    by (auto simp: repo_add_rows merchant_constraints_def list_ex_iff)
  then show "merchants_ok (d\<lparr> db_merchants := rows \<rparr>) \<and> merchants_grow d (d\<lparr> db_merchants := rows \<rparr>) \<and> True"
    using ok by (auto simp: merchants_ok_def merchants_grow_def primaries_def)
qed (rule shops.triple_ret, simp)

lemma mer_my_merchant: "mer p (my_merchant u) (\<lambda>m d. m \<in> set (db_merchants d)) (\<lambda>_. True)"
  unfolding my_merchant_def
  by (rule shops.triple_steps, rule TrueI, rule shops.triple_expects)
    (auto simp: merchant_get_by_owner_def base_query_def dest: find_one_Some)

lemma mer_create: "mer p (create_merchant dr u c) (\<lambda>_ _. True) (\<lambda>_. True)"
  unfolding create_merchant_def
  by (rule shops.triple_steps, rule TrueI, rule shops.triple_steps, rule TrueI, rule shops.triple_bnd, rule mer_merchant_add)
    (simp add: shops.triple_ret)

lemma mer_add_wallet: "mer p (add_wallet dr u c) (\<lambda>_ _. True) (\<lambda>_. True)"
  unfolding add_wallet_def
proof (rule shops.triple_bnd, rule mer_my_merchant, rule shops.triple_bnd)
  fix m :: merchant_profile
  let ?q = "\<lambda>d. me_id m \<in> me_id ` set (db_merchants d) \<and> (wc_is_primary c \<longrightarrow> primaries d (me_id m) = [])"
  have k: "kept merchants_grow (\<lambda>d. m \<in> set (db_merchants d))"
    using set_mono_prefix by (fastforce simp: kept_def merchants_grow_def)
  have "mer (\<lambda>d. True \<and> m \<in> set (db_merchants d)) (on_db (\<lambda>d. d\<lparr> db_wallets := demoted (me_id m) (db_wallets d) \<rparr>))
      (\<lambda>_ d. primaries d (me_id m) = [] \<and> m \<in> set (db_merchants d)) (\<lambda>d. True \<and> m \<in> set (db_merchants d))"
    by (rule shops.triple_frame [OF k mer_demote])
  then have demote: "mer (\<lambda>d. m \<in> set (db_merchants d)) (on_db (\<lambda>d. d\<lparr> db_wallets := demoted (me_id m) (db_wallets d) \<rparr>))
      (\<lambda>_. ?q) (\<lambda>_. True)"
    by (rule shops.triple_conseq) auto
  show "mer (\<lambda>d. m \<in> set (db_merchants d)) (if wc_is_primary c then on_db (\<lambda>d. d\<lparr> db_wallets := demoted (me_id m) (db_wallets d) \<rparr>) else ret ())
      (\<lambda>_. ?q) (\<lambda>_. True)"
    by (rule shops.triple_if [OF demote]) (simp add: shops.triple_ret)
  show "mer ?q (bnd (wallet_add (new_wallet dr (me_id m) c)) (\<lambda>x. ret (wallet_out_of x))) (\<lambda>_ _. True) (\<lambda>_. True)"
    by (rule shops.triple_bnd, rule shops.triple_conseq [OF mer_wallet_add]) (auto simp: new_wallet_def intro: shops.triple_ret)
qed

lemma mer_reads:
  "mer p (get_my_merchant u) (\<lambda>_ _. True) (\<lambda>_. True)" "mer p (list_wallets u) (\<lambda>_ _. True) (\<lambda>_. True)"
  unfolding get_my_merchant_def list_wallets_def
  by (rule shops.triple_bnd, rule mer_my_merchant, (rule shops.triple_ret | rule shops.triple_reads), rule TrueI)+

lemma serve_merchant_books:
  "settled merchants_ok w \<Longrightarrow> settled merchants_ok (serve_merchant dr u c w)
     \<and> merchants_grow (w_db w) (w_db (serve_merchant dr u c w))"
  by (cases c) (simp_all add: shops.request_keeps mer_create mer_add_wallet mer_reads)

inductive merchant_run :: "world \<Rightarrow> world \<Rightarrow> bool" where
  merchant_start: "merchant_run w w"
| merchant_request: "merchant_run w w' \<Longrightarrow> merchant_run w (serve_merchant dr u c w')"

lemma merchant_run_books:
  "merchant_run w w' \<Longrightarrow> settled merchants_ok w \<Longrightarrow> settled merchants_ok w' \<and> merchants_grow (w_db w) (w_db w')"
proof (induction rule: merchant_run.induct)
  case (merchant_request w w' dr u c)
  then have s: "settled merchants_ok w'" and g: "merchants_grow (w_db w) (w_db w')" by blast+
  from serve_merchant_books [OF s, of dr u c] merchants_grow_trans [OF g] show ?case by blast
qed (simp add: merchants_grow_refl)

section \<open>Properties\<close>

text \<open>C10. Whatever requests the merchant service handles: a user owns at most one merchant, a merchant
  registers a wallet address of a network at most once and has at most one primary wallet; no merchant
  changes or disappears, and of a wallet only the primary mark ever changes.\<close>

theorem merchant_books:
  assumes "merchant_run w w'" "w_db w = w_committed w" "merchants_ok (w_db w)"
  shows "w_db w' = w_committed w' \<and> merchants_ok (w_db w') \<and> merchants_grow (w_db w) (w_db w')"
  using merchant_run_books [OF assms(1)] assms(2,3) unfolding settled_def by blast

text \<open>C9. A wallet added as the primary one is the wallet that settlements of its merchant are paid to from
  then on; one added as not primary changes nothing of that; and the wallets of the other merchants are
  untouched.\<close>

theorem added_wallet_is_paid:
  assumes w: "w_db w = w_committed w" "merchants_ok (w_db w)"
    and run: "run_request (add_wallet dr u p) w = (w', Inr out)"
  shows "\<exists>m x. merchant_get_by_owner (w_db w) u = Inr (Some m) \<and> wallet_out_of x = out
    \<and> wa_wallet_address x = wc_wallet_address p \<and> wa_wallet_network x = wc_wallet_network p
    \<and> wallet_list_for_merchant (w_db w') (me_id m)
        = (if wc_is_primary p then map unmarked else id) (wallet_list_for_merchant (w_db w) (me_id m)) @ [x]
    \<and> wallet_get_primary (w_db w') (me_id m)
        = (if wc_is_primary p then Some x else wallet_get_primary (w_db w) (me_id m))
    \<and> (\<forall>i. i \<noteq> me_id m \<longrightarrow> filter (\<lambda>y. wa_merchant_id y = i) (db_wallets (w_db w')) = filter (\<lambda>y. wa_merchant_id y = i) (db_wallets (w_db w)))"
proof -
  obtain w1 where h: "add_wallet dr u p w = (w1, Inr out)" and w': "w_db w' = w_db w1"
    using run by (auto simp: run_request_def split: prod.splits sum.splits)
  from h obtain m where m: "merchant_get_by_owner (w_db w) u = Inr (Some m)"
    by (auto simp: add_wallet_def my_merchant_def bnd_assoc expect_def split: sum.splits option.splits)
  let ?x = "new_wallet dr (me_id m) p"
  let ?rows = "if wc_is_primary p then demoted (me_id m) (db_wallets (w_db w)) else db_wallets (w_db w)"
  have d: "w_db w1 = (w_db w)\<lparr> db_wallets := ?rows @ [?x] \<rparr>" and out: "out = wallet_out_of ?x"
    using h by (auto simp: add_wallet_def my_merchant_def bnd_assoc m wallet_add_def repo_add_def bnd_Inr
        split: if_splits sum.splits)
  have x: "wa_merchant_id ?x = me_id m" "wa_is_primary ?x = wc_is_primary p" "wa_deleted_at ?x = None"
      "wa_wallet_address ?x = wc_wallet_address p" "wa_wallet_network ?x = wc_wallet_network p"
    by (simp_all add: new_wallet_def)
  have others: "filter (\<lambda>y. wa_merchant_id y = i) (demoted (me_id m) rows) = filter (\<lambda>y. wa_merchant_id y = i) rows"
    if "i \<noteq> me_id m" for i rows
    using that unfolding demoted_def by (intro filter_map_fixed) auto
  have own: "filter (\<lambda>y. wa_merchant_id y = me_id m) (base_query wa_deleted_at (demoted (me_id m) rows))
      = map unmarked (filter (\<lambda>y. wa_merchant_id y = me_id m) (base_query wa_deleted_at rows))" for rows
    by (induction rows) (auto simp: demoted_def base_query_def unmarked_def)
  have "wallet_get_primary (w_db w1) (me_id m) = (if wc_is_primary p then Some ?x else wallet_get_primary (w_db w) (me_id m))"
    by (simp add: primary_wallet d primaries_snoc demoted_primaries x)
  moreover have "wallet_list_for_merchant (w_db w1) (me_id m)
      = (if wc_is_primary p then map unmarked else id) (wallet_list_for_merchant (w_db w) (me_id m)) @ [?x]"
    by (simp add: wallet_list_for_merchant_def d own base_query_append x, simp add: base_query_def x)
  moreover have "\<forall>i. i \<noteq> me_id m \<longrightarrow> filter (\<lambda>y. wa_merchant_id y = i) (db_wallets (w_db w1)) = filter (\<lambda>y. wa_merchant_id y = i) (db_wallets (w_db w))"
    by (simp add: d others x(1))
  ultimately show ?thesis unfolding w' using m x(4,5) out by blast
qed

section \<open>A concrete shop\<close>

definition cafe :: world where
  \<comment> \<open>a merchant with a primary wallet\<close>
  "cafe = (let d = empty_db\<lparr> db_merchants := [new_merchant \<lparr> dr_now = 0, dr_uuid = (\<lambda>_. ''m1''), dr_hex = (\<lambda>_. []) \<rparr> ''u1''
       \<lparr> mc_company_name = ''Cafe'', mc_commercial_registration = None, mc_tax_number = None, mc_country = ''SA'',
         mc_city = ''Riyadh'', mc_address = ''King Rd 1'', mc_website = None, mc_email = ''a@b.sa'', mc_phone = ''+96650000000'',
         mc_industry = None \<rparr>],
       db_wallets := [new_wallet \<lparr> dr_now = 0, dr_uuid = (\<lambda>_. ''w1''), dr_hex = (\<lambda>_. []) \<rparr> ''m1''
       \<lparr> wc_wallet_address = ''TGQbDuBTUw75Uhh5qTuK1NFyQXyTTjDai7'', wc_wallet_provider = ''self_custody'',
         wc_wallet_network = ''trc20'', wc_is_primary = True \<rparr>] \<rparr>
     in \<lparr> w_db = d, w_committed = d, w_sessions = empty_store, w_processors = initial_factory \<rparr>)"

definition wallet_draws :: draws where
  "wallet_draws = \<lparr> dr_now = 1, dr_uuid = (\<lambda>_. ''w2''), dr_hex = (\<lambda>_. []) \<rparr>"

definition second_wallet :: wallet_create where
  "second_wallet = \<lparr> wc_wallet_address = ''TJRabPrwbZy45sbavfcjinPJC18kjpRTv8'', wc_wallet_provider = ''self_custody'',
     wc_wallet_network = ''trc20'', wc_is_primary = True \<rparr>"

lemma cafe_saved: "w_db cafe = w_committed cafe" "merchants_ok (w_db cafe)"
  by (simp_all add: cafe_def Let_def merchants_ok_def primaries_def base_query_def new_merchant_def new_wallet_def)

lemma cafe_adds: "\<exists>w' out. run_request (add_wallet wallet_draws ''u1'' second_wallet) cafe = (w', Inr out)"
proof -
  have l: "varchar 64 (Some ''self_custody'')" by code_simp
  show ?thesis
    by (simp add: run_request_def add_wallet_def my_merchant_def bnd_assoc cafe_def Let_def merchant_get_by_owner_def
        base_query_def find_one_def new_merchant_def new_wallet_def second_wallet_def wallet_add_def wallet_draws_def
        repo_add_def wallet_constraints_def demoted_def l)
qed

theorem merchant_books_witness:
  "merchants_ok (w_db (serve_merchant wallet_draws ''u1'' (Add_Wallet second_wallet) cafe))"
  using merchant_books [OF merchant_request [OF merchant_start] cafe_saved] by blast

theorem added_wallet_is_paid_witness:
  "\<exists>w' out x. run_request (add_wallet wallet_draws ''u1'' second_wallet) cafe = (w', Inr out)
    \<and> wallet_get_primary (w_db w') ''m1'' = Some x \<and> wa_wallet_address x = ''TJRabPrwbZy45sbavfcjinPJC18kjpRTv8''"
proof -
  obtain w' out where run: "run_request (add_wallet wallet_draws ''u1'' second_wallet) cafe = (w', Inr out)"
    using cafe_adds by blast
  from added_wallet_is_paid [OF cafe_saved run] obtain m x where "merchant_get_by_owner (w_db cafe) ''u1'' = Inr (Some m)"
      "wallet_get_primary (w_db w') (me_id m) = Some x" "wa_wallet_address x = ''TJRabPrwbZy45sbavfcjinPJC18kjpRTv8''"
    by (auto simp: second_wallet_def)
  then show ?thesis
    using run by (auto simp: cafe_def Let_def merchant_get_by_owner_def base_query_def find_one_def new_merchant_def)
qed

end
