(* ===== verification/Seed.thy ===== *)
theory Seed
  imports Merchants
begin

text \<open>
  The seeding script \<open>src/scripts/seed.py\<close>, which the start script runs before the server.

  It works on a session that does not flush by itself (\<open>autoflush=False\<close> in \<open>src/app/database/session.py\<close>):
  \<open>session.add\<close> and assignments to attributes are pending until the next \<open>flush\<close> or \<open>commit\<close>, and a query
  sees the flushed rows only. The state of the script is therefore the rows flushed so far and the pending
  operations in order; a flush that fails raises \<open>IntegrityError\<close>, and leaving the session by an exception
  rolls everything back. Draws: \<open>dr_uuid\<close> 0 to 18 are the identifiers in the order of the script, \<open>dr_hex\<close> 0
  and 1 the salts of the two passwords.
\<close>

section \<open>A session without autoflush\<close>

record seed_session =
  ss_db :: db
  ss_pending :: "(db \<Rightarrow> db res) list"

type_synonym 'a seeder = "(seed_session, 'a) act"

definition add_later :: "(db \<Rightarrow> db res) \<Rightarrow> unit seeder" where
  \<comment> \<open>\<open>session.add\<close>, or an assignment to a persistent object\<close>
  "add_later op = modify (\<lambda>s. s\<lparr> ss_pending := ss_pending s @ [op] \<rparr>)"

definition scalar :: "(db \<Rightarrow> 'a) \<Rightarrow> 'a seeder" where
  "scalar f = gets (\<lambda>s. f (ss_db s))"

fun written :: "(db \<Rightarrow> db res) list \<Rightarrow> db \<Rightarrow> db res" where
  "written [] d = Inr d"
| "written (op # ops) d = bindr (op d) (written ops)"

definition flush :: "unit seeder" where
  "flush s = (case written (ss_pending s) (ss_db s) of
     Inl e \<Rightarrow> (s, Inl e) | Inr d \<Rightarrow> (\<lparr> ss_db = d, ss_pending = [] \<rparr>, Inr ()))"

definition ensure :: "(db \<Rightarrow> bool) \<Rightarrow> (db \<Rightarrow> db res) \<Rightarrow> unit seeder" where
  \<comment> \<open>\<open>if not await session.scalar(...): session.add(...)\<close>\<close>
  "ensure found op = bnd (scalar found) (\<lambda>b. if b then ret () else add_later op)"

fun each :: "('a \<Rightarrow> unit seeder) \<Rightarrow> 'a list \<Rightarrow> unit seeder" where
  "each f [] = ret ()"
| "each f (x # xs) = bnd (f x) (\<lambda>_. each f xs)"

section \<open>Rows\<close>

definition insert_row :: "('e \<Rightarrow> 'e \<Rightarrow> bool) \<Rightarrow> 'e \<Rightarrow> 'e list \<Rightarrow> 'e list res" where
  \<comment> \<open>an insert under the unique constraints \<open>clash\<close>\<close>
  "insert_row clash x rows = (if list_ex (\<lambda>r. clash r x) rows then Inl IntegrityError else Inr (rows @ [x]))"

definition put_role :: "role_row \<Rightarrow> db \<Rightarrow> db res" where
  "put_role x d = bindr (repo_add ro_id role_constraints x (db_roles d)) (\<lambda>rows. Inr (d\<lparr> db_roles := rows \<rparr>))"

definition put_gateway :: "payment_gateway_row \<Rightarrow> db \<Rightarrow> db res" where
  "put_gateway x d = bindr (insert_row (\<lambda>a b. gw_id a = gw_id b \<or> gw_provider a = gw_provider b) x (db_gateways d))
     (\<lambda>rows. Inr (d\<lparr> db_gateways := rows \<rparr>))"

definition put_user :: "user_row \<Rightarrow> db \<Rightarrow> db res" where
  "put_user x d = bindr (repo_add us_id user_constraints x (db_users d)) (\<lambda>rows. Inr (d\<lparr> db_users := rows \<rparr>))"

definition put_merchant :: "merchant_profile \<Rightarrow> db \<Rightarrow> db res" where
  "put_merchant x d = bindr (repo_add me_id merchant_constraints x (db_merchants d)) (\<lambda>rows. Inr (d\<lparr> db_merchants := rows \<rparr>))"

definition put_wallet :: "merchant_wallet \<Rightarrow> db \<Rightarrow> db res" where
  "put_wallet x d = bindr (repo_add wa_id wallet_constraints x (db_wallets d)) (\<lambda>rows. Inr (d\<lparr> db_wallets := rows \<rparr>))"

definition set_merchant :: "merchant_profile \<Rightarrow> db \<Rightarrow> db res" where
  "set_merchant x d =
     (if merchant_constraints x (filter (\<lambda>r. me_id r \<noteq> me_id x) (db_merchants d))
      then Inr (d\<lparr> db_merchants := repo_update me_id x (db_merchants d) \<rparr>) else Inl IntegrityError)"

definition set_wallet :: "merchant_wallet \<Rightarrow> db \<Rightarrow> db res" where
  "set_wallet x d =
     (if wallet_constraints x (filter (\<lambda>r. wa_id r \<noteq> wa_id x) (db_wallets d))
      then Inr (d\<lparr> db_wallets := repo_update wa_id x (db_wallets d) \<rparr>) else Inl IntegrityError)"

definition put_site :: "(site \<Rightarrow> site res) \<Rightarrow> db \<Rightarrow> db res" where
  "put_site f d = bindr (f (db_site d)) (\<lambda>s. Inr (d\<lparr> db_site := s \<rparr>))"

definition put_method :: "payment_method \<Rightarrow> site \<Rightarrow> site res" where
  "put_method x s = bindr (insert_row (\<lambda>a b. pm_code a = pm_code b) x (site_methods s)) (\<lambda>rows. Inr (s\<lparr> site_methods := rows \<rparr>))"

definition put_country :: "country \<Rightarrow> site \<Rightarrow> site res" where
  "put_country x s = bindr (insert_row (\<lambda>a b. co_code a = co_code b) x (site_countries s)) (\<lambda>rows. Inr (s\<lparr> site_countries := rows \<rparr>))"

definition put_currency :: "currency_row \<Rightarrow> site \<Rightarrow> site res" where
  "put_currency x s = bindr (insert_row (\<lambda>a b. cu_code a = cu_code b) x (site_currencies s)) (\<lambda>rows. Inr (s\<lparr> site_currencies := rows \<rparr>))"

definition put_language :: "language \<Rightarrow> site \<Rightarrow> site res" where
  "put_language x s = bindr (insert_row (\<lambda>a b. la_code a = la_code b) x (site_languages s)) (\<lambda>rows. Inr (s\<lparr> site_languages := rows \<rparr>))"

definition put_exchange :: "crypto_exchange \<Rightarrow> site \<Rightarrow> site res" where
  "put_exchange x s = bindr (insert_row (\<lambda>a b. ce_name a = ce_name b \<or> ce_provider a = ce_provider b) x (site_exchanges s))
     (\<lambda>rows. Inr (s\<lparr> site_exchanges := rows \<rparr>))"

definition put_crypto_wallet :: "crypto_wallet \<Rightarrow> site \<Rightarrow> site res" where
  "put_crypto_wallet x s =
     bindr (insert_row (\<lambda>a b. cw_wallet_address a = cw_wallet_address b \<and> cw_network a = cw_network b) x (site_crypto_wallets s))
       (\<lambda>rows. Inr (s\<lparr> site_crypto_wallets := rows \<rparr>))"

definition put_service :: "website_service \<Rightarrow> site \<Rightarrow> site res" where
  "put_service x s = bindr (insert_row (\<lambda>a b. ws_id a = ws_id b \<or> ws_slug a = ws_slug b) x (site_services s))
     (\<lambda>rows. Inr (s\<lparr> site_services := rows \<rparr>))"

definition put_project :: "website_project \<Rightarrow> site \<Rightarrow> site res" where
  "put_project x s = bindr (insert_row (\<lambda>a b. wp_id a = wp_id b \<or> wp_slug a = wp_slug b) x (site_projects s))
     (\<lambda>rows. Inr (s\<lparr> site_projects := rows \<rparr>))"

definition put_faq :: "faq \<Rightarrow> site \<Rightarrow> site res" where
  "put_faq x s = bindr (insert_row (\<lambda>a b. fq_id a = fq_id b) x (site_faqs s)) (\<lambda>rows. Inr (s\<lparr> site_faqs := rows \<rparr>))"

definition put_testimonial :: "testimonial \<Rightarrow> site \<Rightarrow> site res" where
  "put_testimonial x s = bindr (insert_row (\<lambda>a b. tm_id a = tm_id b) x (site_testimonials s))
     (\<lambda>rows. Inr (s\<lparr> site_testimonials := rows \<rparr>))"

section \<open>What is seeded\<close>

definition BONYAN_COMPANY :: string where "BONYAN_COMPANY = ''Bonyan Advanced Contracting Establishment''"
definition BONYAN_CR :: string where "BONYAN_CR = ''7026169222''"
definition BONYAN_VAT :: string where "BONYAN_VAT = ''3110625023''"
definition BONYAN_EMAIL :: string where "BONYAN_EMAIL = ''info@bacgroupsa.com''"
definition BONYAN_WALLET_TRC20 :: string where "BONYAN_WALLET_TRC20 = ''TGQbDuBTUw75Uhh5qTuK1NFyQXyTTjDai7''"
definition MERCHANT_OWNER_EMAIL :: string where "MERCHANT_OWNER_EMAIL = ''turki.hejaili@gmail.com''"

definition SEED_ROLES :: "(nat \<times> user_role \<times> string) list" where
  "SEED_ROLES = [(0, SUPER_ADMIN, ''Full platform access''), (1, ADMIN, ''Operations admin''),
     (2, MERCHANT_OWNER, ''Merchant owner''), (3, MERCHANT_STAFF, ''Merchant staff''), (4, SUPPORT, ''Support agent'')]"

definition seed_role :: "draws \<Rightarrow> nat \<times> user_role \<times> string \<Rightarrow> unit seeder" where
  "seed_role dr = (\<lambda>(n, role, description).
     ensure (\<lambda>d. list_ex (\<lambda>r. ro_name r = user_role_value role) (db_roles d))
       (put_role \<lparr> ro_id = dr_uuid dr n, ro_name = user_role_value role, ro_description = Some description, ro_deleted_at = None \<rparr>))"

definition SEED_GATEWAYS :: "(nat \<times> string \<times> string \<times> string \<times> bool) list" where
  "SEED_GATEWAYS = [(5, ''CryptoPOS Sandbox'', ''sandbox'', ''https://sandbox.cryptopos.local/charge'', True),
     (6, ''NOWPayments'', ''nowpayments'', ''https://api.nowpayments.io/v1'', False),
     (7, ''Moyasar'', ''moyasar'', ''https://api.moyasar.com/v1'', True)]"

definition seed_gateway :: "draws \<Rightarrow> nat \<times> string \<times> string \<times> string \<times> bool \<Rightarrow> unit seeder" where
  "seed_gateway dr = (\<lambda>(n, name, provider, endpoint, refund).
     ensure (\<lambda>d. list_ex (\<lambda>g. gw_provider g = provider) (db_gateways d))
       (put_gateway \<lparr> gw_id = dr_uuid dr n, gw_gateway_name = name, gw_provider = provider, gw_country = ''SA'',
          gw_api_endpoint = Some endpoint, gw_sandbox_endpoint = Some endpoint, gw_status = ''active'',
          gw_supports_refund = refund, gw_supports_recurring = False, gw_deleted_at = None \<rparr>))"

definition SEED_METHODS :: "(string \<times> string) list" where
  "SEED_METHODS = [(''visa'', ''Visa''), (''mastercard'', ''Mastercard''), (''amex'', ''American Express''),
     (''apple_pay'', ''Apple Pay''), (''google_pay'', ''Google Pay'')]"

definition SEED_COUNTRIES :: "(string \<times> string) list" where
  "SEED_COUNTRIES = [(''SA'', ''Saudi Arabia''), (''AE'', ''United Arab Emirates''), (''US'', ''United States'')]"

definition SEED_CURRENCIES :: "(string \<times> string \<times> string) list" where
  \<comment> \<open>the symbols of the riyal and the dirham as UTF-8\<close>
  "SEED_CURRENCIES = [(''SAR'', ''Saudi Riyal'', [CHR 0xEF, CHR 0xB7, CHR 0xBC]), (''USD'', ''US Dollar'', ''$''),
     (''EUR'', ''Euro'', [CHR 0xE2, CHR 0x82, CHR 0xAC]),
     (''AED'', ''UAE Dirham'', [CHR 0xD8, CHR 0xAF, CHR ''.'', CHR 0xD8, CHR 0xA5])]"

definition SEED_LANGUAGES :: "(string \<times> string) list" where
  "SEED_LANGUAGES = [(''en'', ''English''), (''ar'', ''Arabic'')]"

definition seed_reference :: "unit seeder" where
  \<comment> \<open>methods, countries, currencies, languages, the exchange and the treasury wallet\<close>
  "seed_reference =
     bnd (each (\<lambda>(code, display). ensure (\<lambda>d. list_ex (\<lambda>x. pm_code x = code) (site_methods (db_site d)))
       (put_site (put_method \<lparr> pm_code = code, pm_display_name = display, pm_is_active = True \<rparr>))) SEED_METHODS) (\<lambda>_.
     bnd (each (\<lambda>(code, name). ensure (\<lambda>d. list_ex (\<lambda>x. co_code x = code) (site_countries (db_site d)))
       (put_site (put_country \<lparr> co_code = code, co_name = name, co_is_active = True \<rparr>))) SEED_COUNTRIES) (\<lambda>_.
     bnd (each (\<lambda>(code, name, symbol). ensure (\<lambda>d. list_ex (\<lambda>x. cu_code x = code) (site_currencies (db_site d)))
       (put_site (put_currency \<lparr> cu_code = code, cu_name = name, cu_symbol = symbol, cu_is_active = True \<rparr>))) SEED_CURRENCIES) (\<lambda>_.
     bnd (each (\<lambda>(code, name). ensure (\<lambda>d. list_ex (\<lambda>x. la_code x = code) (site_languages (db_site d)))
       (put_site (put_language \<lparr> la_code = code, la_name = name, la_is_active = True \<rparr>))) SEED_LANGUAGES) (\<lambda>_.
     bnd (ensure (\<lambda>d. list_ex (\<lambda>x. ce_provider x = ''sandbox'') (site_exchanges (db_site d)))
       (put_site (put_exchange \<lparr> ce_name = ''Sandbox Exchange'', ce_provider = ''sandbox'', ce_status = ''active'' \<rparr>))) (\<lambda>_.
     ensure (\<lambda>d. site_crypto_wallets (db_site d) \<noteq> [])
       (put_site (put_crypto_wallet \<lparr> cw_label = ''Treasury Hot Wallet TRC20'', cw_wallet_address = ''PENDING_PLATFORM_TRC20_SANDBOX'',
          cw_network = ''trc20'', cw_currency = ''USDT'', cw_provider = ''sandbox'', cw_status = ''inactive'',
          cw_is_hot_wallet = True \<rparr>)))))))"

definition find_role :: "user_role \<Rightarrow> db \<Rightarrow> role_row option" where
  "find_role role d = find (\<lambda>r. ro_name r = user_role_value role) (db_roles d)"

definition find_user :: "string \<Rightarrow> db \<Rightarrow> user_row option" where
  "find_user email d = find (\<lambda>u. us_email u = email) (db_users d)"

definition seed_admin_user :: "auth_lib \<Rightarrow> draws \<Rightarrow> role_row \<Rightarrow> user_row" where
  "seed_admin_user lib dr role =
     \<lparr> us_id = dr_uuid dr 8, us_first_name = ''Platform'', us_last_name = ''Admin'', us_email = ''admin@cryptopos.com'',
       us_phone = Some ''+966500000001'', us_password_hash = hash_password lib (dr_hex dr 0) ''ChangeMeNow!123'',
       us_is_active = True, us_is_verified = True, us_role_id = ro_id role, us_role_code = user_role_value SUPER_ADMIN,
       us_last_login_at = None, us_created_at = dr_now dr, us_deleted_at = None \<rparr>"

definition seed_admin :: "auth_lib \<Rightarrow> draws \<Rightarrow> unit seeder" where
  "seed_admin lib dr =
     bnd (scalar (find_role SUPER_ADMIN)) (\<lambda>admin_role.
     bnd (scalar (find_user ''admin@cryptopos.com'')) (\<lambda>admin.
     case (admin_role, admin) of
       (Some role, None) \<Rightarrow> add_later (put_user (seed_admin_user lib dr role))
     | _ \<Rightarrow> ret ()))"

definition seed_owner_user :: "auth_lib \<Rightarrow> draws \<Rightarrow> role_row \<Rightarrow> user_row" where
  "seed_owner_user lib dr role =
     \<lparr> us_id = dr_uuid dr 9, us_first_name = ''Turki'', us_last_name = ''Hejaili'', us_email = MERCHANT_OWNER_EMAIL,
       us_phone = Some ''+966599000789'', us_password_hash = hash_password lib (dr_hex dr 1) ''ChangeMeOnFirstLogin!123'',
       us_is_active = True, us_is_verified = True, us_role_id = ro_id role, us_role_code = user_role_value MERCHANT_OWNER,
       us_last_login_at = None, us_created_at = dr_now dr, us_deleted_at = None \<rparr>"

definition seed_profile :: "draws \<Rightarrow> merchant_profile" where
  "seed_profile dr =
     \<lparr> me_id = dr_uuid dr 10, me_owner_user_id = dr_uuid dr 9, me_company_name = BONYAN_COMPANY,
       me_commercial_registration = Some BONYAN_CR, me_tax_number = Some BONYAN_VAT, me_country = ''SA'',
       me_city = ''Madinah'', me_address = ''Saudi Arabia '' @ [CHR 0xE2, CHR 0x80, CHR 0x93] @ '' Madinah 42393'',
       me_website = None, me_email = BONYAN_EMAIL, me_phone = ''+966599000789'', me_logo_url = None,
       me_industry = Some ''Heavy machinery / Marine / Project advisory'', me_status = M_ACTIVE,
       me_created_at = dr_now dr, me_deleted_at = None \<rparr>"

definition bonyan_wallet :: "draws \<Rightarrow> nat \<Rightarrow> uuid \<Rightarrow> merchant_wallet" where
  "bonyan_wallet dr n merchant_id =
     \<lparr> wa_id = dr_uuid dr n, wa_merchant_id = merchant_id, wa_wallet_address = BONYAN_WALLET_TRC20,
       wa_wallet_provider = ''trust_wallet'', wa_wallet_network = ''trc20'', wa_wallet_status = W_ACTIVE,
       wa_is_primary = True, wa_created_at = dr_now dr, wa_deleted_at = None \<rparr>"

definition seed_merchant :: "auth_lib \<Rightarrow> draws \<Rightarrow> unit seeder" where
  "seed_merchant lib dr =
     bnd (scalar (find_role MERCHANT_OWNER)) (\<lambda>merchant_role.
     bnd (scalar (find_user MERCHANT_OWNER_EMAIL)) (\<lambda>merchant_user.
     case (merchant_role, merchant_user) of
       (Some role, None) \<Rightarrow>
         bnd (add_later (put_user (seed_owner_user lib dr role))) (\<lambda>_.
         bnd flush (\<lambda>_.
         bnd (add_later (put_merchant (seed_profile dr))) (\<lambda>_.
         bnd flush (\<lambda>_.
         add_later (put_wallet (bonyan_wallet dr 11 (dr_uuid dr 10)))))))
     | _ \<Rightarrow> ret ()))"

definition bonyan_profile :: "db \<Rightarrow> merchant_profile option" where
  "bonyan_profile d =
     (case find (\<lambda>m. me_company_name m = BONYAN_COMPANY) (db_merchants d) of
        Some m \<Rightarrow> Some m
      | None \<Rightarrow> (case find_user MERCHANT_OWNER_EMAIL d of
          None \<Rightarrow> None
        | Some owner \<Rightarrow> find (\<lambda>m. me_owner_user_id m = us_id owner) (db_merchants d)))"

definition synced_profile :: "merchant_profile \<Rightarrow> merchant_profile" where
  "synced_profile m =
     m\<lparr> me_company_name := BONYAN_COMPANY, me_commercial_registration := Some BONYAN_CR, me_tax_number := Some BONYAN_VAT,
        me_email := BONYAN_EMAIL, me_status := M_ACTIVE \<rparr>"

definition first_primary :: "uuid \<Rightarrow> db \<Rightarrow> merchant_wallet option" where
  "first_primary merchant_id d = find (\<lambda>x. wa_merchant_id x = merchant_id \<and> wa_is_primary x) (db_wallets d)"

definition synced_wallet :: "merchant_wallet \<Rightarrow> merchant_wallet" where
  "synced_wallet x =
     x\<lparr> wa_wallet_address := BONYAN_WALLET_TRC20, wa_wallet_provider := ''trust_wallet'', wa_wallet_network := ''trc20'',
        wa_wallet_status := W_ACTIVE, wa_is_primary := True \<rparr>"

definition sync_bonyan_merchant :: "draws \<Rightarrow> unit seeder" where
  "sync_bonyan_merchant dr =
     bnd (scalar bonyan_profile) (\<lambda>profile.
     case profile of
       None \<Rightarrow> ret ()
     | Some m \<Rightarrow>
         bnd (add_later (set_merchant (synced_profile m))) (\<lambda>_.
         bnd (scalar (first_primary (me_id m))) (\<lambda>primary.
         case primary of
           None \<Rightarrow> add_later (put_wallet (bonyan_wallet dr 12 (me_id m)))
         | Some x \<Rightarrow>
             if wa_wallet_address x \<in> {''PENDING_CLIENT_TRC20_TRUST_WALLET'', []} \<or> wa_wallet_address x \<noteq> BONYAN_WALLET_TRC20
             then add_later (set_wallet (synced_wallet x)) else ret ())))"

definition seed_services :: "draws \<Rightarrow> website_service list" where
  "seed_services dr =
     [\<lparr> ws_id = dr_uuid dr 13, ws_slug = ''android-pos'', ws_title = ''Android POS Terminals'',
        ws_summary = ''Sunmi-ready enterprise POS built for high-volume merchant floors.'',
        ws_description = ''Deploy CryptoPOS on Sunmi V3 and compatible Android terminals.'', ws_icon = ''Smartphone'',
        ws_features = [JStr ''Sunmi V3 optimized'', JStr ''Offline transaction queue''],
        ws_image_url = ''https://images.unsplash.com/photo-1556742049-0cfed4f6a45d?auto=format&fit=crop&w=1600&q=80'',
        ws_sort_order = 1, ws_is_published = True, ws_deleted_at = None \<rparr>,
      \<lparr> ws_id = dr_uuid dr 14, ws_slug = ''usdt-settlement'', ws_title = ''USDT Settlement Engine'',
        ws_summary = ''Automated settlement orchestration from card capture to wallet transfer.'',
        ws_description = ''After successful card payment, CryptoPOS calculates fees, converts via exchange adapters, and prepares USDT transfer.'',
        ws_icon = ''Wallet'', ws_features = [JStr ''Exchange abstraction'', JStr ''Wallet adapters'', JStr ''Retry queues''],
        ws_image_url = ''https://images.unsplash.com/photo-1621761191319-c6fb62004040?auto=format&fit=crop&w=1600&q=80'',
        ws_sort_order = 2, ws_is_published = True, ws_deleted_at = None \<rparr>]"

definition seed_project :: "draws \<Rightarrow> website_project" where
  "seed_project dr =
     \<lparr> wp_id = dr_uuid dr 15, wp_slug = ''riyadh-retail-network'', wp_title = ''Riyadh Retail Network'', wp_category = ''Retail'',
       wp_summary = ''Multi-branch POS rollout with centralized settlement.'',
       wp_description = ''Deployed CryptoPOS across branches with unified merchant wallets.'', wp_location = ''Riyadh, KSA'',
       wp_year = ''2025'', wp_image_url = ''https://images.unsplash.com/photo-1441986300917-64674bd600d8?auto=format&fit=crop&w=1600&q=80'',
       wp_tags = [JStr ''POS'', JStr ''Settlement''], wp_is_published = True, wp_created_at = dr_now dr, wp_deleted_at = None \<rparr>"

definition seed_faqs :: "draws \<Rightarrow> faq list" where
  "seed_faqs dr =
     [\<lparr> fq_id = dr_uuid dr 16, fq_question = ''Which card brands does CryptoPOS accept?'',
        fq_answer = ''Visa, Mastercard, and American Express through pluggable gateway adapters.'', fq_category = ''Payments'',
        fq_sort_order = 1, fq_is_published = True, fq_deleted_at = None \<rparr>,
      \<lparr> fq_id = dr_uuid dr 17, fq_question = ''How does USDT settlement work?'',
        fq_answer = ''Card payments are captured via a payment gateway. The Settlement Engine then converts and prepares USDT wallet transfer. Gateways do not convert fiat to USDT in one built-in step.'',
        fq_category = ''Settlement'', fq_sort_order = 2, fq_is_published = True, fq_deleted_at = None \<rparr>]"

definition seed_testimonial :: "draws \<Rightarrow> testimonial" where
  "seed_testimonial dr =
     \<lparr> tm_id = dr_uuid dr 18, tm_name = ''Fahad Al-Mutairi'', tm_role = ''Operations Director'', tm_company = ''Najd Retail Co.'',
       tm_quote = ''CryptoPOS gave us consistent card acceptance and a settlement trail finance can trust.'',
       tm_rating = 5, tm_avatar_url = None, tm_is_published = True, tm_deleted_at = None \<rparr>"

definition ensure_all :: "(db \<Rightarrow> bool) \<Rightarrow> (db \<Rightarrow> db res) list \<Rightarrow> unit seeder" where
  \<comment> \<open>the same with \<open>session.add_all\<close>\<close>
  "ensure_all found ops = bnd (scalar found) (\<lambda>b. if b then ret () else each add_later ops)"

definition seed_website :: "draws \<Rightarrow> unit seeder" where
  "seed_website dr =
     bnd (ensure_all (\<lambda>d. site_services (db_site d) \<noteq> []) (map (\<lambda>x. put_site (put_service x)) (seed_services dr))) (\<lambda>_.
     bnd (ensure (\<lambda>d. site_projects (db_site d) \<noteq> []) (put_site (put_project (seed_project dr)))) (\<lambda>_.
     bnd (ensure_all (\<lambda>d. site_faqs (db_site d) \<noteq> []) (map (\<lambda>x. put_site (put_faq x)) (seed_faqs dr))) (\<lambda>_.
     ensure (\<lambda>d. site_testimonials (db_site d) \<noteq> []) (put_site (put_testimonial (seed_testimonial dr))))))"

definition seed :: "auth_lib \<Rightarrow> draws \<Rightarrow> unit seeder" where
  \<comment> \<open>the final \<open>commit\<close> flushes; the message that is printed is left out\<close>
  "seed lib dr =
     bnd (each (seed_role dr) SEED_ROLES) (\<lambda>_.
     bnd flush (\<lambda>_.
     bnd (each (seed_gateway dr) SEED_GATEWAYS) (\<lambda>_.
     bnd seed_reference (\<lambda>_.
     bnd (seed_admin lib dr) (\<lambda>_.
     bnd (seed_merchant lib dr) (\<lambda>_.
     bnd (sync_bonyan_merchant dr) (\<lambda>_.
     bnd (seed_website dr) (\<lambda>_.
     flush))))))))"

definition run_seed :: "auth_lib \<Rightarrow> draws \<Rightarrow> db \<Rightarrow> db res" where
  \<comment> \<open>the database after the script, or what it raised, with the database as it was\<close>
  "run_seed lib dr d =
     (case seed lib dr \<lparr> ss_db = d, ss_pending = [] \<rparr> of
        (s, Inr _) \<Rightarrow> Inr (ss_db s) | (_, Inl e) \<Rightarrow> Inl e)"

section \<open>What a step leads to\<close>

text \<open>\<open>leads P m Q\<close>: from a state in \<open>P\<close> the step raises \<open>IntegrityError\<close> or ends in \<open>Q\<close>.\<close>

definition leads :: "(seed_session \<Rightarrow> bool) \<Rightarrow> 'a seeder \<Rightarrow> ('a \<Rightarrow> seed_session \<Rightarrow> bool) \<Rightarrow> bool" where
  "leads P m Q \<longleftrightarrow> (\<forall>s. P s \<longrightarrow> (case m s of (s', Inr x) \<Rightarrow> Q x s' | (_, Inl e) \<Rightarrow> e = IntegrityError))"

lemma leads_bnd: "leads P m R \<Longrightarrow> (\<And>x. leads (R x) (f x) Q) \<Longrightarrow> leads P (bnd m f) Q"
  unfolding leads_def bnd_def by (fastforce split: prod.splits sum.splits)

lemmas leads_keep = leads_bnd [where R = "\<lambda>_. P" and Q = "\<lambda>_. P" and P = P for P]

lemma leads_ret: "(\<And>s. P s \<Longrightarrow> Q x s) \<Longrightarrow> leads P (ret x) Q"
  by (simp add: leads_def)

lemma leads_scalar: "(\<And>s. P s \<Longrightarrow> Q (f (ss_db s)) s) \<Longrightarrow> leads P (scalar f) Q"
  by (simp add: leads_def scalar_def)

lemma leads_add: "(\<And>s. P s \<Longrightarrow> Q () (s\<lparr> ss_pending := ss_pending s @ [op] \<rparr>)) \<Longrightarrow> leads P (add_later op) Q"
  by (simp add: leads_def add_later_def)

lemma leads_flush:
  "(\<And>s. P s \<Longrightarrow> case written (ss_pending s) (ss_db s) of Inr d \<Rightarrow> Q () \<lparr> ss_db = d, ss_pending = [] \<rparr> | Inl e \<Rightarrow> e = IntegrityError)
     \<Longrightarrow> leads P flush Q"
  by (fastforce simp: leads_def flush_def split: sum.splits)

lemma leads_ensure:
  "(\<And>s. P s \<Longrightarrow> P (s\<lparr> ss_pending := ss_pending s @ [op] \<rparr>)) \<Longrightarrow> leads P (ensure found op) (\<lambda>_. P)"
  by (auto simp: leads_def ensure_def scalar_def add_later_def)

lemma leads_each: "(\<And>x. x \<in> set xs \<Longrightarrow> leads P (f x) (\<lambda>_. P)) \<Longrightarrow> leads P (each f xs) (\<lambda>_. P)"
  by (induction xs) (auto intro: leads_ret leads_bnd)

lemma leads_ensure_all:
  "(\<And>s op. op \<in> set ops \<Longrightarrow> P s \<Longrightarrow> P (s\<lparr> ss_pending := ss_pending s @ [op] \<rparr>)) \<Longrightarrow> leads P (ensure_all found ops) (\<lambda>_. P)"
  unfolding ensure_all_def
  by (rule leads_bnd, rule leads_scalar [where Q = "\<lambda>_. P"]) (auto intro!: leads_ret leads_each leads_add)

lemma written_append: "written (xs @ ys) d = bindr (written xs d) (written ys)"
  by (induction xs arbitrary: d) (auto simp: bindr_def split: sum.splits)

section \<open>Harmless operations\<close>

text \<open>All but four of the operations leave merchants and wallets alone, keep the roles, and add no user
  with the address of the owner.\<close>

definition owners :: "db \<Rightarrow> user_row set" where
  "owners d = {u \<in> set (db_users d). us_email u = MERCHANT_OWNER_EMAIL}"

definition beside :: "db \<Rightarrow> db \<Rightarrow> bool" where
  "beside d d' \<longleftrightarrow> db_merchants d' = db_merchants d \<and> db_wallets d' = db_wallets d \<and> owners d' = owners d
     \<and> ro_name ` set (db_roles d) \<subseteq> ro_name ` set (db_roles d')"

definition harmless :: "(db \<Rightarrow> db res) \<Rightarrow> bool" where
  "harmless op \<longleftrightarrow> (\<forall>d. case op d of Inr d' \<Rightarrow> beside d d' | Inl e \<Rightarrow> e = IntegrityError)"

lemma harmless_put_site: "(\<And>s e. f s = Inl e \<Longrightarrow> e = IntegrityError) \<Longrightarrow> harmless (put_site f)"
  by (auto simp: harmless_def beside_def put_site_def bindr_def owners_def split: sum.splits)

lemma insert_row_error: "insert_row clash x rows = Inl e \<Longrightarrow> e = IntegrityError"
  by (auto simp: insert_row_def split: if_splits)

lemma harmless_site:
  "harmless (put_site (put_method a))" "harmless (put_site (put_country b))" "harmless (put_site (put_currency c))"
  "harmless (put_site (put_language f))" "harmless (put_site (put_exchange g))" "harmless (put_site (put_crypto_wallet h))"
  "harmless (put_site (put_service i))" "harmless (put_site (put_project j))" "harmless (put_site (put_faq k))"
  "harmless (put_site (put_testimonial l))"
  by (rule harmless_put_site;
      auto simp: put_method_def put_country_def put_currency_def put_language_def put_exchange_def put_crypto_wallet_def
        put_service_def put_project_def put_faq_def put_testimonial_def bindr_Inl_iff dest: insert_row_error)+

lemma harmless_rows:
  "harmless (put_role r)" "harmless (put_gateway g)" "us_email u \<noteq> MERCHANT_OWNER_EMAIL \<Longrightarrow> harmless (put_user u)"
  by (auto simp: harmless_def beside_def put_role_def put_gateway_def put_user_def bindr_def repo_add_def owners_def
      split: sum.splits if_splits dest: insert_row_error)

lemma beside_trans: "beside a b \<Longrightarrow> beside b c \<Longrightarrow> beside a c"
  unfolding beside_def by (elim conjE) (intro conjI; (erule (1) subset_trans | simp))

lemma written_beside:
  "\<forall>op \<in> set ops. harmless op \<Longrightarrow> case written ops d of Inr d' \<Rightarrow> beside d d' | Inl e \<Rightarrow> e = IntegrityError"
proof (induction ops arbitrary: d)
  case (Cons op ops)
  then have o: "harmless op" and IH: "\<And>d. case written ops d of Inr d' \<Rightarrow> beside d d' | Inl e \<Rightarrow> e = IntegrityError" by simp_all
  show ?case
  proof (cases "op d")
    case (Inl e)
    then show ?thesis using o by (auto simp: harmless_def split: sum.splits dest: spec [of _ d])
  next
    case (Inr d1)
    then have "beside d d1" using o by (auto simp: harmless_def split: sum.splits dest: spec [of _ d])
    then show ?thesis using IH [of d1] beside_trans by (auto simp: Inr split: sum.splits)
  qed
qed (simp add: beside_def)

section \<open>The script on a fresh database\<close>

definition fresh :: "db \<Rightarrow> bool" where
  \<comment> \<open>neither the owner's account nor a profile of the company; every wallet belongs to a merchant\<close>
  "fresh d \<longleftrightarrow> owners d = {} \<and> (\<forall>m \<in> set (db_merchants d). me_company_name m \<noteq> BONYAN_COMPANY)
     \<and> wa_merchant_id ` set (db_wallets d) \<subseteq> me_id ` set (db_merchants d)"

definition starting :: "db \<Rightarrow> seed_session \<Rightarrow> bool" where
  "starting d s \<longleftrightarrow> beside d (ss_db s) \<and> (\<forall>op \<in> set (ss_pending s). harmless op)"

lemma starting_add: "harmless op \<Longrightarrow> starting d s \<Longrightarrow> starting d (s\<lparr> ss_pending := ss_pending s @ [op] \<rparr>)"
  by (auto simp: starting_def)

lemma starting_written:
  assumes "starting d s" "written (ss_pending s) (ss_db s) = Inr d'"
  shows "beside d d'"
  using assms written_beside [of "ss_pending s" "ss_db s"] beside_trans by (auto simp: starting_def)

lemma starting_error: "starting d s \<Longrightarrow> written (ss_pending s) (ss_db s) = Inl e \<Longrightarrow> e = IntegrityError"
  using written_beside [of "ss_pending s" "ss_db s"] by (auto simp: starting_def)

definition staffed :: "db \<Rightarrow> bool" where
  "staffed d \<longleftrightarrow> user_role_value MERCHANT_OWNER \<in> ro_name ` set (db_roles d)"

lemma staffed_beside: "beside d d' \<Longrightarrow> staffed d \<Longrightarrow> staffed d'"
  unfolding beside_def staffed_def by blast

definition hiring :: "db \<Rightarrow> seed_session \<Rightarrow> bool" where
  \<comment> \<open>the owner's role is there, or about to be written\<close>
  "hiring d s \<longleftrightarrow> starting d s \<and> (staffed (ss_db s) \<or>
     (\<exists>x. put_role x \<in> set (ss_pending s) \<and> ro_name x = user_role_value MERCHANT_OWNER))"

lemma hired:
  assumes "hiring d s" "written (ss_pending s) (ss_db s) = Inr d'"
  shows "beside d d' \<and> staffed d'"
proof -
  have h: "\<forall>op \<in> set (ss_pending s). harmless op" using assms(1) by (simp add: hiring_def starting_def)
  have b: "beside e e'" if "set ops \<subseteq> set (ss_pending s)" "written ops e = Inr e'" for ops e e'
    using written_beside [of ops e] that h by auto
  have "staffed d'"
  proof (cases "staffed (ss_db s)")
    case True
    then show ?thesis using b [OF order_refl assms(2)] staffed_beside by blast
  next
    case False
    then obtain x xs ys where p: "ss_pending s = xs @ put_role x # ys" and x: "ro_name x = user_role_value MERCHANT_OWNER"
      using assms(1) by (auto simp: hiring_def dest: split_list)
    then obtain d1 d2 where d2: "put_role x d1 = Inr d2" "written ys d2 = Inr d'"
      using assms(2) by (auto simp: written_append bindr_Inr_iff)
    then have "staffed d2" using x by (auto simp: put_role_def bindr_Inr_iff repo_add_def staffed_def split: if_splits)
    then show ?thesis using b [of ys d2 d'] d2(2) p staffed_beside by auto
  qed
  then show ?thesis using starting_written [OF _ assms(2)] assms(1) by (simp add: hiring_def)
qed

lemma leads_roles: "leads (starting d) (each (seed_role dr) SEED_ROLES) (\<lambda>_. hiring d)"
proof -
  have keep: "leads P (seed_role dr x) (\<lambda>_. P)" if "\<And>op s. harmless op \<Longrightarrow> P s \<Longrightarrow> P (s\<lparr> ss_pending := ss_pending s @ [op] \<rparr>)" for P x
    by (cases x) (auto simp: seed_role_def intro!: leads_ensure that harmless_rows)
  have h: "hiring d (s\<lparr> ss_pending := ss_pending s @ [op] \<rparr>)" if "harmless op" "hiring d s" for op s
    using that by (auto simp: hiring_def starting_add)
  have found: "list_ex (\<lambda>r. ro_name r = user_role_value MERCHANT_OWNER) (db_roles e) \<longleftrightarrow> staffed e" for e
    by (auto simp: staffed_def list_ex_iff image_iff intro: sym)
  have add: "hiring d (s\<lparr> ss_pending := ss_pending s @ [put_role x] \<rparr>)"
    if "starting d s" "ro_name x = user_role_value MERCHANT_OWNER" for s x
    using that starting_add [OF harmless_rows(1) that(1), of x] unfolding hiring_def by (intro conjI disjI2 exI [of _ x]) simp_all
  have role: "leads (\<lambda>s. starting d s \<and> (b \<longrightarrow> staffed (ss_db s))) (if b then ret () else add_later (put_role x)) (\<lambda>_. hiring d)"
    if n: "ro_name x = user_role_value MERCHANT_OWNER" for b x
  proof (cases b)
    case True
    show ?thesis using True by simp (rule leads_ret, simp add: hiring_def)
  next
    case False
    show ?thesis using False by simp (rule leads_add, rule add [OF _ n])
  qed
  have "leads (starting d) (seed_role dr (2, MERCHANT_OWNER, ''Merchant owner'')) (\<lambda>_. hiring d)"
    unfolding seed_role_def prod.case ensure_def found
    by (rule leads_bnd, rule leads_scalar [where Q = "\<lambda>b s. starting d s \<and> (b \<longrightarrow> staffed (ss_db s))"], simp, rule role) simp
  moreover have "leads (starting d) (seed_role dr x) (\<lambda>_. starting d)" "leads (hiring d) (seed_role dr x) (\<lambda>_. hiring d)" for x
    by (rule keep, erule (1) starting_add h)+
  ultimately show ?thesis
    unfolding SEED_ROLES_def each.simps by (intro leads_bnd [where R = "\<lambda>_. starting d"] leads_bnd leads_ret)
qed

definition open_shop :: "db \<Rightarrow> seed_session \<Rightarrow> bool" where
  "open_shop d s \<longleftrightarrow> starting d s \<and> staffed (ss_db s)"

lemma open_shop_add: "harmless op \<Longrightarrow> open_shop d s \<Longrightarrow> open_shop d (s\<lparr> ss_pending := ss_pending s @ [op] \<rparr>)"
  by (simp add: open_shop_def starting_add)

lemma leads_hired: "leads (hiring d) flush (\<lambda>_. open_shop d)"
proof (rule leads_flush)
  fix s
  assume h: "hiring d s"
  show "case written (ss_pending s) (ss_db s) of Inr d' \<Rightarrow> open_shop d \<lparr> ss_db = d', ss_pending = [] \<rparr> | Inl e \<Rightarrow> e = IntegrityError"
  proof (cases "written (ss_pending s) (ss_db s)")
    case (Inl e)
    then show ?thesis using starting_error [of d s e] h by (simp add: hiring_def)
  next
    case (Inr d')
    then show ?thesis using hired [OF h Inr] by (simp add: open_shop_def starting_def)
  qed
qed

lemma leads_beside:
  "leads (open_shop d) (each (seed_gateway dr) SEED_GATEWAYS) (\<lambda>_. open_shop d)"
  "leads (open_shop d) seed_reference (\<lambda>_. open_shop d)"
  "leads (open_shop d) (seed_admin lib dr) (\<lambda>_. open_shop d)"
proof -
  show "leads (open_shop d) (each (seed_gateway dr) SEED_GATEWAYS) (\<lambda>_. open_shop d)"
    by (auto simp: seed_gateway_def intro!: leads_each leads_ensure open_shop_add harmless_rows)
  show "leads (open_shop d) seed_reference (\<lambda>_. open_shop d)"
    unfolding seed_reference_def
    by (intro leads_keep leads_each) (auto intro!: leads_ensure open_shop_add harmless_site)
  have e: "us_email (seed_admin_user lib dr role) \<noteq> MERCHANT_OWNER_EMAIL" for role
    by (simp add: seed_admin_user_def MERCHANT_OWNER_EMAIL_def)
  show "leads (open_shop d) (seed_admin lib dr) (\<lambda>_. open_shop d)"
    unfolding seed_admin_def
    by (rule leads_bnd, rule leads_scalar [where Q = "\<lambda>_. open_shop d"], assumption, rule leads_bnd,
        rule leads_scalar [where Q = "\<lambda>_. open_shop d"], assumption)
      (auto intro!: leads_ret leads_add open_shop_add harmless_rows e split: option.split)
qed

definition founded :: "draws \<Rightarrow> seed_session \<Rightarrow> bool" where
  \<comment> \<open>the new profile is written, its wallet is pending\<close>
  "founded dr s \<longleftrightarrow> ss_pending s = [put_wallet (bonyan_wallet dr 11 (dr_uuid dr 10))]
     \<and> find (\<lambda>m. me_company_name m = BONYAN_COMPANY) (db_merchants (ss_db s)) = Some (seed_profile dr)
     \<and> first_primary (dr_uuid dr 10) (ss_db s) = None"

lemma find_last: "\<forall>x \<in> set xs. \<not> P x \<Longrightarrow> P y \<Longrightarrow> find P (xs @ [y]) = Some y"
  by (induction xs) auto

lemma leads_merchant:
  assumes f: "fresh d"
  shows "leads (open_shop d) (seed_merchant lib dr) (\<lambda>_. founded dr)"
proof -
  define same where "same s \<longleftrightarrow> db_merchants (ss_db s) = db_merchants d \<and> db_wallets (ss_db s) = db_wallets d" for s :: seed_session
  have "leads (\<lambda>s. open_shop d s) (scalar (find_role MERCHANT_OWNER)) (\<lambda>r s. open_shop d s \<and> r \<noteq> None)"
    by (rule leads_scalar) (auto simp: open_shop_def staffed_def find_role_def find_None_iff)
  moreover have "leads (\<lambda>s. open_shop d s \<and> r \<noteq> None) (scalar (find_user MERCHANT_OWNER_EMAIL)) (\<lambda>u s. open_shop d s \<and> r \<noteq> None \<and> u = None)" for r
    by (rule leads_scalar) (use f in \<open>auto simp: open_shop_def starting_def beside_def fresh_def owners_def find_user_def find_None_iff\<close>)
  moreover have "leads (\<lambda>s. open_shop d s \<and> r \<noteq> None \<and> u = None)
      (case (r, u) of (Some role, None) \<Rightarrow>
         bnd (add_later (put_user (seed_owner_user lib dr role))) (\<lambda>_. bnd flush (\<lambda>_.
         bnd (add_later (put_merchant (seed_profile dr))) (\<lambda>_. bnd flush (\<lambda>_.
         add_later (put_wallet (bonyan_wallet dr 11 (dr_uuid dr 10)))))))
       | _ \<Rightarrow> ret ()) (\<lambda>_. founded dr)" (is "leads _ ?m _") for r u
  proof (cases "r \<noteq> None \<and> u = None")
    case True
    then obtain role where r: "r = Some role" "u = None" by auto
    let ?u = "put_user (seed_owner_user lib dr role)"
    have 1: "leads (open_shop d) (add_later ?u) (\<lambda>_ s. \<exists>ops. ss_pending s = ops @ [?u] \<and> open_shop d (s\<lparr> ss_pending := ops \<rparr>))"
      by (rule leads_add) simp
    have 2: "leads (\<lambda>s. \<exists>ops. ss_pending s = ops @ [?u] \<and> open_shop d (s\<lparr> ss_pending := ops \<rparr>)) flush (\<lambda>_ s. same s \<and> ss_pending s = [])"
    proof (rule leads_flush, elim exE conjE)
      fix s ops
      assume p: "ss_pending s = ops @ [?u]" and "open_shop d (s\<lparr> ss_pending := ops \<rparr>)"
      then have st: "starting d (s\<lparr> ss_pending := ops \<rparr>)" by (simp add: open_shop_def)
      show "case written (ss_pending s) (ss_db s) of
          Inr d' \<Rightarrow> same \<lparr> ss_db = d', ss_pending = [] \<rparr> \<and> ss_pending \<lparr> ss_db = d', ss_pending = [] \<rparr> = []
        | Inl e \<Rightarrow> e = IntegrityError"
      proof (cases "written ops (ss_db s)")
        case (Inl e)
        then show ?thesis using starting_error [OF st] by (simp add: p written_append)
      next
        case (Inr d1)
        then have "beside d d1" using starting_written [OF st] by simp
        then show ?thesis
          by (auto simp: p written_append Inr put_user_def bindr_def repo_add_def beside_def same_def split: sum.splits)
      qed
    qed
    have 3: "leads (\<lambda>s. same s \<and> ss_pending s = []) (add_later (put_merchant (seed_profile dr)))
        (\<lambda>_ s. same s \<and> ss_pending s = [put_merchant (seed_profile dr)])"
      by (rule leads_add) (simp add: same_def)
    have 4: "leads (\<lambda>s. same s \<and> ss_pending s = [put_merchant (seed_profile dr)]) flush
        (\<lambda>_ s. founded dr (s\<lparr> ss_pending := [put_wallet (bonyan_wallet dr 11 (dr_uuid dr 10))] \<rparr>) \<and> ss_pending s = [])"
    proof (rule leads_flush, elim conjE)
      fix s
      assume s: "same s" "ss_pending s = [put_merchant (seed_profile dr)]"
      have i: "me_id (seed_profile dr) = dr_uuid dr 10" "me_company_name (seed_profile dr) = BONYAN_COMPANY"
        by (simp_all add: seed_profile_def)
      have "first_primary (dr_uuid dr 10) (d'\<lparr> db_merchants := rows \<rparr>) = None"
        if "db_wallets d' = db_wallets d" "\<forall>m \<in> set (db_merchants d). me_id m \<noteq> dr_uuid dr 10" for d' rows
        using f that by (force simp: first_primary_def find_None_iff fresh_def)
      moreover have "find (\<lambda>m. me_company_name m = BONYAN_COMPANY) (db_merchants d @ [seed_profile dr]) = Some (seed_profile dr)"
        by (rule find_last) (use f i in \<open>auto simp: fresh_def\<close>)
      ultimately show "case written (ss_pending s) (ss_db s) of
          Inr d' \<Rightarrow> founded dr (\<lparr> ss_db = d', ss_pending = [] \<rparr>\<lparr> ss_pending := [put_wallet (bonyan_wallet dr 11 (dr_uuid dr 10))] \<rparr>)
            \<and> ss_pending \<lparr> ss_db = d', ss_pending = [] \<rparr> = []
        | Inl e \<Rightarrow> e = IntegrityError"
        using s by (auto simp: put_merchant_def bindr_def repo_add_def list_ex_iff i founded_def same_def split: sum.splits if_splits)
    qed
    have 5: "leads (\<lambda>s. founded dr (s\<lparr> ss_pending := [put_wallet (bonyan_wallet dr 11 (dr_uuid dr 10))] \<rparr>) \<and> ss_pending s = [])
        (add_later (put_wallet (bonyan_wallet dr 11 (dr_uuid dr 10)))) (\<lambda>_. founded dr)"
      by (rule leads_add) simp
    show ?thesis
      using leads_bnd [OF 1 leads_bnd [OF 2 leads_bnd [OF 3 leads_bnd [OF 4 5]]]] by (simp add: r)
  qed (auto simp: leads_def)
  ultimately show ?thesis unfolding seed_merchant_def by (intro leads_bnd)
qed

definition doomed :: "draws \<Rightarrow> seed_session \<Rightarrow> bool" where
  \<comment> \<open>the same wallet is pending twice\<close>
  "doomed dr s \<longleftrightarrow> (\<exists>ops. ss_pending s = [put_wallet (bonyan_wallet dr 11 (dr_uuid dr 10)),
     set_merchant (synced_profile (seed_profile dr)), put_wallet (bonyan_wallet dr 12 (dr_uuid dr 10))] @ ops)"

lemma doomed_add: "doomed dr s \<Longrightarrow> doomed dr (s\<lparr> ss_pending := ss_pending s @ [op] \<rparr>)"
  by (auto simp: doomed_def)

lemma leads_sync: "leads (founded dr) (sync_bonyan_merchant dr) (\<lambda>_. doomed dr)"
proof -
  have p: "bonyan_profile (ss_db s) = Some (seed_profile dr)" if "founded dr s" for s
    using that by (simp add: founded_def bonyan_profile_def)
  have i: "me_id (seed_profile dr) = dr_uuid dr 10" by (simp add: seed_profile_def)
  show ?thesis
    by (auto simp: leads_def sync_bonyan_merchant_def scalar_def add_later_def p i) (auto simp: founded_def doomed_def)
qed

lemma leads_website: "leads (doomed dr) (seed_website dr) (\<lambda>_. doomed dr)"
  unfolding seed_website_def by (intro leads_keep leads_ensure_all leads_ensure doomed_add)

lemma doomed_flush: "leads (doomed dr) flush (\<lambda>_ _. False)"
proof (rule leads_flush)
  fix s
  assume "doomed dr s"
  then obtain ops where p: "ss_pending s = [put_wallet (bonyan_wallet dr 11 (dr_uuid dr 10)),
     set_merchant (synced_profile (seed_profile dr)), put_wallet (bonyan_wallet dr 12 (dr_uuid dr 10))] @ ops"
    by (auto simp: doomed_def)
  have k: "wa_merchant_id (bonyan_wallet dr n m) = m" "wa_wallet_address (bonyan_wallet dr n m) = BONYAN_WALLET_TRC20"
      "wa_wallet_network (bonyan_wallet dr n m) = ''trc20''" for n m
    by (simp_all add: bonyan_wallet_def)
  show "case written (ss_pending s) (ss_db s) of Inr d \<Rightarrow> False | Inl e \<Rightarrow> e = IntegrityError"
    by (simp add: p put_wallet_def set_merchant_def bindr_def repo_add_def wallet_constraints_def k split: sum.splits)
qed

section \<open>Property\<close>

text \<open>C11. On a database that knows neither the owner's account nor the company (an empty one above all) the
  seed never completes: the wallet it adds is still pending when \<open>_sync_bonyan_merchant\<close> looks for it, so it
  is added a second time, the unique constraint refuses it, and everything is rolled back. The start
  script stops there.\<close>

theorem seed_fails_when_fresh:
  assumes "fresh d"
  shows "run_seed lib dr d = Inl IntegrityError"
proof -
  have "leads (starting d) (seed lib dr) (\<lambda>_ _. False)"
    unfolding seed_def
    by (rule leads_bnd [OF leads_roles leads_bnd [OF leads_hired leads_bnd [OF leads_beside(1) leads_bnd [OF leads_beside(2)
        leads_bnd [OF leads_beside(3) leads_bnd [OF leads_merchant [OF assms] leads_bnd [OF leads_sync leads_bnd [OF leads_website doomed_flush]]]]]]]])
  moreover have "starting d \<lparr> ss_db = d, ss_pending = [] \<rparr>" by (simp add: starting_def beside_def)
  ultimately show ?thesis by (auto simp: leads_def run_seed_def split: prod.splits sum.splits)
qed

theorem seed_fails_when_fresh_witness:
  "\<forall>lib dr. run_seed lib dr empty_db = Inl IntegrityError"
  by (intro allI seed_fails_when_fresh) (simp add: fresh_def owners_def empty_db_def)

end
