(* ===== verification/Website.thy ===== *)
theory Website
  imports Upkeep
begin

text \<open>
  The public website: the repositories of \<open>src/app/repositories/website.py\<close>, \<open>WebsiteService\<close> of
  \<open>src/app/services/website_service.py\<close>, the schemas of \<open>src/app/schemas/website.py\<close> and the routes of
  \<open>src/app/api/v1/routes/website.py\<close>.

  Draw \<open>dr_uuid\<close> 0 is the identifier of the new row. An email has passed \<open>EmailStr\<close>, which also keeps it
  within its column. A JSON column that holds \<open>NULL\<close> reads as the empty list.
\<close>

section \<open>Responses and requests\<close>

record service_out =
  so_id :: uuid
  so_slug :: string
  so_title :: string
  so_summary :: string
  so_description :: string
  so_icon :: string
  so_features :: "json list"
  so_image_url :: string

record project_out =
  po_id :: uuid
  po_slug :: string
  po_title :: string
  po_category :: string
  po_summary :: string
  po_description :: string
  po_location :: string
  po_year :: string
  po_image_url :: string
  po_tags :: "json list"

record faq_out =
  fo_id :: uuid
  fo_question :: string
  fo_answer :: string
  fo_category :: string

record testimonial_out =
  to_id :: uuid
  to_name :: string
  to_role :: string
  to_company :: string
  to_quote :: string
  to_rating :: int
  to_avatar_url :: "string option"

record contact_create =
  cc_full_name :: string
  cc_email :: string
  cc_phone :: string
  cc_company :: string
  cc_subject :: string
  cc_message :: string

definition contact_fields :: "contact_create \<Rightarrow> bool" where
  "contact_fields p \<longleftrightarrow>
     2 \<le> py_len (cc_full_name p) \<and> py_len (cc_full_name p) \<le> 255 \<and> 8 \<le> py_len (cc_phone p) \<and> py_len (cc_phone p) \<le> 32
     \<and> 2 \<le> py_len (cc_company p) \<and> py_len (cc_company p) \<le> 255 \<and> 3 \<le> py_len (cc_subject p) \<and> py_len (cc_subject p) \<le> 255
     \<and> 20 \<le> py_len (cc_message p)"

section \<open>The repositories\<close>

definition services_published :: "db \<Rightarrow> website_service list" where
  "services_published d = sort_key ws_sort_order (filter ws_is_published (base_query ws_deleted_at (site_services (db_site d))))"

definition projects_published :: "db \<Rightarrow> string option \<Rightarrow> website_project list" where
  "projects_published d category =
     (let published = filter wp_is_published (base_query wp_deleted_at (site_projects (db_site d)));
          chosen = (if truthy category \<and> category \<noteq> Some ''All''
            then filter (\<lambda>x. Some (wp_category x) = category) published else published)
      in sort_key (\<lambda>x. - wp_created_at x) chosen)"

definition faqs_published :: "db \<Rightarrow> faq list" where
  "faqs_published d = sort_key fq_sort_order (filter fq_is_published (base_query fq_deleted_at (site_faqs (db_site d))))"

definition testimonials_published :: "db \<Rightarrow> testimonial list" where
  "testimonials_published d = filter tm_is_published (base_query tm_deleted_at (site_testimonials (db_site d)))"

definition on_site :: "(site \<Rightarrow> site) \<Rightarrow> unit handler" where
  "on_site f = on_db (\<lambda>d. d\<lparr> db_site := f (db_site d) \<rparr>)"

definition contact_add :: "contact_message \<Rightarrow> contact_message handler" where
  "contact_add x =
     bnd (ask_db (\<lambda>d. repo_add cm_id (\<lambda>_ _. True) x (site_contacts (db_site d)))) (\<lambda>rows.
     bnd (on_site (\<lambda>s. s\<lparr> site_contacts := rows \<rparr>)) (\<lambda>_. ret x))"

definition newsletter_get_by_email :: "db \<Rightarrow> string \<Rightarrow> newsletter_subscriber option res" where
  "newsletter_get_by_email d email =
     find_one (\<lambda>x. nl_email x = lower email \<and> nl_deleted_at x = None) (site_newsletter (db_site d))"

definition newsletter_subscribe :: "draws \<Rightarrow> string \<Rightarrow> newsletter_subscriber handler" where
  "newsletter_subscribe dr email =
     bnd (ask_db (\<lambda>d. newsletter_get_by_email d email)) (\<lambda>existing.
     case existing of
       Some x \<Rightarrow>
         (let x = x\<lparr> nl_is_active := True \<rparr> in
          bnd (on_site (\<lambda>s. s\<lparr> site_newsletter := repo_update nl_id x (site_newsletter s) \<rparr>)) (\<lambda>_. ret x))
     | None \<Rightarrow>
         (let x = \<lparr> nl_id = dr_uuid dr 0, nl_email = lower email, nl_is_active = True, nl_subscribed_at = dr_now dr,
                    nl_deleted_at = None \<rparr> in
          bnd (ask_db (\<lambda>d. repo_add nl_id newsletter_constraints x (site_newsletter (db_site d)))) (\<lambda>rows.
          bnd (on_site (\<lambda>s. s\<lparr> site_newsletter := rows \<rparr>)) (\<lambda>_. ret x))))"

section \<open>The service\<close>

definition service_out_of :: "website_service \<Rightarrow> service_out" where
  "service_out_of x =
     \<lparr> so_id = ws_id x, so_slug = ws_slug x, so_title = ws_title x, so_summary = ws_summary x,
       so_description = ws_description x, so_icon = ws_icon x, so_features = ws_features x, so_image_url = ws_image_url x \<rparr>"

definition project_out_of :: "website_project \<Rightarrow> project_out" where
  "project_out_of x =
     \<lparr> po_id = wp_id x, po_slug = wp_slug x, po_title = wp_title x, po_category = wp_category x, po_summary = wp_summary x,
       po_description = wp_description x, po_location = wp_location x, po_year = wp_year x, po_image_url = wp_image_url x,
       po_tags = wp_tags x \<rparr>"

definition faq_out_of :: "faq \<Rightarrow> faq_out" where
  "faq_out_of x = \<lparr> fo_id = fq_id x, fo_question = fq_question x, fo_answer = fq_answer x, fo_category = fq_category x \<rparr>"

definition testimonial_out_of :: "testimonial \<Rightarrow> testimonial_out" where
  "testimonial_out_of x =
     \<lparr> to_id = tm_id x, to_name = tm_name x, to_role = tm_role x, to_company = tm_company x, to_quote = tm_quote x,
       to_rating = tm_rating x, to_avatar_url = tm_avatar_url x \<rparr>"

definition list_services :: "service_out list handler" where
  "list_services = gets (\<lambda>w. map service_out_of (services_published (w_db w)))"

definition list_projects :: "string option \<Rightarrow> project_out list handler" where
  "list_projects category = gets (\<lambda>w. map project_out_of (projects_published (w_db w) category))"

definition list_faqs :: "faq_out list handler" where
  "list_faqs = gets (\<lambda>w. map faq_out_of (faqs_published (w_db w)))"

definition list_testimonials :: "testimonial_out list handler" where
  "list_testimonials = gets (\<lambda>w. map testimonial_out_of (testimonials_published (w_db w)))"

definition submit_contact :: "draws \<Rightarrow> contact_create \<Rightarrow> string handler" where
  \<comment> \<open>the ticket identifier\<close>
  "submit_contact dr p =
     bnd (contact_add
       \<lparr> cm_id = dr_uuid dr 0, cm_full_name = cc_full_name p, cm_email = lower (cc_email p), cm_phone = cc_phone p,
         cm_company = cc_company p, cm_subject = cc_subject p, cm_message = cc_message p, cm_status = ''new'' \<rparr>) (\<lambda>x.
     ret (cm_id x))"

definition subscribe :: "draws \<Rightarrow> string \<Rightarrow> bool handler" where
  "subscribe dr email = bnd (newsletter_subscribe dr email) (\<lambda>_. ret True)"

section \<open>The routes\<close>

datatype website_call =
    List_Services
  | List_Projects "string option"
  | List_Faqs
  | List_Testimonials
  | Submit_Contact contact_create
  | Subscribe string

fun serve_website :: "draws \<Rightarrow> website_call \<Rightarrow> world \<Rightarrow> world" where
  "serve_website dr List_Services w = fst (run_request list_services w)"
| "serve_website dr (List_Projects category) w = fst (run_request (list_projects category) w)"
| "serve_website dr List_Faqs w = fst (run_request list_faqs w)"
| "serve_website dr List_Testimonials w = fst (run_request list_testimonials w)"
| "serve_website dr (Submit_Contact p) w = fst (run_request (submit_contact dr p) w)"
| "serve_website dr (Subscribe email) w = fst (run_request (subscribe dr email) w)"

section \<open>The newsletter\<close>

definition newsletter_ok :: "db \<Rightarrow> bool" where
  "newsletter_ok d \<longleftrightarrow> distinct (map nl_id (site_newsletter (db_site d))) \<and> distinct (map nl_email (site_newsletter (db_site d)))"

definition subscribed :: "string \<Rightarrow> db \<Rightarrow> bool" where
  "subscribed email d \<longleftrightarrow> (\<exists>x \<in> set (site_newsletter (db_site d)). nl_email x = lower email \<and> nl_is_active x \<and> nl_deleted_at x = None)"

definition news_grow :: "db \<Rightarrow> db \<Rightarrow> bool" where
  \<comment> \<open>no subscriber is lost or unsubscribed, no message is lost\<close>
  "news_grow d d' \<longleftrightarrow> (\<forall>email. subscribed email d \<longrightarrow> subscribed email d')
     \<and> set (site_contacts (db_site d)) \<subseteq> set (site_contacts (db_site d'))"

lemma news_grow_trans: "news_grow a b \<Longrightarrow> news_grow b c \<Longrightarrow> news_grow a c"
  by (auto simp: news_grow_def)

interpretation news: upkeep newsletter_ok news_grow
  by unfold_locales (simp add: news_grow_def, erule news_grow_trans)

lemma news_subscribe:
  "triple newsletter_ok news_grow p (newsletter_subscribe dr email) (\<lambda>_ d. subscribed email d) (\<lambda>_. True)"
  unfolding newsletter_subscribe_def
proof (rule news.triple_steps, rule TrueI)
  fix found
  let ?new = "\<lparr> nl_id = dr_uuid dr 0, nl_email = lower email, nl_is_active = True, nl_subscribed_at = dr_now dr, nl_deleted_at = None \<rparr>"
  let ?find = "\<lambda>d. p d \<and> newsletter_get_by_email d email = Inr found"
  have put: "triple newsletter_ok news_grow ?find (on_site (\<lambda>s. s\<lparr> site_newsletter := repo_update nl_id (x\<lparr> nl_is_active := True \<rparr>) (site_newsletter s) \<rparr>))
      (\<lambda>_ d. subscribed email d) (\<lambda>_. True)" if found: "found = Some x" for x
    unfolding on_site_def
  proof (rule news.triple_on_db)
    fix d :: db
    let ?x = "x\<lparr> nl_is_active := True \<rparr>"
    let ?rows = "repo_update nl_id ?x (site_newsletter (db_site d))"
    let ?d = "d\<lparr> db_site := (db_site d)\<lparr> site_newsletter := ?rows \<rparr> \<rparr>"
    assume ok: "newsletter_ok d" and "?find d"
    then have x: "x \<in> set (site_newsletter (db_site d))" "nl_email x = lower email" "nl_deleted_at x = None"
      by (auto simp: newsletter_get_by_email_def found dest: find_one_Some)
    have dis: "distinct (map nl_id (site_newsletter (db_site d)))" using ok by (simp add: newsletter_ok_def)
    have "newsletter_ok ?d"
      using ok update_maps [OF dis x(1), of ?x nl_id] update_maps [OF dis x(1), of ?x nl_email] by (simp add: newsletter_ok_def)
    moreover have new: "?x \<in> set ?rows" using x(1) by (force simp: repo_update_def)
    moreover have "subscribed e ?d" if "subscribed e d" for e
    proof -
      obtain y where y: "y \<in> set (site_newsletter (db_site d))" "nl_email y = lower e" "nl_is_active y" "nl_deleted_at y = None"
        using \<open>subscribed e d\<close> by (auto simp: subscribed_def)
      show ?thesis
      proof (cases "nl_id y = nl_id x")
        case True
        then have "y = x" using same_key [OF dis y(1) x(1)] by simp
        then show ?thesis unfolding subscribed_def using y new by (intro bexI [of _ ?x]) simp_all
      next
        case False
        then have "y \<in> set ?rows" using y(1) by (force simp: repo_update_def)
        then show ?thesis using y by (auto simp: subscribed_def)
      qed
    qed
    moreover have "subscribed email ?d" unfolding subscribed_def using x new by (intro bexI [of _ ?x]) simp_all
    ultimately show "newsletter_ok ?d \<and> news_grow d ?d \<and> subscribed email ?d" by (simp add: news_grow_def)
  qed
  have add: "triple newsletter_ok news_grow (\<lambda>d. ?find d \<and> repo_add nl_id newsletter_constraints ?new (site_newsletter (db_site d)) = Inr rows)
      (on_site (\<lambda>s. s\<lparr> site_newsletter := rows \<rparr>)) (\<lambda>_ d. subscribed email d) (\<lambda>_. True)" for rows
    unfolding on_site_def
    by (rule news.triple_on_db)
      (auto simp: repo_add_rows newsletter_constraints_def list_ex_iff newsletter_ok_def news_grow_def subscribed_def)
  show "triple newsletter_ok news_grow ?find
     (case found of
       None \<Rightarrow> (let x = ?new in
          bnd (ask_db (\<lambda>d. repo_add nl_id newsletter_constraints x (site_newsletter (db_site d)))) (\<lambda>rows.
          bnd (on_site (\<lambda>s. s\<lparr> site_newsletter := rows \<rparr>)) (\<lambda>_. ret x)))
     | Some x \<Rightarrow> (let x = x\<lparr> nl_is_active := True \<rparr> in
          bnd (on_site (\<lambda>s. s\<lparr> site_newsletter := repo_update nl_id x (site_newsletter s) \<rparr>)) (\<lambda>_. ret x)))
     (\<lambda>_ d. subscribed email d) (\<lambda>_. True)"
  proof (cases found)
    case None
    show ?thesis
      unfolding None option.case Let_def
      by (rule news.triple_steps, rule TrueI, rule news.triple_bnd, rule add [unfolded None]) (rule news.triple_ret)
  next
    case (Some x)
    show ?thesis
      unfolding Some option.case Let_def
      by (rule news.triple_bnd, rule put [OF Some, unfolded Some]) (rule news.triple_ret)
  qed
qed

lemma news_contact: "triple newsletter_ok news_grow p (submit_contact dr c) (\<lambda>_ _. True) (\<lambda>_. True)"
  unfolding submit_contact_def contact_add_def bnd_assoc on_site_def
  by (rule news.triple_steps, rule TrueI, rule news.triple_bnd, rule news.triple_on_db [where q = "\<lambda>_ _. True"],
      force simp: repo_add_rows newsletter_ok_def news_grow_def subscribed_def)
    (rule news.triple_ret [THEN news.triple_bnd], rule TrueI, rule news.triple_ret, rule TrueI)

lemma news_lists:
  "triple newsletter_ok news_grow p list_services (\<lambda>_ _. True) e"
  "triple newsletter_ok news_grow p (list_projects category) (\<lambda>_ _. True) e"
  "triple newsletter_ok news_grow p list_faqs (\<lambda>_ _. True) e"
  "triple newsletter_ok news_grow p list_testimonials (\<lambda>_ _. True) e"
  unfolding list_services_def list_projects_def list_faqs_def list_testimonials_def
  by (rule news.triple_reads, rule TrueI)+

text \<open>Every request keeps the newsletter: subscribers stay subscribed, addresses stay unique in whatever
  letter case they come, and no message is lost.\<close>

lemma serve_website_books:
  "settled newsletter_ok w \<Longrightarrow> settled newsletter_ok (serve_website dr c w) \<and> news_grow (w_db w) (w_db (serve_website dr c w))"
proof -
  have s: "triple newsletter_ok news_grow (\<lambda>_. True) (subscribe dr email) (\<lambda>_ _. True) (\<lambda>_. True)" for email
    unfolding subscribe_def by (rule news.triple_bnd, rule news_subscribe) (rule news.triple_ret, simp)
  show "settled newsletter_ok w \<Longrightarrow> ?thesis"
    by (cases c) (simp_all add: news.request_keeps s news_lists news_contact)
qed

lemma subscribe_result:
  assumes "settled newsletter_ok w" "run_request (subscribe dr email) w = (w', Inr x)"
  shows "subscribed email (w_db w')"
proof -
  have "triple newsletter_ok news_grow (\<lambda>_. True) (subscribe dr email) (\<lambda>_ d. subscribed email d) (\<lambda>_. True)"
    unfolding subscribe_def by (rule news.triple_bnd, rule news_subscribe) (rule news.triple_ret)
  then show ?thesis by (rule news.request_result(3) [OF _ assms])
qed

lemma one_of_key: "distinct (map f xs) \<Longrightarrow> k \<in> set (map f xs) \<Longrightarrow> length (filter (\<lambda>x. f x = k) xs) = 1"
proof (induction xs)
  case (Cons x xs)
  then show ?case by (cases "f x = k") (auto simp: filter_empty_conv image_iff)
qed simp

text \<open>Any sequence of requests to the website.\<close>

inductive website_run :: "world \<Rightarrow> world \<Rightarrow> bool" where
  website_start: "website_run w w"
| website_request: "website_run w w' \<Longrightarrow> website_run w (serve_website dr c w')"

lemma website_run_books:
  "website_run w w' \<Longrightarrow> settled newsletter_ok w \<Longrightarrow> settled newsletter_ok w' \<and> news_grow (w_db w) (w_db w')"
proof (induction rule: website_run.induct)
  case (website_start w)
  then show ?case by (simp add: news_grow_def)
next
  case (website_request w w' dr c)
  then show ?case using serve_website_books [of w' dr c] news_grow_trans by blast
qed

text \<open>A listing shows published rows that are not deleted, in their order, and all of them.\<close>

lemma listings_published:
  "set (services_published d) = {x \<in> set (site_services (db_site d)). ws_is_published x \<and> ws_deleted_at x = None}"
  "sorted (map ws_sort_order (services_published d))"
  "set (projects_published d None) = {x \<in> set (site_projects (db_site d)). wp_is_published x \<and> wp_deleted_at x = None}"
  "sorted (map (\<lambda>x. - wp_created_at x) (projects_published d category))"
  by (auto simp: services_published_def projects_published_def base_query_def Let_def)

text \<open>C40. A subscription that was acknowledged lasts: whatever requests the website handles afterwards,
  the address is an active subscriber, in whatever letter case it was given, and one only; nobody who
  subscribed earlier is lost, and no contact message is.\<close>

theorem subscription_lasts:
  assumes "w_db w = w_committed w" "newsletter_ok (w_db w)"
    and "run_request (subscribe dr email) w = (w1, Inr x)" "website_run w1 w2"
  shows "subscribed email (w_db w2)
    \<and> length (filter (\<lambda>n. nl_email n = lower email) (site_newsletter (db_site (w_db w2)))) = 1
    \<and> (\<forall>e. subscribed e (w_db w) \<longrightarrow> subscribed e (w_db w2))
    \<and> set (site_contacts (db_site (w_db w))) \<subseteq> set (site_contacts (db_site (w_db w2)))"
proof -
  have s: "settled newsletter_ok w" using assms(1,2) by (simp add: settled_def)
  have one: "website_run w (serve_website dr (Subscribe email) w)" by (rule website_request, rule website_start)
  have w1: "serve_website dr (Subscribe email) w = w1" using assms(3) by simp
  have s1: "settled newsletter_ok w1" and g1: "news_grow (w_db w) (w_db w1)" using website_run_books [OF one [unfolded w1] s] by simp_all
  have ok: "newsletter_ok (w_db w2)" and g2: "news_grow (w_db w1) (w_db w2)"
    using website_run_books [OF assms(4) s1] by (auto simp: settled_def)
  have sub: "subscribed email (w_db w2)" using subscribe_result [OF s assms(3)] g2 by (simp add: news_grow_def)
  then have "lower email \<in> set (map nl_email (site_newsletter (db_site (w_db w2))))" by (force simp: subscribed_def)
  moreover have "distinct (map nl_email (site_newsletter (db_site (w_db w2))))" using ok by (simp add: newsletter_ok_def)
  ultimately have "length (filter (\<lambda>n. nl_email n = lower email) (site_newsletter (db_site (w_db w2)))) = 1"
    by (intro one_of_key)
  then show ?thesis using sub news_grow_trans [OF g1 g2] by (simp add: news_grow_def)
qed

definition reader_draws :: draws where
  "reader_draws = \<lparr> dr_now = 0, dr_uuid = (\<lambda>_. ''n1''), dr_hex = (\<lambda>_. []) \<rparr>"

definition no_readers :: world where
  \<comment> \<open>a website without readers\<close>
  "no_readers = \<lparr> w_db = empty_db, w_committed = empty_db, w_sessions = empty_store, w_processors = initial_factory \<rparr>"

theorem subscription_lasts_witness:
  "\<exists>w1. run_request (subscribe reader_draws ''Info@Example.com'') no_readers = (w1, Inr True)
    \<and> length (filter (\<lambda>n. nl_email n = ''info@example.com'')
        (site_newsletter (db_site (w_db (serve_website reader_draws (Subscribe ''INFO@example.com'') w1))))) = 1"
proof -
  obtain w1 where run: "run_request (subscribe reader_draws ''Info@Example.com'') no_readers = (w1, Inr True)"
    by (simp add: run_request_def subscribe_def newsletter_subscribe_def bnd_def ask_db_def getr_def modify_def on_site_def on_db_def ret_def
        no_readers_def newsletter_get_by_email_def find_one_def empty_db_def empty_site_def repo_add_def newsletter_constraints_def Let_def)
  have ok: "w_db no_readers = w_committed no_readers" "newsletter_ok (w_db no_readers)"
    by (simp_all add: no_readers_def newsletter_ok_def empty_db_def empty_site_def)
  have "website_run w1 (serve_website reader_draws (Subscribe ''INFO@example.com'') w1)"
    by (rule website_request, rule website_start)
  moreover have "lower ''Info@Example.com'' = ''info@example.com''" by code_simp
  ultimately show ?thesis using subscription_lasts [OF ok run] run by auto
qed

end
