(* ===== verification/Dashboard.thy ===== *)
theory Dashboard
  imports Security Clock
begin

text \<open>
  The back office: the dashboard of \<open>src/app/services/admin_dashboard_service.py\<close> with its route, and the
  listing of \<open>src/app/api/v1/routes/audit_logs.py\<close>.

  The dashboard sums amounts as binary floats; its volumes and the approval rate are left out, all its
  counts are here. A \<open>Counter\<close> is an association list in the order of first occurrence. The rows of the
  audit log carry no clock: they are kept in the order of their writing, and the newest come last.
\<close>

section \<open>Buckets\<close>

definition BUCKET_APPROVED :: "string list" where
  "BUCKET_APPROVED = [''APPROVED'', ''CAPTURED'', ''COMPLETED'', ''success'', ''paid'', ''captured'', ''settlement_complete'', ''authorized'']"

definition BUCKET_DECLINED :: "string list" where
  "BUCKET_DECLINED = [''DECLINED'', ''declined'', ''failed'']"

definition BUCKET_REFUNDED :: "string list" where
  "BUCKET_REFUNDED = [''REFUNDED'', ''refunded'', ''partially_refunded'']"

definition BUCKET_VOIDED :: "string list" where
  "BUCKET_VOIDED = [''VOIDED'', ''voided'', ''cancelled'', ''CANCELLED'']"

definition BUCKET_PENDING :: "string list" where
  "BUCKET_PENDING = [''PENDING'', ''pending'', ''processing'', ''CREATED'', ''AMOUNT_ENTERED'', ''PROTOCOL_SELECTED'',
     ''CARD_PRESENTED'', ''AUTHORIZING'']"

definition bucket :: "string \<Rightarrow> string option" where
  "bucket status =
     (let s = strip status; in_bucket = (\<lambda>names. s \<in> set names \<or> upper s \<in> set names) in
      if in_bucket BUCKET_APPROVED then Some ''approved''
      else if in_bucket BUCKET_DECLINED then Some ''declined''
      else if in_bucket BUCKET_REFUNDED then Some ''refunded''
      else if in_bucket BUCKET_VOIDED then Some ''voided''
      else if in_bucket BUCKET_PENDING then Some ''pending''
      else if upper s \<in> {''FAILED'', ''TIMEOUT'', ''ERROR''} then Some ''declined''
      else None)"

definition day_key :: "time \<Rightarrow> string" where
  \<comment> \<open>the date of the instant in UTC\<close>
  "day_key t = take 10 (isoformat t)"

section \<open>Counters\<close>

type_synonym counter = "(string \<times> nat) list"

definition tally_of :: "counter \<Rightarrow> string \<Rightarrow> nat" where
  "tally_of c k = (case map_of c k of None \<Rightarrow> 0 | Some n \<Rightarrow> n)"

definition count_up :: "string \<Rightarrow> counter \<Rightarrow> counter" where
  "count_up k c = AList.update k (tally_of c k + 1) c"

definition count_if :: "string option \<Rightarrow> counter \<Rightarrow> counter" where
  "count_if k c = (case k of None \<Rightarrow> c | Some k \<Rightarrow> count_up k c)"

definition most_common :: "nat \<Rightarrow> counter \<Rightarrow> counter" where
  "most_common n c = take n (sort_key (\<lambda>(k, v). - int v) c)"

section \<open>The service\<close>

record tally =
  ty_counts :: counter
  ty_today :: nat
  ty_per_day :: counter
  ty_protocols :: counter
  ty_outcomes :: counter
  ty_sources :: counter
  ty_currency :: string

definition empty_tally :: tally where
  "empty_tally = \<lparr> ty_counts = [], ty_today = 0, ty_per_day = [], ty_protocols = [], ty_outcomes = [], ty_sources = [],
     ty_currency = ''CAD'' \<rparr>"

definition tally_day :: "time \<Rightarrow> time \<Rightarrow> time \<Rightarrow> tally \<Rightarrow> tally" where
  "tally_day now start created t =
     t\<lparr> ty_per_day := (if start \<le> created then count_up (day_key created) (ty_per_day t) else ty_per_day t),
        ty_today := (if day_key created = day_key now then ty_today t + 1 else ty_today t) \<rparr>"

definition tally_session :: "time \<Rightarrow> time \<Rightarrow> terminal_session_record \<Rightarrow> tally \<Rightarrow> tally" where
  "tally_session now start r t =
     (let b = bucket (state_name (tr_state r));
          t = tally_day now start (tr_created_at r)
            (t\<lparr> ty_sources := count_up ''terminal'' (ty_sources t), ty_counts := count_if b (ty_counts t),
                ty_currency := or_str (Some (tr_currency r)) (ty_currency t) \<rparr>)
      in t\<lparr> ty_protocols := count_up (or_str (tr_protocol_code r) (or_str (tr_protocol_id r) ''unknown'')) (ty_protocols t),
            ty_outcomes := (if truthy (tr_processor_status r) then count_if (tr_processor_status r) (ty_outcomes t)
              else count_if (map_option upper b) (ty_outcomes t)) \<rparr>)"

definition tally_txn :: "time \<Rightarrow> time \<Rightarrow> txn \<Rightarrow> tally \<Rightarrow> tally" where
  "tally_txn now start x t =
     (let t = tally_day now start (case tx_payment_date x of Some p \<Rightarrow> p | None \<Rightarrow> tx_created_at x)
            (t\<lparr> ty_sources := count_up ''legacy'' (ty_sources t),
                ty_counts := count_if (bucket (status_value (tx_status x))) (ty_counts t),
                ty_currency := or_str (Some (tx_currency x)) (ty_currency t) \<rparr>)
      in t\<lparr> ty_protocols := count_up (py_str (json_or (json_or (dget (tx_extra_data x) ''protocol_code'')
              (dget (tx_extra_data x) ''protocol'')) (JStr ''legacy''))) (ty_protocols t) \<rparr>)"

record device_status_row =
  dv_id :: uuid
  dv_serial_number :: string
  dv_model :: string
  dv_manufacturer :: "string option"
  dv_connectivity_status :: string
  dv_printer_status :: "string option"
  dv_card_reader_status :: "string option"
  dv_overall_status :: "string option"
  dv_last_seen_at :: "time option"

definition device_row :: "db \<Rightarrow> sunmi_device \<Rightarrow> device_status_row" where
  "device_row d x =
     (let info = find (\<lambda>i. di_external_id i = sd_serial_number x) (db_device_info d);
          extra = (case info of None \<Rightarrow> [] | Some i \<Rightarrow> (case di_extra_data i of None \<Rightarrow> [] | Some e \<Rightarrow> e));
          text = (\<lambda>k. jstr (dget extra k));
          overall = or_str (text ''overall_status'') (or_str (text ''connectivity_status'')
            (if sd_status x = ''active'' then ''ONLINE'' else ''OFFLINE''))
      in \<lparr> dv_id = sd_id x, dv_serial_number = sd_serial_number x, dv_model = sd_model x,
           dv_manufacturer = map_option di_manufacturer info,
           dv_connectivity_status = or_str (text ''connectivity_status'') overall,
           dv_printer_status = text ''printer_status'', dv_card_reader_status = text ''card_reader_status'',
           dv_overall_status = Some overall, dv_last_seen_at = sd_last_seen_at x \<rparr>)"

definition dashboard_devices :: "db \<Rightarrow> device_status_row list" where
  \<comment> \<open>last seen first, never seen last\<close>
  "dashboard_devices d =
     map (device_row d) (take 50 (sort_key (\<lambda>x. case sd_last_seen_at x of None \<Rightarrow> (1::int, 0) | Some t \<Rightarrow> (0, - t)) (db_devices d)))"

record processor_status_out =
  ps_name :: string
  ps_mode :: string
  ps_status :: string
  ps_message :: string
  ps_recent_outcomes :: counter
  ps_live_acquiring :: bool
  ps_configured :: bool

definition processor_status_of :: "settings \<Rightarrow> processor_factory \<Rightarrow> bool \<Rightarrow> counter \<Rightarrow> processor_factory \<times> processor_status_out" where
  \<comment> \<open>\<open>active\<close>: there are sessions or rows; a configuration error is shown, not raised\<close>
  "processor_status_of st f active outcomes =
     (case get_payment_processor st None f of
        Inl e \<Rightarrow> (f, \<lparr> ps_name = ''unconfigured'', ps_mode = ''SANDBOX'', ps_status = ''ERROR'', ps_message = exc_str e,
          ps_recent_outcomes = most_common 8 outcomes, ps_live_acquiring = False, ps_configured = False \<rparr>)
      | Inr (f, key) \<Rightarrow>
          (let p = the (pf_instances f key) in
           (f, \<lparr> ps_name = processor_name p, ps_mode = processor_environment p,
             ps_status = (if active then ''ONLINE'' else ''IDLE''),
             ps_message = (if \<not> active then ''No recent processor activity''
               else if processor_is_sandbox p then ''Sandbox mock processor '' @ em_dash @ '' no live acquiring''
               else ''Processor '' @ processor_name p @ '' ('' @ processor_environment p @ '')''),
             ps_recent_outcomes = most_common 8 outcomes,
             ps_live_acquiring = jbool (dget (describe p) ''live_acquiring''), ps_configured = True \<rparr>)))"

record admin_dashboard_out =
  ad_merchants :: nat
  ad_settlements :: nat
  ad_today_transactions :: nat
  ad_approved :: nat
  ad_declined :: nat
  ad_refunded :: nat
  ad_voided :: nat
  ad_pending :: nat
  ad_currency :: string
  ad_transactions_per_day :: "(string \<times> nat) list"
  ad_protocol_usage :: counter
  ad_devices :: "device_status_row list"
  ad_device_summary :: counter
  ad_processor :: processor_status_out
  ad_sources :: counter
  ad_generated_at :: time

definition dashboard_rows :: "db \<Rightarrow> txn list" where
  "dashboard_rows d = take 2000 (sort_key (\<lambda>x. - tx_created_at x) (base_query tx_deleted_at (db_txns d)))"

definition tally_all :: "time \<Rightarrow> time \<Rightarrow> world \<Rightarrow> tally" where
  "tally_all now start w =
     fold (tally_txn now start) (dashboard_rows (w_db w))
       (fold (tally_session now start) (store_list_all (w_sessions w) 1000) empty_tally)"

definition build_dashboard :: "settings \<Rightarrow> draws \<Rightarrow> nat \<Rightarrow> admin_dashboard_out handler" where
  "build_dashboard st dr days = (\<lambda>w.
     (let now = dr_now dr;
          start = now - int (days - 1) * day_us;
          t = tally_all now start w;
          devices = dashboard_devices (w_db w);
          active = (store_list_all (w_sessions w) 1000 \<noteq> [] \<or> dashboard_rows (w_db w) \<noteq> []);
          (f, processor) = processor_status_of st (w_processors w) active (ty_outcomes t)
      in (w\<lparr> w_processors := f \<rparr>, Inr
        \<lparr> ad_merchants = repo_count me_deleted_at (db_merchants (w_db w)),
          ad_settlements = repo_count se_deleted_at (db_settlements (w_db w)),
          ad_today_transactions = ty_today t, ad_approved = tally_of (ty_counts t) ''approved'',
          ad_declined = tally_of (ty_counts t) ''declined'', ad_refunded = tally_of (ty_counts t) ''refunded'',
          ad_voided = tally_of (ty_counts t) ''voided'', ad_pending = tally_of (ty_counts t) ''pending'',
          ad_currency = ty_currency t,
          ad_transactions_per_day = map (\<lambda>i. let d = day_key (start + int i * day_us) in (d, tally_of (ty_per_day t) d)) [0..<days],
          ad_protocol_usage = most_common 16 (ty_protocols t), ad_devices = devices,
          ad_device_summary = fold (\<lambda>x. count_up (or_str (dv_overall_status x) (dv_connectivity_status x))) devices [],
          ad_processor = processor, ad_sources = ty_sources t, ad_generated_at = now \<rparr>)))"

definition dashboard_route :: "settings \<Rightarrow> draws \<Rightarrow> user_row \<Rightarrow> nat \<Rightarrow> admin_dashboard_out handler" where
  "dashboard_route st dr user days =
     bnd (liftr (require_roles [ADMIN, SUPER_ADMIN] user)) (\<lambda>_. build_dashboard st dr days)"

section \<open>The audit log listing\<close>

record audit_log_out =
  ao_actor_user_id :: "uuid option"
  ao_action :: string
  ao_resource_type :: string
  ao_resource_id :: "string option"
  ao_ip_address :: "string option"
  ao_details :: "dict option"

definition audit_log_out_of :: "audit_log \<Rightarrow> audit_log_out" where
  "audit_log_out_of l =
     \<lparr> ao_actor_user_id = al_actor_user_id l, ao_action = al_action l, ao_resource_type = al_resource_type l,
       ao_resource_id = al_resource_id l, ao_ip_address = al_ip_address l,
       ao_details = (if al_details l = [] then None else Some (sanitize_metadata (Some (al_details l)))) \<rparr>"

definition list_audit_logs :: "user_row \<Rightarrow> string option \<Rightarrow> string option \<Rightarrow> nat \<Rightarrow> audit_log_out list handler" where
  "list_audit_logs user action resource_type limit =
     gets (\<lambda>w.
       let rows = rev (db_audit_logs (w_db w));
           rows = (if truthy action then filter (\<lambda>l. Some (al_action l) = action) rows else rows);
           rows = (if truthy resource_type then filter (\<lambda>l. Some (al_resource_type l) = resource_type) rows else rows);
           rows = (if us_role_code user \<in> {user_role_value ADMIN, user_role_value SUPER_ADMIN} then rows
             else filter (\<lambda>l. al_actor_user_id l = Some (us_id user)) rows)
       in map audit_log_out_of (take limit rows))"

section \<open>What they show\<close>

text \<open>The statuses that no bucket counts: a card that was read, and payments that were captured but are not
  settled yet, wait for a review, or have expired.\<close>

lemma bucket_of_session: "bucket (state_name s) = None \<longleftrightarrow> s = T_CARD_DATA_READ"
  by (induction s; code_simp)

lemma bucket_of_payment:
  "bucket (status_value s) = None \<longleftrightarrow> s \<in> {EXPIRED, SETTLEMENT_PENDING, SETTLEMENT_PROCESSING, MANUAL_REVIEW}"
  by (induction s; code_simp)

definition shown_keys :: "audit_log_out \<Rightarrow> string list" where
  \<comment> \<open>every key of the details shown, inside dicts and lists\<close>
  "shown_keys x = (case ao_details x of None \<Rightarrow> [] | Some d \<Rightarrow> deep_keys (JDict d))"

lemma shown_sensitive:
  assumes "sensitive_key k"
  shows "k \<in> set (shown_keys (audit_log_out_of l)) \<longleftrightarrow> k \<in> set (listed_keys (JDict (al_details l)))"
proof (cases "al_details l = []")
  case False
  then have "shown_keys (audit_log_out_of l) = deep_keys (sanitize_value (JDict (al_details l)))"
    unfolding shown_keys_def audit_log_out_of_def sanitize_metadata_eq [symmetric] by simp
  then show ?thesis by (simp only: sanitize_value_keys [OF assms])
qed (simp add: shown_keys_def audit_log_out_of_def)

text \<open>C36. What the audit listing shows: someone who is not an administrator sees the entries of their own
  actions only; every entry shown is a written one, and of the keys that name card or credential data it
  shows exactly those that stand inside lists of the stored details, whatever was stored; the listing stays
  within its limit and changes nothing.\<close>

theorem audit_listing:
  assumes "list_audit_logs user action resource_type limit w = (w', Inr items)"
  shows "w' = w \<and> length items \<le> limit
    \<and> (us_role_code user \<notin> {user_role_value ADMIN, user_role_value SUPER_ADMIN} \<longrightarrow> (\<forall>x \<in> set items. ao_actor_user_id x = Some (us_id user)))
    \<and> (\<forall>x \<in> set items. \<exists>l \<in> set (db_audit_logs (w_db w)).
         ao_actor_user_id x = al_actor_user_id l \<and> ao_action x = al_action l \<and> ao_resource_id x = al_resource_id l
         \<and> (\<forall>k. sensitive_key k \<longrightarrow> (k \<in> set (shown_keys x) \<longleftrightarrow> k \<in> set (listed_keys (JDict (al_details l))))))"
proof -
  define admin where "admin \<longleftrightarrow> us_role_code user \<in> {user_role_value ADMIN, user_role_value SUPER_ADMIN}"
  define rows where "rows = (let rows = rev (db_audit_logs (w_db w));
           rows = (if truthy action then filter (\<lambda>l. Some (al_action l) = action) rows else rows);
           rows = (if truthy resource_type then filter (\<lambda>l. Some (al_resource_type l) = resource_type) rows else rows)
       in if admin then rows else filter (\<lambda>l. al_actor_user_id l = Some (us_id user)) rows)"
  have run: "list_audit_logs user action resource_type limit w = (w, Inr (map audit_log_out_of (take limit rows)))"
    by (simp only: list_audit_logs_def gets_def rows_def admin_def Let_def)
  have w: "w' = w" and items: "items = map audit_log_out_of (take limit rows)"
    using assms run by simp_all
  have logs: "set rows \<subseteq> set (db_audit_logs (w_db w))" by (auto simp: rows_def Let_def)
  have own: "us_role_code user \<notin> {user_role_value ADMIN, user_role_value SUPER_ADMIN} \<longrightarrow> (\<forall>l \<in> set rows. al_actor_user_id l = Some (us_id user))"
    unfolding admin_def [symmetric] by (simp add: rows_def Let_def)
  show ?thesis
  proof (intro conjI)
    show "us_role_code user \<notin> {user_role_value ADMIN, user_role_value SUPER_ADMIN} \<longrightarrow> (\<forall>x \<in> set items. ao_actor_user_id x = Some (us_id user))"
      using own by (auto simp: items audit_log_out_of_def dest: in_set_takeD)
    show "\<forall>x \<in> set items. \<exists>l \<in> set (db_audit_logs (w_db w)).
         ao_actor_user_id x = al_actor_user_id l \<and> ao_action x = al_action l \<and> ao_resource_id x = al_resource_id l
         \<and> (\<forall>k. sensitive_key k \<longrightarrow> (k \<in> set (shown_keys x) \<longleftrightarrow> k \<in> set (listed_keys (JDict (al_details l)))))"
    proof
      fix x
      assume "x \<in> set items"
      then obtain l where "l \<in> set (db_audit_logs (w_db w))" "x = audit_log_out_of l"
        using logs by (auto simp: items dest: in_set_takeD)
      then show "\<exists>l \<in> set (db_audit_logs (w_db w)).
         ao_actor_user_id x = al_actor_user_id l \<and> ao_action x = al_action l \<and> ao_resource_id x = al_resource_id l
         \<and> (\<forall>k. sensitive_key k \<longrightarrow> (k \<in> set (shown_keys x) \<longleftrightarrow> k \<in> set (listed_keys (JDict (al_details l)))))"
        using shown_sensitive by (intro bexI [of _ l]) (simp_all add: audit_log_out_of_def)
    qed
  qed (simp_all add: w items)
qed

definition clerk :: user_row where
  "clerk = \<lparr> us_id = ''u1'', us_first_name = ''A'', us_last_name = ''B'', us_email = ''clerk@example.com'', us_phone = None,
     us_password_hash = [], us_is_active = True, us_is_verified = True, us_role_id = ''r1'', us_role_code = ''merchant_owner'',
     us_last_login_at = None, us_created_at = 0, us_deleted_at = None \<rparr>"

definition entry :: "uuid \<Rightarrow> audit_log" where
  "entry actor = \<lparr> al_actor_user_id = Some actor, al_action = ''login'', al_resource_type = ''user'', al_resource_id = None,
     al_ip_address = None, al_user_agent = None, al_details = [(''cvv'', JStr ''123''), (''cards'', JList [JDict [(''pan'', JStr ''4111'')]])] \<rparr>"

definition watched :: world where
  "watched = (let d = empty_db\<lparr> db_audit_logs := [entry ''u1'', entry ''u2''] \<rparr>
     in \<lparr> w_db = d, w_committed = d, w_sessions = empty_store, w_processors = initial_factory \<rparr>)"

theorem audit_listing_witness:
  "\<exists>x. list_audit_logs clerk None None 50 watched = (watched, Inr [x]) \<and> ao_actor_user_id x = Some ''u1''
    \<and> ''cvv'' \<notin> set (shown_keys x) \<and> ''pan'' \<in> set (shown_keys x)"
proof -
  have "us_role_code clerk \<notin> {user_role_value ADMIN, user_role_value SUPER_ADMIN}" by (simp add: clerk_def)
  moreover from this have run: "list_audit_logs clerk None None 50 watched = (watched, Inr [audit_log_out_of (entry ''u1'')])"
    by (simp add: list_audit_logs_def gets_def watched_def Let_def entry_def clerk_def)
  moreover have "us_id clerk = ''u1''" by (simp add: clerk_def)
  moreover have k: "sensitive_key ''cvv''" "sensitive_key ''pan''" by code_simp+
  moreover have d: "\<forall>l \<in> set (db_audit_logs (w_db watched)). listed_keys (JDict (al_details l)) = [''pan'']"
    by (simp add: watched_def Let_def entry_def) code_simp
  ultimately show ?thesis using audit_listing [OF run] by auto
qed

text \<open>The five bucket counts and the uncounted ones add up to the sessions and payments looked at.\<close>

definition bucketed :: "tally \<Rightarrow> nat" where
  "bucketed t = sum_list (map (tally_of (ty_counts t)) [''approved'', ''declined'', ''refunded'', ''voided'', ''pending''])"

lemma tally_count_up: "tally_of (count_up k c) k' = (if k' = k then tally_of c k + 1 else tally_of c k')"
  by (simp add: tally_of_def count_up_def update_conv')

lemma bucket_names: "bucket s = Some b \<Longrightarrow> b \<in> {''approved'', ''declined'', ''refunded'', ''voided'', ''pending''}"
  by (auto simp: bucket_def Let_def split: if_splits)

lemma bucketed_step:
  "ty_counts t' = count_if (bucket s) (ty_counts t) \<Longrightarrow> bucketed t' = bucketed t + (if bucket s = None then 0 else 1)"
  using bucket_names [of s] by (cases "bucket s") (auto simp: bucketed_def count_if_def tally_count_up)

lemma tally_counts:
  "ty_counts (tally_session now start r t) = count_if (bucket (state_name (tr_state r))) (ty_counts t)"
  "ty_counts (tally_txn now start x t) = count_if (bucket (status_value (tx_status x))) (ty_counts t)"
  by (simp_all add: tally_session_def tally_txn_def tally_day_def Let_def)

lemma bucketed_fold:
  "(\<And>x t. ty_counts (f x t) = count_if (bucket (s x)) (ty_counts t)) \<Longrightarrow>
     bucketed (fold f xs t) = bucketed t + length (filter (\<lambda>x. bucket (s x) \<noteq> None) xs)"
  by (induction xs arbitrary: t) (simp_all add: bucketed_step)

lemma dashboard_counts:
  assumes "build_dashboard st dr days w = (w', Inr out)"
  shows "ad_approved out + ad_declined out + ad_refunded out + ad_voided out + ad_pending out
    = length (filter (\<lambda>r. tr_state r \<noteq> T_CARD_DATA_READ) (store_list_all (w_sessions w) 1000))
      + length (filter (\<lambda>x. tx_status x \<notin> {EXPIRED, SETTLEMENT_PENDING, SETTLEMENT_PROCESSING, MANUAL_REVIEW}) (dashboard_rows (w_db w)))"
proof -
  let ?start = "dr_now dr - int (days - 1) * day_us"
  let ?t = "tally_all (dr_now dr) ?start w"
  have "ad_approved out + ad_declined out + ad_refunded out + ad_voided out + ad_pending out = bucketed ?t"
    using assms by (auto simp: build_dashboard_def Let_def bucketed_def split: prod.splits)
  also have "\<dots> = length (filter (\<lambda>r. bucket (state_name (tr_state r)) \<noteq> None) (store_list_all (w_sessions w) 1000))
      + length (filter (\<lambda>x. bucket (status_value (tx_status x)) \<noteq> None) (dashboard_rows (w_db w)))"
  proof -
    have e: "bucketed empty_tally = 0" by (simp add: bucketed_def empty_tally_def tally_of_def)
    note s = bucketed_fold [where f = "tally_session (dr_now dr) ?start" and s = "\<lambda>r. state_name (tr_state r)", OF tally_counts(1)]
    note x = bucketed_fold [where f = "tally_txn (dr_now dr) ?start" and s = "\<lambda>x. status_value (tx_status x)", OF tally_counts(2)]
    show ?thesis by (simp only: tally_all_def x s e add_0_left)
  qed
  finally show ?thesis by (simp add: bucket_of_session bucket_of_payment)
qed

end
