(* ===== verification/Terminals.thy ===== *)
theory Terminals
  imports Database
begin

text \<open>
  The simulator of a physical terminal: \<open>src/app/terminals/base.py\<close>, \<open>sandbox.py\<close> and the factory in
  \<open>__init__.py\<close>. The state of a provider is whether it is connected. The twelve hex digits of a reference
  are those of the draw.
\<close>

record terminal_payment_request =
  tp_amount_minor :: int
  tp_currency :: string
  tp_merchant_reference :: string
  tp_metadata :: dict

record terminal_payment_result =
  tz_success :: bool
  tz_status :: string
  tz_terminal_reference :: string
  tz_error_message :: "string option"
  tz_raw :: dict

definition simulated :: dict where
  "simulated = [(''simulator'', JBool True)]"

definition terminal_initialize :: "bool \<Rightarrow> bool" where
  "terminal_initialize connected = False"

definition terminal_connect :: "bool \<Rightarrow> bool \<times> bool" where
  \<comment> \<open>the new state and the answer\<close>
  "terminal_connect connected = (True, True)"

definition terminal_disconnect :: "bool \<Rightarrow> bool" where
  "terminal_disconnect connected = False"

definition start_payment :: "bool \<Rightarrow> terminal_payment_request \<Rightarrow> string \<Rightarrow> terminal_payment_result" where
  "start_payment connected q hex =
     (if \<not> connected then
        \<lparr> tz_success = False, tz_status = ''FAILED'', tz_terminal_reference = [],
          tz_error_message = Some ''Terminal not connected (sandbox)'', tz_raw = [] \<rparr>
      else if tp_amount_minor q \<le> 0 then
        \<lparr> tz_success = False, tz_status = ''FAILED'', tz_terminal_reference = [],
          tz_error_message = Some ''Invalid amount'', tz_raw = [] \<rparr>
      else
        (let ref = ''trm_sbx_'' @ take 12 hex in
         if dget (tp_metadata q) ''sandbox_scenario'' = JStr ''declined'' then
           \<lparr> tz_success = False, tz_status = ''DECLINED'', tz_terminal_reference = ref,
             tz_error_message = Some ''Sandbox terminal declined'', tz_raw = simulated \<rparr>
         else
           \<lparr> tz_success = True, tz_status = ''CAPTURED'', tz_terminal_reference = ref, tz_error_message = None,
             tz_raw = simulated @ [(''amount_minor'', JInt (tp_amount_minor q))] \<rparr>))"

definition terminal_cancel :: "string \<Rightarrow> terminal_payment_result" where
  "terminal_cancel reference =
     \<lparr> tz_success = True, tz_status = ''CANCELLED'', tz_terminal_reference = reference, tz_error_message = None, tz_raw = simulated \<rparr>"

definition terminal_get_status :: "string \<Rightarrow> terminal_payment_result" where
  "terminal_get_status reference =
     \<lparr> tz_success = True, tz_status = ''CAPTURED'', tz_terminal_reference = reference, tz_error_message = None, tz_raw = simulated \<rparr>"

definition get_terminal_provider :: "string option \<Rightarrow> string res" where
  \<comment> \<open>the name of the provider made\<close>
  "get_terminal_provider name =
     (let key = lower (or_str name ''sandbox_terminal'') in
      if key \<in> {''sandbox'', ''sandbox_terminal''} then Inr ''sandbox_terminal''
      else Inl (ValueError (''Terminal provider '' @ [CHR 0x27] @ key @ [CHR 0x27] @ '' is not configured. '' @
        ''Add an official manufacturer SDK adapter when documentation is available.'')))"

text \<open>A payment is captured exactly when the terminal is connected, the amount is positive and the test
  scenario is not a decline; every result that is not a success says why.\<close>

lemma start_payment_spec:
  "tz_success (start_payment connected q hex) \<longleftrightarrow>
     connected \<and> 0 < tp_amount_minor q \<and> dget (tp_metadata q) ''sandbox_scenario'' \<noteq> JStr ''declined''"
  "tz_success (start_payment connected q hex) \<longleftrightarrow> tz_error_message (start_payment connected q hex) = None"
  "tz_success (start_payment connected q hex) \<longleftrightarrow> tz_status (start_payment connected q hex) = ''CAPTURED''"
  by (auto simp: start_payment_def Let_def)

text \<open>The simulator answers a status query with \<open>CAPTURED\<close> for any reference, a cancelled one or one it
  never issued included.\<close>

lemma status_ignores_history: "tz_status (terminal_get_status (tz_terminal_reference (terminal_cancel r))) = ''CAPTURED''"
  by (simp add: terminal_get_status_def)

end
