(* ===== verification/Spec2Isabelle.thy ===== *)
theory Spec2Isabelle
  imports Prelude Txn_States Terminal_States Protocols Protocol_Adapter Audit_Log Decimals Money Payouts
    Config Processors Actions Session_Store Database Terminal_Session Session_Invariant Session_Properties
    Gateways Exchange_Wallet Settlement Ledger Clock Payments Payment_Books
    Settlement_Results Payment_Samples Payment_Properties Tables Upkeep Security Auth_Service Account_Books Auth_Properties
    Devices Device_Books Device_Properties Edge Merchants Seed Website Dashboard Terminals
begin

text \<open>
  Verification library of the CryptoPOS backend, a FastAPI service (\<open>src/app\<close>) that takes card payments
  for merchants at a point of sale and settles them in USDT.

  \<^bold>\<open>The program.\<close> A request passes the rate limiter and the security headers, is routed, and runs one
  service method on one database session; what the method returns is committed, what it raises is rolled
  back and rendered by an exception handler. A payment (\<open>services/payment_service.py\<close>) is checked, stored,
  charged through a gateway (\<open>payments/adapters\<close>), receipted and handed to the settlement engine
  (\<open>settlement/engine.py\<close>), which takes the fee, converts the net amount (\<open>crypto\<close>) and transfers it to the
  merchant's primary wallet (\<open>wallet\<close>); a settlement that fails is retried by a Celery task
  (\<open>tasks/settlement_tasks.py\<close>). Webhooks of two providers move the status of payments. Beside it stand the
  card-present sessions (\<open>services/terminal_session_service.py\<close>), which live in memory
  (\<open>terminal_session_store.py\<close>) and call a card processor (\<open>processors\<close>), the catalog of terminal protocols
  (\<open>protocols\<close>), accounts and tokens, merchants and wallets, devices, the website, and the back office.
  Services write an audit log whose details are scrubbed of card data.

  \<^bold>\<open>The model.\<close> A handler is a function from the \<open>world\<close> (tables, committed tables, session store,
  processor objects) to the world after it and its result or exception (\<open>Actions\<close>, \<open>Database\<close>), so what a
  method did before it raised stays visible, as in Python; \<open>run_request\<close> is the session around it. A table
  is the list of its rows; every unique and check constraint that a modelled insert can violate raises
  \<open>IntegrityError\<close>, a value that does not fit its column \<open>DataError\<close>. Exceptions are the values of \<open>exc\<close> with
  their status codes. The clock and the results of \<open>uuid4\<close> are the argument \<open>draws\<close>, the settings the argument
  \<open>settings\<close>.

  Theories, and the files they translate:

    \<^item> \<open>Prelude\<close>: exceptions, results, Python strings, JSON values, helper lemmas. \<open>Decimals\<close>:
      \<open>decimal.Decimal\<close> at 28 digits. \<open>Clock\<close>: dates as text. \<open>Config\<close>: \<open>core/config.py\<close>.
    \<^item> \<open>Txn_States\<close>: \<open>core/enums.py\<close>, \<open>payments/state_machine.py\<close>. \<open>Terminal_States\<close>:
      \<open>payments/terminal_state_machine.py\<close>. Paths of both machines are inductive relations.
    \<^item> \<open>Protocols\<close>, \<open>Protocol_Adapter\<close>: \<open>protocols/__init__.py\<close>, \<open>execution.py\<close>, \<open>sandbox.py\<close>.
    \<^item> \<open>Audit_Log\<close>: \<open>services/audit_service.py\<close>, with its regular expressions as backtracking matchers.
    \<^item> \<open>Money\<close>: \<open>payments/money.py\<close>, \<open>fees/engine.py\<close>. \<open>Payouts\<close>: \<open>payouts/eligibility.py\<close>.
    \<^item> \<open>Processors\<close>: \<open>processors\<close>; \<open>Session_Store\<close> and \<open>Terminal_Session\<close>: the terminal sessions with
      \<open>schemas/terminal.py\<close> and \<open>api/v1/routes/terminal.py\<close>.
    \<^item> \<open>Database\<close>, \<open>Tables\<close>: the rows of \<open>models\<close>, the repositories, \<open>database/session.py\<close>.
    \<^item> \<open>Gateways\<close>, \<open>Exchange_Wallet\<close>, \<open>Settlement\<close>, \<open>Payments\<close>: \<open>payments\<close>, \<open>crypto\<close>, \<open>wallet\<close>,
      \<open>settlement/engine.py\<close>, the payment service with \<open>schemas/payment.py\<close> and the routes \<open>payments.py\<close>
      and \<open>pos.py\<close>.
    \<^item> \<open>Security\<close>, \<open>Auth_Service\<close>: \<open>core/security.py\<close>, \<open>api/v1/deps.py\<close>, \<open>repositories/user.py\<close>,
      \<open>services/auth_service.py\<close> and its routes. \<open>Devices\<close>: \<open>services/device_service.py\<close>.
      \<open>Merchants\<close>: \<open>MerchantService\<close> and its routes. \<open>Website\<close>: \<open>services/website_service.py\<close>.
      \<open>Dashboard\<close>: \<open>services/admin_dashboard_service.py\<close>, \<open>routes/audit_logs.py\<close>.
    \<^item> \<open>Edge\<close>: \<open>middlewares/security.py\<close>, \<open>core/responses.py\<close>, \<open>exceptions/handlers.py\<close>, \<open>main.py\<close>.
      \<open>Seed\<close>: \<open>scripts/seed.py\<close>. \<open>Terminals\<close>: \<open>terminals\<close>.

  \<^bold>\<open>What is shown.\<close> Each service has a contract of its tables, an invariant with an order that says what is
  never lost, and every operation keeps it at every step, also when it raises: \<open>Ledger\<close> and \<open>Payment_Books\<close>
  (payments and settlements), \<open>Account_Books\<close>, \<open>Device_Books\<close>, \<open>Merchants\<close>, \<open>Website\<close>. The contracts are
  instances of the locale \<open>upkeep\<close> (\<open>Upkeep\<close>), which rests on the triples of \<open>Actions\<close> and gives the result
  for a request and for any sequence of requests. \<open>Session_Invariant\<close> does the same for the sessions in memory:
  their events are a path of the state machine. Other interfaces are locales too, interpreted on the code's
  implementations: \<open>entity\<close> (the generic repository), \<open>session_repository\<close>, \<open>payment_processor\<close>,
  \<open>payment_gateway\<close>.

  On top of the contracts, \<open>Payment_Properties\<close>, \<open>Settlement_Results\<close>, \<open>Session_Properties\<close>,
  \<open>Auth_Properties\<close>, \<open>Device_Properties\<close> and the component theories state what the operations do: payments
  are idempotent, refused ones leave exactly one FAILED row, settlements pay the exact net amount once, retries
  end (also after a refused transfer), the sandbox gateway and the protocol adapter agree, merchants do not see each other's payments, sessions or devices, refresh tokens are used once, the
  fee is the exact product rounded half up, the limiter answers as one that forgets nothing. Some theorems state
  behaviour that is not what the code means to do: the seed fails on an empty database
  (\<open>Seed\<close>), an unsigned webhook revives a failed payment (\<open>Payment_Properties\<close>), a card number of
  up to 16 digits after an asterisk is not redacted, and keys of card data inside lists are kept and shown
  (\<open>Audit_Log\<close>, \<open>Dashboard\<close>).

  \<^bold>\<open>Bounds and fuel.\<close> No definition takes fuel; every loop of the modelled code ends and is structural
  recursion, a fold, or recursion with a measure (the digits of a number, the text left to match). The
  terminal machine has no cycle, so a session has at most ten events. Amounts of the tables have 18 digits, so
  the context of 28 digits never rounds a fee or a conversion; this is proved, not assumed.

  \<^bold>\<open>Boundaries.\<close>

    \<^item> Requests run one after the other, and the clock stands still within a handler.
    \<^item> A relationship of a row is read from the tables; how and when SQLAlchemy loads it is left out, as is the
      text of database errors, which only reaches the log.
    \<^item> HTTP services, the password hash and the token signature are parameters (\<open>http\<close>, \<open>auth_lib\<close>); the
      laws asked of the last two, for the passwords and claims the code gives them only, are \<open>auth_laws\<close>,
      which a concrete instance satisfies.
    \<^item> \<open>EmailStr\<close>, the parsing of JSON bodies and of path parameters belong to pydantic and FastAPI: a handler
      starts from parsed fields. The validators that the repository writes itself are modelled.
    \<^item> Strings are UTF-8 bytes, with the case mapping and the character classes of ASCII.
    \<^item> Floats inside webhook payloads are left out of the JSON values; no handler reads them.

  \<^bold>\<open>Not modelled.\<close> The volumes and the approval rate of the dashboard (sums and quotients of binary floats); the
  route that quotes a payout (it accepts the whole text syntax of \<open>Decimal\<close> and prints the evaluation, which is
  modelled); the health route, the table of routers, the lifespan, the loggers and the application object of
  Celery, which only configure libraries; the migrations and \<open>init_db.py\<close>, which call the library's
  \<open>create_all\<close>; the tables that no code reads or writes; CORS and OpenAPI, which are Starlette's and FastAPI's;
  the \<open>errors\<close> of an \<open>AppException\<close>, which no caller sets.
\<close>

end
